(* ===== verification/Go_Prelude.thy ===== *)
theory Go_Prelude
  imports Main "HOL-Library.Char_ord" "HOL-Library.List_Lexorder" "HOL-Library.Sublist"
    "HOL-Library.Multiset" "HOL-Library.Word"
begin

text \<open>
  The parts of Go and of its standard library that the agent's packages share: error values,
  byte strings with the functions of package \<^verbatim>\<open>strings\<close> that the sources call,
  \<^verbatim>\<open>int64\<close> with its wrap-around, decimal formatting, and the loop that stops at the
  first error.

  A Go string is a sequence of bytes, so it is a \<^typ>\<open>string\<close> (a list of 8-bit characters).
  White space is Unicode white space; in UTF-8 it is a fixed list of byte sequences, none of
  which can start inside another character, so trimming and splitting are exact on every byte
  string. Lower-casing takes the Unicode case table as a parameter and uses it, as the library
  does, only when a byte outside ASCII occurs.
\<close>

section \<open>Collections of simplification rules\<close>

named_theorems go_simps \<open>unfolding of the small library functions\<close>
named_theorems model_simps \<open>unfolding of the operations of the components\<close>

section \<open>Errors\<close>

text \<open>
  Go error values: a text made by \<^verbatim>\<open>errors.New\<close> or \<^verbatim>\<open>fmt.Errorf\<close> without a wrapped
  error; an error of code outside the repository (its identity and its text); a wrapped
  error \<^verbatim>\<open>fmt.Errorf("prefix: %w", err)\<close>.
\<close>

datatype go_error =
    ErrText string
  | ErrExt nat string
  | ErrWrap string go_error

type_synonym 'a go_result = "go_error + 'a"

text \<open>The method \<^verbatim>\<open>Error()\<close>.\<close>

primrec errText :: "go_error \<Rightarrow> string" where
  "errText (ErrText s) = s"
| "errText (ErrExt n s) = s"
| "errText (ErrWrap p e) = p @ '': '' @ errText e"

text \<open>The loop \<^verbatim>\<open>for _, x := range xs { if err := f(x); err != nil { return err } }\<close>.\<close>

fun forEach :: "('a \<Rightarrow> 'w \<Rightarrow> go_error option \<times> 'w) \<Rightarrow> 'a list \<Rightarrow> 'w \<Rightarrow> go_error option \<times> 'w" where
  "forEach f [] w = (None, w)"
| "forEach f (x # xs) w =
     (case f x w of
        (Some e, w') \<Rightarrow> (Some e, w')
      | (None, w') \<Rightarrow> forEach f xs w')"

lemma forEach_append:
  "forEach f (xs @ ys) w =
     (case forEach f xs w of (Some e, w') \<Rightarrow> (Some e, w') | (None, w') \<Rightarrow> forEach f ys w')"
  by (induction xs arbitrary: w) (auto split: prod.splits option.splits)

text \<open>A relation between worlds that every iteration keeps is kept by the loop.\<close>

lemma forEach_invariant:
  assumes "\<And>x w. x \<in> set xs \<Longrightarrow> P w \<Longrightarrow> P (snd (f x w))" and "P w"
  shows "P (snd (forEach f xs w))"
  using assms
proof (induction xs arbitrary: w)
  case (Cons x xs)
  have "P (snd (f x w))" using Cons.prems by simp
  then show ?case
    using Cons.IH Cons.prems(1) by (auto split: prod.splits option.splits)
qed simp

text \<open>
  The rule for a loop that ran to its end: from \<open>P []\<close> before the loop, and a step that
  extends the done prefix, to \<open>P xs\<close> after it.
\<close>

lemma forEach_complete:
  assumes run: "forEach f xs w = (None, w')" and init: "P [] w"
    and step: "\<And>dn x rest w w'. xs = dn @ x # rest \<Longrightarrow> P dn w \<Longrightarrow> f x w = (None, w') \<Longrightarrow> P (dn @ [x]) w'"
  shows "P xs w'"
proof -
  have "\<lbrakk>forEach f ys v = (None, w'); P zs v; zs @ ys = xs\<rbrakk> \<Longrightarrow> P xs w'" for ys zs v
  proof (induction ys arbitrary: zs v)
    case Nil
    then show ?case by simp
  next
    case (Cons y ys)
    from Cons.prems(1) obtain v' where y: "f y v = (None, v')" and ys: "forEach f ys v' = (None, w')"
      by (auto split: prod.splits option.splits)
    have "P (zs @ [y]) v'" using step [OF _ Cons.prems(2) y] Cons.prems(3) by auto
    then show ?case using Cons.IH [OF ys] Cons.prems(3) by simp
  qed
  from this [OF run init] show ?thesis by simp
qed

lemma forEach_error:
  assumes "forEach f xs w = (Some e, w')"
  obtains dn x rest v where "xs = dn @ x # rest" "forEach f dn w = (None, v)" "f x v = (Some e, w')"
proof -
  have "\<exists>dn x rest v. xs = dn @ x # rest \<and> forEach f dn w = (None, v) \<and> f x v = (Some e, w')"
    using assms
  proof (induction xs arbitrary: w)
    case (Cons x xs)
    show ?case
    proof (cases "f x w")
      case (Pair r v)
      show ?thesis
      proof (cases r)
        case None
        with Pair Cons.prems have "forEach f xs v = (Some e, w')" by simp
        from Cons.IH [OF this] obtain dn y rest u where "xs = dn @ y # rest"
          "forEach f dn v = (None, u)" "f y u = (Some e, w')" by blast
        with Pair None have "x # xs = (x # dn) @ y # rest \<and> forEach f (x # dn) w = (None, u) \<and> f y u = (Some e, w')"
          by simp
        then show ?thesis by blast
      next
        case (Some e')
        with Pair Cons.prems have "x # xs = [] @ x # xs \<and> forEach f [] w = (None, w) \<and> f x w = (Some e, w')"
          by simp
        then show ?thesis by blast
      qed
    qed
  qed simp
  then show ?thesis using that by blast
qed

text \<open>The loop that collects the results of a fallible function and stops at the first error.\<close>

fun mapE :: "('a \<Rightarrow> 'b go_result) \<Rightarrow> 'a list \<Rightarrow> 'b list go_result" where
  "mapE f [] = Inr []"
| "mapE f (x # xs) =
     (case f x of
        Inl e \<Rightarrow> Inl e
      | Inr y \<Rightarrow> (case mapE f xs of Inl e \<Rightarrow> Inl e | Inr ys \<Rightarrow> Inr (y # ys)))"

lemma mapE_Inr: "(\<And>x. x \<in> set xs \<Longrightarrow> f x = Inr (g x)) \<Longrightarrow> mapE f xs = Inr (map g xs)"
  by (induction xs) auto

lemma mapE_Inl: "mapE f xs = Inl e \<Longrightarrow> \<exists>x\<in>set xs. f x = Inl e"
  by (induction xs) (auto split: sum.splits)

lemma mapE_Inl_ex: "x \<in> set xs \<Longrightarrow> f x = Inl e \<Longrightarrow> \<exists>e'. mapE f xs = Inl e'"
  by (induction xs) (auto split: sum.splits)

text \<open>The fold that stops at the first error.\<close>

fun foldE :: "('a \<Rightarrow> 's \<Rightarrow> 's go_result) \<Rightarrow> 'a list \<Rightarrow> 's \<Rightarrow> 's go_result" where
  "foldE f [] s = Inr s"
| "foldE f (x # xs) s = (case f x s of Inl e \<Rightarrow> Inl e | Inr s' \<Rightarrow> foldE f xs s')"

lemma foldE_append:
  "foldE f (xs @ ys) s = (case foldE f xs s of Inl e \<Rightarrow> Inl e | Inr s' \<Rightarrow> foldE f ys s')"
  by (induction xs arbitrary: s) (auto split: sum.splits)

section \<open>Strings\<close>

definition HasPrefix :: "string \<Rightarrow> string \<Rightarrow> bool" where
  "HasPrefix s p \<longleftrightarrow> prefix p s"

definition HasSuffix :: "string \<Rightarrow> string \<Rightarrow> bool" where
  "HasSuffix s p \<longleftrightarrow> suffix p s"

definition Contains :: "string \<Rightarrow> string \<Rightarrow> bool" where
  "Contains s t \<longleftrightarrow> sublist t s"

definition TrimPrefix :: "string \<Rightarrow> string \<Rightarrow> string" where
  "TrimPrefix s p = (if HasPrefix s p then drop (length p) s else s)"

definition TrimSuffix :: "string \<Rightarrow> string \<Rightarrow> string" where
  "TrimSuffix s p = (if HasSuffix s p then take (length s - length p) s else s)"

lemmas [go_simps] = HasPrefix_def HasSuffix_def Contains_def TrimPrefix_def TrimSuffix_def

lemma TrimPrefix_append [simp]: "TrimPrefix (p @ s) p = s"
  by (simp add: go_simps)

lemma TrimSuffix_append [simp]: "TrimSuffix (s @ p) p = s"
  by (auto simp: go_simps suffix_def)

lemma HasPrefix_append [simp]: "HasPrefix (p @ s) p"
  by (simp add: go_simps)

lemma HasSuffix_append [simp]: "HasSuffix (s @ p) p"
  by (simp add: go_simps suffix_def)

lemma TrimPrefix_no: "\<not> HasPrefix s p \<Longrightarrow> TrimPrefix s p = s"
  by (simp add: TrimPrefix_def)

lemma HasPrefix_TrimPrefix: "HasPrefix s p \<Longrightarrow> p @ TrimPrefix s p = s"
  by (auto simp: go_simps prefix_def)

subsection \<open>Joining and splitting\<close>

text \<open>\<^verbatim>\<open>strings.Join\<close>, and \<^verbatim>\<open>strings.Split\<close> at a separator of one byte.\<close>

fun Join :: "string list \<Rightarrow> string \<Rightarrow> string" where
  "Join [] sep = []"
| "Join [x] sep = x"
| "Join (x # y # ys) sep = x @ sep @ Join (y # ys) sep"

fun splitOn :: "char \<Rightarrow> string \<Rightarrow> string list" where
  "splitOn d [] = [[]]"
| "splitOn d (c # cs) =
     (if c = d then [] # splitOn d cs
      else (case splitOn d cs of [] \<Rightarrow> [[c]] | f # fs \<Rightarrow> (c # f) # fs))"

lemma splitOn_not_Nil [simp]: "splitOn d s \<noteq> []"
  by (cases s) (auto split: list.split)

lemma splitOn_no_sep: "d \<notin> set s \<Longrightarrow> splitOn d s = [s]"
  by (induction s) auto

lemma splitOn_append_sep: "d \<notin> set s \<Longrightarrow> splitOn d (s @ d # t) = s # splitOn d t"
  by (induction s) auto

lemma splitOn_pieces: "f \<in> set (splitOn d s) \<Longrightarrow> d \<notin> set f"
  by (induction s arbitrary: f) (auto split: if_splits list.splits)

text \<open>Splitting the joined text gives the pieces back, when no piece holds the separator.\<close>

lemma splitOn_Join: "xs \<noteq> [] \<Longrightarrow> (\<forall>x\<in>set xs. d \<notin> set x) \<Longrightarrow> splitOn d (Join xs [d]) = xs"
  by (induction xs "[d]" rule: Join.induct) (auto simp: splitOn_no_sep splitOn_append_sep)

text \<open>The pieces of a concatenation: the last piece of the first part is continued by the second.\<close>

lemma splitOn_append:
  "splitOn d (s @ t) = butlast (splitOn d s) @ (last (splitOn d s) @ hd (splitOn d t)) # tl (splitOn d t)"
proof (induction s)
  case Nil
  show ?case by (cases "splitOn d t") simp_all
next
  case (Cons c s)
  show ?case
  proof (cases "c = d")
    case True
    with Cons show ?thesis by simp
  next
    case False
    obtain f fs where f: "splitOn d s = f # fs" by (cases "splitOn d s") auto
    with Cons False show ?thesis by (cases fs) simp_all
  qed
qed

subsection \<open>White space\<close>

text \<open>The UTF-8 encodings of the characters for which \<^verbatim>\<open>unicode.IsSpace\<close> holds.\<close>

definition space_seqs :: "string list" where
  "space_seqs =
     [[CHR 0x09], [CHR 0x0A], [CHR 0x0B], [CHR 0x0C], [CHR 0x0D], [CHR 0x20],
      [CHR 0xC2, CHR 0x85], [CHR 0xC2, CHR 0xA0], [CHR 0xE1, CHR 0x9A, CHR 0x80],
      [CHR 0xE2, CHR 0x80, CHR 0x80], [CHR 0xE2, CHR 0x80, CHR 0x81], [CHR 0xE2, CHR 0x80, CHR 0x82],
      [CHR 0xE2, CHR 0x80, CHR 0x83], [CHR 0xE2, CHR 0x80, CHR 0x84], [CHR 0xE2, CHR 0x80, CHR 0x85],
      [CHR 0xE2, CHR 0x80, CHR 0x86], [CHR 0xE2, CHR 0x80, CHR 0x87], [CHR 0xE2, CHR 0x80, CHR 0x88],
      [CHR 0xE2, CHR 0x80, CHR 0x89], [CHR 0xE2, CHR 0x80, CHR 0x8A], [CHR 0xE2, CHR 0x80, CHR 0xA8],
      [CHR 0xE2, CHR 0x80, CHR 0xA9], [CHR 0xE2, CHR 0x80, CHR 0xAF], [CHR 0xE2, CHR 0x81, CHR 0x9F],
      [CHR 0xE3, CHR 0x80, CHR 0x80]]"

text \<open>Removing from the front, as long as possible, the sequences of a list.\<close>

definition leadSeq :: "string list \<Rightarrow> string \<Rightarrow> string option" where
  "leadSeq qs s = List.find (\<lambda>q. q \<noteq> [] \<and> prefix q s) qs"

lemma leadSeq_Some: "leadSeq qs s = Some q \<Longrightarrow> q \<noteq> [] \<and> prefix q s \<and> q \<in> set qs"
  by (auto simp: leadSeq_def find_Some_iff)

lemma leadSeq_None: "leadSeq qs s = None \<longleftrightarrow> (\<forall>q\<in>set qs. q \<noteq> [] \<longrightarrow> \<not> prefix q s)"
  by (auto simp: leadSeq_def find_None_iff)

lemma leadSeq_Nil [simp]: "leadSeq qs [] = None"
  by (simp add: leadSeq_None)

function stripSeqs :: "string list \<Rightarrow> string \<Rightarrow> string" where
  "stripSeqs qs s =
     (case leadSeq qs s of None \<Rightarrow> s | Some q \<Rightarrow> stripSeqs qs (drop (length q) s))"
  by pat_completeness auto
termination
  by (relation "measure (\<lambda>(qs, s). length s)") (auto dest!: leadSeq_Some simp: prefix_def)

declare stripSeqs.simps [simp del]

lemma stripSeqs_suffix: "suffix (stripSeqs qs s) s"
proof (induction qs s rule: stripSeqs.induct)
  case (1 qs s)
  show ?case
  proof (cases "leadSeq qs s")
    case (Some q)
    with 1 have "suffix (stripSeqs qs (drop (length q) s)) (drop (length q) s)" by simp
    with Some show ?thesis
      by (simp add: stripSeqs.simps [of qs s] suffix_drop suffix_order.trans)
  qed (simp add: stripSeqs.simps)
qed

lemma leadSeq_stripSeqs [simp]: "leadSeq qs (stripSeqs qs s) = None"
proof (induction qs s rule: stripSeqs.induct)
  case (1 qs s)
  then show ?case
    by (cases "leadSeq qs s") (auto simp: stripSeqs.simps [of qs s])
qed

lemma stripSeqs_id: "leadSeq qs s = None \<Longrightarrow> stripSeqs qs s = s"
  by (simp add: stripSeqs.simps)

definition TrimSpace :: "string \<Rightarrow> string" where
  "TrimSpace s = rev (stripSeqs (map rev space_seqs) (rev (stripSeqs space_seqs s)))"

lemma leadSeq_prefix: "leadSeq qs s = None \<Longrightarrow> prefix t s \<Longrightarrow> leadSeq qs t = None"
  by (meson leadSeq_None prefix_order.trans)

lemma TrimSpace_no_space:
  "leadSeq space_seqs (TrimSpace s) = None"
  "leadSeq (map rev space_seqs) (rev (TrimSpace s)) = None"
proof -
  have "prefix (TrimSpace s) (stripSeqs space_seqs s)"
    using stripSeqs_suffix [of "map rev space_seqs" "rev (stripSeqs space_seqs s)"]
    by (simp add: TrimSpace_def suffix_to_prefix)
  then show "leadSeq space_seqs (TrimSpace s) = None"
    by (rule leadSeq_prefix [OF leadSeq_stripSeqs])
qed (simp add: TrimSpace_def)

lemma TrimSpace_id:
  "leadSeq space_seqs s = None \<Longrightarrow> leadSeq (map rev space_seqs) (rev s) = None \<Longrightarrow> TrimSpace s = s"
  by (simp add: TrimSpace_def stripSeqs_id)

lemma TrimSpace_idem [simp]: "TrimSpace (TrimSpace s) = TrimSpace s"
  by (rule TrimSpace_id) (rule TrimSpace_no_space)+

text \<open>\<^verbatim>\<open>strings.Fields\<close>: the maximal runs of bytes outside white space; the first
  argument is the field being read.\<close>

function fieldsFrom :: "string \<Rightarrow> string \<Rightarrow> string list" where
  "fieldsFrom cur s =
     (case leadSeq space_seqs s of
        Some q \<Rightarrow> (if cur = [] then [] else [cur]) @ fieldsFrom [] (drop (length q) s)
      | None \<Rightarrow> (case s of
            [] \<Rightarrow> (if cur = [] then [] else [cur])
          | c # cs \<Rightarrow> fieldsFrom (cur @ [c]) cs))"
  by pat_completeness auto
termination
  by (relation "measure (\<lambda>(cur, s). length s)") (auto dest!: leadSeq_Some simp: prefix_def)

declare fieldsFrom.simps [simp del]

definition Fields :: "string \<Rightarrow> string list" where
  "Fields s = fieldsFrom [] s"


lemma Fields_no_space_only:
  "s \<noteq> [] \<Longrightarrow> (\<forall>t. suffix t s \<longrightarrow> leadSeq space_seqs t = None) \<Longrightarrow> Fields s = [s]"
proof -
  have "(\<forall>t. suffix t s \<longrightarrow> leadSeq space_seqs t = None) \<Longrightarrow> fieldsFrom cur s = (if cur @ s = [] then [] else [cur @ s])"
    for cur
  proof (induction s arbitrary: cur)
    case Nil
    then show ?case by (simp add: fieldsFrom.simps)
  next
    case (Cons c cs)
    have "\<forall>t. suffix t cs \<longrightarrow> leadSeq space_seqs t = None"
      using Cons.prems by (simp add: suffix_ConsI)
    from Cons.IH [OF this, of "cur @ [c]"] Cons.prems show ?case
      by (simp add: fieldsFrom.simps [of cur "c # cs"])
  qed
  then show "s \<noteq> [] \<Longrightarrow> (\<forall>t. suffix t s \<longrightarrow> leadSeq space_seqs t = None) \<Longrightarrow> Fields s = [s]"
    by (simp add: Fields_def)
qed

subsection \<open>Letter case\<close>

definition lowerASCII :: "char \<Rightarrow> char" where
  "lowerASCII c =
     (if (65::nat) \<le> of_char c \<and> (of_char c :: nat) \<le> 90 then char_of (of_char c + (32::nat)) else c)"

definition isASCII :: "string \<Rightarrow> bool" where
  "isASCII s = list_all (\<lambda>c. (of_char c :: nat) < 128) s"

text \<open>
  \<^verbatim>\<open>strings.ToLower\<close>: the byte-wise mapping on an ASCII string; otherwise the mapping of
  the Unicode tables, which is the first parameter.
\<close>

definition ToLower :: "(string \<Rightarrow> string) \<Rightarrow> string \<Rightarrow> string" where
  "ToLower unicode s = (if isASCII s then map lowerASCII s else unicode s)"

text \<open>
  Simple case folding against a string of ASCII letters and digits: besides upper case, only
  the Kelvin sign and the long s fold to an ASCII letter.
\<close>

fun foldName :: "string \<Rightarrow> string" where
  "foldName [] = []"
| "foldName (c # cs) =
     (if prefix [CHR 0xE2, CHR 0x84, CHR 0xAA] (c # cs) then CHR ''k'' # foldName (drop 2 cs)
      else if prefix [CHR 0xC5, CHR 0xBF] (c # cs) then CHR ''s'' # foldName (drop 1 cs)
      else lowerASCII c # foldName cs)"

text \<open>\<^verbatim>\<open>strings.EqualFold\<close> where the first argument is an ASCII string.\<close>

definition EqualFold :: "string \<Rightarrow> string \<Rightarrow> bool" where
  "EqualFold s t \<longleftrightarrow> foldName s = foldName t"

lemma EqualFold_refl [simp]: "EqualFold s s"
  by (simp add: EqualFold_def)

lemma EqualFold_sym: "EqualFold s t \<Longrightarrow> EqualFold t s"
  by (simp add: EqualFold_def)

lemma lowerASCII_idem [simp]: "lowerASCII (lowerASCII c) = lowerASCII c"
  by (auto simp: lowerASCII_def)

lemma lowerASCII_ascii: "(of_char c :: nat) < 128 \<Longrightarrow> (of_char (lowerASCII c) :: nat) < 128"
  by (auto simp: lowerASCII_def)

lemma isASCII_lower: "isASCII s \<Longrightarrow> isASCII (map lowerASCII s)"
  by (induction s) (auto simp: isASCII_def lowerASCII_ascii)

lemma ToLower_idem: "isASCII s \<Longrightarrow> ToLower u (ToLower u s) = ToLower u s"
  by (simp add: ToLower_def isASCII_lower)

subsection \<open>Quoting\<close>

text \<open>The verb \<^verbatim>\<open>%q\<close> on text whose bytes outside ASCII form printable characters.\<close>

definition hexChar :: "nat \<Rightarrow> char" where
  "hexChar n = (if n < 10 then char_of (48 + n) else char_of (87 + n))"

definition quoteChar :: "char \<Rightarrow> string" where
  "quoteChar c =
     (let n = of_char c :: nat in
      if c = CHR 0x22 \<or> c = CHR 0x5C then [CHR 0x5C, c]
      else if n = 7 then [CHR 0x5C, CHR ''a''] else if n = 8 then [CHR 0x5C, CHR ''b'']
      else if n = 9 then [CHR 0x5C, CHR ''t''] else if n = 10 then [CHR 0x5C, CHR ''n'']
      else if n = 11 then [CHR 0x5C, CHR ''v''] else if n = 12 then [CHR 0x5C, CHR ''f'']
      else if n = 13 then [CHR 0x5C, CHR ''r'']
      else if n < 32 \<or> n = 127 then [CHR 0x5C, CHR ''x'', hexChar (n div 16), hexChar (n mod 16)]
      else [c])"

definition quoteGo :: "string \<Rightarrow> string" where
  "quoteGo s = [CHR 0x22] @ concat (map quoteChar s) @ [CHR 0x22]"

section \<open>Numbers\<close>

type_synonym int64 = "64 word"
type_synonym uint64 = "64 word"
type_synonym uint32 = "32 word"

text \<open>Decimal text of a number, the verb \<^verbatim>\<open>%d\<close>.\<close>

definition digitChar :: "nat \<Rightarrow> char" where
  "digitChar d = char_of (48 + d)"

function digitsText :: "int \<Rightarrow> string" where
  "digitsText n =
     (if n < 10 then [digitChar (nat n)] else digitsText (n div 10) @ [digitChar (nat (n mod 10))])"
  by pat_completeness auto
termination
  by (relation "measure nat") auto

declare digitsText.simps [simp del]

definition intText :: "int \<Rightarrow> string" where
  "intText i = (if i < 0 then CHR ''-'' # digitsText (- i) else digitsText i)"

text \<open>\<^verbatim>\<open>time.Duration(sec) * time.Second\<close>: 64-bit nanoseconds, wrapping around.\<close>

definition seconds :: "int64 \<Rightarrow> int64" where
  "seconds sec = sec * 1000000000"

lemma sint_int64_range: "- (2 ^ 63) \<le> sint (w :: int64)" "sint (w :: int64) < 2 ^ 63"
  using sint_greater_eq [of w] sint_less [of w] by simp_all

lemma sint_int64_diff:
  fixes a b :: int64
  assumes "- (2 ^ 63) \<le> sint a - sint b" and "sint a - sint b < 2 ^ 63"
  shows "sint (a - b) = sint a - sint b"
  using assms by (simp add: sint_word_ariths signed_take_bit_int_eq_self)

section \<open>Time\<close>

text \<open>
  A \<^verbatim>\<open>time.Time\<close> in UTC is its number of nanoseconds since the Unix epoch. The layout
  \<^verbatim>\<open>time.RFC3339\<close> of a UTC time: the civil date of the day number, the time of day, and
  \<^verbatim>\<open>Z\<close>. Days are counted from March of a year that starts a 400-year era.
\<close>

type_synonym time = int

definition pad :: "nat \<Rightarrow> int \<Rightarrow> string" where
  "pad n i = (let s = intText i in replicate (n - length s) CHR ''0'' @ s)"

definition civil :: "int \<Rightarrow> int \<times> int \<times> int" where
  "civil days =
     (let z = days + 719468; era = z div 146097; doe = z mod 146097;
          yoe = (doe - doe div 1460 + doe div 36524 - doe div 146096) div 365;
          doy = doe - (365 * yoe + yoe div 4 - yoe div 100);
          mp = (5 * doy + 2) div 153; d = doy - (153 * mp + 2) div 5 + 1;
          m = (if mp < 10 then mp + 3 else mp - 9)
      in (yoe + era * 400 + (if m \<le> 2 then 1 else 0), m, d))"

definition formatRFC3339 :: "time \<Rightarrow> string" where
  "formatRFC3339 t =
     (let sec = t div 1000000000; tod = sec mod 86400 in
      case civil (sec div 86400) of
        (y, m, d) \<Rightarrow>
          pad 4 y @ ''-'' @ pad 2 m @ ''-'' @ pad 2 d @ ''T''
          @ pad 2 (tod div 3600) @ '':'' @ pad 2 (tod mod 3600 div 60) @ '':'' @ pad 2 (tod mod 60) @ ''Z'')"

text \<open>
  \<^verbatim>\<open>time.RFC3339Nano\<close>: the same with the fraction of a second, without trailing zeros.
\<close>

definition fracText :: "int \<Rightarrow> string" where
  "fracText ns = (if ns = 0 then [] else CHR ''.'' # rev (dropWhile (\<lambda>c. c = CHR ''0'') (rev (pad 9 ns))))"

definition formatRFC3339Nano :: "time \<Rightarrow> string" where
  "formatRFC3339Nano t = butlast (formatRFC3339 t) @ fracText (t mod 1000000000) @ ''Z''"

text \<open>The year of a time.\<close>

definition yearOf :: "time \<Rightarrow> int" where
  "yearOf t = fst (civil (t div 1000000000 div 86400))"

text \<open>The inverse of \<open>civil\<close>: the day number of a date, and the length of a month.\<close>

definition daysOf :: "int \<Rightarrow> int \<Rightarrow> int \<Rightarrow> int" where
  "daysOf y0 m d =
     (let y = (if m \<le> 2 then y0 - 1 else y0); era = y div 400; yoe = y mod 400;
          doy = (153 * (if m > 2 then m - 3 else m + 9) + 2) div 5 + d - 1;
          doe = yoe * 365 + yoe div 4 - yoe div 100 + doy
      in era * 146097 + doe - 719468)"

definition daysIn :: "int \<Rightarrow> int \<Rightarrow> int" where
  "daysIn y m =
     (if m = 2 then (if y mod 4 = 0 \<and> (y mod 100 \<noteq> 0 \<or> y mod 400 = 0) then 29 else 28)
      else if m = 4 \<or> m = 6 \<or> m = 9 \<or> m = 11 then 30 else 31)"

text \<open>
  The strict RFC 3339 reading of \<^verbatim>\<open>time.Time.UnmarshalJSON\<close>: digits at fixed positions
  within their ranges, an optional fraction (nine digits count), and \<^verbatim>\<open>Z\<close> or an offset.
\<close>

definition isDigit :: "char \<Rightarrow> bool" where
  "isDigit c \<longleftrightarrow> (48::nat) \<le> of_char c \<and> (of_char c :: nat) \<le> 57"

definition digitVal :: "char \<Rightarrow> int" where
  "digitVal c = int (of_char c) - 48"

definition numVal :: "string \<Rightarrow> int" where
  "numVal s = foldl (\<lambda>n c. n * 10 + digitVal c) 0 s"

definition parseUint :: "string \<Rightarrow> int \<Rightarrow> int \<Rightarrow> int option" where
  "parseUint s lo hi =
     (if list_all isDigit s \<and> lo \<le> numVal s \<and> numVal s \<le> hi then Some (numVal s) else None)"

definition parseOffset :: "string \<Rightarrow> int option" where
  "parseOffset z =
     (if z = ''Z'' then Some 0
      else if length z = 6 \<and> (z ! 0 = CHR ''+'' \<or> z ! 0 = CHR ''-'') \<and> z ! 3 = CHR '':'' then
        (case (parseUint (take 2 (drop 1 z)) 0 23, parseUint (drop 4 z) 0 59) of
           (Some h, Some m) \<Rightarrow> Some ((if z ! 0 = CHR ''-'' then - 1 else 1) * (h * 3600 + m * 60))
         | _ \<Rightarrow> None)
      else None)"

definition parseRFC3339 :: "string \<Rightarrow> time option" where
  "parseRFC3339 s =
     (if length s < 20 \<or> s ! 4 \<noteq> CHR ''-'' \<or> s ! 7 \<noteq> CHR ''-'' \<or> s ! 10 \<noteq> CHR ''T''
         \<or> s ! 13 \<noteq> CHR '':'' \<or> s ! 16 \<noteq> CHR '':'' then None
      else case (parseUint (take 4 s) 0 9999, parseUint (take 2 (drop 5 s)) 1 12,
                 parseUint (take 2 (drop 11 s)) 0 23, parseUint (take 2 (drop 14 s)) 0 59,
                 parseUint (take 2 (drop 17 s)) 0 59) of
          (Some year, Some month, Some hour, Some minute, Some sec) \<Rightarrow>
            (case parseUint (take 2 (drop 8 s)) 1 (daysIn year month) of
               None \<Rightarrow> None
             | Some day \<Rightarrow>
                 (let rest = drop 19 s;
                      digits = (if hd rest = CHR ''.'' then takeWhile isDigit (tl rest) else []);
                      zone = (if digits = [] then rest else drop (1 + length digits) rest);
                      ns = numVal (take 9 (digits @ replicate 9 CHR ''0''))
                  in case parseOffset zone of
                       None \<Rightarrow> None
                     | Some off \<Rightarrow>
                         Some ((daysOf year month day * 86400 + hour * 3600 + minute * 60 + sec - off) * 1000000000 + ns)))
        | _ \<Rightarrow> None)"

section \<open>Sorting\<close>

text \<open>
  \<^verbatim>\<open>slices.Sort\<close> on strings is \<open>sort\<close>: equal strings cannot be told apart, so the
  result does not depend on the algorithm. \<^verbatim>\<open>slices.SortFunc\<close> with a comparison of keys
  is not stable: the result is some permutation that is sorted by the key, and a function
  with this promise is a parameter where keys may be equal.
\<close>

type_synonym 'a sort_func = "('a \<Rightarrow> string) \<Rightarrow> 'a list \<Rightarrow> 'a list"

definition sorts :: "'a sort_func \<Rightarrow> bool" where
  "sorts srt \<longleftrightarrow> (\<forall>key xs. mset (srt key xs) = mset xs \<and> sorted (map key (srt key xs)))"

lemma sorts_sort_key: "sorts (\<lambda>key xs. sort_key key xs)"
  by (simp add: sorts_def)

lemma sorts_set: "sorts srt \<Longrightarrow> set (srt key xs) = set xs"
  by (metis sorts_def mset_eq_setD)

lemma sorts_mset: "sorts srt \<Longrightarrow> mset (srt key xs) = mset xs"
  by (simp add: sorts_def)

lemma sorts_sorted: "sorts srt \<Longrightarrow> sorted (map key (srt key xs))"
  by (simp add: sorts_def)

end
