(* ===== verification/Agent_Config.thy ===== *)
theory Agent_Config
  imports Go_Prelude
begin

text \<open>
  The agent configuration of \<^verbatim>\<open>internal/config/config.go\<close>: its record, the required fields
  and the defaults that \<open>Load\<close> fills in, and the intervals that the agent's loops derive from
  it. Reading the file and the YAML decoder are parameters. Go's \<^verbatim>\<open>int\<close> has 64 bits.
\<close>

section \<open>Data\<close>

record ControlCfg =
  BaseURL :: string
  Token :: string
  ServerSlug :: string
  TLSInsecure :: bool

record InboundTagsCfg =
  VLESS :: string
  VMESS :: string
  TROJAN :: string

record XrayCfg =
  Version :: string
  APIServer :: string
  APITimeoutSec :: int64
  StatsResetEachPush :: bool
  InboundTags :: InboundTagsCfg

record IntervalsCfg =
  StateSec :: int64
  OnlineSec :: int64
  StatsSec :: int64
  HeartbeatSec :: int64
  MetricsSec :: int64
  CoreCheckSec :: int64

record Config =
  Control :: ControlCfg
  Xray :: XrayCfg
  GitHubToken :: string
  Intervals :: IntervalsCfg
  LoggingLevel :: string

definition DefaultXrayVersion :: string where "DefaultXrayVersion = ''v25.10.15''"
definition DefaultStateIntervalSec :: int64 where "DefaultStateIntervalSec = 15"
definition DefaultOnlineIntervalSec :: int64 where "DefaultOnlineIntervalSec = 10"
definition DefaultStatsIntervalSec :: int64 where "DefaultStatsIntervalSec = 60"
definition DefaultHeartbeatIntervalSec :: int64 where "DefaultHeartbeatIntervalSec = 30"
definition DefaultMetricsIntervalSec :: int64 where "DefaultMetricsIntervalSec = 30"
definition DefaultCoreCheckIntervalSec :: int64 where "DefaultCoreCheckIntervalSec = 43200"
definition DefaultAPITimeoutSec :: int64 where "DefaultAPITimeoutSec = 5"

lemmas config_defaults [model_simps] =
  DefaultXrayVersion_def DefaultStateIntervalSec_def DefaultOnlineIntervalSec_def
  DefaultStatsIntervalSec_def DefaultHeartbeatIntervalSec_def DefaultMetricsIntervalSec_def
  DefaultCoreCheckIntervalSec_def DefaultAPITimeoutSec_def

section \<open>Loading\<close>

text \<open>The checks for required fields, in the order of the source.\<close>

definition requiredFields :: "Config \<Rightarrow> go_error option" where
  "requiredFields cfg =
     (if BaseURL (Control cfg) = [] \<or> Token (Control cfg) = [] \<or> ServerSlug (Control cfg) = []
      then Some (ErrText ''control.base_url/token/server_slug required'')
      else if APIServer (Xray cfg) = [] then Some (ErrText ''xray.api_server required'')
      else if VLESS (InboundTags (Xray cfg)) = [] \<or> VMESS (InboundTags (Xray cfg)) = []
              \<or> TROJAN (InboundTags (Xray cfg)) = []
      then Some (ErrText ''xray.inbound_tags (vless/vmess/trojan) required'')
      else None)"

definition orDefault :: "int64 \<Rightarrow> int64 \<Rightarrow> int64" where
  "orDefault d x = (if x = 0 then d else x)"

definition fillDefaults :: "Config \<Rightarrow> Config" where
  "fillDefaults cfg =
     cfg\<lparr>Intervals :=
           \<lparr>StateSec = orDefault DefaultStateIntervalSec (StateSec (Intervals cfg)),
            OnlineSec = orDefault DefaultOnlineIntervalSec (OnlineSec (Intervals cfg)),
            StatsSec = orDefault DefaultStatsIntervalSec (StatsSec (Intervals cfg)),
            HeartbeatSec = orDefault DefaultHeartbeatIntervalSec (HeartbeatSec (Intervals cfg)),
            MetricsSec = orDefault DefaultMetricsIntervalSec (MetricsSec (Intervals cfg)),
            CoreCheckSec = orDefault DefaultCoreCheckIntervalSec (CoreCheckSec (Intervals cfg))\<rparr>,
         Xray := (Xray cfg)
           \<lparr>APITimeoutSec := (if APITimeoutSec (Xray cfg) \<le>s 0 then DefaultAPITimeoutSec else APITimeoutSec (Xray cfg)),
            Version := (if Version (Xray cfg) = [] then DefaultXrayVersion else Version (Xray cfg))\<rparr>\<rparr>"

definition Load :: "(string \<Rightarrow> string go_result) \<Rightarrow> (string \<Rightarrow> Config go_result) \<Rightarrow> string \<Rightarrow> Config go_result" where
  "Load readFile yamlUnmarshal path =
     (case readFile path of
        Inl err \<Rightarrow> Inl err
      | Inr data \<Rightarrow>
          (case yamlUnmarshal data of
             Inl err \<Rightarrow> Inl err
           | Inr cfg \<Rightarrow>
               (case requiredFields cfg of Some err \<Rightarrow> Inl err | None \<Rightarrow> Inr (fillDefaults cfg))))"

section \<open>Intervals of the loops\<close>

text \<open>
  Every polling loop of the agent computes its ticker interval from the configured seconds
  and replaces a product that is not positive by its own default; \<^verbatim>\<open>time.NewTicker\<close> panics on
  an interval that is not positive. The core-update loop instead replaces zero and does not
  start for a negative product.
\<close>

definition loopInterval :: "int64 \<Rightarrow> int64 \<Rightarrow> int64" where
  "loopInterval deflt sec = (let intv = seconds sec in if intv \<le>s 0 then seconds deflt else intv)"

definition stateInterval :: "Config \<Rightarrow> int64" where
  "stateInterval cfg = loopInterval 15 (StateSec (Intervals cfg))"

definition onlineInterval :: "Config \<Rightarrow> int64" where
  "onlineInterval cfg = loopInterval 10 (OnlineSec (Intervals cfg))"

definition statsInterval :: "Config \<Rightarrow> int64" where
  "statsInterval cfg = loopInterval 60 (StatsSec (Intervals cfg))"

definition heartbeatInterval :: "Config \<Rightarrow> int64" where
  "heartbeatInterval cfg = loopInterval 30 (HeartbeatSec (Intervals cfg))"

definition metricsInterval :: "Config \<Rightarrow> int64" where
  "metricsInterval cfg = loopInterval 30 (MetricsSec (Intervals cfg))"

lemmas loop_intervals = stateInterval_def onlineInterval_def statsInterval_def
  heartbeatInterval_def metricsInterval_def

definition coreLoopInterval :: "Config \<Rightarrow> int64 option" where
  "coreLoopInterval cfg =
     (let intv = seconds (CoreCheckSec (Intervals cfg));
          intv' = (if intv = 0 then seconds DefaultCoreCheckIntervalSec else intv)
      in if intv' <s 0 then None else Some intv')"

definition apiTimeout :: "Config \<Rightarrow> int64" where
  "apiTimeout cfg = seconds (APITimeoutSec (Xray cfg))"

lemma word_sle_total: "\<not> x \<le>s (0::int64) \<Longrightarrow> 0 <s x"
  by (simp add: word_sless_alt word_sle_eq)

lemma Load_Inr:
  "Load rd um path = Inr cfg \<longleftrightarrow>
     (\<exists>data raw. rd path = Inr data \<and> um data = Inr raw \<and> requiredFields raw = None \<and> cfg = fillDefaults raw)"
  by (auto simp: Load_def split: sum.splits option.splits)

lemma requiredFields_None:
  "requiredFields cfg = None \<longleftrightarrow>
     BaseURL (Control cfg) \<noteq> [] \<and> Token (Control cfg) \<noteq> [] \<and> ServerSlug (Control cfg) \<noteq> []
     \<and> APIServer (Xray cfg) \<noteq> []
     \<and> VLESS (InboundTags (Xray cfg)) \<noteq> [] \<and> VMESS (InboundTags (Xray cfg)) \<noteq> []
     \<and> TROJAN (InboundTags (Xray cfg)) \<noteq> []"
  by (simp add: requiredFields_def)

lemma orDefault_nonzero: "d \<noteq> 0 \<Longrightarrow> orDefault d x \<noteq> 0"
  by (simp add: orDefault_def)

lemma fillDefaults_idem: "fillDefaults (fillDefaults cfg) = fillDefaults cfg"
  by (simp add: fillDefaults_def orDefault_def model_simps word_sle_eq)

lemma fillDefaults_complete:
  "requiredFields (fillDefaults cfg) = requiredFields cfg"
  "StateSec (Intervals (fillDefaults cfg)) \<noteq> 0" "OnlineSec (Intervals (fillDefaults cfg)) \<noteq> 0"
  "StatsSec (Intervals (fillDefaults cfg)) \<noteq> 0" "HeartbeatSec (Intervals (fillDefaults cfg)) \<noteq> 0"
  "MetricsSec (Intervals (fillDefaults cfg)) \<noteq> 0" "CoreCheckSec (Intervals (fillDefaults cfg)) \<noteq> 0"
  "0 <s APITimeoutSec (Xray (fillDefaults cfg))" "Version (Xray (fillDefaults cfg)) \<noteq> []"
  by (simp_all add: requiredFields_def fillDefaults_def orDefault_nonzero config_defaults word_sle_eq
      word_sless_alt)

lemma loopInterval_positive: "0 <s seconds d \<Longrightarrow> 0 <s loopInterval d sec"
  by (simp add: loopInterval_def Let_def word_sle_total)

lemma coreLoopInterval_positive:
  "case coreLoopInterval cfg of Some intv \<Rightarrow> 0 <s intv | None \<Rightarrow> seconds (CoreCheckSec (Intervals cfg)) <s 0"
proof -
  have "x \<noteq> 0 \<Longrightarrow> \<not> x <s 0 \<Longrightarrow> 0 <s x" for x :: int64
    using signed_eq_0_iff [of x, where ?'a = int] by (simp add: word_sless_alt)
  moreover have "0 <s seconds DefaultCoreCheckIntervalSec" "\<not> seconds DefaultCoreCheckIntervalSec <s 0"
    by (simp_all add: seconds_def config_defaults word_sless_alt)
  ultimately show ?thesis
    by (simp add: coreLoopInterval_def Let_def)
qed

lemma sint_seconds:
  assumes "0 \<le> sint sec" and "sint sec \<le> 9223372036"
  shows "sint (seconds sec) = sint sec * 1000000000"
proof -
  have "sint (1000000000 :: int64) = 1000000000" by simp
  with assms show ?thesis
    by (simp add: seconds_def sint_word_ariths signed_take_bit_int_eq_self)
qed

section \<open>Properties\<close>


definition sample_config :: Config where
  "sample_config =
     \<lparr>Control = \<lparr>BaseURL = ''https://panel'', Token = ''t'', ServerSlug = ''sg'', TLSInsecure = False\<rparr>,
      Xray = \<lparr>Version = [], APIServer = ''127.0.0.1:10085'', APITimeoutSec = 0, StatsResetEachPush = False,
              InboundTags = \<lparr>VLESS = ''v'', VMESS = ''m'', TROJAN = ''t''\<rparr>\<rparr>,
      GitHubToken = [],
      Intervals = \<lparr>StateSec = 0, OnlineSec = 0, StatsSec = 0, HeartbeatSec = 0, MetricsSec = 0, CoreCheckSec = 0\<rparr>,
      LoggingLevel = ''info''\<rparr>"


text \<open>
  \<open>Load\<close> fails exactly when the file cannot be read, cannot be decoded, or lacks a required
  field, and its error is the first of these; loading a configuration whose values are already
  filled in gives it back.
\<close>

theorem load_errors:
  "Load readFile yamlUnmarshal path = Inl err \<longleftrightarrow>
     readFile path = Inl err
     \<or> (\<exists>data. readFile path = Inr data \<and>
          (yamlUnmarshal data = Inl err
           \<or> (\<exists>raw. yamlUnmarshal data = Inr raw \<and> requiredFields raw = Some err)))"
  by (auto simp: Load_def split: sum.splits option.splits)

text \<open>
  Whatever the configuration says, no ticker is created with an interval that is not positive
  (which would panic): each polling loop's interval is positive, and the core-update loop
  starts only with a positive one.
\<close>

theorem loop_intervals_positive:
  "0 <s stateInterval cfg \<and> 0 <s onlineInterval cfg \<and> 0 <s statsInterval cfg
   \<and> 0 <s heartbeatInterval cfg \<and> 0 <s metricsInterval cfg
   \<and> (case coreLoopInterval cfg of Some intv \<Rightarrow> 0 <s intv | None \<Rightarrow> seconds (CoreCheckSec (Intervals cfg)) <s 0)"
  unfolding loop_intervals
  by (intro conjI loopInterval_positive coreLoopInterval_positive) (simp_all add: seconds_def word_sless_alt)

text \<open>
  A configured number of seconds is used exactly as long as the nanoseconds fit in 64 bits; one
  second more wraps around and the loop silently falls back to its default.
\<close>

theorem loop_interval_exact:
  assumes "0 < sint (StateSec (Intervals cfg))" and "sint (StateSec (Intervals cfg)) \<le> 9223372036"
  shows "sint (stateInterval cfg) = sint (StateSec (Intervals cfg)) * 1000000000
    \<and> stateInterval (cfg\<lparr>Intervals := (Intervals cfg)\<lparr>StateSec := 9223372037\<rparr>\<rparr>) = seconds 15"
proof -
  have "sint (seconds (StateSec (Intervals cfg))) = sint (StateSec (Intervals cfg)) * 1000000000"
    using assms by (intro sint_seconds) simp_all
  with assms show ?thesis
    by (simp add: stateInterval_def loopInterval_def Let_def word_sle_eq seconds_def)
qed

theorem loop_interval_exact_witness:
  "sint (stateInterval (fillDefaults sample_config)) = 15 * 1000000000"
proof -
  have "StateSec (Intervals (fillDefaults sample_config)) = 15"
    by (simp add: fillDefaults_def sample_config_def orDefault_def model_simps)
  with loop_interval_exact [of "fillDefaults sample_config"] show ?thesis by simp
qed

end
