(* ===== verification/Go_Path.thy ===== *)
theory Go_Path
  imports Go_Prelude
begin

text \<open>
  The functions of package \<^verbatim>\<open>path/filepath\<close> that the sources call, on a Unix system: \<open>Clean\<close>,
  \<open>pathJoin\<close> (\<^verbatim>\<open>filepath.Join\<close>), \<open>pathDir\<close> and \<open>pathBase\<close>; and the file that a path names, as the list
  of names that leads to it from the root. The main fact is what becomes of a path when it is taken
  apart into directory and base name and a new name is put into the directory.
\<close>

section \<open>Paths as text\<close>

definition slash :: char where "slash = CHR ''/''"

text \<open>One name of a path, with the names before it in reverse order; \<open>rooted\<close> tells whether \<^verbatim>\<open>..\<close> at the
  start of the path is the root itself.\<close>

fun cleanStep :: "bool \<Rightarrow> string list \<Rightarrow> string \<Rightarrow> string list" where
  "cleanStep rooted acc x =
     (if x = [] \<or> x = ''.'' then acc
      else if x = ''..'' then
        (case acc of
           [] \<Rightarrow> if rooted then [] else [''..'']
         | y # ys \<Rightarrow> if y = ''..'' then ''..'' # acc else ys)
      else x # acc)"

declare cleanStep.simps [simp del]

definition rooted :: "string \<Rightarrow> bool" where
  "rooted p = HasPrefix p [slash]"

definition cleanNames :: "string \<Rightarrow> string list" where
  "cleanNames p = rev (foldl (cleanStep (rooted p)) [] (splitOn slash p))"

definition Clean :: "string \<Rightarrow> string" where
  "Clean p =
     (let out = (if rooted p then [slash] else []) @ Join (cleanNames p) [slash]
      in if out = [] then ''.'' else out)"

definition pathJoin :: "string list \<Rightarrow> string" where
  "pathJoin elems =
     (let es = filter (\<lambda>e. e \<noteq> []) elems in if es = [] then [] else Clean (Join es [slash]))"

text \<open>A path is its directory part, up to the last separator, and the name after it.\<close>

definition dirPart :: "string \<Rightarrow> string" where
  "dirPart p = rev (dropWhile (\<lambda>c. c \<noteq> slash) (rev p))"

definition lastName :: "string \<Rightarrow> string" where
  "lastName p = rev (takeWhile (\<lambda>c. c \<noteq> slash) (rev p))"

definition pathDir :: "string \<Rightarrow> string" where
  "pathDir p = Clean (dirPart p)"

definition pathBase :: "string \<Rightarrow> string" where
  "pathBase p =
     (if p = [] then ''.''
      else let b = lastName (rev (dropWhile (\<lambda>c. c = slash) (rev p))) in if b = [] then [slash] else b)"

section \<open>The file a path names\<close>

text \<open>
  The names from the root, for a file system without symbolic links; a path that does not start at
  the root starts at the working directory \<open>cwd\<close>.
\<close>

definition resolve :: "string list \<Rightarrow> string \<Rightarrow> string list" where
  "resolve cwd p =
     rev (foldl (cleanStep True) (if rooted p then [] else rev cwd) (splitOn slash p))"

text \<open>A name that is neither empty nor one of the two special names, and holds no separator.\<close>

definition plain :: "string \<Rightarrow> bool" where
  "plain x \<longleftrightarrow> x \<noteq> [] \<and> x \<noteq> ''.'' \<and> x \<noteq> ''..'' \<and> slash \<notin> set x"

text \<open>A path that ends in a plain name.\<close>

definition filePath :: "string \<Rightarrow> bool" where
  "filePath p = plain (lastName p)"

lemma cleanStep_plain: "plain x \<Longrightarrow> cleanStep b acc x = x # acc"
  by (simp add: cleanStep.simps plain_def)

lemma foldl_cleanStep_plain: "(\<forall>x\<in>set xs. plain x) \<Longrightarrow> foldl (cleanStep b) acc xs = rev xs @ acc"
  by (induction xs arbitrary: acc) (auto simp: cleanStep_plain)

lemma cleanStep_True_plain:
  assumes "list_all plain acc" and "slash \<notin> set x"
  shows "list_all plain (cleanStep True acc x)"
proof -
  consider "x = [] \<or> x = ''.''" | "x = ''..''" | "plain x"
    using assms(2) by (auto simp: plain_def)
  then show ?thesis
  proof cases
    case 2
    show ?thesis
    proof (cases acc)
      case (Cons y ys)
      have "y \<noteq> ''..''" using assms(1) Cons by (simp add: plain_def)
      then show ?thesis using 2 assms(1) Cons by (simp add: cleanStep.simps)
    qed (simp add: 2 cleanStep.simps)
  next
    case 3
    then show ?thesis using assms(1) by (simp add: cleanStep_plain)
  qed (use assms(1) in \<open>auto simp: cleanStep.simps\<close>)
qed

lemma foldl_cleanStep_True_plain:
  "list_all plain acc \<Longrightarrow> (\<forall>x\<in>set xs. slash \<notin> set x) \<Longrightarrow> list_all plain (foldl (cleanStep True) acc xs)"
proof (induction xs arbitrary: acc)
  case (Cons x xs)
  have "list_all plain (cleanStep True acc x)" by (rule cleanStep_True_plain) (use Cons.prems in simp_all)
  then show ?case using Cons.IH Cons.prems by simp
qed simp

lemma resolve_plain: "list_all plain cwd \<Longrightarrow> list_all plain (resolve cwd p)"
  using foldl_cleanStep_True_plain [of "if rooted p then [] else rev cwd" "splitOn slash p"]
    splitOn_pieces [of _ slash p]
  by (auto simp: resolve_def)

text \<open>
  Without a root the accumulated names are plain names above \<^verbatim>\<open>..\<close> names; replaying them from any
  directory has the effect of the original names.
\<close>

definition replay :: "string list \<Rightarrow> string list \<Rightarrow> string list" where
  "replay base acc = foldl (cleanStep True) base (rev acc)"

lemma replay_Cons: "replay base (x # acc) = cleanStep True (replay base acc) x"
  by (simp add: replay_def)

definition relNames :: "string list \<Rightarrow> bool" where
  "relNames acc \<longleftrightarrow> (\<exists>ps n. acc = ps @ replicate n ''..'' \<and> (\<forall>x\<in>set ps. plain x))"

lemma relNames_step:
  assumes "relNames acc" and "slash \<notin> set x"
  shows "relNames (cleanStep False acc x) \<and> replay base (cleanStep False acc x) = cleanStep True (replay base acc) x"
proof -
  obtain ps n where acc: "acc = ps @ replicate n ''..''" and ps: "\<forall>y\<in>set ps. plain y"
    using assms(1) by (auto simp: relNames_def)
  consider "x = [] \<or> x = ''.''" | "x = ''..''" | "plain x"
    using assms(2) by (auto simp: plain_def)
  then show ?thesis
  proof cases
    case 1
    then show ?thesis using assms(1) by (auto simp: cleanStep.simps)
  next
    case 2
    show ?thesis
    proof (cases ps)
      case Nil
      have "cleanStep False acc x = replicate (Suc n) ''..''"
        using 2 Nil acc by (cases n) (simp_all add: cleanStep.simps)
      moreover have "x # acc = replicate (Suc n) ''..''" using 2 Nil acc by simp
      moreover have "relNames (replicate (Suc n) ''..'')"
        unfolding relNames_def by (rule exI [of _ "[]"], rule exI [of _ "Suc n"]) simp
      ultimately show ?thesis using replay_Cons [of base x acc] by metis
    next
      case (Cons y ys)
      have y: "plain y" using Cons ps by simp
      then have "y \<noteq> ''..''" by (simp add: plain_def)
      then have new: "cleanStep False acc x = ys @ replicate n ''..''"
        using 2 Cons acc by (simp add: cleanStep.simps)
      have "replay base acc = y # replay base (ys @ replicate n ''..'')"
        using replay_Cons [of base y] Cons acc y by (simp add: cleanStep_plain)
      then have "cleanStep True (replay base acc) x = replay base (ys @ replicate n ''..'')"
        using 2 \<open>y \<noteq> ''..''\<close> by (simp add: cleanStep.simps)
      then show ?thesis using new ps Cons by (auto simp: relNames_def)
    qed
  next
    case 3
    have "acc = ps @ replicate n ''..'' \<Longrightarrow> x # acc = (x # ps) @ replicate n ''..''" by simp
    then have "relNames (x # acc)" using acc ps 3 unfolding relNames_def
      by (intro exI [of _ "x # ps"] exI [of _ n]) simp
    then show ?thesis using 3 replay_Cons [of base x acc] by (simp add: cleanStep_plain)
  qed
qed

lemma relNames_foldl:
  assumes "relNames acc" and "\<forall>x\<in>set xs. slash \<notin> set x"
  shows "relNames (foldl (cleanStep False) acc xs) \<and>
    replay base (foldl (cleanStep False) acc xs) = foldl (cleanStep True) (replay base acc) xs"
  using assms
proof (induction xs arbitrary: acc)
  case (Cons x xs)
  then show ?case using relNames_step [of acc x base] by simp
qed simp

lemma relNames_Nil [simp]: "relNames []"
  unfolding relNames_def by (rule exI [of _ "[]"], rule exI [of _ 0]) simp

lemma rooted_def': "rooted p \<longleftrightarrow> (\<exists>q. p = slash # q)"
  by (auto simp: rooted_def go_simps prefix_def)

lemma rooted_Cons [simp]: "rooted (slash # q)" "\<not> rooted []"
  by (auto simp: rooted_def')

lemma rooted_append: "p \<noteq> [] \<Longrightarrow> rooted (p @ q) = rooted p"
  by (cases p) (auto simp: rooted_def')

lemma rooted_Join:
  assumes "\<forall>x\<in>set xs. x \<noteq> [] \<and> slash \<notin> set x"
  shows "\<not> rooted (Join xs [slash])"
  using assms by (induction xs "[slash]" rule: Join.induct) (auto simp: rooted_def' append_eq_Cons_conv)

lemma foldl_cleanStep_empty: "foldl (cleanStep b) acc ([] # xs) = foldl (cleanStep b) acc xs"
  by (simp add: cleanStep.simps)

text \<open>Cleaning a path does not change the file it names.\<close>

lemma resolve_Clean: "resolve cwd (Clean p) = resolve cwd p"
proof (cases "rooted p")
  case True
  define ns where "ns = cleanNames p"
  have ns: "\<forall>x\<in>set ns. plain x"
    using True foldl_cleanStep_True_plain [of "[]" "splitOn slash p"] splitOn_pieces [of _ slash p]
    by (auto simp: ns_def cleanNames_def list_all_iff)
  have clean: "Clean p = slash # Join ns [slash]" using True by (simp add: Clean_def ns_def)
  have "foldl (cleanStep True) [] (splitOn slash (Clean p)) = rev ns"
  proof (cases "ns = []")
    case False
    then have "splitOn slash (Clean p) = [] # ns"
      using ns clean by (simp add: splitOn_Join plain_def)
    then show ?thesis using foldl_cleanStep_plain [OF ns, of True "[]"] by (simp add: foldl_cleanStep_empty del: foldl_Cons)
  qed (simp add: clean cleanStep.simps)
  then show ?thesis using True clean by (simp add: resolve_def ns_def cleanNames_def)
next
  case False
  define ns where "ns = cleanNames p"
  have rel: "relNames (rev ns)" and rep: "replay (rev cwd) (rev ns) = foldl (cleanStep True) (rev cwd) (splitOn slash p)"
    using False relNames_foldl [of "[]" "splitOn slash p" "rev cwd"] splitOn_pieces [of _ slash p]
    by (auto simp: ns_def cleanNames_def replay_def)
  have ns: "\<forall>x\<in>set ns. x \<noteq> [] \<and> slash \<notin> set x"
    using rel by (auto simp: relNames_def plain_def slash_def dest!: arg_cong [of _ _ set])
  show ?thesis
  proof (cases "ns = []")
    case True
    then have "Clean p = ''.''" using False by (simp add: Clean_def ns_def)
    then show ?thesis using rep True False
      by (simp add: resolve_def replay_def rooted_def' slash_def cleanStep.simps)
  next
    case nonempty: False
    then obtain y ys where "ns = y # ys" by (cases ns) auto
    then have "Join ns [slash] \<noteq> []" using ns by (cases ys) auto
    then have "Clean p = Join ns [slash]" using False by (simp add: Clean_def ns_def)
    then show ?thesis
      using rep False ns nonempty by (simp add: resolve_def replay_def rooted_Join splitOn_Join)
  qed
qed

lemma dirPart_lastName: "dirPart p @ lastName p = p"
  by (simp add: dirPart_def lastName_def flip: rev_append)

lemma lastName_no_sep: "slash \<notin> set (lastName p)"
  by (auto simp: lastName_def dest: set_takeWhileD)

lemma dirPart_cases:
  obtains "dirPart p = []" | d where "dirPart p = d @ [slash]"
proof (cases "dropWhile (\<lambda>c. c \<noteq> slash) (rev p)")
  case Nil
  then show ?thesis using that(1) by (simp add: dirPart_def)
next
  case (Cons c cs)
  then have "c = slash" using hd_dropWhile [of "\<lambda>c. c \<noteq> slash" "rev p"] by auto
  then show ?thesis using that(2) [of "rev cs"] Cons by (simp add: dirPart_def)
qed

text \<open>The directory, written with a separator at its end or empty, followed by a name.\<close>

lemma resolve_dir_name:
  assumes d: "d = [] \<or> (\<exists>e. d = e @ [slash])" and n: "slash \<notin> set n" "n \<noteq> []"
  shows "resolve cwd (d @ n) = rev (cleanStep True (rev (resolve cwd d)) n)"
proof (cases "d = []")
  case True
  have "\<not> rooted n" using n by (auto simp: rooted_def')
  then show ?thesis using True n by (simp add: resolve_def splitOn_no_sep cleanStep.simps)
next
  case False
  then obtain e where e: "d = e @ [slash]" using d by auto
  have "splitOn slash (d @ n) = butlast (splitOn slash d) @ [n]"
    using e n by (simp add: splitOn_append [of slash e] splitOn_no_sep butlast_append)
  moreover have "splitOn slash d = butlast (splitOn slash d) @ [[]]"
    using e by (simp add: splitOn_append [of slash e] butlast_append)
  then have "foldl (cleanStep True) b (splitOn slash d) = foldl (cleanStep True) b (butlast (splitOn slash d))" for b
    by (metis foldl_Cons foldl_Nil foldl_append foldl_cleanStep_empty)
  ultimately show ?thesis
    using False by (simp add: resolve_def rooted_append)
qed

lemma resolve_filePath:
  assumes "filePath p"
  shows "resolve cwd p = resolve cwd (pathDir p) @ [lastName p]"
proof -
  have "dirPart p = [] \<or> (\<exists>e. dirPart p = e @ [slash])" by (rule dirPart_cases [of p]) auto
  moreover have "lastName p \<noteq> []" "plain (lastName p)" using assms by (simp_all add: filePath_def plain_def)
  ultimately have "resolve cwd (dirPart p @ lastName p) = resolve cwd (dirPart p) @ [lastName p]"
    by (simp add: resolve_dir_name lastName_no_sep cleanStep_plain)
  then show ?thesis by (simp add: dirPart_lastName pathDir_def resolve_Clean)
qed

lemma pathBase_filePath: "filePath p \<Longrightarrow> pathBase p = lastName p"
  by (cases p rule: rev_cases) (auto simp: filePath_def plain_def pathBase_def lastName_def Let_def)

end
