(* ===== verification/Go_FS.thy ===== *)
theory Go_FS
  imports Go_Path
begin

text \<open>
  The operating system as the installer packages use it: a file system with directories and regular
  files, the working directory, the file mode mask, environment variables
  and the path of the running program; and the functions of packages \<^verbatim>\<open>os\<close> and \<^verbatim>\<open>io\<close> that the sources
  call. There are no symbolic or hard links, an open file is known by its path, and only this program
  changes the files while an operation runs.

  Every operation may fail. The list \<open>w_faults\<close> tells for the coming system calls whether each fails,
  with which error, and how much of its work was done before; a theorem about all worlds is a theorem
  about all such failures. A process that is killed is a world in which every later call fails without
  doing anything.
\<close>

unbundle bit_operations_syntax

section \<open>The world\<close>

type_synonym FileMode = "32 word"

text \<open>The permissions of owner, group and others, the octal digits of a mode.\<close>

definition mode :: "nat \<Rightarrow> nat \<Rightarrow> nat \<Rightarrow> FileMode" where
  "mode u g others = of_nat (64 * u + 8 * g + others)"

datatype node = Directory | RegFile (fileData: string) (fileMode: FileMode)

type_synonym files = "string list \<Rightarrow> node option"

record fault =
  f_errno :: nat
  f_text :: string
  f_done :: nat

record 'x world =
  w_fs :: files
  w_cwd :: "string list"
  w_umask :: FileMode
  w_vars :: "(string \<times> string) list"
  w_exe :: "string go_result"
  w_rand :: "nat \<Rightarrow> uint32"
  w_draws :: nat
  w_faults :: "fault option list"
  w_ext :: 'x

text \<open>The file that a path names.\<close>

definition fileKey :: "'x world \<Rightarrow> string \<Rightarrow> string list" where
  "fileKey w p = resolve (w_cwd w) p"

definition nextFault :: "'x world \<Rightarrow> fault option \<times> 'x world" where
  "nextFault w = (case w_faults w of [] \<Rightarrow> (None, w) | f # fs \<Rightarrow> (f, w\<lparr>w_faults := fs\<rparr>))"

text \<open>Errors carry the error number of the system; a failure from outside has a number above 99.\<close>

definition faultErr :: "fault \<Rightarrow> go_error" where
  "faultErr f = ErrExt (100 + f_errno f) (f_text f)"

definition ENOENT :: "string \<Rightarrow> string \<Rightarrow> go_error" where
  "ENOENT oper p = ErrExt 2 (oper @ '' '' @ p @ '': no such file or directory'')"

definition EEXIST :: "string \<Rightarrow> string \<Rightarrow> go_error" where
  "EEXIST oper p = ErrExt 17 (oper @ '' '' @ p @ '': file exists'')"

definition ENOTDIR :: "string \<Rightarrow> string \<Rightarrow> go_error" where
  "ENOTDIR oper p = ErrExt 20 (oper @ '' '' @ p @ '': not a directory'')"

definition EISDIR :: "string \<Rightarrow> string \<Rightarrow> go_error" where
  "EISDIR oper p = ErrExt 21 (oper @ '' '' @ p @ '': is a directory'')"

definition IsNotExist :: "go_error \<Rightarrow> bool" where
  "IsNotExist e = (case e of ErrExt n _ \<Rightarrow> n = 2 | _ \<Rightarrow> False)"

definition isRegFile :: "node option \<Rightarrow> bool" where
  "isRegFile n = (case n of Some (RegFile _ _) \<Rightarrow> True | _ \<Rightarrow> False)"

text \<open>A regular file where the path needs a directory.\<close>

definition blocked :: "files \<Rightarrow> string list \<Rightarrow> bool" where
  "blocked fs k = list_ex (\<lambda>i. isRegFile (fs (take i k))) [0..<length k]"

definition missing :: "string \<Rightarrow> string \<Rightarrow> 'x world \<Rightarrow> go_error" where
  "missing oper p w = (if p \<noteq> [] \<and> blocked (w_fs w) (fileKey w p) then ENOTDIR oper p else ENOENT oper p)"

definition node_at :: "'x world \<Rightarrow> string \<Rightarrow> node option" where
  "node_at w p = (if p = [] then None else w_fs w (fileKey w p))"

definition setNode :: "string \<Rightarrow> node option \<Rightarrow> 'x world \<Rightarrow> 'x world" where
  "setNode p n w = w\<lparr>w_fs := (w_fs w)(fileKey w p := n)\<rparr>"

text \<open>A call whose failure leaves the world as it is.\<close>

definition guarded :: "('x world \<Rightarrow> 'a go_result \<times> 'x world) \<Rightarrow> 'x world \<Rightarrow> 'a go_result \<times> 'x world" where
  "guarded m w = (case nextFault w of (Some f, w1) \<Rightarrow> (Inl (faultErr f), w1) | (None, w1) \<Rightarrow> m w1)"

text \<open>The error of a call with no result.\<close>

definition errOf :: "'a go_result \<Rightarrow> go_error option" where
  "errOf r = (case r of Inl e \<Rightarrow> Some e | Inr _ \<Rightarrow> None)"

definition effect :: "('x world \<Rightarrow> go_error option \<times> 'x world) \<Rightarrow> 'x world \<Rightarrow> go_error option \<times> 'x world" where
  "effect m w = (case nextFault w of (Some f, w1) \<Rightarrow> (Some (faultErr f), w1) | (None, w1) \<Rightarrow> m w1)"

section \<open>Reading\<close>

definition os_Stat :: "string \<Rightarrow> 'x world \<Rightarrow> node go_result \<times> 'x world" where
  "os_Stat p = guarded (\<lambda>w. (case node_at w p of None \<Rightarrow> Inl (missing ''stat'' p w) | Some n \<Rightarrow> Inr n, w))"

definition os_Open :: "string \<Rightarrow> 'x world \<Rightarrow> unit go_result \<times> 'x world" where
  "os_Open p = guarded (\<lambda>w. (case node_at w p of None \<Rightarrow> Inl (missing ''open'' p w) | Some n \<Rightarrow> Inr (), w))"

text \<open>Reading an open file to its end.\<close>

definition readNode :: "string \<Rightarrow> 'x world \<Rightarrow> string go_result" where
  "readNode p w =
     (case node_at w p of
        None \<Rightarrow> Inl (missing ''read'' p w)
      | Some Directory \<Rightarrow> Inl (EISDIR ''read'' p)
      | Some (RegFile d _) \<Rightarrow> Inr d)"

definition os_ReadAll :: "string \<Rightarrow> 'x world \<Rightarrow> string go_result \<times> 'x world" where
  "os_ReadAll p = guarded (\<lambda>w. (readNode p w, w))"

definition os_ReadFile :: "string \<Rightarrow> 'x world \<Rightarrow> string go_result \<times> 'x world" where
  "os_ReadFile p w =
     (case os_Open p w of (Inl e, w1) \<Rightarrow> (Inl e, w1) | (Inr _, w1) \<Rightarrow> os_ReadAll p w1)"

definition os_Getenv :: "string \<Rightarrow> 'x world \<Rightarrow> string" where
  "os_Getenv v w = (case map_of (w_vars w) v of Some x \<Rightarrow> x | None \<Rightarrow> [])"

definition os_TempDir :: "'x world \<Rightarrow> string" where
  "os_TempDir w = (let dir = os_Getenv ''TMPDIR'' w in if dir = [] then ''/tmp'' else dir)"

section \<open>Writing\<close>

text \<open>\<^verbatim>\<open>os.OpenFile\<close> with the flags that create the file and cut it to length zero.\<close>

definition os_OpenFile :: "string \<Rightarrow> FileMode \<Rightarrow> 'x world \<Rightarrow> go_error option \<times> 'x world" where
  "os_OpenFile p perm = effect (\<lambda>w.
     case node_at w p of
       Some Directory \<Rightarrow> (Some (EISDIR ''open'' p), w)
     | Some (RegFile _ m) \<Rightarrow> (None, setNode p (Some (RegFile [] m)) w)
     | None \<Rightarrow>
         if p \<noteq> [] \<and> w_fs w (butlast (fileKey w p)) = Some Directory
         then (None, setNode p (Some (RegFile [] (perm AND NOT (w_umask w)))) w)
         else (Some (missing ''open'' p w), w))"

definition os_Create :: "string \<Rightarrow> 'x world \<Rightarrow> go_error option \<times> 'x world" where
  "os_Create p = os_OpenFile p (mode 6 6 6)"

text \<open>Adding bytes at the end of an open file; a failure may come after some of them.\<close>

definition appendData :: "string \<Rightarrow> string \<Rightarrow> 'x world \<Rightarrow> 'x world" where
  "appendData p d w =
     (case node_at w p of Some (RegFile c m) \<Rightarrow> setNode p (Some (RegFile (c @ d) m)) w | _ \<Rightarrow> w)"

definition f_Write :: "string \<Rightarrow> string \<Rightarrow> 'x world \<Rightarrow> go_error option \<times> 'x world" where
  "f_Write p d w =
     (case nextFault w of
        (Some f, w1) \<Rightarrow> (Some (faultErr f), appendData p (take (f_done f) d) w1)
      | (None, w1) \<Rightarrow> (None, appendData p d w1))"

text \<open>\<^verbatim>\<open>io.Copy\<close> into an open file, from a reader that gives these bytes or this error.\<close>

definition io_Copy :: "string \<Rightarrow> ('x world \<Rightarrow> string go_result) \<Rightarrow> 'x world \<Rightarrow> go_error option \<times> 'x world" where
  "io_Copy p rd w = (case rd w of Inl e \<Rightarrow> (Some e, w) | Inr d \<Rightarrow> f_Write p d w)"

definition f_Chmod :: "string \<Rightarrow> FileMode \<Rightarrow> 'x world \<Rightarrow> go_error option \<times> 'x world" where
  "f_Chmod p perm = effect (\<lambda>w.
     (None, case node_at w p of Some (RegFile c _) \<Rightarrow> setNode p (Some (RegFile c perm)) w | _ \<Rightarrow> w))"

definition f_Sync :: "string \<Rightarrow> 'x world \<Rightarrow> go_error option \<times> 'x world" where
  "f_Sync p = effect (\<lambda>w. (None, w))"

definition f_Close :: "string \<Rightarrow> 'x world \<Rightarrow> go_error option \<times> 'x world" where
  "f_Close p = effect (\<lambda>w. (None, w))"

definition os_WriteFile :: "string \<Rightarrow> string \<Rightarrow> FileMode \<Rightarrow> 'x world \<Rightarrow> go_error option \<times> 'x world" where
  "os_WriteFile p d perm w =
     (case os_OpenFile p perm w of
        (Some e, w1) \<Rightarrow> (Some e, w1)
      | (None, w1) \<Rightarrow>
          (case f_Write p d w1 of
             (Some e, w2) \<Rightarrow> (Some e, snd (f_Close p w2))
           | (None, w2) \<Rightarrow> f_Close p w2))"

section \<open>Names and directories\<close>

text \<open>Rename and removal of a regular file.\<close>

definition os_Rename :: "string \<Rightarrow> string \<Rightarrow> 'x world \<Rightarrow> go_error option \<times> 'x world" where
  "os_Rename p q = effect (\<lambda>w.
     case node_at w p of
       None \<Rightarrow> (Some (missing ''rename'' p w), w)
     | Some n \<Rightarrow>
         if node_at w q = Some Directory then (Some (EEXIST ''rename'' q), w)
         else if q = [] \<or> w_fs w (butlast (fileKey w q)) \<noteq> Some Directory then (Some (missing ''rename'' q w), w)
         else (None, setNode q (Some n) (setNode p None w)))"

definition os_Remove :: "string \<Rightarrow> 'x world \<Rightarrow> go_error option \<times> 'x world" where
  "os_Remove p = effect (\<lambda>w.
     case node_at w p of
       None \<Rightarrow> (Some (missing ''remove'' p w), w)
     | Some Directory \<Rightarrow> (Some (EISDIR ''remove'' p), w)
     | Some (RegFile _ _) \<Rightarrow> (None, setNode p None w))"

text \<open>All directories on the way to \<open>k\<close> that are missing, at most \<open>n\<close> names deep.\<close>

definition makeDirs :: "nat \<Rightarrow> string list \<Rightarrow> files \<Rightarrow> files" where
  "makeDirs n k fs q = (if prefix q k \<and> length q \<le> n \<and> fs q = None then Some Directory else fs q)"

definition os_MkdirAll :: "string \<Rightarrow> 'x world \<Rightarrow> go_error option \<times> 'x world" where
  "os_MkdirAll p w =
     (let k = fileKey w p; ok = (p \<noteq> [] \<and> \<not> blocked (w_fs w) k \<and> \<not> isRegFile (w_fs w k)) in
      case nextFault w of
        (Some f, w1) \<Rightarrow>
          (Some (faultErr f), if ok then w1\<lparr>w_fs := makeDirs (f_done f) k (w_fs w1)\<rparr> else w1)
      | (None, w1) \<Rightarrow>
          if ok then (None, w1\<lparr>w_fs := makeDirs (length k) k (w_fs w1)\<rparr>)
          else (Some (if p = [] then ENOENT ''mkdir'' p else ENOTDIR ''mkdir'' p), w1))"

text \<open>A failing \<^verbatim>\<open>os.RemoveAll\<close> leaves the files that are at most \<open>f_done\<close> names below.\<close>

definition dropTree :: "nat \<Rightarrow> string list \<Rightarrow> files \<Rightarrow> files" where
  "dropTree n k fs q = (if prefix k q \<and> length k + n \<le> length q then None else fs q)"

definition os_RemoveAll :: "string \<Rightarrow> 'x world \<Rightarrow> go_error option \<times> 'x world" where
  "os_RemoveAll p w =
     (case nextFault w of
        (Some f, w1) \<Rightarrow> (Some (faultErr f), w1\<lparr>w_fs := dropTree (Suc (f_done f)) (fileKey w p) (w_fs w1)\<rparr>)
      | (None, w1) \<Rightarrow> (None, w1\<lparr>w_fs := dropTree 0 (fileKey w p) (w_fs w1)\<rparr>))"

section \<open>Temporary files\<close>

text \<open>
  \<^verbatim>\<open>os.CreateTemp\<close> and \<^verbatim>\<open>os.MkdirTemp\<close> replace the last \<^verbatim>\<open>*\<close> of the pattern by a random number and
  try again while the name is taken, 10000 times.
\<close>

definition splitPattern :: "string \<Rightarrow> string \<times> string" where
  "splitPattern pat =
     (if CHR ''*'' \<in> set pat
      then (butlast (rev (dropWhile (\<lambda>c. c \<noteq> CHR ''*'') (rev pat))), rev (takeWhile (\<lambda>c. c \<noteq> CHR ''*'') (rev pat)))
      else (pat, []))"

definition inDir :: "string \<Rightarrow> string \<Rightarrow> string" where
  "inDir dir name = (if dir \<noteq> [] \<and> last dir = slash then dir @ name else dir @ [slash] @ name)"

definition tempName :: "string \<Rightarrow> string \<Rightarrow> uint32 \<Rightarrow> string" where
  "tempName dir pat r = inDir dir (fst (splitPattern pat) @ intText (uint r) @ snd (splitPattern pat))"

fun freshName :: "nat \<Rightarrow> (uint32 \<Rightarrow> string) \<Rightarrow> 'x world \<Rightarrow> string option \<times> 'x world" where
  "freshName n nm w =
     (if n = 0 then (None, w)
      else let name = nm (w_rand w (w_draws w)); w1 = w\<lparr>w_draws := Suc (w_draws w)\<rparr>
           in if w_fs w (fileKey w name) \<noteq> None then freshName (n - 1) nm w1 else (Some name, w1))"

declare freshName.simps [simp del]

definition createFresh :: "node \<Rightarrow> string \<Rightarrow> string \<Rightarrow> 'x world \<Rightarrow> string go_result \<times> 'x world" where
  "createFresh nd dir pat w =
     (if slash \<in> set pat then (Inl (ErrText ''pattern contains path separator''), w)
      else case freshName 10000 (tempName dir pat) w of
        (None, w1) \<Rightarrow> (Inl (EEXIST ''createtemp'' (inDir dir pat)), w1)
      | (Some name, w1) \<Rightarrow>
          guarded (\<lambda>w2.
            if w_fs w2 (butlast (fileKey w2 name)) = Some Directory then (Inr name, setNode name (Some nd) w2)
            else (Inl (missing ''open'' name w2), w2)) w1)"

definition os_CreateTemp :: "string \<Rightarrow> string \<Rightarrow> 'x world \<Rightarrow> string go_result \<times> 'x world" where
  "os_CreateTemp dir pat = createFresh (RegFile [] (mode 6 0 0)) dir pat"

definition os_MkdirTemp :: "string \<Rightarrow> string \<Rightarrow> 'x world \<Rightarrow> string go_result \<times> 'x world" where
  "os_MkdirTemp dir pat w = createFresh Directory (if dir = [] then os_TempDir w else dir) pat w"

text \<open>Running a program: its output and its error; the program may change the world.\<close>

type_synonym 'x runner = "string list \<Rightarrow> 'x world \<Rightarrow> (string \<times> go_error option) \<times> 'x world"


section \<open>What the operations change\<close>

text \<open>
  Two worlds in which the same paths name the same files, outside the set \<open>K\<close> of files. Every
  operation is described by the files that it may change.
\<close>

definition same_setup :: "'x world \<Rightarrow> 'x world \<Rightarrow> bool" where
  "same_setup w w' \<longleftrightarrow> w_cwd w' = w_cwd w \<and> w_umask w' = w_umask w \<and> w_vars w' = w_vars w
     \<and> w_exe w' = w_exe w \<and> w_rand w' = w_rand w"

definition only_changes :: "string list set \<Rightarrow> 'x world \<Rightarrow> 'x world \<Rightarrow> bool" where
  "only_changes K w w' \<longleftrightarrow> same_setup w w' \<and> (\<forall>q. q \<notin> K \<longrightarrow> w_fs w' q = w_fs w q)"

lemma only_refl [simp, intro]: "only_changes K w w"
  by (simp add: only_changes_def same_setup_def)

lemma only_trans [trans]: "only_changes K w w1 \<Longrightarrow> only_changes K w1 w2 \<Longrightarrow> only_changes K w w2"
  by (simp add: only_changes_def same_setup_def)

lemma only_mono: "only_changes K w w1 \<Longrightarrow> K \<subseteq> L \<Longrightarrow> only_changes L w w1"
  by (auto simp: only_changes_def)

lemma only_trans_Un: "only_changes K w w1 \<Longrightarrow> only_changes L w1 w2 \<Longrightarrow> only_changes (K \<union> L) w w2"
  by (auto simp: only_changes_def same_setup_def)

lemma only_at: "only_changes K w w1 \<Longrightarrow> q \<notin> K \<Longrightarrow> w_fs w1 q = w_fs w q"
  by (simp add: only_changes_def)

lemma only_key: "only_changes K w w1 \<Longrightarrow> fileKey w1 p = fileKey w p"
  by (simp add: only_changes_def same_setup_def fileKey_def)

lemma only_setup: "only_changes K w w1 \<Longrightarrow> same_setup w w1"
  by (simp add: only_changes_def)

lemma same_setup_trans: "same_setup w w1 \<Longrightarrow> same_setup w1 w2 \<Longrightarrow> same_setup w w2"
  by (simp add: same_setup_def)

lemma same_setup_key: "same_setup w w1 \<Longrightarrow> fileKey w1 p = fileKey w p"
  by (simp add: same_setup_def fileKey_def)

lemma nextFault_only: "nextFault w = (f, v) \<Longrightarrow> only_changes K w v"
  by (auto simp: nextFault_def only_changes_def same_setup_def split: list.splits)

lemma nextFault_only_snd: "only_changes K w (snd (nextFault w))"
  by (rule nextFault_only [of _ "fst (nextFault w)"]) simp

lemma nextFault_fs [simp]: "nextFault w = (f, w1) \<Longrightarrow> w_fs w1 = w_fs w \<and> fileKey w1 = fileKey w \<and> node_at w1 = node_at w"
  by (auto simp: nextFault_def fileKey_def node_at_def fun_eq_iff split: list.splits)

lemma setNode_only: "only_changes {fileKey w p} w (setNode p n w)"
  by (simp add: only_changes_def same_setup_def setNode_def)

lemma setNode_at [simp]: "w_fs (setNode p n w) q = (if q = fileKey w p then n else w_fs w q)"
  by (simp add: setNode_def)

lemma setNode_key [simp]: "fileKey (setNode p n w) q = fileKey w q"
  by (simp add: setNode_def fileKey_def)

lemma node_at_setNode: "p \<noteq> [] \<Longrightarrow> node_at (setNode p n w) p = n"
  by (simp add: node_at_def)

lemma effect_only:
  assumes "\<And>v. only_changes K w v \<Longrightarrow> fileKey v = fileKey w \<Longrightarrow> only_changes K w (snd (m v))"
  shows "only_changes K w (snd (effect m w))"
  using assms
  by (auto simp: effect_def nextFault_only split: prod.split option.split)

lemma guarded_only:
  assumes "\<And>v. only_changes K w v \<Longrightarrow> fileKey v = fileKey w \<Longrightarrow> only_changes K w (snd (m v))"
  shows "only_changes K w (snd (guarded m w))"
  using assms
  by (auto simp: guarded_def nextFault_only split: prod.split option.split)

lemma only_setNode: "only_changes K w v \<Longrightarrow> fileKey v = fileKey w \<Longrightarrow> fileKey w p \<in> K \<Longrightarrow> only_changes K w (setNode p n v)"
  using setNode_only [of v p n] only_mono [of "{fileKey v p}" v "setNode p n v" K] only_trans by auto

lemma reading_only [simp]:
  "only_changes K w (snd (os_Stat p w))" "only_changes K w (snd (os_Open p w))"
  "only_changes K w (snd (os_ReadAll p w))"
  unfolding os_Stat_def os_Open_def os_ReadAll_def by (auto intro!: guarded_only)

lemma ReadFile_only [simp]: "only_changes K w (snd (os_ReadFile p w))"
proof (cases "os_Open p w")
  case (Pair r v)
  then have "only_changes K w v" using reading_only(2) [of K w p] by simp
  then show ?thesis
    using Pair only_trans [OF _ reading_only(3) [of K v p]] by (auto simp: os_ReadFile_def split: sum.split)
qed

lemma appendData_only: "only_changes K w v \<Longrightarrow> fileKey v = fileKey w \<Longrightarrow> fileKey w p \<in> K \<Longrightarrow> only_changes K w (appendData p d v)"
  by (auto simp: appendData_def only_setNode split: option.split node.split)

lemma writing_only:
  assumes "fileKey w p \<in> K"
  shows "only_changes K w (snd (os_OpenFile p perm w))" "only_changes K w (snd (os_Create p w))"
    "only_changes K w (snd (f_Write p d w))" "only_changes K w (snd (f_Chmod p perm w))"
    "only_changes K w (snd (os_Remove p w))"
proof -
  show "only_changes K w (snd (os_OpenFile p perm w))" for perm
    unfolding os_OpenFile_def
    by (rule effect_only) (use assms in \<open>auto simp: only_setNode split: option.split node.split\<close>)
  then show "only_changes K w (snd (os_Create p w))" by (simp add: os_Create_def)
  show "only_changes K w (snd (f_Write p d w))"
    using assms
    by (auto simp: f_Write_def appendData_only nextFault_only split: prod.split option.split)
  show "only_changes K w (snd (f_Chmod p perm w))"
    unfolding f_Chmod_def
    by (rule effect_only) (use assms in \<open>auto simp: only_setNode split: option.split node.split\<close>)
  show "only_changes K w (snd (os_Remove p w))"
    unfolding os_Remove_def
    by (rule effect_only) (use assms in \<open>auto simp: only_setNode split: option.split node.split\<close>)
qed

lemma syncing_only [simp]: "only_changes K w (snd (f_Sync p w))" "only_changes K w (snd (f_Close p w))"
  unfolding f_Sync_def f_Close_def by (auto intro!: effect_only)

lemma io_Copy_only: "fileKey w p \<in> K \<Longrightarrow> only_changes K w (snd (io_Copy p rd w))"
  by (auto simp: io_Copy_def writing_only split: sum.split)

lemma os_Rename_only: "fileKey w p \<in> K \<Longrightarrow> fileKey w q \<in> K \<Longrightarrow> only_changes K w (snd (os_Rename p q w))"
  unfolding os_Rename_def
  by (rule effect_only) (auto simp: only_setNode fun_eq_iff split: option.split node.split)

lemma only_nothing:
  assumes "only_changes {} w w1"
  shows "w_fs w1 = w_fs w" "readNode p w1 = readNode p w" "node_at w1 p = node_at w p"
proof -
  show fs: "w_fs w1 = w_fs w" using assms by (auto simp: only_changes_def)
  show "readNode p w1 = readNode p w" "node_at w1 p = node_at w p"
    using fs only_key [OF assms] by (simp_all add: readNode_def node_at_def missing_def split: option.split)
qed

text \<open>Making directories touches only names that were free.\<close>

definition free_prefixes :: "'x world \<Rightarrow> string list \<Rightarrow> string list set" where
  "free_prefixes w k = {q. prefix q k \<and> w_fs w q = None}"

lemma makeDirs_only: "only_changes K w v \<Longrightarrow> free_prefixes v k \<subseteq> K \<Longrightarrow> only_changes K w (v\<lparr>w_fs := makeDirs n k (w_fs v)\<rparr>)"
  by (auto simp: only_changes_def same_setup_def makeDirs_def free_prefixes_def)

lemma os_MkdirAll_only: "only_changes (free_prefixes w (fileKey w p)) w (snd (os_MkdirAll p w))"
proof (cases "nextFault w")
  case (Pair f v)
  have "free_prefixes v k = free_prefixes w k" for k
    using Pair by (simp add: free_prefixes_def)
  then have "only_changes (free_prefixes w k) w (v\<lparr>w_fs := makeDirs n k (w_fs v)\<rparr>)" for n k
    by (intro makeDirs_only nextFault_only [OF Pair]) simp
  moreover have "only_changes (free_prefixes w k) w v" for k by (rule nextFault_only [OF Pair])
  ultimately show ?thesis
    by (simp add: os_MkdirAll_def Let_def Pair del: nextFault_fs split: option.split)
qed

lemma os_MkdirAll_makes:
  assumes "os_MkdirAll p w = (None, w1)"
  shows "w_fs w1 (fileKey w p) = Some Directory"
  using assms
  by (auto simp: os_MkdirAll_def Let_def makeDirs_def isRegFile_def split: prod.splits option.splits if_splits node.splits)

lemma os_RemoveAll_only: "only_changes {q. prefix (fileKey w p) q} w (snd (os_RemoveAll p w))"
proof (cases "nextFault w")
  case (Pair f v)
  then have "only_changes {q. prefix (fileKey w p) q} w v" by (rule nextFault_only)
  then show ?thesis
    by (simp add: os_RemoveAll_def only_changes_def same_setup_def dropTree_def Pair del: nextFault_fs split: option.split)
qed

text \<open>A fresh name was free, and is the pattern with a number in the directory.\<close>

lemma freshName_spec:
  assumes "freshName n nm w = (r, w1)"
  shows "only_changes {} w w1 \<and> w_fs w1 = w_fs w \<and> w_faults w1 = w_faults w
    \<and> (case r of Some name \<Rightarrow> (\<exists>x. name = nm x) \<and> w_fs w (fileKey w name) = None | None \<Rightarrow> True)"
  using assms
proof (induction n nm w arbitrary: r w1 rule: freshName.induct)
  case (1 n nm w)
  let ?name = "nm (w_rand w (w_draws w))" and ?w = "w\<lparr>w_draws := Suc (w_draws w)\<rparr>"
  have only: "only_changes {} w ?w" by (simp add: only_changes_def same_setup_def)
  show ?case
  proof (cases "n = 0 \<or> w_fs w (fileKey w ?name) = None")
    case True
    then show ?thesis using 1(2) only by (auto simp: freshName.simps [of n nm w] Let_def split: if_splits)
  next
    case False
    then have "freshName (n - 1) nm ?w = (r, w1)" using 1(2) by (simp add: freshName.simps [of n nm w] Let_def)
    from 1(1) [OF _ refl refl _ this] False
    have "only_changes {} ?w w1 \<and> w_fs w1 = w_fs ?w \<and> w_faults w1 = w_faults ?w
      \<and> (case r of Some name \<Rightarrow> (\<exists>x. name = nm x) \<and> w_fs ?w (fileKey ?w name) = None | None \<Rightarrow> True)"
      by simp
    then show ?thesis using only only_trans [OF only] by (auto simp: fileKey_def split: option.splits)
  qed
qed

lemma createFresh_error: "createFresh nd dir pat w = (Inl e, w1) \<Longrightarrow> only_changes {} w w1"
proof -
  assume e: "createFresh nd dir pat w = (Inl e, w1)"
  show ?thesis
  proof (cases "slash \<in> set pat")
    case False
    obtain r v where v: "freshName 10000 (tempName dir pat) w = (r, v)" by fastforce
    have "only_changes {} w v" using freshName_spec [OF v] by simp
    moreover have "w1 = v \<or> w1 = snd (nextFault v)"
      using e v False
      by (auto simp: createFresh_def guarded_def split: option.splits prod.splits if_splits)
    ultimately show ?thesis using only_trans nextFault_only_snd by blast
  qed (use e in \<open>simp add: createFresh_def\<close>)
qed

lemma createFresh_ok:
  assumes "createFresh nd dir pat w = (Inr name, w1)"
  shows "slash \<notin> set pat \<and> (\<exists>x. name = tempName dir pat x) \<and> w_fs w (fileKey w name) = None
    \<and> w_fs w1 (fileKey w name) = Some nd \<and> only_changes {fileKey w name} w w1
    \<and> w_fs w (butlast (fileKey w name)) = Some Directory"
proof -
  obtain v where v: "freshName 10000 (tempName dir pat) w = (Some name, v)" and pat: "slash \<notin> set pat"
    and w1: "w1 = setNode name (Some nd) (snd (nextFault v))"
    and par: "w_fs (snd (nextFault v)) (butlast (fileKey (snd (nextFault v)) name)) = Some Directory"
    using assms by (auto simp: createFresh_def guarded_def split: option.splits prod.splits if_splits)
  from freshName_spec [OF v] have name: "\<exists>x. name = tempName dir pat x" "w_fs w (fileKey w name) = None"
    and only: "only_changes {} w v" by auto
  have o: "only_changes {} w (snd (nextFault v))" using only only_trans nextFault_only_snd by blast
  then have "w_fs w (butlast (fileKey w name)) = Some Directory"
    using par only_nothing(1) [OF o] only_key [OF o] by simp
  moreover from o have "only_changes {fileKey w name} w (snd (nextFault v))" "fileKey (snd (nextFault v)) = fileKey w"
    using only_mono [of "{}"] only_key by (auto simp: fun_eq_iff)
  then have "only_changes {fileKey w name} w w1" "w_fs w1 (fileKey w name) = Some nd"
    using only_setNode [of "{fileKey w name}" w "snd (nextFault v)" name] w1 by auto
  ultimately show ?thesis using pat name by blast
qed

section \<open>What reading gives\<close>

lemma readNode_at: "p \<noteq> [] \<Longrightarrow> w_fs w (fileKey w p) = Some (RegFile d m) \<Longrightarrow> readNode p w = Inr d"
  by (simp add: readNode_def node_at_def)

lemma os_ReadFile_ok: "os_ReadFile p w = (Inr d, w1) \<Longrightarrow> readNode p w = Inr d"
proof -
  assume r: "os_ReadFile p w = (Inr d, w1)"
  then obtain u v where o: "os_Open p w = (Inr u, v)" "os_ReadAll p v = (Inr d, w1)"
    by (auto simp: os_ReadFile_def split: prod.splits sum.splits)
  have "readNode p v = readNode p w" using only_nothing(2) [OF reading_only(2), of p p w] o by simp
  moreover have "readNode p (snd (nextFault v)) = Inr d"
    using o(2) by (auto simp: os_ReadAll_def guarded_def split: prod.splits option.splits)
  ultimately show ?thesis using only_nothing(2) [OF nextFault_only_snd, of p v] by simp
qed

lemma os_ReadAll_ok: "os_ReadAll p w = (Inr d, w1) \<Longrightarrow> readNode p w = Inr d"
  using only_nothing(2) [OF nextFault_only_snd, of p w]
  by (auto simp: os_ReadAll_def guarded_def split: prod.splits option.splits)

text \<open>Every entry of the file system has its directories.\<close>

definition tree :: "files \<Rightarrow> bool" where
  "tree fs \<longleftrightarrow> (\<forall>p q. prefix p q \<longrightarrow> fs q \<noteq> None \<longrightarrow> fs p \<noteq> None)"

end
