(* ===== verification/File_Install.thy ===== *)
theory File_Install
  imports Go_FS
begin

text \<open>
  Replacing a file by way of a temporary file. \<^verbatim>\<open>installBinary\<close> of \<^verbatim>\<open>selfupdate.go\<close> and \<^verbatim>\<open>writeStream\<close> of
  \<^verbatim>\<open>xraycore.go\<close> have the same body after the opening of the source: a temporary file beside the
  target is filled, its mode set, flushed and closed, and renamed to the target; every failure removes
  it. That body is \<open>replaceVia\<close>. The interface \<open>atomic_writer\<close> states what both functions promise: after
  success the target holds the whole new content, after a failure it is what it was, and no other file
  that existed is changed; what a sequence of such writes does follows from it.
\<close>

section \<open>The temporary file\<close>

definition closeAndRemove :: "string \<Rightarrow> 'x world \<Rightarrow> 'x world" where
  "closeAndRemove tmpPath w = snd (os_Remove tmpPath (snd (f_Close tmpPath w)))"

definition replaceVia ::
  "string \<Rightarrow> FileMode \<Rightarrow> string \<Rightarrow> ('x world \<Rightarrow> string go_result) \<Rightarrow> 'x world \<Rightarrow> go_error option \<times> 'x world" where
  "replaceVia suf perm dest rd w =
     (case os_CreateTemp (pathDir dest) (pathBase dest @ suf) w of
        (Inl err, w1) \<Rightarrow> (Some err, w1)
      | (Inr tmpPath, w1) \<Rightarrow>
          (case io_Copy tmpPath rd w1 of
             (Some err, w2) \<Rightarrow> (Some err, closeAndRemove tmpPath w2)
           | (None, w2) \<Rightarrow>
               (case f_Chmod tmpPath perm w2 of
                  (Some err, w3) \<Rightarrow> (Some err, closeAndRemove tmpPath w3)
                | (None, w3) \<Rightarrow>
                    (case f_Sync tmpPath w3 of
                       (Some err, w4) \<Rightarrow> (Some err, closeAndRemove tmpPath w4)
                     | (None, w4) \<Rightarrow>
                         (case f_Close tmpPath w4 of
                            (Some err, w5) \<Rightarrow> (Some err, snd (os_Remove tmpPath w5))
                          | (None, w5) \<Rightarrow>
                              (case os_Rename tmpPath dest w5 of
                                 (Some err, w6) \<Rightarrow> (Some err, snd (os_Remove tmpPath w6))
                               | (None, w6) \<Rightarrow> (None, w6)))))))"

text \<open>The place of the temporary file.\<close>

lemma resolve_inDir:
  assumes "dir \<noteq> []" and "plain n"
  shows "resolve cwd (inDir dir n) = resolve cwd dir @ [n]"
proof -
  have n: "slash \<notin> set n" "n \<noteq> []" using assms(2) by (simp_all add: plain_def)
  show ?thesis
  proof (cases "last dir = slash")
    case True
    then have "dir = [] \<or> (\<exists>e. dir = e @ [slash])" using assms(1) by (metis append_butlast_last_id)
    then show ?thesis using True assms resolve_dir_name [of dir n cwd] n by (simp add: inDir_def cleanStep_plain)
  next
    case False
    have "splitOn slash (dir @ [slash]) = splitOn slash dir @ [[]]"
      by (simp add: splitOn_append [of slash dir])
    then have "resolve cwd (dir @ [slash]) = resolve cwd dir"
      using assms(1) by (simp add: resolve_def rooted_append cleanStep.simps)
    then show ?thesis using False assms resolve_dir_name [of "dir @ [slash]" n cwd] n
      by (simp add: inDir_def cleanStep_plain)
  qed
qed

lemma Clean_nonempty [simp]: "Clean p \<noteq> []"
  by (simp add: Clean_def Let_def)

lemma resolve_pathJoin:
  assumes "dir \<noteq> []" and "plain n"
  shows "resolve cwd (pathJoin [dir, n]) = resolve cwd dir @ [n]"
proof -
  have n: "slash \<notin> set n" "n \<noteq> []" using assms(2) by (simp_all add: plain_def)
  have "splitOn slash (dir @ [slash]) = splitOn slash dir @ [[]]"
    by (simp add: splitOn_append [of slash dir])
  then have "resolve cwd (dir @ [slash]) = resolve cwd dir"
    using assms(1) by (simp add: resolve_def rooted_append cleanStep.simps)
  then show ?thesis
    using assms n resolve_dir_name [of "dir @ [slash]" n cwd]
    by (simp add: pathJoin_def Let_def resolve_Clean cleanStep_plain)
qed

lemma pathJoin_nonempty [simp]: "dir \<noteq> [] \<Longrightarrow> pathJoin (dir # ps) \<noteq> []"
  by (simp add: pathJoin_def Let_def)

lemma os_TempDir_nonempty [simp]: "os_TempDir w \<noteq> []"
  by (simp add: os_TempDir_def Let_def)

lemma digitsText_no_slash: "slash \<notin> set (digitsText n)"
proof (induction n rule: digitsText.induct)
  case (1 n)
  have d: "slash \<noteq> digitChar d" if "d < 10" for d
  proof -
    have "(of_char (digitChar d) :: nat) = 48 + d" using that by (simp add: digitChar_def)
    moreover have "(of_char slash :: nat) = 47" by (simp add: slash_def)
    ultimately show ?thesis by auto
  qed
  show ?case using 1 d [of "nat n"] d [of "nat (n mod 10)"]
    by (auto simp: digitsText.simps [of n])
qed

lemma tempName_key:
  assumes "filePath dest" and suf: "suf = pre @ ''*''" "slash \<notin> set pre" "2 < length pre"
  shows "\<exists>x. fileKey w (tempName (pathDir dest) (pathBase dest @ suf) r) = fileKey w (pathDir dest) @ [lastName dest @ pre @ x]"
proof -
  have split: "splitPattern (pathBase dest @ suf) = (lastName dest @ pre, [])"
    using suf(1) pathBase_filePath [OF assms(1)] by (simp add: splitPattern_def butlast_append)
  have "slash \<notin> set (intText (uint r))" by (simp add: intText_def digitsText_no_slash)
  then have "plain (lastName dest @ pre @ intText (uint r))"
    using suf(2,3) lastName_no_sep [of dest] by (auto simp: plain_def append_eq_Cons_conv)
  then show ?thesis
    using resolve_inDir [of "pathDir dest"] by (auto simp: tempName_def split fileKey_def pathDir_def)
qed

text \<open>The suffixes of the two functions.\<close>

definition temp_suffix :: "string \<Rightarrow> bool" where
  "temp_suffix suf \<longleftrightarrow> (\<exists>pre. suf = pre @ ''*'' \<and> slash \<notin> set pre \<and> 2 < length pre)"

lemma temp_suffixes: "temp_suffix ''.new-*''" "temp_suffix ''.tmp-*''"
  unfolding temp_suffix_def
  by (rule exI [of _ "''.new-''"], simp add: slash_def) (rule exI [of _ "''.tmp-''"], simp add: slash_def)

lemma temp_beside:
  assumes "filePath dest" and "temp_suffix suf"
  shows "\<exists>x. fileKey w (tempName (pathDir dest) (pathBase dest @ suf) r) = fileKey w (pathDir dest) @ [x]"
  using tempName_key [OF assms(1)] assms(2) unfolding temp_suffix_def by blast

lemma temp_not_dest:
  assumes "filePath dest" and "temp_suffix suf"
  shows "fileKey w (tempName (pathDir dest) (pathBase dest @ suf) r) \<noteq> fileKey w dest"
proof -
  obtain pre where suf: "suf = pre @ ''*''" "slash \<notin> set pre" "2 < length pre"
    using assms(2) by (auto simp: temp_suffix_def)
  have "fileKey w dest = fileKey w (pathDir dest) @ [lastName dest]"
    using resolve_filePath [OF assms(1)] by (simp add: fileKey_def)
  then show ?thesis using tempName_key [OF assms(1) suf, of w r] suf(3) by auto
qed

text \<open>A new temporary directory is a new entry of the directory for temporary files.\<close>

lemma os_MkdirTemp_ok:
  assumes "os_MkdirTemp [] (pre @ ''*'') w = (Inr d, w1)" and "slash \<notin> set pre" "2 < length pre"
  shows "d \<noteq> []" "strict_prefix (fileKey w (os_TempDir w)) (fileKey w d)" "w_fs w (fileKey w d) = None"
    "w_fs w1 (fileKey w d) = Some Directory" "only_changes {fileKey w d} w w1"
    "w_fs w (butlast (fileKey w d)) = Some Directory"
proof -
  have "(\<exists>x. d = tempName (os_TempDir w) (pre @ ''*'') x) \<and> w_fs w (fileKey w d) = None
    \<and> w_fs w1 (fileKey w d) = Some Directory \<and> only_changes {fileKey w d} w w1
    \<and> w_fs w (butlast (fileKey w d)) = Some Directory"
    using createFresh_ok [OF assms(1) [unfolded os_MkdirTemp_def if_P [OF refl]]] by blast
  then obtain x where d: "d = tempName (os_TempDir w) (pre @ ''*'') x" and "w_fs w (fileKey w d) = None"
    "w_fs w1 (fileKey w d) = Some Directory" "only_changes {fileKey w d} w w1"
    "w_fs w (butlast (fileKey w d)) = Some Directory" by blast
  then show "w_fs w (fileKey w d) = None" "w_fs w1 (fileKey w d) = Some Directory" "only_changes {fileKey w d} w w1"
    "w_fs w (butlast (fileKey w d)) = Some Directory" by simp_all
  have "splitPattern (pre @ ''*'') = (pre, [])" by (simp add: splitPattern_def)
  moreover have "plain (pre @ intText (uint x))"
    using assms(2,3) by (auto simp: plain_def append_eq_Cons_conv intText_def digitsText_no_slash)
  ultimately show "strict_prefix (fileKey w (os_TempDir w)) (fileKey w d)"
    using resolve_inDir [of "os_TempDir w"] by (simp add: d tempName_def fileKey_def strict_prefix_def)
  show "d \<noteq> []" by (auto simp: d tempName_def inDir_def)
qed

section \<open>The replacement\<close>

lemma closeAndRemove_only: "fileKey w p \<in> K \<Longrightarrow> only_changes K w (closeAndRemove p w)"
  unfolding closeAndRemove_def
  by (rule only_trans [OF syncing_only(2)]) (rule writing_only(5), simp add: only_key [OF syncing_only(2)])

text \<open>What a file holds after each step of filling it.\<close>

lemma f_Write_ok:
  assumes "f_Write p d w = (None, w1)" and "p \<noteq> []" and "w_fs w (fileKey w p) = Some (RegFile c m)"
  shows "w_fs w1 (fileKey w p) = Some (RegFile (c @ d) m)"
  using assms by (auto simp: f_Write_def appendData_def node_at_def split: prod.splits option.splits)

lemma f_Chmod_ok:
  assumes "f_Chmod p perm w = (None, w1)" and "p \<noteq> []" and "w_fs w (fileKey w p) = Some (RegFile c m)"
  shows "w_fs w1 (fileKey w p) = Some (RegFile c perm)"
  using assms by (auto simp: f_Chmod_def effect_def node_at_def split: prod.splits option.splits)

lemma f_Sync_ok: "f_Sync p w = (r, w1) \<Longrightarrow> w_fs w1 = w_fs w"
  by (auto simp: f_Sync_def effect_def split: prod.splits option.splits)

lemma f_Close_ok: "f_Close p w = (r, w1) \<Longrightarrow> w_fs w1 = w_fs w"
  by (auto simp: f_Close_def effect_def split: prod.splits option.splits)

lemma os_Rename_ok:
  assumes "os_Rename p q w = (None, w1)" and "p \<noteq> []" and "fileKey w p \<noteq> fileKey w q"
  shows "w_fs w1 = (w_fs w)(fileKey w p := None, fileKey w q := w_fs w (fileKey w p)) \<and> w_fs w (fileKey w p) \<noteq> None"
  using assms
  by (auto simp: os_Rename_def effect_def node_at_def fun_eq_iff split: prod.splits option.splits if_splits)

lemma os_Rename_err: "os_Rename p q w = (Some e, w1) \<Longrightarrow> w_fs w1 = w_fs w"
  by (auto simp: os_Rename_def effect_def split: prod.splits option.splits if_splits)

lemma tempName_nonempty [simp]: "tempName dir pat r \<noteq> []"
  by (auto simp: tempName_def inDir_def)

text \<open>A reader whose bytes do not depend on names that are free now.\<close>

definition stable :: "('x world \<Rightarrow> string go_result) \<Rightarrow> 'x world \<Rightarrow> bool" where
  "stable rd w \<longleftrightarrow> (\<forall>w'. same_setup w w' \<longrightarrow> (\<forall>q. w_fs w q \<noteq> None \<longrightarrow> w_fs w' q = w_fs w q) \<longrightarrow> rd w' = rd w)"

lemma stable_const [simp]: "stable (\<lambda>_. r) w"
  by (simp add: stable_def)

lemma stable_readNode: "node_at w p \<noteq> None \<Longrightarrow> stable (readNode p) w"
  by (auto simp: stable_def readNode_def node_at_def same_setup_key split: if_splits)

text \<open>The names that are free now and are not the target's.\<close>

definition spare :: "'x world \<Rightarrow> string \<Rightarrow> string list set" where
  "spare w dest = {q. w_fs w q = None} - {fileKey w dest}"

lemma createTemp_spare:
  assumes "filePath dest" "temp_suffix suf" "os_CreateTemp (pathDir dest) (pathBase dest @ suf) w = (Inr tmp, w1)"
  shows "fileKey w tmp \<in> spare w dest" "tmp \<noteq> []" "w_fs w1 (fileKey w tmp) = Some (RegFile [] (mode 6 0 0))"
    "only_changes {fileKey w tmp} w w1"
proof -
  have "(\<exists>x. tmp = tempName (pathDir dest) (pathBase dest @ suf) x) \<and> w_fs w (fileKey w tmp) = None
    \<and> w_fs w1 (fileKey w tmp) = Some (RegFile [] (mode 6 0 0)) \<and> only_changes {fileKey w tmp} w w1"
    using createFresh_ok [OF assms(3) [unfolded os_CreateTemp_def]] by blast
  then show "fileKey w tmp \<in> spare w dest" "tmp \<noteq> []" "w_fs w1 (fileKey w tmp) = Some (RegFile [] (mode 6 0 0))"
    "only_changes {fileKey w tmp} w w1"
    using temp_not_dest [OF assms(1,2)] by (auto simp: spare_def)
qed

text \<open>Success: the source was read, and the only change is that the target holds its bytes.\<close>

lemma replaceVia_ok:
  assumes dest: "filePath dest" "temp_suffix suf" and rd: "stable rd w"
    and run: "replaceVia suf perm dest rd w = (None, w')"
  obtains d where "rd w = Inr d" "same_setup w w'" "w_fs w' = (w_fs w)(fileKey w dest := Some (RegFile d perm))"
proof -
  obtain tmp w1 w2 w3 w4 w5 where
    1: "os_CreateTemp (pathDir dest) (pathBase dest @ suf) w = (Inr tmp, w1)" and
    2: "io_Copy tmp rd w1 = (None, w2)" and 3: "f_Chmod tmp perm w2 = (None, w3)" and
    4: "f_Sync tmp w3 = (None, w4)" and 5: "f_Close tmp w4 = (None, w5)" and
    6: "os_Rename tmp dest w5 = (None, w')"
    using run by (auto simp: replaceVia_def split: prod.splits sum.splits option.splits)
  note new = createTemp_spare [OF dest 1]
  let ?t = "fileKey w tmp"
  have o1: "only_changes {?t} w w1" by (rule new)
  have k1: "fileKey w1 p = fileKey w p" for p by (rule only_key [OF o1])
  have o2: "only_changes {?t} w w2" using only_trans [OF o1] io_Copy_only [of w1 tmp "{?t}" rd] 2 k1 by simp
  have k2: "fileKey w2 p = fileKey w p" for p by (rule only_key [OF o2])
  have o3: "only_changes {?t} w w3" using only_trans [OF o2] writing_only(4) [of w2 tmp "{?t}" perm] 3 k2 by simp
  have o5: "only_changes {?t} w w5"
    using only_trans [OF only_trans [OF o3, of w4], of w5] syncing_only(1) [of "{?t}" w3 tmp] syncing_only(2) [of "{?t}" w4 tmp] 4 5 by simp
  have k5: "fileKey w5 p = fileKey w p" for p by (rule only_key [OF o5])
  obtain d where d: "rd w1 = Inr d" "f_Write tmp d w1 = (None, w2)"
    using 2 by (auto simp: io_Copy_def split: sum.splits)
  have "rd w1 = rd w"
  proof -
    have "same_setup w w1" using o1 by (rule only_setup)
    moreover have "w_fs w1 q = w_fs w q" if "w_fs w q \<noteq> None" for q
      using only_at [OF o1, of q] that new(1) by (cases "q = ?t") (auto simp: spare_def)
    ultimately show ?thesis using rd unfolding stable_def by blast
  qed
  then have "rd w = Inr d" using d by simp
  moreover have w5: "w_fs w5 ?t = Some (RegFile d perm)"
    using f_Write_ok [OF d(2) new(2)] f_Chmod_ok [OF 3 new(2)] f_Sync_ok [OF 4] f_Close_ok [OF 5] new(3) k1 k2 by simp
  moreover have "?t \<noteq> fileKey w dest" using new(1) by (simp add: spare_def)
  then have w': "w_fs w' = (w_fs w5)(?t := None, fileKey w dest := Some (RegFile d perm))"
    using os_Rename_ok [OF 6 new(2)] w5 k5 by simp
  have "w_fs w' = (w_fs w)(fileKey w dest := Some (RegFile d perm))"
  proof
    fix q
    show "w_fs w' q = ((w_fs w)(fileKey w dest := Some (RegFile d perm))) q"
      using w' only_at [OF o5, of q] new(1) by (auto simp: spare_def)
  qed
  moreover have "same_setup w w'"
    using only_setup [OF only_trans_Un [OF o5 os_Rename_only [of w5 tmp UNIV dest]]] 6 by simp
  ultimately show thesis using that by blast
qed

text \<open>Failure: only names that were free, other than the target's, may be taken.\<close>

lemma replaceVia_err:
  assumes dest: "filePath dest" "temp_suffix suf"
    and run: "replaceVia suf perm dest rd w = (Some e, w')"
  shows "only_changes (spare w dest) w w'"
proof (cases "os_CreateTemp (pathDir dest) (pathBase dest @ suf) w")
  case (Pair c w1)
  let ?K = "spare w dest"
  show ?thesis
  proof (cases c)
    case (Inl e)
    then have "only_changes {} w w1" using Pair createFresh_error by (simp add: os_CreateTemp_def)
    then show ?thesis using run Pair Inl only_mono by (auto simp: replaceVia_def)
  next
    case (Inr tmp)
    note new = createTemp_spare [OF dest, of w tmp w1]
    have o1: "only_changes ?K w w1" and t: "fileKey w tmp \<in> ?K" using new Pair Inr only_mono by auto
    have step: "only_changes ?K w w2" if "only_changes ?K w v" "x = (r, w2)" "only_changes ?K v (snd x)"
      for v w2 r and x :: "go_error option \<times> 'a world"
      using that only_trans by force
    have clean: "only_changes ?K w (closeAndRemove tmp v)" "only_changes ?K w (snd (os_Remove tmp v))"
      if "only_changes ?K w v" for v
      using only_trans [OF that closeAndRemove_only] only_trans [OF that writing_only(5)] only_key [OF that] t by auto
    have copy: "only_changes ?K w w2" if "io_Copy tmp rd v = (r, w2)" "only_changes ?K w v" for v w2 r
      using step [OF that(2,1) io_Copy_only] only_key [OF that(2)] t by simp
    have chmod: "only_changes ?K w w2" if "f_Chmod tmp perm v = (r, w2)" "only_changes ?K w v" for v w2 r
      using step [OF that(2,1) writing_only(4)] only_key [OF that(2)] t by simp
    have sync: "only_changes ?K w w2" if "f_Sync tmp v = (r, w2)" "only_changes ?K w v" for v w2 r
      using step [OF that(2,1) syncing_only(1)] by simp
    have close: "only_changes ?K w w2" if "f_Close tmp v = (r, w2)" "only_changes ?K w v" for v w2 r
      using step [OF that(2,1) syncing_only(2)] by simp
    have rename: "only_changes ?K w w2" if "os_Rename tmp dest v = (Some e, w2)" "only_changes ?K w v" for v w2 e
    proof -
      have "w_fs w2 = w_fs v" by (rule os_Rename_err [OF that(1)])
      moreover have "same_setup v w2" using only_setup [OF os_Rename_only [of v tmp UNIV dest]] that(1) by simp
      ultimately show ?thesis using that(2) by (simp add: only_changes_def same_setup_def)
    qed
    obtain r2 w2 where 2: "io_Copy tmp rd w1 = (r2, w2)" by fastforce
    obtain r3 w3 where 3: "f_Chmod tmp perm w2 = (r3, w3)" by fastforce
    obtain r4 w4 where 4: "f_Sync tmp w3 = (r4, w4)" by fastforce
    obtain r5 w5 where 5: "f_Close tmp w4 = (r5, w5)" by fastforce
    obtain r6 w6 where 6: "os_Rename tmp dest w5 = (r6, w6)" by fastforce
    note o2 = copy [OF 2 o1]
    note o3 = chmod [OF 3 o2]
    note o4 = sync [OF 4 o3]
    note o5 = close [OF 5 o4]
    have o6: "only_changes ?K w (snd (os_Remove tmp w6))" if "r6 = Some x" for x
      using clean(2) [OF rename [OF _ o5, of x w6]] 6 that by simp
    note run' = run [unfolded replaceVia_def Pair Inr prod.case sum.case 2]
    consider x where "r2 = Some x" | "r2 = None" "r3 \<noteq> None" | "r2 = None" "r3 = None" "r4 \<noteq> None"
      | "r2 = None" "r3 = None" "r4 = None" by blast
    then show ?thesis
    proof cases
      case 4
      then show ?thesis using run' 3 \<open>f_Sync tmp w3 = (r4, w4)\<close> 5 6 clean(2) [OF o5] o6 by (cases r5; cases r6; simp)
    qed (use run' 3 4 clean(1) [OF o2] clean(1) [OF o3] clean(1) [OF o4] in auto)
  qed
qed

text \<open>Making the directory of the target leaves the target and all files that exist.\<close>

lemma mkdir_dest:
  assumes "filePath dest"
  shows "same_setup w (snd (os_MkdirAll (pathDir dest) w))"
    "w_fs (snd (os_MkdirAll (pathDir dest) w)) (fileKey w dest) = w_fs w (fileKey w dest)"
    "w_fs w q \<noteq> None \<Longrightarrow> w_fs (snd (os_MkdirAll (pathDir dest) w)) q = w_fs w q"
proof -
  note only = os_MkdirAll_only [of w "pathDir dest"]
  show "same_setup w (snd (os_MkdirAll (pathDir dest) w))" by (rule only_setup [OF only])
  have "fileKey w dest = fileKey w (pathDir dest) @ [lastName dest]"
    using resolve_filePath [OF assms] by (simp add: fileKey_def)
  then have "\<not> prefix (fileKey w dest) (fileKey w (pathDir dest))" by (auto dest: prefix_length_le)
  then show "w_fs (snd (os_MkdirAll (pathDir dest) w)) (fileKey w dest) = w_fs w (fileKey w dest)"
    by (intro only_at [OF only]) (simp add: free_prefixes_def)
  show "w_fs w q \<noteq> None \<Longrightarrow> w_fs (snd (os_MkdirAll (pathDir dest) w)) q = w_fs w q"
    by (intro only_at [OF only]) (simp add: free_prefixes_def)
qed

lemma makeDirs_RegFile: "makeDirs n k fs q = Some (RegFile d m) \<longleftrightarrow> fs q = Some (RegFile d m)"
  by (auto simp: makeDirs_def)

lemma mkdir_RegFile: "w_fs (snd (os_MkdirAll p w)) q = Some (RegFile d m) \<longleftrightarrow> w_fs w q = Some (RegFile d m)"
  by (cases "nextFault w") (simp add: os_MkdirAll_def Let_def makeDirs_RegFile split: option.split)

lemma mkdir_readNode:
  assumes "readNode src (snd (os_MkdirAll p w)) = Inr d"
  shows "readNode src w = Inr d"
  using assms mkdir_RegFile [of p w] only_key [OF os_MkdirAll_only [of w p]]
  by (auto simp: readNode_def node_at_def split: option.splits node.splits if_splits)

text \<open>A world in which the target and all files that existed are as before.\<close>

definition prepared :: "'x world \<Rightarrow> string \<Rightarrow> 'x world \<Rightarrow> bool" where
  "prepared w dest v \<longleftrightarrow> same_setup w v \<and> w_fs v (fileKey w dest) = w_fs w (fileKey w dest)
     \<and> (\<forall>q. w_fs w q \<noteq> None \<longrightarrow> w_fs v q = w_fs w q)"

lemma prepared_key: "prepared w dest v \<Longrightarrow> fileKey v p = fileKey w p"
  by (simp add: prepared_def same_setup_key)

lemma prepared_refl [simp]: "prepared w dest w"
  by (simp add: prepared_def same_setup_def)

lemma prepared_only: "prepared w dest v \<Longrightarrow> only_changes (spare w dest) v v' \<Longrightarrow> prepared w dest v'"
  by (auto simp: prepared_def only_changes_def spare_def intro: same_setup_trans)

lemma prepared_trans: "prepared w dest v \<Longrightarrow> prepared v dest v' \<Longrightarrow> prepared w dest v'"
  using prepared_key [of w dest v dest] by (auto simp: prepared_def intro: same_setup_trans)

lemma prepared_mkdir: "filePath dest \<Longrightarrow> prepared w dest (snd (os_MkdirAll (pathDir dest) w))"
  using mkdir_dest [of dest w] by (simp add: prepared_def)

lemma prepared_open: "prepared w dest (snd (os_Open p w))"
  by (rule prepared_only [OF prepared_refl reading_only(2)])

text \<open>The outcome of a replacement, seen from the world \<open>w\<close> before it.\<close>

definition replaces ::
  "FileMode \<Rightarrow> string \<Rightarrow> ('x world \<Rightarrow> string go_result) \<Rightarrow> 'x world \<Rightarrow> go_error option \<times> 'x world \<Rightarrow> bool" where
  "replaces perm dest rd w res \<longleftrightarrow>
     (case res of
        (Some e, w') \<Rightarrow> prepared w dest w'
      | (None, w') \<Rightarrow> same_setup w w' \<and> (\<exists>d. rd w = Inr d \<and> w_fs w' (fileKey w dest) = Some (RegFile d perm))
          \<and> (\<forall>q. w_fs w q \<noteq> None \<longrightarrow> q \<noteq> fileKey w dest \<longrightarrow> w_fs w' q = w_fs w q))"

lemma replaces_error: "prepared w dest w' \<Longrightarrow> replaces perm dest rd w (Some e, w')"
  by (simp add: replaces_def)

lemma replaces_replaceVia:
  assumes dest: "filePath dest" "temp_suffix suf" and v: "prepared w dest v" "stable rd v"
    and rd: "\<And>d. rd v = Inr d \<Longrightarrow> rd w = Inr d"
  shows "replaces perm dest rd w (replaceVia suf perm dest rd v)"
proof (cases "replaceVia suf perm dest rd v")
  case (Pair r w')
  show ?thesis
  proof (cases r)
    case None
    then have ok: "replaceVia suf perm dest rd v = (None, w')" using Pair by simp
    obtain d where d: "rd v = Inr d" "same_setup v w'" "w_fs w' = (w_fs v)(fileKey v dest := Some (RegFile d perm))"
      by (rule replaceVia_ok [OF dest v(2) ok])
    have "same_setup w w'" using v(1) d(2) by (auto simp: prepared_def intro: same_setup_trans)
    then show ?thesis using ok d rd v(1) prepared_key [OF v(1)] by (simp add: replaces_def prepared_def)
  next
    case (Some e)
    then have "only_changes (spare v dest) v w'" using replaceVia_err [OF dest] Pair by blast
    then have "prepared w dest w'" by (rule prepared_trans [OF v(1) prepared_only [OF prepared_refl]])
    then show ?thesis using Pair Some by (simp add: replaces_error)
  qed
qed

lemma stable_open: "os_Open p w = (Inr u, w1) \<Longrightarrow> stable (readNode p) w1"
  by (rule stable_readNode) (auto simp: os_Open_def guarded_def split: prod.splits option.splits)

section \<open>The contract\<close>

text \<open>
  \<open>put s dest\<close> writes the bytes and the mode \<open>content s dest\<close> to the file \<open>dest\<close>. A \<open>file_writer\<close> promises
  the new file after success and leaves every other file alone; an \<open>atomic_writer\<close> promises the old file
  after a failure as well.
\<close>

locale file_writer =
  fixes put :: "'s \<Rightarrow> string \<Rightarrow> 'x world \<Rightarrow> go_error option \<times> 'x world"
    and content :: "'s \<Rightarrow> string \<Rightarrow> 'x world \<Rightarrow> (string \<times> FileMode) option"
  assumes put_ok: "filePath dest \<Longrightarrow> put s dest w = (None, w') \<Longrightarrow>
      \<exists>d m. content s dest w = Some (d, m) \<and> w_fs w' (fileKey w dest) = Some (RegFile d m)"
    and put_frame: "filePath dest \<Longrightarrow> w_fs w q \<noteq> None \<Longrightarrow> q \<noteq> fileKey w dest \<Longrightarrow>
      w_fs (snd (put s dest w)) q = w_fs w q"
    and put_setup: "filePath dest \<Longrightarrow> same_setup w (snd (put s dest w))"
begin

lemma no_content: "filePath dest \<Longrightarrow> content s dest w = None \<Longrightarrow> fst (put s dest w) \<noteq> None"
  using put_ok [of dest s w "snd (put s dest w)"] by (cases "put s dest w") auto

text \<open>A list of writes keeps every file that is not one of the targets.\<close>

lemma puts_frame:
  assumes "\<forall>j\<in>set jobs. filePath (snd j)" and "w_fs w q \<noteq> None" and "\<forall>j\<in>set jobs. q \<noteq> fileKey w (snd j)"
  shows "w_fs (snd (forEach (\<lambda>j. put (fst j) (snd j)) jobs w)) q = w_fs w q
    \<and> same_setup w (snd (forEach (\<lambda>j. put (fst j) (snd j)) jobs w))"
proof -
  let ?P = "\<lambda>v. w_fs v q = w_fs w q \<and> same_setup w v"
  have "?P (snd (put (fst j) (snd j) v))" if "j \<in> set jobs" "?P v" for j v
    using that put_frame [of "snd j" v q "fst j"] put_setup [of "snd j" v "fst j"] assms same_setup_key [of w v]
      same_setup_trans by metis
  then show ?thesis using forEach_invariant [of jobs ?P "\<lambda>j. put (fst j) (snd j)" w] by (simp add: same_setup_def)
qed

end

locale atomic_writer = file_writer +
  assumes put_err: "filePath dest \<Longrightarrow> put s dest w = (Some e, w') \<Longrightarrow> w_fs w' (fileKey w dest) = w_fs w (fileKey w dest)"
begin

text \<open>Nothing in between: the target is what it was, or the complete new file.\<close>

lemma old_or_new:
  assumes "filePath dest"
  shows "w_fs (snd (put s dest w)) (fileKey w dest) = w_fs w (fileKey w dest)
    \<or> (\<exists>d m. content s dest w = Some (d, m) \<and> w_fs (snd (put s dest w)) (fileKey w dest) = Some (RegFile d m))"
proof (cases "put s dest w")
  case (Pair r w')
  then show ?thesis using put_ok [OF assms] put_err [OF assms] by (cases r) fastforce+
qed

lemma result_iff:
  assumes "filePath dest" and "content s dest w = Some (d, m)" and "w_fs w (fileKey w dest) \<noteq> Some (RegFile d m)"
  shows "fst (put s dest w) = None \<longleftrightarrow> w_fs (snd (put s dest w)) (fileKey w dest) = Some (RegFile d m)"
proof (cases "put s dest w")
  case (Pair r w')
  then show ?thesis using put_ok [OF assms(1)] put_err [OF assms(1)] assms(2,3) by (cases r) fastforce+
qed

text \<open>No file disappears.\<close>

lemma no_loss:
  assumes "filePath dest" and "w_fs w q \<noteq> None"
  shows "w_fs (snd (put s dest w)) q \<noteq> None"
  using put_frame [OF assms, of s] old_or_new [OF assms(1), of s w] assms(2) by (cases "q = fileKey w dest") auto

end

text \<open>Every replacement keeps the contract.\<close>

lemma atomic_writerI:
  fixes put :: "'s \<Rightarrow> string \<Rightarrow> 'x world \<Rightarrow> go_error option \<times> 'x world"
  assumes r: "\<And>s dest w. filePath dest \<Longrightarrow> replaces (perm s) dest (rd s) w (put s dest w)"
  shows "atomic_writer put (\<lambda>s dest w. case rd s w of Inl _ \<Rightarrow> None | Inr d \<Rightarrow> Some (d, perm s))"
proof
  fix dest s w w' e q
  assume dest: "filePath dest"
  note res = r [OF dest, of s w, unfolded replaces_def]
  show "put s dest w = (None, w') \<Longrightarrow>
      \<exists>d m. (case rd s w of Inl _ \<Rightarrow> None | Inr d \<Rightarrow> Some (d, perm s)) = Some (d, m) \<and> w_fs w' (fileKey w dest) = Some (RegFile d m)"
    using res by auto
  show "put s dest w = (Some e, w') \<Longrightarrow> w_fs w' (fileKey w dest) = w_fs w (fileKey w dest)"
    using res by (simp add: prepared_def)
  show "w_fs w q \<noteq> None \<Longrightarrow> q \<noteq> fileKey w dest \<Longrightarrow> w_fs (snd (put s dest w)) q = w_fs w q"
    using res by (cases "put s dest w") (auto simp: prepared_def split: option.splits)
  show "same_setup w (snd (put s dest w))"
    using res by (cases "put s dest w") (auto simp: prepared_def split: option.splits)
qed

section \<open>A file that stays\<close>

text \<open>The file \<open>k\<close>, if it is there, stays as it is.\<close>

definition keeps_file :: "string list \<Rightarrow> 'x world \<Rightarrow> 'x world \<Rightarrow> bool" where
  "keeps_file k w w' \<longleftrightarrow> same_setup w w' \<and> (w_fs w k \<noteq> None \<longrightarrow> w_fs w' k = w_fs w k)"

lemma keeps_file_refl [simp]: "keeps_file k w w"
  by (simp add: keeps_file_def same_setup_def)

lemma keeps_file_trans: "keeps_file k w v \<Longrightarrow> keeps_file k v u \<Longrightarrow> keeps_file k w u"
  by (auto simp: keeps_file_def intro: same_setup_trans)

lemma keeps_file_mkdir: "keeps_file k w (snd (os_MkdirAll p w))"
  using only_at [OF os_MkdirAll_only [of w p], of k] only_setup [OF os_MkdirAll_only [of w p]]
  by (auto simp: keeps_file_def free_prefixes_def)

lemma keeps_file_only: "only_changes {} w v \<Longrightarrow> keeps_file k w v"
  by (simp add: keeps_file_def only_setup only_nothing(1))

end
