(* ===== verification/Agent_Setup.thy ===== *)
theory Agent_Setup
  imports Agent_Config File_Install
begin

text \<open>
  The setup of the agent, \<^verbatim>\<open>internal/agentsetup/setup.go\<close>: installing the configuration, the binary and
  the systemd unit, and changing the control fields of an existing configuration. The YAML package, the
  programs that are run and the two embedded files are parameters. Files are written with
  \<^verbatim>\<open>os.WriteFile\<close>, that is in place: the interface \<open>file_writer\<close> holds, \<open>atomic_writer\<close> does not.
\<close>

unbundle bit_operations_syntax

section \<open>Data\<close>

record 'x setup_env =
  se_run :: "'x runner"
  se_Unmarshal :: "string \<Rightarrow> Config go_result"
  se_Marshal :: "Config \<Rightarrow> string go_result"
  se_embeddedConfig :: string
  se_embeddedService :: string

definition defaultConfigPath :: string where "defaultConfigPath = ''/etc/xray-agent/config.yaml''"
definition defaultServicePath :: string where "defaultServicePath = ''/usr/lib/systemd/system/xray-agent.service''"
definition defaultBinPath :: string where "defaultBinPath = ''/usr/local/bin/xray-agent''"

record Options =
  as_ConfigPath :: string
  as_ServicePath :: string
  as_BinPath :: string
  as_GitHubToken :: string
  as_BaseURL :: string
  as_Token :: string
  as_ServerSlug :: string
  as_TLSInsecure :: "bool option"

record UpdateControlOptions =
  uc_ConfigPath :: string
  uc_BaseURL :: string
  uc_Token :: string
  uc_ServerSlug :: string
  uc_TLSInsecure :: "bool option"
  uc_GitHubToken :: string
  uc_Restart :: bool

definition withDefaults :: "Options \<Rightarrow> Options" where
  "withDefaults opts0 =
     (let o1 = (if as_ConfigPath opts0 = [] then opts0\<lparr>as_ConfigPath := defaultConfigPath\<rparr> else opts0);
          o2 = (if as_ServicePath o1 = [] then o1\<lparr>as_ServicePath := defaultServicePath\<rparr> else o1)
      in if as_BinPath o2 = [] then o2\<lparr>as_BinPath := defaultBinPath\<rparr> else o2)"

section \<open>Fields\<close>

definition applyOptionalFields :: "Options \<Rightarrow> Config \<Rightarrow> Config" where
  "applyOptionalFields opts cfg =
     (let c1 = (if as_GitHubToken opts \<noteq> [] then cfg\<lparr>GitHubToken := as_GitHubToken opts\<rparr> else cfg);
          c2 = (if as_BaseURL opts \<noteq> [] then c1\<lparr>Control := (Control c1)\<lparr>BaseURL := as_BaseURL opts\<rparr>\<rparr> else c1);
          c3 = (if as_Token opts \<noteq> [] then c2\<lparr>Control := (Control c2)\<lparr>Token := as_Token opts\<rparr>\<rparr> else c2);
          c4 = (if as_ServerSlug opts \<noteq> [] then c3\<lparr>Control := (Control c3)\<lparr>ServerSlug := as_ServerSlug opts\<rparr>\<rparr> else c3)
      in case as_TLSInsecure opts of
           None \<Rightarrow> c4
         | Some b \<Rightarrow> c4\<lparr>Control := (Control c4)\<lparr>TLSInsecure := b\<rparr>\<rparr>)"

text \<open>The assignments in \<^verbatim>\<open>UpdateControl\<close>.\<close>

definition setControlFields :: "UpdateControlOptions \<Rightarrow> Config \<Rightarrow> Config" where
  "setControlFields opts cfg =
     (let c1 = (if uc_BaseURL opts \<noteq> [] then cfg\<lparr>Control := (Control cfg)\<lparr>BaseURL := uc_BaseURL opts\<rparr>\<rparr> else cfg);
          c2 = (if uc_Token opts \<noteq> [] then c1\<lparr>Control := (Control c1)\<lparr>Token := uc_Token opts\<rparr>\<rparr> else c1);
          c3 = (if uc_ServerSlug opts \<noteq> [] then c2\<lparr>Control := (Control c2)\<lparr>ServerSlug := uc_ServerSlug opts\<rparr>\<rparr> else c2);
          c4 = (case uc_TLSInsecure opts of
                  None \<Rightarrow> c3
                | Some b \<Rightarrow> c3\<lparr>Control := (Control c3)\<lparr>TLSInsecure := b\<rparr>\<rparr>)
      in if uc_GitHubToken opts \<noteq> [] then c4\<lparr>GitHubToken := uc_GitHubToken opts\<rparr> else c4)"

section \<open>Files and programs\<close>

text \<open>\<^verbatim>\<open>config.Load\<close> on the file system.\<close>

definition LoadFile :: "'x setup_env \<Rightarrow> string \<Rightarrow> 'x world \<Rightarrow> Config go_result \<times> 'x world" where
  "LoadFile env path w =
     (case os_ReadFile path w of (r, w1) \<Rightarrow> (Load (\<lambda>_. r) (se_Unmarshal env) path, w1))"

definition writeFile :: "string \<Rightarrow> string \<Rightarrow> FileMode \<Rightarrow> 'x world \<Rightarrow> go_error option \<times> 'x world" where
  "writeFile path data perm w =
     (case os_MkdirAll (pathDir path) w of
        (Some err, w1) \<Rightarrow> (Some err, w1)
      | (None, w1) \<Rightarrow> os_WriteFile path data perm w1)"

definition runCmd :: "'x setup_env \<Rightarrow> string list \<Rightarrow> 'x world \<Rightarrow> go_error option \<times> 'x world" where
  "runCmd env args w = (case se_run env args w of ((out, err), w1) \<Rightarrow> (err, w1))"

definition installBinary :: "Options \<Rightarrow> 'x world \<Rightarrow> go_error option \<times> 'x world" where
  "installBinary opts w =
     (case w_exe w of
        Inl err \<Rightarrow> (Some (ErrWrap ''locate executable'' err), w)
      | Inr src \<Rightarrow>
          (case os_ReadFile src w of
             (Inl err, w1) \<Rightarrow> (Some (ErrWrap ''read executable'' err), w1)
           | (Inr data, w1) \<Rightarrow>
               (case writeFile (as_BinPath opts) data (mode 7 5 5) w1 of
                  (Some err, w2) \<Rightarrow> (Some (ErrWrap ''install binary'' err), w2)
                | (None, w2) \<Rightarrow> (None, w2))))"

section \<open>Installing\<close>

definition updateConfigFields :: "'x setup_env \<Rightarrow> Options \<Rightarrow> 'x world \<Rightarrow> go_error option \<times> 'x world" where
  "updateConfigFields env opts w =
     (case LoadFile env (as_ConfigPath opts) w of
        (Inl err, w1) \<Rightarrow> (Some (ErrWrap ''load existing config'' err), w1)
      | (Inr cfg, w1) \<Rightarrow>
          (case se_Marshal env (applyOptionalFields opts cfg) of
             Inl err \<Rightarrow> (Some (ErrWrap ''marshal config'' err), w1)
           | Inr out \<Rightarrow> writeFile (as_ConfigPath opts) out (mode 6 0 0) w1))"

text \<open>The contents of a new configuration.\<close>

definition newConfig :: "'x setup_env \<Rightarrow> Options \<Rightarrow> string" where
  "newConfig env opts =
     (case se_Unmarshal env (se_embeddedConfig env) of
        Inl _ \<Rightarrow> se_embeddedConfig env
      | Inr cfg \<Rightarrow>
          (case se_Marshal env (applyOptionalFields opts cfg) of Inl _ \<Rightarrow> se_embeddedConfig env | Inr out \<Rightarrow> out))"

definition ensureConfig :: "'x setup_env \<Rightarrow> Options \<Rightarrow> 'x world \<Rightarrow> go_error option \<times> 'x world" where
  "ensureConfig env opts w =
     (case os_Stat (as_ConfigPath opts) w of
        (Inr _, w1) \<Rightarrow> updateConfigFields env opts w1
      | (Inl err, w1) \<Rightarrow>
          if \<not> IsNotExist err then (Some (ErrWrap ''check config'' err), w1)
          else writeFile (as_ConfigPath opts) (newConfig env opts) (mode 6 0 0) w1)"

definition Install :: "'x setup_env \<Rightarrow> Options \<Rightarrow> 'x world \<Rightarrow> go_error option \<times> 'x world" where
  "Install env opts0 w =
     (let opts = withDefaults opts0 in
      case ensureConfig env opts w of
        (Some err, w1) \<Rightarrow> (Some err, w1)
      | (None, w1) \<Rightarrow>
          (case installBinary opts w1 of
             (Some err, w2) \<Rightarrow> (Some err, w2)
           | (None, w2) \<Rightarrow>
               (case writeFile (as_ServicePath opts) (se_embeddedService env) (mode 6 4 4) w2 of
                  (Some err, w3) \<Rightarrow> (Some (ErrWrap ''write service'' err), w3)
                | (None, w3) \<Rightarrow>
                    (case runCmd env [''systemctl'', ''daemon-reload''] w3 of
                       (Some err, w4) \<Rightarrow> (Some (ErrWrap ''systemctl daemon-reload'' err), w4)
                     | (None, w4) \<Rightarrow>
                         (case runCmd env [''systemctl'', ''enable'', ''--now'', ''xray-agent''] w4 of
                            (Some err, w5) \<Rightarrow> (Some (ErrWrap ''systemctl enable --now xray-agent'' err), w5)
                          | (None, w5) \<Rightarrow> (None, w5))))))"

section \<open>Changing the configuration\<close>

text \<open>
  The configuration to start from. Without a file it is the embedded sample; the source loads it
  through a file in the directory for temporary files to have the defaults filled in.
\<close>

definition loadConfig :: "'x setup_env \<Rightarrow> string \<Rightarrow> 'x world \<Rightarrow> Config go_result \<times> 'x world" where
  "loadConfig env path w =
     (case os_Stat path w of
        (Inr _, w1) \<Rightarrow> LoadFile env path w1
      | (Inl err, w1) \<Rightarrow>
          if \<not> IsNotExist err then (Inl err, w1)
          else case se_Unmarshal env (se_embeddedConfig env) of
            Inl err \<Rightarrow> (Inl (ErrWrap ''unmarshal embedded config'' err), w1)
          | Inr cfg \<Rightarrow>
              (let tmpPath = pathJoin [os_TempDir w1, ''xray-agent-embedded-config.yaml''] in
               case os_WriteFile tmpPath (se_embeddedConfig env) (mode 6 0 0) w1 of
                 (Some _, w2) \<Rightarrow> (Inr cfg, w2)
               | (None, w2) \<Rightarrow>
                   (case LoadFile env tmpPath w2 of
                      (Inr loaded, w3) \<Rightarrow> (Inr loaded, snd (os_Remove tmpPath w3))
                    | (Inl _, w3) \<Rightarrow> (Inr cfg, snd (os_Remove tmpPath w3)))))"

definition UpdateControl :: "'x setup_env \<Rightarrow> UpdateControlOptions \<Rightarrow> 'x world \<Rightarrow> go_error option \<times> 'x world" where
  "UpdateControl env opts w =
     (let path = (if uc_ConfigPath opts = [] then defaultConfigPath else uc_ConfigPath opts) in
      if uc_BaseURL opts = [] \<and> uc_Token opts = [] \<and> uc_ServerSlug opts = [] \<and> uc_TLSInsecure opts = None
         \<and> uc_GitHubToken opts = []
      then (Some (ErrText ''no control fields provided for update''), w)
      else case loadConfig env path w of
        (Inl err, w1) \<Rightarrow> (Some (ErrWrap ''load config'' err), w1)
      | (Inr cfg, w1) \<Rightarrow>
          (case se_Marshal env (setControlFields opts cfg) of
             Inl err \<Rightarrow> (Some (ErrWrap ''marshal config'' err), w1)
           | Inr out \<Rightarrow>
               (case writeFile path out (mode 6 0 0) w1 of
                  (Some err, w2) \<Rightarrow> (Some (ErrWrap ''write config'' err), w2)
                | (None, w2) \<Rightarrow>
                    if uc_Restart opts
                    then (case runCmd env [''systemctl'', ''restart'', ''xray-agent''] w2 of
                            (Some err, w3) \<Rightarrow> (Some (ErrWrap ''restart agent'' err), w3)
                          | (None, w3) \<Rightarrow> (None, w3))
                    else (None, w2))))"

section \<open>The fields that are set\<close>

definition orKeep :: "string \<Rightarrow> string \<Rightarrow> string" where
  "orKeep new old = (if new = [] then old else new)"

text \<open>
  The two functions that change a configuration have the same contract: a field that is given replaces
  the old value, every other field stays.
\<close>

locale config_editor =
  fixes edit :: "'o \<Rightarrow> Config \<Rightarrow> Config"
    and base :: "'o \<Rightarrow> string" and tok :: "'o \<Rightarrow> string" and slug :: "'o \<Rightarrow> string"
    and tls :: "'o \<Rightarrow> bool option" and github :: "'o \<Rightarrow> string"
  assumes edit_fields: "edit opts cfg =
      cfg\<lparr>Control := \<lparr>BaseURL = orKeep (base opts) (BaseURL (Control cfg)),
                      Token = orKeep (tok opts) (Token (Control cfg)),
                      ServerSlug = orKeep (slug opts) (ServerSlug (Control cfg)),
                      TLSInsecure = (case tls opts of None \<Rightarrow> TLSInsecure (Control cfg) | Some b \<Rightarrow> b)\<rparr>,
          GitHubToken := orKeep (github opts) (GitHubToken cfg)\<rparr>"
begin

lemma edit_idem: "edit opts (edit opts cfg) = edit opts cfg"
  by (simp add: edit_fields orKeep_def split: option.split)

text \<open>Fields that are given twice: the later value counts.\<close>

lemma edit_all: "base o2 \<noteq> [] \<Longrightarrow> tok o2 \<noteq> [] \<Longrightarrow> slug o2 \<noteq> [] \<Longrightarrow> tls o2 \<noteq> None \<Longrightarrow> github o2 \<noteq> [] \<Longrightarrow>
  edit o2 (edit o1 cfg) = edit o2 cfg"
  by (auto simp: edit_fields orKeep_def split: option.split)

lemma edit_required: "requiredFields cfg = None \<Longrightarrow> requiredFields (edit opts cfg) = None"
  by (simp add: requiredFields_None edit_fields orKeep_def)

lemma edit_defaults: "fillDefaults (edit opts cfg) = edit opts (fillDefaults cfg)"
  by (rule Config.equality) (simp_all add: fillDefaults_def edit_fields split: option.split)

text \<open>A loaded configuration that is edited and read back is the edited configuration.\<close>

lemma edit_load:
  assumes "Load (\<lambda>_. Inr d) um p = Inr cfg" and "um d' = Inr (edit opts cfg)"
  shows "Load (\<lambda>_. Inr d') um p = Inr (edit opts cfg)"
proof -
  obtain raw where "requiredFields raw = None" "cfg = fillDefaults raw" using assms(1) by (auto simp: Load_Inr)
  then show ?thesis
    using assms(2) edit_required [of cfg opts] fillDefaults_complete(1) [of raw]
    by (simp add: Load_def edit_defaults fillDefaults_idem)
qed

end

interpretation ao: config_editor applyOptionalFields as_BaseURL as_Token as_ServerSlug as_TLSInsecure as_GitHubToken
  by unfold_locales (simp add: applyOptionalFields_def orKeep_def Let_def split: option.split)

interpretation sc: config_editor setControlFields uc_BaseURL uc_Token uc_ServerSlug uc_TLSInsecure uc_GitHubToken
  by unfold_locales (simp add: setControlFields_def orKeep_def Let_def split: option.split)

section \<open>Writing in place\<close>

text \<open>The mode of a file after \<^verbatim>\<open>os.WriteFile\<close>: the given one counts only for a new file.\<close>

definition keptMode :: "FileMode \<Rightarrow> string \<Rightarrow> 'x world \<Rightarrow> FileMode" where
  "keptMode perm path w =
     (case w_fs w (fileKey w path) of Some (RegFile _ m) \<Rightarrow> m | _ \<Rightarrow> perm AND NOT (w_umask w))"

lemma keptMode_prepared: "prepared w path v \<Longrightarrow> keptMode perm path v = keptMode perm path w"
  using prepared_key [of w path v path] by (simp add: keptMode_def prepared_def same_setup_def split: option.split node.split)

lemma os_WriteFile_only: "only_changes {fileKey w p} w (snd (os_WriteFile p d perm w))"
proof -
  let ?K = "{fileKey w p}"
  obtain r1 w1 where 1: "os_OpenFile p perm w = (r1, w1)" by fastforce
  obtain r2 w2 where 2: "f_Write p d w1 = (r2, w2)" by fastforce
  have o1: "only_changes ?K w w1" using writing_only(1) [of w p ?K perm] 1 by simp
  have o2: "only_changes ?K w w2" using only_trans [OF o1] writing_only(3) [of w1 p ?K d] 2 only_key [OF o1] by simp
  have "only_changes ?K w (snd (f_Close p w2))" using only_trans [OF o2 syncing_only(2)] .
  then show ?thesis using o1 by (simp add: os_WriteFile_def 1 2 split: option.split)
qed

text \<open>The file is as it was, or holds the first bytes of the data; after success, all of them.\<close>

lemma os_OpenFile_keeps_mode:
  assumes "os_OpenFile p perm w = (None, w1)"
  shows "p \<noteq> [] \<and> w_fs w1 (fileKey w p) = Some (RegFile [] (keptMode perm p w))"
proof -
  obtain f v where v: "nextFault w = (f, v)" by fastforce
  have "w_umask v = w_umask w" using nextFault_only [OF v, of "{}"] by (simp add: only_changes_def same_setup_def)
  then show ?thesis
    using assms v
    by (auto simp: os_OpenFile_def effect_def keptMode_def node_at_def split: option.splits node.splits if_splits)
qed

lemma os_WriteFile_spec:
  assumes run: "os_WriteFile p d perm w = (r, w')"
  shows "w_fs w' (fileKey w p) = w_fs w (fileKey w p)
      \<or> (\<exists>n. w_fs w' (fileKey w p) = Some (RegFile (take n d) (keptMode perm p w)))"
    and "r = None \<Longrightarrow> w_fs w' (fileKey w p) = Some (RegFile d (keptMode perm p w))"
proof -
  obtain r1 w1 where 1: "os_OpenFile p perm w = (r1, w1)" by fastforce
  obtain r2 w2 where 2: "f_Write p d w1 = (r2, w2)" by fastforce
  obtain r3 w3 where 3: "f_Close p w2 = (r3, w3)" by fastforce
  note run' = run [unfolded os_WriteFile_def 1 prod.case 2 3]
  have k: "fileKey w1 p = fileKey w p" using only_key [OF writing_only(1) [of w p UNIV perm]] 1 by simp
  have w3: "w_fs w3 = w_fs w2" by (rule f_Close_ok [OF 3])
  have fail: "w_fs w1 = w_fs w" if "r1 = Some e" for e
    using 1 that by (auto simp: os_OpenFile_def effect_def split: prod.splits option.splits node.splits if_splits)
  have opened: "p \<noteq> []" "w_fs w1 (fileKey w1 p) = Some (RegFile [] (keptMode perm p w))" if "r1 = None"
    using os_OpenFile_keeps_mode [of p perm w w1] 1 k that by auto
  have part: "\<exists>n. w_fs w2 (fileKey w p) = Some (RegFile (take n d) (keptMode perm p w))" if "r1 = None" "r2 = Some e" for e
    using 2 opened [OF that(1)] that(2) k
    by (auto simp: f_Write_def appendData_def node_at_def split: prod.splits option.splits)
  have all: "w_fs w2 (fileKey w p) = Some (RegFile d (keptMode perm p w))" if "r1 = None" "r2 = None"
    using f_Write_ok [OF _ opened(1) [OF that(1)] opened(2) [OF that(1)], of d w2] 2 that(2) k by simp
  show "w_fs w' (fileKey w p) = w_fs w (fileKey w p)
      \<or> (\<exists>n. w_fs w' (fileKey w p) = Some (RegFile (take n d) (keptMode perm p w)))"
  proof (cases r1)
    case None
    show ?thesis
    proof (cases r2)
      case (Some e)
      then show ?thesis using part [OF None Some] run' None w3 by auto
    next
      case None': None
      then have "w_fs w' (fileKey w p) = Some (RegFile (take (length d) d) (keptMode perm p w))"
        using all [OF None None'] run' None w3 by simp
      then show ?thesis by blast
    qed
  qed (use fail run' in auto)
  show "r = None \<Longrightarrow> w_fs w' (fileKey w p) = Some (RegFile d (keptMode perm p w))"
    using run' all w3 by (auto split: option.splits)
qed

lemma writeFile_spec:
  assumes path: "filePath path" and run: "writeFile path d perm w = (r, w')"
  shows "w_fs w' (fileKey w path) = w_fs w (fileKey w path)
      \<or> (\<exists>n. w_fs w' (fileKey w path) = Some (RegFile (take n d) (keptMode perm path w)))"
    and "r = None \<Longrightarrow> w_fs w' (fileKey w path) = Some (RegFile d (keptMode perm path w))"
    and "w_fs w q \<noteq> None \<Longrightarrow> q \<noteq> fileKey w path \<Longrightarrow> w_fs w' q = w_fs w q" and "same_setup w w'"
proof -
  obtain r1 w1 where 1: "os_MkdirAll (pathDir path) w = (r1, w1)" by fastforce
  have p: "prepared w path w1" using prepared_mkdir [OF path, of w] 1 by simp
  note k = prepared_key [OF p] and m = keptMode_prepared [OF p, of perm]
  consider "r1 = None" "os_WriteFile path d perm w1 = (r, w')" | "r1 \<noteq> None" "r = r1" "w' = w1"
    using run by (auto simp: writeFile_def 1 split: option.splits)
  note cases = this
  have at: "w_fs w1 (fileKey w path) = w_fs w (fileKey w path)" using p by (simp add: prepared_def)
  have o: "only_changes {fileKey w path} w1 w'"
    using os_WriteFile_only [of w1 path d perm] k by (rule_tac cases) simp_all
  show "w_fs w q \<noteq> None \<Longrightarrow> q \<noteq> fileKey w path \<Longrightarrow> w_fs w' q = w_fs w q"
    using only_at [OF o, of q] p by (simp add: prepared_def)
  show "same_setup w w'" using only_setup [OF o] p by (auto simp: prepared_def intro: same_setup_trans)
  show "w_fs w' (fileKey w path) = w_fs w (fileKey w path)
      \<or> (\<exists>n. w_fs w' (fileKey w path) = Some (RegFile (take n d) (keptMode perm path w)))"
    using os_WriteFile_spec(1) [of path d perm w1] at by (rule_tac cases) (simp_all add: k m)
  show "r = None \<Longrightarrow> w_fs w' (fileKey w path) = Some (RegFile d (keptMode perm path w))"
    using os_WriteFile_spec(2) [of path d perm w1] by (rule_tac cases) (simp_all add: k m)
qed

interpretation fw: file_writer "\<lambda>s dest. writeFile dest (fst s) (snd s)"
  "\<lambda>s dest w. Some (fst s, keptMode (snd s) dest w)"
proof
  fix dest and s :: "string \<times> FileMode" and w w' :: "'x world" and q
  assume dest: "filePath dest"
  note spec = writeFile_spec [OF dest, of "fst s" "snd s" w]
  show "writeFile dest (fst s) (snd s) w = (None, w') \<Longrightarrow>
    \<exists>d m. Some (fst s, keptMode (snd s) dest w) = Some (d, m) \<and> w_fs w' (fileKey w dest) = Some (RegFile d m)"
    using spec(2) by simp
  show "w_fs w q \<noteq> None \<Longrightarrow> q \<noteq> fileKey w dest \<Longrightarrow> w_fs (snd (writeFile dest (fst s) (snd s) w)) q = w_fs w q"
    using spec(3) [OF prod.collapse [symmetric]] by blast
  show "same_setup w (snd (writeFile dest (fst s) (snd s) w))"
    using spec(4) [OF prod.collapse [symmetric]] .
qed

lemma keeps_file_writeFile:
  "filePath dest \<Longrightarrow> k \<noteq> fileKey w dest \<Longrightarrow> keeps_file k w (snd (writeFile dest d perm w))"
  using fw.put_frame [of dest w k "(d, perm)"] fw.put_setup [of dest w "(d, perm)"] by (simp add: keeps_file_def)

end
