(* ===== verification/Setup_Properties.thy ===== *)
theory Setup_Properties
  imports Agent_Setup
begin

text \<open>
  What \<^verbatim>\<open>setup\<close> and \<^verbatim>\<open>update-config\<close> do to the files: the fields that are given take effect and nothing else
  of the configuration changes; what a failing write leaves behind; and which configurations cannot be
  repaired with these commands.
\<close>

section \<open>Loading\<close>

lemma LoadFile_only: "only_changes {} w (snd (LoadFile env p w))"
  using ReadFile_only [of "{}" w p] by (simp add: LoadFile_def case_prod_beta)

lemma LoadFile_ok:
  assumes "LoadFile env p w = (Inr cfg, w1)"
  obtains d m where "w_fs w (fileKey w p) = Some (RegFile d m)" "Load (\<lambda>_. Inr d) (se_Unmarshal env) p = Inr cfg"
proof -
  obtain r where r: "os_ReadFile p w = (r, w1)" "Load (\<lambda>_. r) (se_Unmarshal env) p = Inr cfg"
    using assms by (auto simp: LoadFile_def split: prod.splits)
  then obtain d where d: "r = Inr d" by (auto simp: Load_Inr)
  then have "readNode p w = Inr d" using os_ReadFile_ok [of p w d w1] r(1) by simp
  then obtain m where "w_fs w (fileKey w p) = Some (RegFile d m)"
    by (auto simp: readNode_def node_at_def split: option.splits node.splits if_splits)
  then show thesis using that r(2) d by simp
qed

lemma os_Stat_missing:
  "os_Stat p w = (Inl e, w1) \<Longrightarrow> IsNotExist e \<Longrightarrow> p = [] \<or> w_fs w (fileKey w p) = None"
  by (auto simp: os_Stat_def guarded_def node_at_def IsNotExist_def faultErr_def
      split: prod.splits option.splits if_splits)

definition embeddedTemp :: "'x world \<Rightarrow> string" where
  "embeddedTemp w = pathJoin [os_TempDir w, ''xray-agent-embedded-config.yaml'']"

lemma setup_TempDir: "same_setup w v \<Longrightarrow> os_TempDir v = os_TempDir w"
  by (simp add: same_setup_def os_TempDir_def os_Getenv_def)

lemma loadConfig_only: "only_changes {fileKey w (embeddedTemp w)} w (snd (loadConfig env p w))"
proof -
  let ?T = "embeddedTemp w"
  let ?K = "{fileKey w ?T}"
  obtain r1 w1 where 1: "os_Stat p w = (r1, w1)" by fastforce
  obtain r2 w2 where 2: "os_WriteFile ?T (se_embeddedConfig env) (mode 6 0 0) w1 = (r2, w2)" by fastforce
  obtain r3 w3 where 3: "LoadFile env ?T w2 = (r3, w3)" by fastforce
  have o1: "only_changes ?K w w1" using reading_only(1) [of ?K w p] 1 by simp
  have o2: "only_changes ?K w w2"
    using only_trans [OF o1] os_WriteFile_only [of w1 ?T "se_embeddedConfig env" "mode 6 0 0"] 2 only_key [OF o1] by simp
  have o3: "only_changes ?K w w3" using only_trans [OF o2 only_mono [OF LoadFile_only [of w2 env ?T]]] 3 by simp
  have o4: "only_changes ?K w (snd (os_Remove ?T w3))"
    using only_trans [OF o3] writing_only(5) [of w3 ?T ?K] only_key [OF o3] by simp
  have oL: "only_changes ?K w (snd (LoadFile env p w1))" using only_trans [OF o1 only_mono [OF LoadFile_only]] by simp
  have t: "pathJoin [os_TempDir w1, ''xray-agent-embedded-config.yaml''] = ?T"
    using setup_TempDir [OF only_setup [OF o1]] by (simp add: embeddedTemp_def)
  show ?thesis
    using o1 o2 o4 oL by (simp add: loadConfig_def Let_def 1 t 2 3 split: sum.split option.split)
qed

text \<open>An existing configuration is loaded and nothing is changed.\<close>

lemma loadConfig_existing:
  assumes there: "w_fs w (fileKey w p) \<noteq> None" and p: "p \<noteq> []" and run: "loadConfig env p w = (r, w1)"
  shows "only_changes {} w w1"
    and "r = Inr cfg \<Longrightarrow> \<exists>d m. w_fs w (fileKey w p) = Some (RegFile d m) \<and> Load (\<lambda>_. Inr d) (se_Unmarshal env) p = Inr cfg"
proof -
  obtain s v where s: "os_Stat p w = (s, v)" by fastforce
  have o: "only_changes {} w v" using reading_only(1) [of "{}" w p] s by simp
  have "\<not> IsNotExist e" if "s = Inl e" for e using os_Stat_missing [of p w e v] there p s that by blast
  then consider e where "s = Inl e" "r = Inl e" "w1 = v" | n where "s = Inr n" "LoadFile env p v = (r, w1)"
    using run by (auto simp: loadConfig_def s split: sum.splits)
  note cases = this
  show "only_changes {} w w1" using o only_trans [OF o LoadFile_only [of v env p]] by (rule_tac cases) simp_all
  show "r = Inr cfg \<Longrightarrow> \<exists>d m. w_fs w (fileKey w p) = Some (RegFile d m) \<and> Load (\<lambda>_. Inr d) (se_Unmarshal env) p = Inr cfg"
    using only_key [OF o] only_nothing(1) [OF o] by (rule_tac cases) (auto elim: LoadFile_ok)
qed

section \<open>Changing the control fields\<close>

definition controlPath :: "UpdateControlOptions \<Rightarrow> string" where
  "controlPath opts = (if uc_ConfigPath opts = [] then defaultConfigPath else uc_ConfigPath opts)"

text \<open>The programs that are run leave the file \<open>k\<close> alone.\<close>

definition leaves :: "'x setup_env \<Rightarrow> string list \<Rightarrow> bool" where
  "leaves env k \<longleftrightarrow> (\<forall>args w. keeps_file k w (snd (se_run env args w)))"

lemma keeps_file_runCmd: "leaves env k \<Longrightarrow> keeps_file k w (snd (runCmd env args w))"
  by (simp add: leaves_def runCmd_def case_prod_beta)

text \<open>The ways through \<^verbatim>\<open>UpdateControl\<close>: refused or not loaded, or written and perhaps restarted.\<close>

lemma UpdateControl_cases:
  assumes run: "UpdateControl env opts w = (r, w')"
  obtains (refused) "r \<noteq> None" "w' = w"
  | (stop) c w1 where "loadConfig env (controlPath opts) w = (c, w1)" "r \<noteq> None" "w' = w1"
      "\<forall>cfg. c = Inr cfg \<longrightarrow> (\<exists>e. se_Marshal env (setControlFields opts cfg) = Inl e)"
  | (written) cfg w1 out r2 w2 where "loadConfig env (controlPath opts) w = (Inr cfg, w1)"
      "se_Marshal env (setControlFields opts cfg) = Inr out"
      "writeFile (controlPath opts) out (mode 6 0 0) w1 = (r2, w2)"
      "w' = w2 \<or> r2 = None \<and> w' = snd (runCmd env [''systemctl'', ''restart'', ''xray-agent''] w2)" "r = None \<longrightarrow> r2 = None"
proof -
  obtain c w1 where c: "loadConfig env (controlPath opts) w = (c, w1)" by fastforce
  note u = run [unfolded UpdateControl_def Let_def controlPath_def [symmetric] c prod.case]
  show thesis
  proof (cases c)
    case (Inl e)
    then show thesis using refused stop [OF c] u by (auto split: if_splits)
  next
    case (Inr cfg)
    show thesis
    proof (cases "se_Marshal env (setControlFields opts cfg)")
      case (Inl e)
      then show thesis using refused stop [OF c] u Inr by (auto split: if_splits)
    next
      case out: (Inr out)
      obtain r2 w2 where w2: "writeFile (controlPath opts) out (mode 6 0 0) w1 = (r2, w2)" by fastforce
      obtain r3 w3 where w3: "runCmd env [''systemctl'', ''restart'', ''xray-agent''] w2 = (r3, w3)" by fastforce
      have "r \<noteq> None \<and> w' = w \<or>
        (w' = w2 \<or> r2 = None \<and> w' = snd (runCmd env [''systemctl'', ''restart'', ''xray-agent''] w2)) \<and> (r = None \<longrightarrow> r2 = None)"
        using u Inr out w2 w3 by (auto split: if_splits option.splits)
      then show thesis using refused written [OF c [unfolded Inr] out w2] by blast
    qed
  qed
qed

text \<open>
  If \<^verbatim>\<open>UpdateControl\<close> succeeds on an existing configuration, loading the file afterwards gives the
  configuration that loading it gave before with the fields set, and the file keeps its mode (so the
  mode 0600 that the code passes is not applied to a file that others can read). YAML decoding inverts
  encoding, and the restarted service does not write the file.
\<close>

lemma UpdateControl_effect:
  assumes path: "filePath (controlPath opts)" and there: "w_fs w (fileKey w (controlPath opts)) = Some (RegFile d m)"
    and yaml: "\<forall>c out. se_Marshal env c = Inr out \<longrightarrow> se_Unmarshal env out = Inr c"
    and quiet: "leaves env (fileKey w (controlPath opts))" and run: "UpdateControl env opts w = (None, w')"
  shows "\<exists>cfg d'. Load (\<lambda>_. Inr d) (se_Unmarshal env) (controlPath opts) = Inr cfg
    \<and> w_fs w' (fileKey w (controlPath opts)) = Some (RegFile d' m)
    \<and> Load (\<lambda>_. Inr d') (se_Unmarshal env) (controlPath opts) = Inr (setControlFields opts cfg)"
  using run
proof (rule UpdateControl_cases, goal_cases)
  case (3 cfg w1 out r2 w2)
  let ?p = "controlPath opts" and ?cfg' = "setControlFields opts cfg"
  have p: "?p \<noteq> []" using path by (auto simp: filePath_def lastName_def plain_def)
  note old = loadConfig_existing [OF _ p 3(1)]
  have load: "Load (\<lambda>_. Inr d) (se_Unmarshal env) ?p = Inr cfg" and o: "only_changes {} w w1" using old there by auto
  have m: "keptMode (mode 6 0 0) ?p w1 = m"
    using there only_key [OF o] only_nothing(1) [OF o] by (simp add: keptMode_def)
  have new: "w_fs w2 (fileKey w ?p) = Some (RegFile out m)" "same_setup w1 w2"
    using writeFile_spec(2,4) [OF path 3(3)] 3(5) m only_key [OF o] by simp_all
  have cf: "w_fs w' (fileKey w ?p) = Some (RegFile out m)"
    using new(1) 3(4) keeps_file_runCmd [OF quiet, of w2] by (auto simp: keeps_file_def)
  have load': "Load (\<lambda>_. Inr out) (se_Unmarshal env) ?p = Inr ?cfg'"
    by (rule sc.edit_load [OF load]) (use yaml 3(2) in blast)
  show ?case using load cf load' by blast
qed simp_all

section \<open>Installing\<close>

text \<open>Writing one file may make another path a directory, but never changes a file.\<close>

definition gains_dirs :: "string list \<Rightarrow> 'x world \<Rightarrow> 'x world \<Rightarrow> bool" where
  "gains_dirs q w w' \<longleftrightarrow> same_setup w w' \<and> (w_fs w' q = w_fs w q \<or> w_fs w q = None \<and> w_fs w' q = Some Directory)"

lemma gains_dirs_only: "only_changes K w w' \<Longrightarrow> q \<notin> K \<Longrightarrow> gains_dirs q w w'"
  by (simp add: gains_dirs_def only_setup only_at)

lemma gains_dirs_trans: "gains_dirs q w v \<Longrightarrow> gains_dirs q v u \<Longrightarrow> gains_dirs q w u"
  by (auto simp: gains_dirs_def intro: same_setup_trans)

lemma gains_dirs_mkdir: "gains_dirs q w (snd (os_MkdirAll p w))"
  using only_setup [OF os_MkdirAll_only [of w p]]
  by (cases "nextFault w") (auto simp: gains_dirs_def os_MkdirAll_def Let_def makeDirs_def split: option.splits)

lemma gains_dirs_keptMode: "gains_dirs (fileKey w p) w v \<Longrightarrow> keptMode perm p v = keptMode perm p w"
  using same_setup_key [of w v p] by (auto simp: gains_dirs_def keptMode_def same_setup_def split: option.split node.split)

lemma writeFile_gains: "q \<noteq> fileKey w path \<Longrightarrow> gains_dirs q w (snd (writeFile path d perm w))"
proof -
  assume q: "q \<noteq> fileKey w path"
  obtain r1 w1 where 1: "os_MkdirAll (pathDir path) w = (r1, w1)" by fastforce
  have g: "gains_dirs q w w1" using gains_dirs_mkdir [of q w "pathDir path"] 1 by simp
  then have "fileKey w1 path = fileKey w path" by (simp add: gains_dirs_def same_setup_key)
  then have "gains_dirs q w (snd (os_WriteFile path d perm w1))"
    using gains_dirs_trans [OF g gains_dirs_only [OF os_WriteFile_only]] q by simp
  then show ?thesis using g by (simp add: writeFile_def 1 split: option.split)
qed

text \<open>The file after a run of the configuration step that succeeds.\<close>

definition configured :: "'x setup_env \<Rightarrow> Options \<Rightarrow> 'x world \<Rightarrow> node option \<Rightarrow> bool" where
  "configured env opts w n \<longleftrightarrow>
     (case w_fs w (fileKey w (as_ConfigPath opts)) of
        None \<Rightarrow> n = Some (RegFile (newConfig env opts) (mode 6 0 0 AND NOT (w_umask w)))
      | Some old \<Rightarrow> \<exists>d m cfg out. old = RegFile d m \<and> Load (\<lambda>_. Inr d) (se_Unmarshal env) (as_ConfigPath opts) = Inr cfg
          \<and> se_Marshal env (applyOptionalFields opts cfg) = Inr out \<and> n = Some (RegFile out m))"

lemma ensureConfig_gains:
  assumes "q \<noteq> fileKey w (as_ConfigPath opts)"
  shows "gains_dirs q w (snd (ensureConfig env opts w))"
proof -
  let ?p = "as_ConfigPath opts"
  obtain r1 w1 where 1: "os_Stat ?p w = (r1, w1)" by fastforce
  obtain r2 w2 where 2: "LoadFile env ?p w1 = (r2, w2)" by fastforce
  have o1: "only_changes {} w w1" using reading_only(1) [of "{}" w ?p] 1 by simp
  have o2: "only_changes {} w w2" using only_trans [OF o1 LoadFile_only [of w1 env ?p]] 2 by simp
  have g: "gains_dirs q w (snd (writeFile ?p d perm v))" if "only_changes {} w v" for v d perm
    using gains_dirs_trans [OF gains_dirs_only [OF that] writeFile_gains] assms only_key [OF that] by simp
  show ?thesis
    using gains_dirs_only [OF o1] gains_dirs_only [OF o2] g [OF o1] g [OF o2]
    by (simp add: ensureConfig_def updateConfigFields_def 1 2 split: sum.split)
qed

lemma ensureConfig_ok:
  assumes path: "filePath (as_ConfigPath opts)" and run: "ensureConfig env opts w = (None, w')"
  shows "configured env opts w (w_fs w' (fileKey w (as_ConfigPath opts)))"
proof -
  let ?p = "as_ConfigPath opts"
  have p: "?p \<noteq> []" using path by (auto simp: filePath_def lastName_def plain_def)
  obtain r1 w1 where 1: "os_Stat ?p w = (r1, w1)" by fastforce
  have o1: "only_changes {} w w1" using reading_only(1) [of "{}" w ?p] 1 by simp
  note k1 = only_key [OF o1] and fs1 = only_nothing(1) [OF o1]
  show ?thesis
  proof (cases r1)
    case (Inl e)
    then have "IsNotExist e" and new: "writeFile ?p (newConfig env opts) (mode 6 0 0) w1 = (None, w')"
      using run by (auto simp: ensureConfig_def 1 split: if_splits)
    then have none: "w_fs w (fileKey w ?p) = None" using os_Stat_missing [of ?p w e w1] 1 Inl p by simp
    moreover have "keptMode (mode 6 0 0) ?p w1 = (mode 6 0 0 AND NOT (w_umask w))"
      using none k1 fs1 only_setup [OF o1] by (simp add: keptMode_def same_setup_def)
    ultimately show ?thesis using writeFile_spec(2) [OF path new] k1 by (simp add: configured_def)
  next
    case (Inr n)
    obtain r2 w2 where 2: "LoadFile env ?p w1 = (r2, w2)" by fastforce
    obtain cfg out where cfg: "r2 = Inr cfg" "se_Marshal env (applyOptionalFields opts cfg) = Inr out"
      "writeFile ?p out (mode 6 0 0) w2 = (None, w')"
      using run by (auto simp: ensureConfig_def updateConfigFields_def 1 Inr 2 split: sum.splits)
    obtain d m where d: "w_fs w (fileKey w ?p) = Some (RegFile d m)" "Load (\<lambda>_. Inr d) (se_Unmarshal env) ?p = Inr cfg"
      using LoadFile_ok [of env ?p w1 cfg w2] 2 cfg(1) k1 fs1 by auto
    have o2: "only_changes {} w w2" using only_trans [OF o1 LoadFile_only [of w1 env ?p]] 2 by simp
    have "keptMode (mode 6 0 0) ?p w2 = m" using d(1) only_key [OF o2] only_nothing(1) [OF o2] by (simp add: keptMode_def)
    then show ?thesis using writeFile_spec(2) [OF path cfg(3)] only_key [OF o2] d cfg(2) by (auto simp: configured_def)
  qed
qed

lemma installBinary_ok:
  assumes path: "filePath (as_BinPath opts)" and exe: "w_exe w = Inr src" and run: "installBinary opts w = (None, w')"
  obtains d where "readNode src w = Inr d" "w_fs w' (fileKey w (as_BinPath opts)) = Some (RegFile d (keptMode (mode 7 5 5) (as_BinPath opts) w))"
proof -
  obtain d w1 where 1: "os_ReadFile src w = (Inr d, w1)" and 2: "writeFile (as_BinPath opts) d (mode 7 5 5) w1 = (None, w')"
    using run by (auto simp: installBinary_def exe split: prod.splits sum.splits option.splits)
  have o1: "only_changes {} w w1" using ReadFile_only [of "{}" w src] 1 by simp
  have "keptMode (mode 7 5 5) (as_BinPath opts) w1 = keptMode (mode 7 5 5) (as_BinPath opts) w"
    using gains_dirs_keptMode [OF gains_dirs_only [OF o1]] by simp
  then show thesis
    using that [OF os_ReadFile_ok [OF 1]] writeFile_spec(2) [OF path 2] only_key [OF o1] by simp
qed

lemma installBinary_keeps:
  assumes "filePath (as_BinPath opts)" and "k \<noteq> fileKey w (as_BinPath opts)"
  shows "keeps_file k w (snd (installBinary opts w))" "gains_dirs k w (snd (installBinary opts w))"
proof -
  have "keeps_file k w (snd (installBinary opts w)) \<and> gains_dirs k w (snd (installBinary opts w))"
  proof (cases "w_exe w")
    case (Inl e)
    then show ?thesis by (simp add: installBinary_def gains_dirs_def same_setup_def)
  next
    case (Inr src)
    obtain r1 w1 where 1: "os_ReadFile src w = (r1, w1)" by fastforce
    have o1: "only_changes {} w w1" using ReadFile_only [of "{}" w src] 1 by simp
    have "keeps_file k w (snd (writeFile (as_BinPath opts) d perm w1))" "gains_dirs k w (snd (writeFile (as_BinPath opts) d perm w1))"
      for d perm
      using keeps_file_trans [OF keeps_file_only [OF o1] keeps_file_writeFile]
        gains_dirs_trans [OF gains_dirs_only [OF o1] writeFile_gains] assms only_key [OF o1] by simp_all
    then show ?thesis
      using keeps_file_only [OF o1] gains_dirs_only [OF o1]
      by (simp add: installBinary_def Inr 1 case_prod_beta split: sum.split option.split)
  qed
  then show "keeps_file k w (snd (installBinary opts w))" "gains_dirs k w (snd (installBinary opts w))" by simp_all
qed

section \<open>Properties\<close>

text \<open>
  C21: what a failing \<^verbatim>\<open>update-config\<close> leaves. The configuration is written in place, so after any run it is
  as it was or holds the first bytes of the new text, down to none at all; only the file that the code
  uses for the embedded sample may change besides.
\<close>

theorem update_control_may_truncate:
  assumes path: "filePath (controlPath opts)" and temp: "fileKey w (controlPath opts) \<noteq> fileKey w (embeddedTemp w)"
    and quiet: "leaves env (fileKey w (controlPath opts))" "leaves env q"
    and q: "w_fs w q \<noteq> None" "q \<noteq> fileKey w (embeddedTemp w)" "q \<noteq> fileKey w (controlPath opts)"
  shows "(w_fs (snd (UpdateControl env opts w)) (fileKey w (controlPath opts)) = w_fs w (fileKey w (controlPath opts))
      \<or> (\<exists>cfg out n. se_Marshal env (setControlFields opts cfg) = Inr out
          \<and> w_fs (snd (UpdateControl env opts w)) (fileKey w (controlPath opts))
            = Some (RegFile (take n out) (keptMode (mode 6 0 0) (controlPath opts) w))))
    \<and> w_fs (snd (UpdateControl env opts w)) q = w_fs w q"
proof (cases "UpdateControl env opts w")
  case (Pair r w')
  let ?p = "controlPath opts"
  have o: "only_changes {fileKey w (embeddedTemp w)} w w1" if "loadConfig env ?p w = (c, w1)" for c w1
    using loadConfig_only [of w env ?p] that by simp
  show ?thesis
    using Pair
  proof (rule UpdateControl_cases, goal_cases)
    case (2 c w1)
    then show ?case using Pair only_at [OF o [OF 2(1)]] temp q by simp
  next
    case (3 cfg w1 out r2 w2)
    note k = only_key [OF o [OF 3(1)]] and same = only_at [OF o [OF 3(1)]]
    have m: "keptMode (mode 6 0 0) ?p w1 = keptMode (mode 6 0 0) ?p w"
      using same [of "fileKey w ?p"] temp k only_setup [OF o [OF 3(1)]]
      by (simp add: keptMode_def same_setup_def split: option.split node.split)
    have state: "w_fs w2 (fileKey w ?p) = w_fs w (fileKey w ?p)
        \<or> (\<exists>n. w_fs w2 (fileKey w ?p) = Some (RegFile (take n out) (keptMode (mode 6 0 0) ?p w)))"
      using writeFile_spec(1) [OF path 3(3)] same [of "fileKey w ?p"] temp k m by simp
    have "w_fs w2 q = w_fs w q" using writeFile_spec(3) [OF path 3(3), of q] same [of q] q k by simp
    moreover have "w_fs w' q = w_fs w2 q"
      using 3(4) keeps_file_runCmd [OF quiet(2), of w2] q(1) calculation by (auto simp: keeps_file_def)
    moreover have "w_fs w' (fileKey w ?p) = w_fs w2 (fileKey w ?p)"
      using 3(4) keeps_file_runCmd [OF quiet(1), of w2] writeFile_spec(2) [OF path 3(3)] k by (auto simp: keeps_file_def)
    ultimately show ?case using state 3(2) Pair by auto
  qed (use Pair in simp)
qed

text \<open>
  C20: a setup that succeeds leaves the agent installed: the binary holds the bytes of the running
  program, the unit file is the embedded one, a new configuration is the embedded sample with the given
  fields and mode 0600, and an existing one is written again from its loaded form with the given fields,
  even if none is given, with the mode it had.
\<close>

theorem setup_installs:
  assumes opts: "opts = withDefaults opts0"
    and paths: "filePath (as_ConfigPath opts)" "filePath (as_BinPath opts)" "filePath (as_ServicePath opts)"
    and apart: "distinct [fileKey w (as_ConfigPath opts), fileKey w (as_BinPath opts), fileKey w (as_ServicePath opts)]"
    and exe: "w_exe w = Inr src" "fileKey w src \<noteq> fileKey w (as_ConfigPath opts)"
    and quiet: "\<forall>k. leaves env k" and run: "Install env opts0 w = (None, w')"
  shows "\<exists>d. readNode src w = Inr d
    \<and> w_fs w' (fileKey w (as_BinPath opts)) = Some (RegFile d (keptMode (mode 7 5 5) (as_BinPath opts) w))
    \<and> w_fs w' (fileKey w (as_ServicePath opts))
        = Some (RegFile (se_embeddedService env) (keptMode (mode 6 4 4) (as_ServicePath opts) w))
    \<and> configured env opts w (w_fs w' (fileKey w (as_ConfigPath opts)))"
proof -
  let ?C = "fileKey w (as_ConfigPath opts)" and ?B = "fileKey w (as_BinPath opts)" and ?S = "fileKey w (as_ServicePath opts)"
  obtain w1 w2 w3 w4 where 1: "ensureConfig env opts w = (None, w1)" and 2: "installBinary opts w1 = (None, w2)"
    and 3: "writeFile (as_ServicePath opts) (se_embeddedService env) (mode 6 4 4) w2 = (None, w3)"
    and 4: "runCmd env [''systemctl'', ''daemon-reload''] w3 = (None, w4)"
    and 5: "runCmd env [''systemctl'', ''enable'', ''--now'', ''xray-agent''] w4 = (None, w')"
    using run by (auto simp: Install_def opts [symmetric] Let_def split: prod.splits option.splits)
  have ne: "?B \<noteq> ?C" "?C \<noteq> ?B" "?S \<noteq> ?C" "?C \<noteq> ?S" "?S \<noteq> ?B" "?B \<noteq> ?S" using apart by (simp_all add: eq_commute)
  have g1: "gains_dirs q w w1" if "q \<noteq> ?C" for q using ensureConfig_gains [OF that, of env] 1 by simp
  have k1: "fileKey w1 p = fileKey w p" for p using g1 [OF ne(1)] by (simp add: gains_dirs_def same_setup_key)
  have g2: "gains_dirs q w1 w2" "keeps_file q w1 w2" if "q \<noteq> ?B" for q
    using installBinary_keeps [OF paths(2), of q w1] that 2 k1 by simp_all
  have k2: "fileKey w2 p = fileKey w p" for p using g2(1) [OF ne(2)] k1 same_setup_key [of w1 w2] by (simp add: gains_dirs_def)
  have run5: "keeps_file q w3 w'" for q
    using keeps_file_trans [of q w3 w4 w'] keeps_file_runCmd [of env q w3 "[''systemctl'', ''daemon-reload'']"]
      keeps_file_runCmd [of env q w4 "[''systemctl'', ''enable'', ''--now'', ''xray-agent'']"] quiet 4 5 by simp
  have kp: "keeps_file q w2 w'" if "q \<noteq> ?S" for q
    using keeps_file_writeFile [OF paths(3), of q w2 "se_embeddedService env" "mode 6 4 4"] that 3 k2
      keeps_file_trans [OF _ run5] by simp
  have "w_exe w1 = Inr src" using g1 [OF ne(1)] exe(1) by (simp add: gains_dirs_def same_setup_def)
  then obtain d where d: "readNode src w1 = Inr d" "w_fs w2 ?B = Some (RegFile d (keptMode (mode 7 5 5) (as_BinPath opts) w1))"
    using installBinary_ok [OF paths(2) _ 2] k1 by metis
  have "readNode src w = Inr d"
    using d(1) g1 [OF exe(2)] k1 [of src]
    by (cases "w_fs w (fileKey w src)") (auto simp: readNode_def node_at_def gains_dirs_def split: option.splits node.splits if_splits)
  moreover have "w_fs w' ?B = Some (RegFile d (keptMode (mode 7 5 5) (as_BinPath opts) w))"
    using d(2) kp [OF ne(6)] gains_dirs_keptMode [OF g1 [OF ne(1)]] by (simp add: keeps_file_def)
  moreover have "w_fs w' ?S = Some (RegFile (se_embeddedService env) (keptMode (mode 6 4 4) (as_ServicePath opts) w))"
    using writeFile_spec(2) [OF paths(3) 3] run5 [of ?S] k2
      gains_dirs_keptMode [OF gains_dirs_trans [OF g1 [OF ne(3)] g2(1) [OF ne(5)]], of "mode 6 4 4"] by (simp add: keeps_file_def)
  moreover have "configured env opts w (w_fs w1 ?C)" using ensureConfig_ok [OF paths(1) 1] .
  then have "configured env opts w (w_fs w' ?C)"
    using g2(2) [OF ne(2)] kp [OF ne(4)] by (auto simp: configured_def keeps_file_def split: option.splits)
  ultimately show ?thesis by blast
qed

text \<open>
  C22: a configuration that \<^verbatim>\<open>Load\<close> refuses, say one without a token, cannot be completed with these
  commands: whatever fields are given, both fail and no file changes.
\<close>

theorem refused_config_cannot_be_completed:
  assumes there: "w_fs w (fileKey w path) = Some (RegFile d m)" "path \<noteq> []"
    and refused: "Load (\<lambda>_. Inr d) (se_Unmarshal env) path = Inl e"
    and upd: "controlPath uopts = path" and inst: "as_ConfigPath (withDefaults opts0) = path"
  shows "fst (UpdateControl env uopts w) \<noteq> None \<and> w_fs (snd (UpdateControl env uopts w)) = w_fs w
    \<and> fst (Install env opts0 w) \<noteq> None \<and> w_fs (snd (Install env opts0 w)) = w_fs w"
proof -
  obtain r1 w1 where 1: "loadConfig env path w = (r1, w1)" by fastforce
  note old = loadConfig_existing [OF _ there(2) 1]
  have "only_changes {} w w1" and "r1 \<noteq> Inr cfg" for cfg using old(1) old(2) [of cfg] there(1) refused by auto
  note stop = this
  have upd': "fst (UpdateControl env uopts w) \<noteq> None \<and> w_fs (snd (UpdateControl env uopts w)) = w_fs w"
  proof (rule UpdateControl_cases [OF prod.collapse [symmetric], of env uopts w], goal_cases)
    case (2 c v)
    then show ?case using 1 upd only_nothing(1) [OF stop(1)] by simp
  qed (use 1 upd stop(2) in simp_all)
  obtain s v where s: "os_Stat path w = (s, v)" by fastforce
  obtain r2 w2 where 2: "LoadFile env path v = (r2, w2)" by fastforce
  have o: "only_changes {} w v" using reading_only(1) [of "{}" w path] s by simp
  have o2: "only_changes {} w w2" using only_trans [OF o LoadFile_only [of v env path]] 2 by simp
  have "\<not> IsNotExist x" if "s = Inl x" for x using os_Stat_missing [of path w x v] there s that by auto
  moreover have "r2 \<noteq> Inr cfg" for cfg
    using LoadFile_ok [of env path v cfg w2] 2 there refused only_key [OF o] only_nothing(1) [OF o] by fastforce
  then obtain x where "r2 = Inl x" by (cases r2) auto
  ultimately show ?thesis
    using upd' only_nothing(1) [OF o] only_nothing(1) [OF o2]
    by (auto simp: Install_def inst ensureConfig_def updateConfigFields_def s 2 Let_def split: sum.splits)
qed

end
