(* ===== verification/Go_Map.thy ===== *)
theory Go_Map
  imports Go_Prelude "HOL-Library.AList"
begin

text \<open>
  Go maps. A map value is an association list with one entry per key; the order of the
  entries carries no meaning. What \<^verbatim>\<open>range\<close> visits first is not specified by the language,
  so every loop over a map takes the order as a parameter: a function that permutes the list
  of keys. The interface \<open>keyed_map\<close> states what the components rely on, and the facts
  that the components use about a map filled by a loop are proved once from it.
\<close>

section \<open>Operations\<close>

type_synonym ('k, 'v) gomap = "('k \<times> 'v) list"

definition go_get :: "('k, 'v) gomap \<Rightarrow> 'k \<Rightarrow> 'v option" where
  "go_get m k = map_of m k"

definition go_set :: "'k \<Rightarrow> 'v \<Rightarrow> ('k, 'v) gomap \<Rightarrow> ('k, 'v) gomap" where
  "go_set k v m = AList.update k v m"

definition go_delete :: "'k \<Rightarrow> ('k, 'v) gomap \<Rightarrow> ('k, 'v) gomap" where
  "go_delete k m = AList.delete k m"

definition go_keys :: "('k, 'v) gomap \<Rightarrow> 'k list" where
  "go_keys m = map fst m"

definition go_len :: "('k, 'v) gomap \<Rightarrow> nat" where
  "go_len m = length m"

definition go_wf :: "('k, 'v) gomap \<Rightarrow> bool" where
  "go_wf m \<longleftrightarrow> distinct (map fst m)"

text \<open>The loop \<^verbatim>\<open>for _, x := range xs { m[key(x)] = x }\<close> over a slice, from an empty map.\<close>

definition go_index :: "('a \<Rightarrow> 'k) \<Rightarrow> 'a list \<Rightarrow> ('k, 'a) gomap" where
  "go_index key xs = foldl (\<lambda>m x. go_set (key x) x m) [] xs"

text \<open>The pairs that \<^verbatim>\<open>for k, v := range m\<close> visits, in the order \<open>ord\<close>.\<close>

type_synonym 'k range_order = "'k list \<Rightarrow> 'k list"

definition go_range :: "'k range_order \<Rightarrow> ('k, 'v) gomap \<Rightarrow> ('k \<times> 'v) list" where
  "go_range ord m = List.map_filter (\<lambda>k. map_option (Pair k) (go_get m k)) (ord (go_keys m))"

definition range_order :: "'k range_order \<Rightarrow> bool" where
  "range_order ord \<longleftrightarrow> (\<forall>ks. mset (ord ks) = mset ks)"

lemma range_order_id [simp]: "range_order (\<lambda>ks. ks)"
  by (simp add: range_order_def)

lemma range_order_rev [simp]: "range_order rev"
  by (simp add: range_order_def)

section \<open>The interface\<close>

locale keyed_map =
  fixes empty :: 'm
    and put :: "'k \<Rightarrow> 'v \<Rightarrow> 'm \<Rightarrow> 'm"
    and del :: "'k \<Rightarrow> 'm \<Rightarrow> 'm"
    and get :: "'m \<Rightarrow> 'k \<Rightarrow> 'v option"
    and keys :: "'m \<Rightarrow> 'k list"
    and wf :: "'m \<Rightarrow> bool"
  assumes wf_empty: "wf empty"
    and wf_put: "wf m \<Longrightarrow> wf (put k v m)"
    and wf_del: "wf m \<Longrightarrow> wf (del k m)"
    and get_empty: "get empty k = None"
    and get_put: "get (put k v m) k' = (if k' = k then Some v else get m k')"
    and get_del: "get (del k m) k' = (if k' = k then None else get m k')"
    and set_keys: "set (keys m) = {k. get m k \<noteq> None}"
    and distinct_keys: "wf m \<Longrightarrow> distinct (keys m)"
begin

lemma wf_fill: "wf m \<Longrightarrow> wf (foldl (\<lambda>m x. put (key x) (val x) m) m xs)"
  by (induction xs arbitrary: m) (simp_all add: wf_put)

text \<open>A map filled by a loop holds, for a key, what the last element with that key stored.\<close>

lemma get_fill:
  "get (foldl (\<lambda>m x. put (key x) (val x) m) m xs) k =
     (case List.find (\<lambda>x. key x = k) (rev xs) of Some x \<Rightarrow> Some (val x) | None \<Rightarrow> get m k)"
proof (induction xs rule: rev_induct)
  case (snoc x xs)
  then show ?case by (auto simp: get_put)
qed simp

lemma set_keys_fill:
  "set (keys (foldl (\<lambda>m x. put (key x) (val x) m) m xs)) = set (keys m) \<union> key ` set xs"
proof (induction xs arbitrary: m)
  case (Cons x xs)
  have "set (keys (put (key x) (val x) m)) = insert (key x) (set (keys m))"
    by (auto simp: set_keys get_put)
  with Cons show ?case by simp
qed simp

lemma length_keys: "wf m \<Longrightarrow> length (keys m) = card {k. get m k \<noteq> None}"
  by (metis distinct_keys distinct_card set_keys)

lemma get_put_same [simp]: "get (put k v m) k = Some v"
  and get_put_other: "k' \<noteq> k \<Longrightarrow> get (put k v m) k' = get m k'"
  and get_del_same [simp]: "get (del k m) k = None"
  and get_del_other: "k' \<noteq> k \<Longrightarrow> get (del k m) k' = get m k'"
  by (simp_all add: get_put get_del)

end

interpretation gm: keyed_map "[]" go_set go_delete go_get go_keys go_wf
proof unfold_locales
  fix m :: "('a, 'b) gomap" and k k' :: 'a and v :: 'b
  show "go_wf ([] :: ('a, 'b) gomap)" by (simp add: go_wf_def)
  show "go_wf m \<Longrightarrow> go_wf (go_set k v m)" by (simp add: go_wf_def go_set_def distinct_update)
  show "go_wf m \<Longrightarrow> go_wf (go_delete k m)" by (simp add: go_wf_def go_delete_def distinct_delete)
  show "go_get ([] :: ('a, 'b) gomap) k = None" by (simp add: go_get_def)
  show "go_get (go_set k v m) k' = (if k' = k then Some v else go_get m k')"
    by (simp add: go_get_def go_set_def update_conv')
  show "go_get (go_delete k m) k' = (if k' = k then None else go_get m k')"
    by (simp add: go_get_def go_delete_def delete_conv')
  show "set (go_keys m) = {k. go_get m k \<noteq> None}"
    by (auto simp: go_keys_def go_get_def map_of_eq_None_iff)
  show "go_wf m \<Longrightarrow> distinct (go_keys m)" by (simp add: go_wf_def go_keys_def)
qed

section \<open>Facts for the components\<close>

lemmas go_map_simps [simp] = gm.get_empty gm.get_put gm.get_del gm.wf_empty gm.wf_put gm.wf_del

lemma wf_go_index [simp]: "go_wf (go_index key xs)"
  unfolding go_index_def by (rule gm.wf_fill [where val = "\<lambda>x. x"]) simp

text \<open>The element a key stands for in a slice: the last one with that key.\<close>

definition last_with :: "('a \<Rightarrow> 'k) \<Rightarrow> 'a list \<Rightarrow> 'k \<Rightarrow> 'a option" where
  "last_with key xs k = List.find (\<lambda>x. key x = k) (rev xs)"

lemma go_get_index [simp]: "go_get (go_index key xs) k = last_with key xs k"
  using gm.get_fill [of key "\<lambda>x. x" "[]" xs k]
  by (simp add: go_index_def last_with_def split: option.splits)

lemma go_len_index: "go_len (go_index key xs) = card (key ` set xs)"
proof -
  have "length (go_keys (go_index key xs)) = card (set (go_keys (go_index key xs)))"
    using gm.distinct_keys [OF wf_go_index, of key xs] by (simp add: distinct_card)
  also have "set (go_keys (go_index key xs)) = key ` set xs"
    using gm.set_keys_fill [of key "\<lambda>x. x" "[]" xs] by (simp add: go_index_def go_keys_def)
  finally show ?thesis by (simp add: go_len_def go_keys_def)
qed

lemma last_with_Nil [simp]: "last_with key [] k = None"
  by (simp add: last_with_def)

lemma last_with_snoc [simp]:
  "last_with key (xs @ [x]) k = (if key x = k then Some x else last_with key xs k)"
  by (simp add: last_with_def)

lemma last_with_append:
  "last_with key (xs @ ys) k =
     (case last_with key ys k of Some y \<Rightarrow> Some y | None \<Rightarrow> last_with key xs k)"
  by (induction ys rule: rev_induct) (simp_all flip: append_assoc)

lemma last_with_None: "last_with key xs k = None \<longleftrightarrow> k \<notin> key ` set xs"
  by (auto simp: last_with_def find_None_iff)

lemma last_with_SomeD: "last_with key xs k = Some x \<Longrightarrow> x \<in> set xs \<and> key x = k"
  by (auto simp: last_with_def find_Some_iff) (metis length_rev nth_mem set_rev)

text \<open>Without repeated keys the last element with a key is the only one.\<close>

lemma last_with_distinct:
  "distinct (map key xs) \<Longrightarrow> x \<in> set xs \<Longrightarrow> last_with key xs (key x) = Some x"
proof (induction xs rule: rev_induct)
  case (snoc y ys)
  then show ?case by (auto simp: image_iff)
qed simp

lemma last_with_distinct_iff:
  "distinct (map key xs) \<Longrightarrow> last_with key xs k = Some x \<longleftrightarrow> x \<in> set xs \<and> key x = k"
  using last_with_SomeD last_with_distinct by metis

subsection \<open>Ranges\<close>

lemma map_fst_go_range:
  assumes "range_order ord"
  shows "map fst (go_range ord m) = ord (go_keys m)"
proof -
  have "\<forall>k\<in>set (ord (go_keys m)). go_get m k \<noteq> None"
    using assms gm.set_keys [of m] unfolding range_order_def by (metis mem_Collect_eq mset_eq_setD)
  moreover have "\<forall>k\<in>set ks. go_get m k \<noteq> None \<Longrightarrow>
      map fst (List.map_filter (\<lambda>k. map_option (Pair k) (go_get m k)) ks) = ks" for ks
    by (induction ks) (auto simp: map_filter_simps)
  ultimately show ?thesis by (simp add: go_range_def)
qed

lemma set_go_range:
  assumes "range_order ord"
  shows "(k, v) \<in> set (go_range ord m) \<longleftrightarrow> go_get m k = Some v"
proof -
  have "set (ord (go_keys m)) = {k. go_get m k \<noteq> None}"
    using assms gm.set_keys [of m] unfolding range_order_def by (metis mset_eq_setD)
  then show ?thesis
    by (force simp: go_range_def map_filter_def image_iff)
qed

lemma set_filter_go_range:
  assumes "range_order ord"
  shows "x \<in> set (map snd (filter (\<lambda>(k, v). P k v) (go_range ord m))) \<longleftrightarrow> (\<exists>k. go_get m k = Some x \<and> P k x)"
  by (simp add: image_iff Bex_def set_go_range [OF assms])

lemma distinct_go_range:
  assumes "range_order ord" and "go_wf m"
  shows "distinct (map fst (go_range ord m))"
proof -
  have "distinct (go_keys m)" using assms(2) by (rule gm.distinct_keys)
  then have "distinct (ord (go_keys m))"
    using assms(1) unfolding range_order_def by (metis mset_eq_imp_distinct_iff)
  then show ?thesis by (simp add: map_fst_go_range [OF assms(1)])
qed

subsection \<open>Copies\<close>

text \<open>A loop that copies a map entry by entry gives the map back.\<close>

lemma go_fill_wf:
  assumes "go_wf m"
  shows "foldl (\<lambda>m kv. go_set (fst kv) (snd kv) m) [] m = m"
proof -
  have upd: "k \<notin> fst ` set a \<Longrightarrow> go_set k v a = a @ [(k, v)]" for k v and a :: "('a \<times> 'b) list"
    by (induction a) (auto simp: go_set_def)
  have "distinct (map fst (a @ b)) \<Longrightarrow> foldl (\<lambda>m kv. go_set (fst kv) (snd kv) m) a b = a @ b"
    for a b :: "('a \<times> 'b) list"
  proof (induction b arbitrary: a)
    case (Cons x b)
    then have "go_set (fst x) (snd x) a = a @ [x]" by (cases x) (auto intro!: upd)
    with Cons.IH [of "a @ [x]"] Cons.prems show ?case by simp
  qed simp
  from this [of "[]" m] assms show ?thesis by (simp add: go_wf_def)
qed

subsection \<open>Keys\<close>

text \<open>A map whose entries stand under their own key.\<close>

definition keyed_by :: "('a \<Rightarrow> 'k) \<Rightarrow> ('k, 'a) gomap \<Rightarrow> bool" where
  "keyed_by key m \<longleftrightarrow> (\<forall>k x. go_get m k = Some x \<longrightarrow> key x = k)"

lemma keyed_by_empty [simp]: "keyed_by key []"
  by (simp add: keyed_by_def)

lemma keyed_by_index [simp]: "keyed_by key (go_index key xs)"
  by (auto simp: keyed_by_def dest: last_with_SomeD)

lemma keyed_byD: "keyed_by key m \<Longrightarrow> go_get m k = Some x \<Longrightarrow> key x = k"
  by (simp add: keyed_by_def)

end
