(* ===== verification/Xray_Model.thy ===== *)
theory Xray_Model
  imports Go_Map Complex_Main
begin

text \<open>
  The data model of \<^verbatim>\<open>internal/model\<close>: the desired state the control panel sends, the
  payloads the agent posts, the agent commands, and \<open>NormalizeRouteRules\<close>
  (\<^verbatim>\<open>internal/model/routes.go\<close>), which removes repeated route tags. The lemmas show that it
  keeps the last rule of every tag, in order, and reports exactly the repeated tags.
\<close>

section \<open>Values of type \<^verbatim>\<open>any\<close>\<close>

datatype json =
    JNull
  | JBool bool
  | JInt int
  | JReal real
  | JStr string
  | JArr "json list"
  | JObj "(string \<times> json) list"

text \<open>The JSON encoder writes the members of a map in ascending order of their keys.\<close>

definition jsonOfMap :: "(string, json) gomap \<Rightarrow> json" where
  "jsonOfMap m = JObj (sort_key fst m)"

section \<open>Records of \<^verbatim>\<open>model.go\<close>\<close>

record Client =
  c_Proto :: string
  c_ID :: string
  c_Password :: string
  c_Email :: string

record RouteRule =
  r_Tag :: string
  r_OutboundTag :: string
  r_BalancerTag :: string
  r_Domain :: "string list"
  r_IP :: "string list"
  r_Port :: string
  r_SourcePort :: string
  r_InboundTag :: "string list"
  r_Protocol :: "string list"

record State =
  st_ConfigVersion :: int64
  st_Clients :: "Client list"
  st_Routes :: "RouteRule list"
  st_Meta :: "(string, json) gomap"

definition AgentCommandTypeRestartCore :: string where
  "AgentCommandTypeRestartCore = ''RESTART_CORE''"

definition AgentCommandTypeRestartAgent :: string where
  "AgentCommandTypeRestartAgent = ''RESTART_AGENT''"

definition AgentCommandTypeUpdateAgent :: string where
  "AgentCommandTypeUpdateAgent = ''UPDATE_AGENT''"

definition AgentCommandTypeUpdateCore :: string where
  "AgentCommandTypeUpdateCore = ''UPDATE_CORE''"

lemmas [go_simps] = AgentCommandTypeRestartCore_def AgentCommandTypeRestartAgent_def
  AgentCommandTypeUpdateAgent_def AgentCommandTypeUpdateCore_def

record AgentCommand =
  ac_ID :: string
  ac_Type :: string
  ac_RequestedAt :: time
  ac_Payload :: "(string, json) gomap"

definition AgentCommandAckSucceeded :: string where
  "AgentCommandAckSucceeded = ''SUCCEEDED''"

definition AgentCommandAckFailed :: string where
  "AgentCommandAckFailed = ''FAILED''"

record AgentCommandAck =
  ak_Status :: string
  ak_ErrorMessage :: string
  ak_Result :: "(string, json) gomap"

record UserUsage =
  uu_Email :: string
  uu_Uplink :: int64
  uu_Downlink :: int64

record StatsPush =
  sp_ServerTime :: time
  sp_Users :: "UserUsage list"

record OnlineUserIP =
  ip_Address :: string
  ip_LastSeenAt :: time

record OnlineUserInfo =
  ou_Email :: string
  ou_Proto :: string
  ou_IPs :: "OnlineUserIP list"

record OnlineUsersPush =
  op_ServerTime :: time
  op_Users :: "OnlineUserInfo list"

record HeartbeatPush =
  hb_OK :: bool
  hb_AgentVersion :: string
  hb_XrayCoreVersion :: string

record XraySysStats =
  xs_NumGoroutine :: uint32
  xs_NumGC :: uint32
  xs_Alloc :: uint64
  xs_TotalAlloc :: uint64
  xs_Sys :: uint64
  xs_Mallocs :: uint64
  xs_Frees :: uint64
  xs_LiveObjects :: uint64
  xs_PauseTotalNs :: uint64
  xs_Uptime :: uint32

record ServerMetricPush =
  sm_ServerTime :: time
  sm_CPUPercent :: "real option"
  sm_MemoryPercent :: "real option"
  sm_BandwidthDownMbps :: "real option"
  sm_BandwidthUpMbps :: "real option"
  sm_XraySysStats :: "XraySysStats option"

section \<open>\<^verbatim>\<open>NormalizeRouteRules\<close>\<close>

text \<open>One round of the first loop: the last index of every tag, and the tags met twice.\<close>

definition scanRoute ::
  "(string, nat) gomap \<times> (string, unit) gomap \<Rightarrow> nat \<times> RouteRule
   \<Rightarrow> (string, nat) gomap \<times> (string, unit) gomap" where
  "scanRoute st ir =
     (case (st, ir) of
        ((lastIndex, duplicateTags), (index, route)) \<Rightarrow>
          (go_set (r_Tag route) index lastIndex,
           if go_get lastIndex (r_Tag route) \<noteq> None then go_set (r_Tag route) () duplicateTags
           else duplicateTags))"

definition NormalizeRouteRules :: "RouteRule list \<Rightarrow> RouteRule list \<times> string list" where
  "NormalizeRouteRules routes =
     (if routes = [] then ([], [])
      else
        let (lastIndex, duplicateTags) = foldl scanRoute ([], []) (enumerate 0 routes);
            normalized = map snd (filter (\<lambda>(index, route).
              (case go_get lastIndex (r_Tag route) of Some i \<Rightarrow> i | None \<Rightarrow> 0) = index) (enumerate 0 routes))
        in if go_len duplicateTags = 0 then (normalized, [])
           else (normalized, sort (go_keys duplicateTags)))"

text \<open>The reference: drop every element whose key occurs again later.\<close>

fun keep_last :: "('a \<Rightarrow> 'k) \<Rightarrow> 'a list \<Rightarrow> 'a list" where
  "keep_last key [] = []"
| "keep_last key (x # xs) = (if key x \<in> key ` set xs then keep_last key xs else x # keep_last key xs)"

lemma set_keep_last_subset: "set (keep_last key xs) \<subseteq> set xs"
  by (induction xs) auto

lemma keep_last_keys: "key ` set (keep_last key xs) = key ` set xs"
  by (induction xs) auto

lemma distinct_keep_last: "distinct (map key (keep_last key xs))"
  by (induction xs) (simp_all add: keep_last_keys)

lemma keep_last_distinct: "distinct (map key xs) \<Longrightarrow> keep_last key xs = xs"
  by (induction xs) auto

lemma subseq_keep_last: "subseq (keep_last key xs) xs"
  by (induction xs) auto

lemma keep_last_snoc:
  "keep_last key (xs @ [x]) = filter (\<lambda>y. key y \<noteq> key x) (keep_last key xs) @ [x]"
proof (induction xs)
  case (Cons y ys)
  then show ?case by (cases "key y = key x") auto
qed simp

lemma last_with_keep_last [simp]: "last_with key (keep_last key xs) = last_with key xs"
proof (rule ext, induction xs rule: rev_induct)
  case (snoc x xs)
  have "last_with key (filter (\<lambda>y. key y \<noteq> a) ys) k = (if k = a then None else last_with key ys k)" for a ys k
    by (induction ys rule: rev_induct) auto
  with snoc show ?case by (simp add: keep_last_snoc)
qed simp

lemma distinct_iff_count_list: "distinct ts \<longleftrightarrow> (\<forall>t. count_list ts t < 2)"
proof (induction ts)
  case (Cons t ts)
  have "(\<forall>s. count_list (t # ts) s < 2) \<longleftrightarrow> count_list ts t = 0 \<and> (\<forall>s. count_list ts s < 2)"
  proof (intro iffI conjI allI)
    fix s
    assume *: "\<forall>s. count_list (t # ts) s < 2"
    show "count_list ts t = 0" using *[rule_format, of t] by simp
    show "count_list ts s < 2" using *[rule_format, of s] by (simp split: if_splits)
  qed auto
  with Cons show ?case by (simp only: distinct.simps count_list_0_iff)
qed simp

subsection \<open>What the loops compute\<close>

definition scanned :: "RouteRule list \<Rightarrow> (string, nat) gomap \<times> (string, unit) gomap" where
  "scanned routes = foldl scanRoute ([], []) (enumerate 0 routes)"

lemma scanned_Nil [simp]: "scanned [] = ([], [])"
  by (simp add: scanned_def)

lemma scanned_snoc: "scanned (xs @ [x]) = scanRoute (scanned xs) (length xs, x)"
  by (simp add: scanned_def enumerate_append_eq)

lemma scanned_last: "go_get (fst (scanned xs)) t \<noteq> None \<longleftrightarrow> t \<in> r_Tag ` set xs"
  by (induction xs rule: rev_induct) (auto simp: scanned_snoc scanRoute_def split: prod.splits)

lemma scanned_last_filter:
  "map snd (filter (\<lambda>(i, r). go_get (fst (scanned xs)) (r_Tag r) = Some i) (enumerate 0 xs)) = keep_last r_Tag xs"
proof (induction xs rule: rev_induct)
  case (snoc x xs)
  let ?L = "\<lambda>t. go_get (fst (scanned xs)) t"
  let ?L' = "\<lambda>t. go_get (fst (scanned (xs @ [x]))) t"
  have L': "?L' t = (if t = r_Tag x then Some (length xs) else ?L t)" for t
    by (simp add: scanned_snoc scanRoute_def split: prod.splits)
  have mf: "map snd (filter (\<lambda>(i, r). Q r) zs) = filter Q (map snd zs)"
    for Q :: "RouteRule \<Rightarrow> bool" and zs :: "(nat \<times> RouteRule) list"
    by (induction zs) auto
  have "filter (\<lambda>(i, r). ?L' (r_Tag r) = Some i) (enumerate 0 xs)
      = filter (\<lambda>(i, r). r_Tag r \<noteq> r_Tag x) (filter (\<lambda>(i, r). ?L (r_Tag r) = Some i) (enumerate 0 xs))"
    by (rule trans [OF filter_cong [OF refl] filter_filter [symmetric]])
      (auto simp: L' in_set_enumerate_eq)
  then have "map snd (filter (\<lambda>(i, r). ?L' (r_Tag r) = Some i) (enumerate 0 xs))
      = filter (\<lambda>r. r_Tag r \<noteq> r_Tag x) (keep_last r_Tag xs)"
    by (simp only: mf snoc)
  then show ?case by (simp add: enumerate_append_eq L' keep_last_snoc)
qed simp

lemma scanned_duplicates_wf [simp]: "go_wf (snd (scanned xs))"
  by (induction xs rule: rev_induct) (auto simp: scanned_snoc scanRoute_def split: prod.splits)

lemma scanned_duplicates:
  "set (go_keys (snd (scanned xs))) = {t. 2 \<le> count_list (map r_Tag xs) t}"
proof (induction xs rule: rev_induct)
  case (snoc x xs)
  have ex: "go_get (fst (scanned xs)) (r_Tag x) \<noteq> None \<longleftrightarrow> 0 < count_list (map r_Tag xs) (r_Tag x)"
    using scanned_last [of xs "r_Tag x"] count_list_0_iff [of "map r_Tag xs" "r_Tag x"] by auto
  have "set (go_keys (snd (scanned (xs @ [x])))) =
      (if 0 < count_list (map r_Tag xs) (r_Tag x) then insert (r_Tag x) (set (go_keys (snd (scanned xs))))
       else set (go_keys (snd (scanned xs))))"
    using ex by (auto simp: scanned_snoc scanRoute_def gm.set_keys split: prod.splits)
  with snoc show ?case by auto
qed (simp add: go_keys_def)

lemma NormalizeRouteRules_fst [simp]: "fst (NormalizeRouteRules xs) = keep_last r_Tag xs"
proof (cases "xs = []")
  case False
  have "filter (\<lambda>(i, r). (case go_get (fst (scanned xs)) (r_Tag r) of Some j \<Rightarrow> j | None \<Rightarrow> 0) = i) (enumerate 0 xs)
      = filter (\<lambda>(i, r). go_get (fst (scanned xs)) (r_Tag r) = Some i) (enumerate 0 xs)"
    using scanned_last [of xs]
    by (intro filter_cong [OF refl]) (fastforce simp: in_set_enumerate_eq split: option.splits)
  with False show ?thesis
    by (simp add: NormalizeRouteRules_def Let_def case_prod_beta scanned_last_filter flip: scanned_def)
qed (simp add: NormalizeRouteRules_def)

lemma NormalizeRouteRules_snd:
  "snd (NormalizeRouteRules xs) = sort (go_keys (snd (scanned xs)))"
  by (auto simp: NormalizeRouteRules_def Let_def case_prod_beta go_len_def go_keys_def simp flip: scanned_def)

section \<open>Properties\<close>

text \<open>
  C32: \<open>NormalizeRouteRules\<close> has last-write-wins semantics: its result has no repeated tag, is
  a subsequence of the input, is the reference \<open>keep_last\<close>, and assigns to every tag the rule
  that a map filled from the input (the state store's snapshot) assigns to it.
\<close>

theorem normalize_last_write_wins:
  "fst (NormalizeRouteRules routes) = keep_last r_Tag routes
   \<and> distinct (map r_Tag (fst (NormalizeRouteRules routes)))
   \<and> subseq (fst (NormalizeRouteRules routes)) routes
   \<and> (\<forall>t. go_get (go_index r_Tag (fst (NormalizeRouteRules routes))) t = go_get (go_index r_Tag routes) t)"
  by (simp add: distinct_keep_last subseq_keep_last)

text \<open>
  The second result of \<open>NormalizeRouteRules\<close> lists exactly the tags that occur more than once,
  each of them once and in ascending order; in particular it is empty exactly when no tag is
  repeated.
\<close>

theorem normalize_duplicate_tags:
  "sorted (snd (NormalizeRouteRules routes)) \<and> distinct (snd (NormalizeRouteRules routes))
   \<and> set (snd (NormalizeRouteRules routes)) = {t. 2 \<le> count_list (map r_Tag routes) t}
   \<and> (snd (NormalizeRouteRules routes) = [] \<longleftrightarrow> distinct (map r_Tag routes))"
  unfolding NormalizeRouteRules_snd
proof (intro conjI)
  show "distinct (sort (go_keys (snd (scanned routes))))"
    using gm.distinct_keys [OF scanned_duplicates_wf, of routes] by simp
  show "set (sort (go_keys (snd (scanned routes)))) = {t. 2 \<le> count_list (map r_Tag routes) t}"
    by (simp only: set_sort scanned_duplicates)
  have "sort (go_keys (snd (scanned routes))) = [] \<longleftrightarrow> set (go_keys (snd (scanned routes))) = {}"
    by (metis set_empty set_sort)
  then show "sort (go_keys (snd (scanned routes))) = [] \<longleftrightarrow> distinct (map r_Tag routes)"
    unfolding scanned_duplicates by (auto simp: distinct_iff_count_list not_le)
qed simp

text \<open>Normalising a normalised list changes nothing and reports no repeated tag.\<close>

theorem normalize_idempotent:
  "NormalizeRouteRules (fst (NormalizeRouteRules routes)) = (fst (NormalizeRouteRules routes), [])"
proof -
  have "distinct (map r_Tag (keep_last r_Tag routes))" by (rule distinct_keep_last)
  then have "set (snd (NormalizeRouteRules (keep_last r_Tag routes))) = {}"
    unfolding NormalizeRouteRules_snd set_sort scanned_duplicates
    by (auto simp: distinct_iff_count_list not_le)
  then show ?thesis
    by (simp add: prod_eq_iff keep_last_distinct distinct_keep_last)
qed

end
