(* ===== verification/Json_Codec.thy ===== *)
theory Json_Codec
  imports Xray_Model
begin

text \<open>
  The JSON form of the records of \<^verbatim>\<open>internal/model\<close>, as \<^verbatim>\<open>encoding/json\<close> derives it from
  the field tags of \<^verbatim>\<open>model.go\<close>. The level is that of JSON values; scanning the text of a body
  is a parameter of the client.

  Decoding works into an existing value, as the package does: an absent member leaves the field,
  \<^verbatim>\<open>null\<close> leaves a string, number or struct and clears a slice or map, a repeated member decodes
  again into what the first one left, an element of a slice decodes into the element that was
  there, unknown members are ignored, and a member name matches a field exactly or else up to
  letter case. The first mismatch is the error of the whole decoding. Encoding omits the fields
  marked \<^verbatim>\<open>omitempty\<close> when they are empty; a time outside the years 0 to 9999 cannot be
  encoded.
\<close>

section \<open>Decoding\<close>

fun jsonKind :: "json \<Rightarrow> string" where
  "jsonKind JNull = ''null''"
| "jsonKind (JBool _) = ''bool''"
| "jsonKind (JInt _) = ''number''"
| "jsonKind (JReal _) = ''number''"
| "jsonKind (JStr _) = ''string''"
| "jsonKind (JArr _) = ''array''"
| "jsonKind (JObj _) = ''object''"

definition typeError :: "json \<Rightarrow> string \<Rightarrow> go_error" where
  "typeError j t = ErrText (''json: cannot unmarshal '' @ jsonKind j @ '' into Go value of type '' @ t)"

definition decString :: "json \<Rightarrow> string \<Rightarrow> string go_result" where
  "decString j old = (case j of JNull \<Rightarrow> Inr old | JStr s \<Rightarrow> Inr s | _ \<Rightarrow> Inl (typeError j ''string''))"

definition decInt64 :: "json \<Rightarrow> int64 \<Rightarrow> int64 go_result" where
  "decInt64 j old =
     (case j of
        JNull \<Rightarrow> Inr old
      | JInt i \<Rightarrow> if - (2 ^ 63) \<le> i \<and> i < 2 ^ 63 then Inr (word_of_int i) else Inl (typeError j ''int64'')
      | _ \<Rightarrow> Inl (typeError j ''int64''))"

definition decTime :: "json \<Rightarrow> time \<Rightarrow> time go_result" where
  "decTime j old =
     (case j of
        JNull \<Rightarrow> Inr old
      | JStr s \<Rightarrow> (case parseRFC3339 s of Some t \<Rightarrow> Inr t | None \<Rightarrow> Inl (ErrText (''parsing time '' @ quoteGo s)))
      | _ \<Rightarrow> Inl (ErrText ''Time.UnmarshalJSON: input is not a JSON string''))"

text \<open>A slice: the elements decode into those that are there already, or into the zero value.\<close>

fun decElems :: "(json \<Rightarrow> 'a \<Rightarrow> 'a go_result) \<Rightarrow> 'a \<Rightarrow> json list \<Rightarrow> 'a list \<Rightarrow> 'a list go_result" where
  "decElems dec zero [] old = Inr []"
| "decElems dec zero (j # js) old =
     (case dec j (case old of [] \<Rightarrow> zero | x # _ \<Rightarrow> x) of
        Inl e \<Rightarrow> Inl e
      | Inr y \<Rightarrow> (case decElems dec zero js (tl old) of Inl e \<Rightarrow> Inl e | Inr ys \<Rightarrow> Inr (y # ys)))"

definition decSlice :: "string \<Rightarrow> (json \<Rightarrow> 'a \<Rightarrow> 'a go_result) \<Rightarrow> 'a \<Rightarrow> json \<Rightarrow> 'a list \<Rightarrow> 'a list go_result" where
  "decSlice t dec zero j old =
     (case j of JNull \<Rightarrow> Inr [] | JArr js \<Rightarrow> decElems dec zero js old | _ \<Rightarrow> Inl (typeError j t))"

text \<open>A \<^verbatim>\<open>map[string]any\<close>: the members are added to those that are there.\<close>

definition decMap :: "json \<Rightarrow> (string, json) gomap \<Rightarrow> (string, json) gomap go_result" where
  "decMap j old =
     (case j of
        JNull \<Rightarrow> Inr []
      | JObj ms \<Rightarrow> Inr (foldl (\<lambda>m kv. go_set (fst kv) (snd kv) m) old ms)
      | _ \<Rightarrow> Inl (typeError j ''map[string]interface {}''))"

text \<open>A struct: a table of its fields, each with what decoding its member does to the record.\<close>

type_synonym 'r fields = "(string \<times> (json \<Rightarrow> 'r \<Rightarrow> 'r go_result)) list"

definition findField :: "'r fields \<Rightarrow> string \<Rightarrow> (json \<Rightarrow> 'r \<Rightarrow> 'r go_result) option" where
  "findField fs name =
     (case map_of fs name of
        Some d \<Rightarrow> Some d
      | None \<Rightarrow> map_option snd (List.find (\<lambda>f. EqualFold (fst f) name) fs))"

definition decMember :: "'r fields \<Rightarrow> string \<times> json \<Rightarrow> 'r \<Rightarrow> 'r go_result" where
  "decMember fs m r = (case findField fs (fst m) of None \<Rightarrow> Inr r | Some d \<Rightarrow> d (snd m) r)"

definition decStruct :: "string \<Rightarrow> 'r fields \<Rightarrow> json \<Rightarrow> 'r \<Rightarrow> 'r go_result" where
  "decStruct t fs j r =
     (case j of JNull \<Rightarrow> Inr r | JObj ms \<Rightarrow> foldE (decMember fs) ms r | _ \<Rightarrow> Inl (typeError j t))"

definition field :: "(json \<Rightarrow> 'a \<Rightarrow> 'a go_result) \<Rightarrow> ('r \<Rightarrow> 'a) \<Rightarrow> (('a \<Rightarrow> 'a) \<Rightarrow> 'r \<Rightarrow> 'r) \<Rightarrow> json \<Rightarrow> 'r \<Rightarrow> 'r go_result" where
  "field dec get upd j r = (case dec j (get r) of Inl e \<Rightarrow> Inl e | Inr x \<Rightarrow> Inr (upd (\<lambda>_. x) r))"

definition zeroClient :: Client where
  "zeroClient = \<lparr>c_Proto = [], c_ID = [], c_Password = [], c_Email = []\<rparr>"

definition decodeClient :: "json \<Rightarrow> Client \<Rightarrow> Client go_result" where
  "decodeClient = decStruct ''model.Client''
     [(''proto'', field decString c_Proto c_Proto_update),
      (''id'', field decString c_ID c_ID_update),
      (''password'', field decString c_Password c_Password_update),
      (''email'', field decString c_Email c_Email_update)]"

definition decStrings :: "json \<Rightarrow> string list \<Rightarrow> string list go_result" where
  "decStrings = decSlice ''[]string'' decString []"

definition zeroRoute :: RouteRule where
  "zeroRoute =
     \<lparr>r_Tag = [], r_OutboundTag = [], r_BalancerTag = [], r_Domain = [], r_IP = [], r_Port = [],
      r_SourcePort = [], r_InboundTag = [], r_Protocol = []\<rparr>"

definition decodeRouteRule :: "json \<Rightarrow> RouteRule \<Rightarrow> RouteRule go_result" where
  "decodeRouteRule = decStruct ''model.RouteRule''
     [(''tag'', field decString r_Tag r_Tag_update),
      (''outbound_tag'', field decString r_OutboundTag r_OutboundTag_update),
      (''balancer_tag'', field decString r_BalancerTag r_BalancerTag_update),
      (''domain'', field decStrings r_Domain r_Domain_update),
      (''ip'', field decStrings r_IP r_IP_update),
      (''port'', field decString r_Port r_Port_update),
      (''source_port'', field decString r_SourcePort r_SourcePort_update),
      (''inbound_tag'', field decStrings r_InboundTag r_InboundTag_update),
      (''protocol'', field decStrings r_Protocol r_Protocol_update)]"

definition zeroState :: State where
  "zeroState = \<lparr>st_ConfigVersion = 0, st_Clients = [], st_Routes = [], st_Meta = []\<rparr>"

definition decodeState :: "json \<Rightarrow> State \<Rightarrow> State go_result" where
  "decodeState = decStruct ''model.State''
     [(''config_version'', field decInt64 st_ConfigVersion st_ConfigVersion_update),
      (''clients'', field (decSlice ''[]model.Client'' decodeClient zeroClient) st_Clients st_Clients_update),
      (''routes'', field (decSlice ''[]model.RouteRule'' decodeRouteRule zeroRoute) st_Routes st_Routes_update),
      (''meta'', field decMap st_Meta st_Meta_update)]"

text \<open>The zero \<^verbatim>\<open>time.Time\<close> is the first of January of the year 1.\<close>

definition zeroTime :: time where
  "zeroTime = - 62135596800 * 1000000000"

definition zeroCommand :: AgentCommand where
  "zeroCommand = \<lparr>ac_ID = [], ac_Type = [], ac_RequestedAt = zeroTime, ac_Payload = []\<rparr>"

definition decodeAgentCommand :: "json \<Rightarrow> AgentCommand \<Rightarrow> AgentCommand go_result" where
  "decodeAgentCommand = decStruct ''model.AgentCommand''
     [(''id'', field decString ac_ID ac_ID_update),
      (''type'', field decString ac_Type ac_Type_update),
      (''requested_at'', field decTime ac_RequestedAt ac_RequestedAt_update),
      (''payload'', field decMap ac_Payload ac_Payload_update)]"

text \<open>
  The envelope \<^verbatim>\<open>struct { Command *model.AgentCommand }\<close>: \<^verbatim>\<open>null\<close> clears the pointer, any other value
  decodes into what it points to, a new zero command if it is nil.
\<close>

record CommandEnvelope =
  ce_Command :: "AgentCommand option"

definition decCommandPtr :: "json \<Rightarrow> AgentCommand option \<Rightarrow> AgentCommand option go_result" where
  "decCommandPtr j old =
     (case j of
        JNull \<Rightarrow> Inr None
      | _ \<Rightarrow> (case decodeAgentCommand j (case old of Some c \<Rightarrow> c | None \<Rightarrow> zeroCommand) of
               Inl e \<Rightarrow> Inl e | Inr c \<Rightarrow> Inr (Some c)))"

definition decodeCommandEnvelope :: "json \<Rightarrow> AgentCommand option go_result" where
  "decodeCommandEnvelope j =
     (case decStruct ''struct'' [(''command'', field decCommandPtr ce_Command ce_Command_update)]
             j \<lparr>ce_Command = None\<rparr> of
        Inl e \<Rightarrow> Inl e | Inr r \<Rightarrow> Inr (ce_Command r))"

section \<open>Encoding\<close>

text \<open>The members of a struct; \<open>None\<close> is a member that is omitted.\<close>

definition encStruct :: "(string \<times> json option) list \<Rightarrow> json" where
  "encStruct ms = JObj (List.map_filter (\<lambda>(k, v). map_option (Pair k) v) ms)"

definition omitEmpty :: "string \<Rightarrow> json option" where
  "omitEmpty s = (if s = [] then None else Some (JStr s))"

definition omitEmptyList :: "('a \<Rightarrow> json) \<Rightarrow> 'a list \<Rightarrow> json option" where
  "omitEmptyList enc xs = (if xs = [] then None else Some (JArr (map enc xs)))"

definition encTime :: "time \<Rightarrow> json go_result" where
  "encTime t =
     (if 0 \<le> yearOf t \<and> yearOf t \<le> 9999 then Inr (JStr (formatRFC3339Nano t))
      else Inl (ErrText ''json: error calling MarshalJSON for type time.Time: Time.MarshalJSON: year outside of range [0,9999]''))"

definition encodeUserUsage :: "UserUsage \<Rightarrow> json" where
  "encodeUserUsage u = encStruct
     [(''email'', Some (JStr (uu_Email u))),
      (''uplink'', Some (JInt (sint (uu_Uplink u)))),
      (''downlink'', Some (JInt (sint (uu_Downlink u))))]"

definition encodeStatsPush :: "StatsPush \<Rightarrow> json go_result" where
  "encodeStatsPush p =
     (case encTime (sp_ServerTime p) of
        Inl e \<Rightarrow> Inl e
      | Inr t \<Rightarrow> Inr (encStruct [(''server_time'', Some t), (''users'', Some (JArr (map encodeUserUsage (sp_Users p))))]))"

definition encodeOnlineUserIP :: "OnlineUserIP \<Rightarrow> json go_result" where
  "encodeOnlineUserIP i =
     (case encTime (ip_LastSeenAt i) of
        Inl e \<Rightarrow> Inl e
      | Inr t \<Rightarrow> Inr (encStruct [(''address'', Some (JStr (ip_Address i))), (''last_seen_at'', Some t)]))"

definition encodeOnlineUserInfo :: "OnlineUserInfo \<Rightarrow> json go_result" where
  "encodeOnlineUserInfo u =
     (case mapE encodeOnlineUserIP (ou_IPs u) of
        Inl e \<Rightarrow> Inl e
      | Inr ips \<Rightarrow> Inr (encStruct
          [(''email'', Some (JStr (ou_Email u))), (''proto'', omitEmpty (ou_Proto u)),
           (''ips'', omitEmptyList (\<lambda>j. j) ips)]))"

definition encodeOnlineUsersPush :: "OnlineUsersPush \<Rightarrow> json go_result" where
  "encodeOnlineUsersPush p =
     (case encTime (op_ServerTime p) of
        Inl e \<Rightarrow> Inl e
      | Inr t \<Rightarrow> (case mapE encodeOnlineUserInfo (op_Users p) of
            Inl e \<Rightarrow> Inl e
          | Inr us \<Rightarrow> Inr (encStruct [(''server_time'', Some t), (''users'', Some (JArr us))])))"

definition encodeHeartbeatPush :: "HeartbeatPush \<Rightarrow> json" where
  "encodeHeartbeatPush h = encStruct
     [(''ok'', Some (JBool (hb_OK h))),
      (''agent_version'', omitEmpty (hb_AgentVersion h)),
      (''xray_core_version'', omitEmpty (hb_XrayCoreVersion h))]"

definition encodeXraySysStats :: "XraySysStats \<Rightarrow> json" where
  "encodeXraySysStats x = encStruct
     [(''num_goroutine'', Some (JInt (uint (xs_NumGoroutine x)))),
      (''num_gc'', Some (JInt (uint (xs_NumGC x)))),
      (''alloc'', Some (JInt (uint (xs_Alloc x)))),
      (''total_alloc'', Some (JInt (uint (xs_TotalAlloc x)))),
      (''sys'', Some (JInt (uint (xs_Sys x)))),
      (''mallocs'', Some (JInt (uint (xs_Mallocs x)))),
      (''frees'', Some (JInt (uint (xs_Frees x)))),
      (''live_objects'', Some (JInt (uint (xs_LiveObjects x)))),
      (''pause_total_ns'', Some (JInt (uint (xs_PauseTotalNs x)))),
      (''uptime'', Some (JInt (uint (xs_Uptime x))))]"

definition encodeServerMetricPush :: "ServerMetricPush \<Rightarrow> json go_result" where
  "encodeServerMetricPush p =
     (case encTime (sm_ServerTime p) of
        Inl e \<Rightarrow> Inl e
      | Inr t \<Rightarrow> Inr (encStruct
          [(''server_time'', Some t),
           (''cpu_percent'', map_option JReal (sm_CPUPercent p)),
           (''memory_percent'', map_option JReal (sm_MemoryPercent p)),
           (''bandwidth_down_mbps'', map_option JReal (sm_BandwidthDownMbps p)),
           (''bandwidth_up_mbps'', map_option JReal (sm_BandwidthUpMbps p)),
           (''xray_sys_stats'', map_option encodeXraySysStats (sm_XraySysStats p))]))"

definition encodeAgentCommandAck :: "AgentCommandAck \<Rightarrow> json" where
  "encodeAgentCommandAck a = encStruct
     [(''status'', Some (JStr (ak_Status a))),
      (''error_message'', omitEmpty (ak_ErrorMessage a)),
      (''result'', if ak_Result a = [] then None else Some (jsonOfMap (ak_Result a)))]"

text \<open>The form that the tags give to a state; the control panel sends it.\<close>

definition encodeClient :: "Client \<Rightarrow> json" where
  "encodeClient c = encStruct
     [(''proto'', Some (JStr (c_Proto c))), (''id'', omitEmpty (c_ID c)),
      (''password'', omitEmpty (c_Password c)), (''email'', Some (JStr (c_Email c)))]"

definition encodeRouteRule :: "RouteRule \<Rightarrow> json" where
  "encodeRouteRule r = encStruct
     [(''tag'', Some (JStr (r_Tag r))), (''outbound_tag'', omitEmpty (r_OutboundTag r)),
      (''balancer_tag'', omitEmpty (r_BalancerTag r)), (''domain'', omitEmptyList JStr (r_Domain r)),
      (''ip'', omitEmptyList JStr (r_IP r)), (''port'', omitEmpty (r_Port r)),
      (''source_port'', omitEmpty (r_SourcePort r)), (''inbound_tag'', omitEmptyList JStr (r_InboundTag r)),
      (''protocol'', omitEmptyList JStr (r_Protocol r))]"

definition encodeState :: "State \<Rightarrow> json" where
  "encodeState s = encStruct
     [(''config_version'', Some (JInt (sint (st_ConfigVersion s)))),
      (''clients'', Some (JArr (map encodeClient (st_Clients s)))),
      (''routes'', omitEmptyList encodeRouteRule (st_Routes s)),
      (''meta'', if st_Meta s = [] then None else Some (JObj (st_Meta s)))]"

section \<open>A decoded record\<close>

lemma decElems_map:
  "(\<And>x. x \<in> set xs \<Longrightarrow> dec (enc x) zero = Inr x) \<Longrightarrow> decElems dec zero (map enc xs) [] = Inr xs"
  by (induction xs) auto

lemma decStrings_map [simp]: "decStrings (JArr (map JStr xs)) [] = Inr xs"
  by (simp add: decStrings_def decSlice_def decElems_map decString_def)

lemma decString_JStr [simp]: "decString (JStr s) old = Inr s"
  by (simp add: decString_def)

text \<open>
  Decoding an encoded record, member by member: an omitted member leaves the field, which is
  empty in the zero value.
\<close>

definition decMembers :: "'r fields \<Rightarrow> (string \<times> json option) list \<Rightarrow> 'r \<Rightarrow> 'r go_result" where
  "decMembers fs ms r = foldE (decMember fs) (List.map_filter (\<lambda>(k, v). map_option (Pair k) v) ms) r"

lemma decStruct_encStruct: "decStruct t fs (encStruct ms) r = decMembers fs ms r"
  by (simp add: decStruct_def encStruct_def decMembers_def)

lemma decMembers_Nil: "decMembers fs [] r = Inr r"
  by (simp add: decMembers_def map_filter_simps)

lemma decMembers_None: "decMembers fs ((k, None) # ms) r = decMembers fs ms r"
  by (simp add: decMembers_def map_filter_simps)

lemma decMembers_Some:
  "findField fs k = Some (field dec get upd) \<Longrightarrow> dec j (get r) = Inr x \<Longrightarrow>
   decMembers fs ((k, Some j) # ms) r = decMembers fs ms (upd (\<lambda>_. x) r)"
  by (simp add: decMembers_def map_filter_simps decMember_def field_def)

lemma decMembers_omitEmpty:
  "findField fs k = Some (field decString get upd) \<Longrightarrow> upd (\<lambda>_. []) r = r \<Longrightarrow>
   decMembers fs ((k, omitEmpty s) # ms) r = decMembers fs ms (upd (\<lambda>_. s) r)"
  by (simp add: decMembers_def map_filter_simps decMember_def field_def omitEmpty_def)

lemma decMembers_omitEmptyList:
  "findField fs k = Some (field dec get upd) \<Longrightarrow> upd (\<lambda>_. []) r = r \<Longrightarrow> dec (JArr (map enc xs)) (get r) = Inr xs \<Longrightarrow>
   decMembers fs ((k, omitEmptyList enc xs) # ms) r = decMembers fs ms (upd (\<lambda>_. xs) r)"
  by (simp add: decMembers_def map_filter_simps decMember_def field_def omitEmptyList_def)

lemmas decMembers_simps = decStruct_encStruct decMembers_Nil decMembers_None decMembers_Some decMembers_omitEmpty
  decMembers_omitEmptyList findField_def

lemma decode_encode_client: "decodeClient (encodeClient c) zeroClient = Inr c"
  by (cases c) (simp add: decodeClient_def encodeClient_def zeroClient_def decMembers_simps)

lemma decode_encode_route: "decodeRouteRule (encodeRouteRule r) zeroRoute = Inr r"
  by (cases r) (simp add: decodeRouteRule_def encodeRouteRule_def zeroRoute_def decMembers_simps)

end
