(* ===== verification/Version_Tags.thy ===== *)
theory Version_Tags
  imports Go_Prelude
begin

text \<open>
  Version tags. Four places of the sources turn a version into a tag (white space removed, a
  leading \<^verbatim>\<open>v\<close> added unless it is there, blank stays blank) and three compare versions without
  the leading \<^verbatim>\<open>v\<close>. The interface \<open>version_tagger\<close> states the contract of the first group; the
  component theories interpret it on their own function.
\<close>

lemma leadSeq_v: "leadSeq space_seqs (CHR ''v'' # t) = None"
  by (simp add: leadSeq_None space_seqs_def)

lemma v_not_in_space: "q \<in> set space_seqs \<Longrightarrow> CHR ''v'' \<notin> set q"
  by (auto simp: space_seqs_def)

lemma leadSeq_rev_v:
  assumes "leadSeq (map rev space_seqs) (rev t) = None"
  shows "leadSeq (map rev space_seqs) (rev t @ ''v'') = None"
  unfolding leadSeq_None
proof (intro ballI impI notI)
  fix q
  assume q: "q \<in> set (map rev space_seqs)" "q \<noteq> []" and pre: "prefix q (rev t @ ''v'')"
  have "CHR ''v'' \<notin> set q" using q(1) v_not_in_space by auto
  with pre have "prefix q (rev t)" by (auto simp: prefix_append prefix_Cons)
  with assms q show False unfolding leadSeq_None by blast
qed

lemma TrimSpace_v_append: "TrimSpace (''v'' @ TrimSpace s) = ''v'' @ TrimSpace s"
  using leadSeq_rev_v [OF TrimSpace_no_space(2)] by (simp add: TrimSpace_id leadSeq_v)

locale version_tagger =
  fixes tag :: "string \<Rightarrow> string"
    and bare :: "string \<Rightarrow> string"
  assumes tag_shape: "tag s =
      (let t = TrimSpace s in if t = [] then [] else if HasPrefix t ''v'' then t else ''v'' @ t)"
    and bare_shape: "bare s = TrimPrefix (TrimSpace s) ''v''"
begin

lemma tag_blank: "tag s = [] \<longleftrightarrow> TrimSpace s = []"
  by (simp add: tag_shape Let_def)

lemma tag_v: "tag s \<noteq> [] \<Longrightarrow> HasPrefix (tag s) ''v''"
  by (auto simp: tag_shape Let_def go_simps split: if_splits)

lemma tag_trimmed: "TrimSpace (tag s) = tag s"
  using TrimSpace_idem [of s] by (auto simp: tag_shape Let_def TrimSpace_v_append [simplified] simp del: TrimSpace_idem)

lemma tag_idem: "tag (tag s) = tag s"
  using tag_v [of s] tag_trimmed [of s] by (simp add: tag_shape [of "tag s"] Let_def)

text \<open>Tagging a version does not change what it is compared as.\<close>

lemma bare_tag: "bare (tag s) = bare s"
  unfolding bare_shape tag_trimmed
  by (simp add: tag_shape Let_def go_simps)

text \<open>Two versions that are not blank have the same tag exactly when they are equal for the comparison.\<close>

lemma bare_eq_iff:
  assumes "TrimSpace a \<noteq> []" and "TrimSpace b \<noteq> []"
  shows "bare a = bare b \<longleftrightarrow> tag a = tag b"
proof
  have tag_bare: "tag s = ''v'' @ bare s" if "TrimSpace s \<noteq> []" for s
    using that HasPrefix_TrimPrefix [of "TrimSpace s" "''v''"]
    by (simp add: tag_shape bare_shape Let_def TrimPrefix_no)
  assume "bare a = bare b"
  then show "tag a = tag b" using tag_bare assms by simp
next
  assume "tag a = tag b"
  then show "bare a = bare b" by (metis bare_tag)
qed

end

end
