(* ===== verification/Control_Client.thy ===== *)
theory Control_Client
  imports Json_Codec Agent_Config Version_Tags
begin

text \<open>
  The client of the control panel, \<^verbatim>\<open>internal/control/client.go\<close>: reading the desired state and
  the next command, and posting statistics, online users, metrics, heartbeats and command
  acknowledgements. The network, the URL check of \<^verbatim>\<open>http.NewRequest\<close> and the scanner that finds
  the JSON value at the start of a body are the fields of \<open>http_env\<close>; a request that is sent may
  change the world and may fail. The five posting methods have one shape, the interface
  \<open>endpoint\<close>, and what the agent relies on is proved from it.
\<close>

section \<open>The network\<close>

record http_request =
  rq_Method :: string
  rq_URL :: string
  rq_Header :: "(string, string) gomap"
  rq_Body :: "json option"

record http_response =
  rs_StatusCode :: nat
  rs_Body :: string

record 'w http_env =
  h_NewRequest :: "string \<Rightarrow> string \<Rightarrow> go_error option"
  h_Do :: "http_request \<Rightarrow> 'w \<Rightarrow> http_response go_result \<times> 'w"
  h_scan :: "string \<Rightarrow> json go_result"

section \<open>The client\<close>

record CtrlClient =
  cc_cfg :: Config
  cc_InsecureSkipVerify :: bool
  cc_Timeout :: int64
  cc_agentVersion :: string
  cc_xrayCoreVersion :: string

definition normalizeTaggedVersion :: "string \<Rightarrow> string" where
  "normalizeTaggedVersion version0 =
     (let version = TrimSpace version0 in
      if version = [] then [] else if HasPrefix version ''v'' then version else ''v'' @ version)"

definition NewClient :: "Config \<Rightarrow> string \<Rightarrow> string \<Rightarrow> CtrlClient" where
  "NewClient cfg agentVersion xrayCoreVersion =
     \<lparr>cc_cfg = cfg, cc_InsecureSkipVerify = TLSInsecure (Control cfg), cc_Timeout = seconds 12,
      cc_agentVersion = agentVersion, cc_xrayCoreVersion = normalizeTaggedVersion xrayCoreVersion\<rparr>"

definition AgentVersion :: "CtrlClient \<Rightarrow> string" where
  "AgentVersion c = cc_agentVersion c"

definition SetXrayCoreVersion :: "string \<Rightarrow> CtrlClient \<Rightarrow> CtrlClient" where
  "SetXrayCoreVersion version c = c\<lparr>cc_xrayCoreVersion := normalizeTaggedVersion version\<rparr>"

definition auth :: "CtrlClient \<Rightarrow> http_request \<Rightarrow> http_request" where
  "auth c req = req\<lparr>rq_Header := go_set ''Authorization'' (''Bearer '' @ Token (Control (cc_cfg c))) (rq_Header req)\<rparr>"

definition agentURL :: "CtrlClient \<Rightarrow> string \<Rightarrow> string" where
  "agentURL c path =
     BaseURL (Control (cc_cfg c)) @ ''/api/agents/'' @ ServerSlug (Control (cc_cfg c)) @ path"

text \<open>The exchange and the check of the status code; \<open>what\<close> starts the error text.\<close>

definition exchange :: "'w http_env \<Rightarrow> string \<Rightarrow> http_request \<Rightarrow> 'w \<Rightarrow> http_response go_result \<times> 'w" where
  "exchange env what req w =
     (case h_Do env req w of
        (Inl err, w1) \<Rightarrow> (Inl err, w1)
      | (Inr resp, w1) \<Rightarrow>
          if rs_StatusCode resp div 100 \<noteq> 2
          then (Inl (ErrText (what @ '' http '' @ intText (int (rs_StatusCode resp)) @ '': '' @ rs_Body resp)), w1)
          else (Inr resp, w1))"

definition getRequest :: "CtrlClient \<Rightarrow> string \<Rightarrow> http_request" where
  "getRequest c url = auth c \<lparr>rq_Method = ''GET'', rq_URL = url, rq_Header = [], rq_Body = None\<rparr>"

definition GetState :: "'w http_env \<Rightarrow> CtrlClient \<Rightarrow> 'w \<Rightarrow> State go_result \<times> 'w" where
  "GetState env c w =
     (let url = agentURL c ''/state'' in
      case h_NewRequest env ''GET'' url of
        Some err \<Rightarrow> (Inl err, w)
      | None \<Rightarrow>
          (case exchange env ''state'' (getRequest c url) w of
             (Inl err, w1) \<Rightarrow> (Inl err, w1)
           | (Inr resp, w1) \<Rightarrow>
               (case h_scan env (rs_Body resp) of
                  Inl err \<Rightarrow> (Inl err, w1)
                | Inr j \<Rightarrow> (decodeState j zeroState, w1))))"

definition GetNextCommand :: "'w http_env \<Rightarrow> CtrlClient \<Rightarrow> 'w \<Rightarrow> AgentCommand option go_result \<times> 'w" where
  "GetNextCommand env c w =
     (let url = agentURL c ''/commands/next'' in
      case h_NewRequest env ''GET'' url of
        Some err \<Rightarrow> (Inl err, w)
      | None \<Rightarrow>
          (case exchange env ''next command'' (getRequest c url) w of
             (Inl err, w1) \<Rightarrow> (Inl err, w1)
           | (Inr resp, w1) \<Rightarrow>
               (case h_scan env (rs_Body resp) of
                  Inl err \<Rightarrow> (Inl err, w1)
                | Inr j \<Rightarrow> (decodeCommandEnvelope j, w1))))"

definition postRequest :: "CtrlClient \<Rightarrow> string \<Rightarrow> json \<Rightarrow> http_request" where
  "postRequest c url body =
     auth c \<lparr>rq_Method = ''POST'', rq_URL = url, rq_Header = go_set ''Content-Type'' ''application/json'' [],
             rq_Body = Some body\<rparr>"

text \<open>The body that the posting methods share after the encoding.\<close>

definition postJSON :: "'w http_env \<Rightarrow> CtrlClient \<Rightarrow> string \<Rightarrow> string \<Rightarrow> json \<Rightarrow> 'w \<Rightarrow> go_error option \<times> 'w" where
  "postJSON env c what url body w =
     (case h_NewRequest env ''POST'' url of
        Some err \<Rightarrow> (Some err, w)
      | None \<Rightarrow>
          (case exchange env what (postRequest c url body) w of
             (Inl err, w1) \<Rightarrow> (Some err, w1)
           | (Inr resp, w1) \<Rightarrow> (None, w1)))"

definition PostStats :: "'w http_env \<Rightarrow> CtrlClient \<Rightarrow> StatsPush \<Rightarrow> 'w \<Rightarrow> go_error option \<times> 'w" where
  "PostStats env c p w =
     (case encodeStatsPush p of
        Inl err \<Rightarrow> (Some err, w)
      | Inr body \<Rightarrow> postJSON env c ''post stats'' (agentURL c ''/stats'') body w)"

definition PostOnlineUsers :: "'w http_env \<Rightarrow> CtrlClient \<Rightarrow> OnlineUsersPush option \<Rightarrow> 'w \<Rightarrow> go_error option \<times> 'w" where
  "PostOnlineUsers env c p w =
     (case p of
        None \<Rightarrow> (None, w)
      | Some q \<Rightarrow>
          (case encodeOnlineUsersPush q of
             Inl err \<Rightarrow> (Some err, w)
           | Inr body \<Rightarrow> postJSON env c ''post online users'' (agentURL c ''/online'') body w))"

definition PostMetrics :: "'w http_env \<Rightarrow> CtrlClient \<Rightarrow> ServerMetricPush option \<Rightarrow> 'w \<Rightarrow> go_error option \<times> 'w" where
  "PostMetrics env c p w =
     (case p of
        None \<Rightarrow> (None, w)
      | Some q \<Rightarrow>
          (case encodeServerMetricPush q of
             Inl err \<Rightarrow> (Some err, w)
           | Inr body \<Rightarrow> postJSON env c ''post metrics'' (agentURL c ''/metrics'') body w))"

definition heartbeatPayload :: "CtrlClient \<Rightarrow> HeartbeatPush" where
  "heartbeatPayload c =
     (let payload = \<lparr>hb_OK = True, hb_AgentVersion = [], hb_XrayCoreVersion = []\<rparr>;
          p1 = (if cc_agentVersion c \<noteq> [] then payload\<lparr>hb_AgentVersion := cc_agentVersion c\<rparr> else payload)
      in if cc_xrayCoreVersion c \<noteq> [] then p1\<lparr>hb_XrayCoreVersion := cc_xrayCoreVersion c\<rparr> else p1)"

definition Heartbeat :: "'w http_env \<Rightarrow> CtrlClient \<Rightarrow> 'w \<Rightarrow> go_error option \<times> 'w" where
  "Heartbeat env c w =
     postJSON env c ''heartbeat'' (agentURL c ''/heartbeat'') (encodeHeartbeatPush (heartbeatPayload c)) w"

definition AckCommand ::
  "'w http_env \<Rightarrow> CtrlClient \<Rightarrow> string \<Rightarrow> AgentCommandAck option \<Rightarrow> 'w \<Rightarrow> go_error option \<times> 'w" where
  "AckCommand env c commandID ack w =
     (if commandID = [] then (Some (ErrText ''command id required''), w)
      else case ack of
        None \<Rightarrow> (Some (ErrText ''ack payload required''), w)
      | Some a \<Rightarrow>
          postJSON env c ''ack command'' (agentURL c (''/commands/'' @ commandID @ ''/ack'')) (encodeAgentCommandAck a) w)"

section \<open>What a posting method promises\<close>

text \<open>
  A posting method takes a payload. Some payloads are refused or skipped without any request;
  for the others the method sends one request, whose path and body depend only on the payload,
  and succeeds exactly when the answer has a status of the 200s.
\<close>

definition delivered :: "http_response go_result \<Rightarrow> bool" where
  "delivered r = (case r of Inl _ \<Rightarrow> False | Inr resp \<Rightarrow> rs_StatusCode resp div 100 = 2)"

locale endpoint =
  fixes post :: "'w http_env \<Rightarrow> CtrlClient \<Rightarrow> 'p \<Rightarrow> 'w \<Rightarrow> go_error option \<times> 'w"
    and what :: string
    and content :: "CtrlClient \<Rightarrow> 'p \<Rightarrow> go_error option + string \<times> json"
  assumes shape: "post env c p w =
    (case content c p of
       Inl r \<Rightarrow> (r, w)
     | Inr (path, body) \<Rightarrow> postJSON env c what (agentURL c path) body w)"
begin

lemma quiet: "content c p = Inl r \<Longrightarrow> post env c p w = (r, w)"
  by (simp add: shape)

lemma bad_url:
  "content c p = Inr (path, body) \<Longrightarrow> h_NewRequest env ''POST'' (agentURL c path) = Some err \<Longrightarrow>
   post env c p w = (Some err, w)"
  by (simp add: shape postJSON_def)

text \<open>One request, and success exactly on a status of the 200s.\<close>

lemma sends:
  assumes "content c p = Inr (path, body)" and "h_NewRequest env ''POST'' (agentURL c path) = None"
  shows "snd (post env c p w) = snd (h_Do env (postRequest c (agentURL c path) body) w)"
    and "fst (post env c p w) = None \<longleftrightarrow> delivered (fst (h_Do env (postRequest c (agentURL c path) body) w))"
  using assms by (simp_all add: shape postJSON_def exchange_def delivered_def split: prod.splits sum.splits)

lemma posts_at_most_once:
  "snd (post env c p w) = w \<or>
   (\<exists>path body. content c p = Inr (path, body) \<and>
      snd (post env c p w) = snd (h_Do env (postRequest c (agentURL c path) body) w))"
proof (cases "content c p")
  case (Inr pb)
  obtain path body where pb: "pb = (path, body)" by (cases pb)
  show ?thesis
  proof (cases "h_NewRequest env ''POST'' (agentURL c path)")
    case None
    with Inr pb sends(1) [of c p path body env w] show ?thesis by blast
  qed (use Inr pb bad_url in simp)
qed (simp add: quiet)

end

definition statsContent :: "StatsPush \<Rightarrow> go_error option + string \<times> json" where
  "statsContent p = (case encodeStatsPush p of Inl e \<Rightarrow> Inl (Some e) | Inr b \<Rightarrow> Inr (''/stats'', b))"

definition onlineContent :: "OnlineUsersPush option \<Rightarrow> go_error option + string \<times> json" where
  "onlineContent p = (case p of None \<Rightarrow> Inl None
     | Some q \<Rightarrow> (case encodeOnlineUsersPush q of Inl e \<Rightarrow> Inl (Some e) | Inr b \<Rightarrow> Inr (''/online'', b)))"

definition metricsContent :: "ServerMetricPush option \<Rightarrow> go_error option + string \<times> json" where
  "metricsContent p = (case p of None \<Rightarrow> Inl None
     | Some q \<Rightarrow> (case encodeServerMetricPush q of Inl e \<Rightarrow> Inl (Some e) | Inr b \<Rightarrow> Inr (''/metrics'', b)))"

definition heartbeatContent :: "CtrlClient \<Rightarrow> go_error option + string \<times> json" where
  "heartbeatContent c = Inr (''/heartbeat'', encodeHeartbeatPush (heartbeatPayload c))"

definition ackContent :: "string \<times> AgentCommandAck \<Rightarrow> go_error option + string \<times> json" where
  "ackContent p =
     (if fst p = [] then Inl (Some (ErrText ''command id required''))
      else Inr (''/commands/'' @ fst p @ ''/ack'', encodeAgentCommandAck (snd p)))"

interpretation ps: endpoint PostStats "''post stats''" "\<lambda>_. statsContent"
  by unfold_locales (simp add: PostStats_def statsContent_def split: sum.split)

interpretation po: endpoint PostOnlineUsers "''post online users''" "\<lambda>_. onlineContent"
  by unfold_locales (simp add: PostOnlineUsers_def onlineContent_def split: sum.split option.split)

interpretation pm: endpoint PostMetrics "''post metrics''" "\<lambda>_. metricsContent"
  by unfold_locales (simp add: PostMetrics_def metricsContent_def split: sum.split option.split)

interpretation hb: endpoint "\<lambda>env c (_ :: unit). Heartbeat env c" "''heartbeat''" "\<lambda>c _. heartbeatContent c"
  by unfold_locales (simp add: Heartbeat_def heartbeatContent_def)

interpretation ak: endpoint "\<lambda>env c p. AckCommand env c (fst p) (Some (snd p))" "''ack command''" "\<lambda>_. ackContent"
  by unfold_locales (simp add: AckCommand_def ackContent_def)

interpretation tv: version_tagger normalizeTaggedVersion "\<lambda>s. TrimPrefix (TrimSpace s) ''v''"
  by unfold_locales (simp_all add: normalizeTaggedVersion_def)

section \<open>The calls of the agent\<close>

text \<open>
  Every method of the client that uses the network, as data, and the request it stands for: a call
  that sends nothing gives its result instead.
\<close>

datatype client_call =
    CallState
  | CallNextCommand
  | CallStats StatsPush
  | CallOnline "OnlineUsersPush option"
  | CallMetrics "ServerMetricPush option"
  | CallHeartbeat
  | CallAck string AgentCommandAck

definition errOf :: "'a go_result \<times> 'w \<Rightarrow> go_error option \<times> 'w" where
  "errOf r = (case r of (Inl e, w) \<Rightarrow> (Some e, w) | (Inr _, w) \<Rightarrow> (None, w))"

fun perform :: "'w http_env \<Rightarrow> CtrlClient \<Rightarrow> client_call \<Rightarrow> 'w \<Rightarrow> go_error option \<times> 'w" where
  "perform env c CallState w = errOf (GetState env c w)"
| "perform env c CallNextCommand w = errOf (GetNextCommand env c w)"
| "perform env c (CallStats p) w = PostStats env c p w"
| "perform env c (CallOnline p) w = PostOnlineUsers env c p w"
| "perform env c (CallMetrics p) w = PostMetrics env c p w"
| "perform env c CallHeartbeat w = Heartbeat env c w"
| "perform env c (CallAck i a) w = AckCommand env c i (Some a) w"

definition contentRequest :: "CtrlClient \<Rightarrow> go_error option + string \<times> json \<Rightarrow> go_error option + http_request" where
  "contentRequest c x =
     (case x of Inl r \<Rightarrow> Inl r | Inr (path, body) \<Rightarrow> Inr (postRequest c (agentURL c path) body))"

fun requestOf :: "CtrlClient \<Rightarrow> client_call \<Rightarrow> go_error option + http_request" where
  "requestOf c CallState = Inr (getRequest c (agentURL c ''/state''))"
| "requestOf c CallNextCommand = Inr (getRequest c (agentURL c ''/commands/next''))"
| "requestOf c (CallStats p) = contentRequest c (statsContent p)"
| "requestOf c (CallOnline p) = contentRequest c (onlineContent p)"
| "requestOf c (CallMetrics p) = contentRequest c (metricsContent p)"
| "requestOf c CallHeartbeat = contentRequest c (heartbeatContent c)"
| "requestOf c (CallAck i a) = contentRequest c (ackContent (i, a))"

definition authenticated :: "CtrlClient \<Rightarrow> http_request \<Rightarrow> bool" where
  "authenticated c req \<longleftrightarrow>
     go_get (rq_Header req) ''Authorization'' = Some (''Bearer '' @ Token (Control (cc_cfg c)))
     \<and> HasPrefix (rq_URL req) (agentURL c ''/'')"

lemma authenticated_get: "authenticated c (getRequest c (agentURL c (''/'' @ path)))"
  by (simp add: authenticated_def getRequest_def auth_def agentURL_def go_simps)

lemma authenticated_post: "authenticated c (postRequest c (agentURL c (''/'' @ path)) body)"
  by (simp add: authenticated_def postRequest_def auth_def agentURL_def go_simps)

lemma rq_simps [simp]:
  "rq_Method (getRequest c url) = ''GET''" "rq_URL (getRequest c url) = url"
  "rq_Method (postRequest c url body) = ''POST''" "rq_URL (postRequest c url body) = url"
  "rq_Body (postRequest c url body) = Some body"
  by (simp_all add: getRequest_def postRequest_def auth_def)

lemma contentRequest_authenticated:
  "contentRequest c x = Inr req \<Longrightarrow> (\<And>path body. x = Inr (path, body) \<Longrightarrow> HasPrefix path ''/'') \<Longrightarrow> authenticated c req"
  using authenticated_post
  by (auto simp: contentRequest_def go_simps prefix_def split: sum.splits)

lemma requestOf_authenticated: "requestOf c call = Inr req \<Longrightarrow> authenticated c req"
proof (cases call)
  case CallState
  then show "requestOf c call = Inr req \<Longrightarrow> ?thesis" using authenticated_get [of c "''state''"] by auto
next
  case CallNextCommand
  then show "requestOf c call = Inr req \<Longrightarrow> ?thesis" using authenticated_get [of c "''commands/next''"] by auto
qed (auto simp: statsContent_def onlineContent_def metricsContent_def heartbeatContent_def ackContent_def go_simps
      elim!: contentRequest_authenticated split: sum.splits option.splits if_splits)

text \<open>An endpoint carries out the request of its content.\<close>

context endpoint
begin

lemma carries_out:
  "(case contentRequest c (content c p) of
      Inl r \<Rightarrow> post env c p w = (r, w)
    | Inr req \<Rightarrow>
        (case h_NewRequest env (rq_Method req) (rq_URL req) of
           Some err \<Rightarrow> post env c p w = (Some err, w)
         | None \<Rightarrow> snd (post env c p w) = snd (h_Do env req w)
             \<and> (fst (post env c p w) = None \<longleftrightarrow> delivered (fst (h_Do env req w)))))"
  using quiet bad_url sends by (auto simp: contentRequest_def split: sum.split option.split)

end

lemma exchange_snd: "snd (exchange env what req w) = snd (h_Do env req w)"
  by (simp add: exchange_def split: prod.split sum.split)

lemma exchange_fst: "fst (exchange env what req w) = Inr resp \<Longrightarrow> delivered (fst (h_Do env req w))"
  by (auto simp: exchange_def delivered_def split: prod.splits sum.splits if_splits)

lemma GetState_sends:
  assumes "h_NewRequest env ''GET'' (agentURL c ''/state'') = None"
  shows "snd (GetState env c w) = snd (h_Do env (getRequest c (agentURL c ''/state'')) w)"
    and "fst (GetState env c w) = Inr s \<Longrightarrow> delivered (fst (h_Do env (getRequest c (agentURL c ''/state'')) w))"
  using assms exchange_snd [of env "''state''" "getRequest c (agentURL c ''/state'')" w]
    exchange_fst [of env "''state''" "getRequest c (agentURL c ''/state'')" w]
  by (auto simp: GetState_def Let_def split: prod.splits sum.splits)

lemma GetNextCommand_sends:
  assumes "h_NewRequest env ''GET'' (agentURL c ''/commands/next'') = None"
  shows "snd (GetNextCommand env c w) = snd (h_Do env (getRequest c (agentURL c ''/commands/next'')) w)"
    and "fst (GetNextCommand env c w) = Inr s \<Longrightarrow>
      delivered (fst (h_Do env (getRequest c (agentURL c ''/commands/next'')) w))"
  using assms exchange_snd [of env "''next command''" "getRequest c (agentURL c ''/commands/next'')" w]
    exchange_fst [of env "''next command''" "getRequest c (agentURL c ''/commands/next'')" w]
  by (auto simp: GetNextCommand_def Let_def split: prod.splits sum.splits)

lemma errOf_simps [simp]: "snd (errOf r) = snd r" "fst (errOf r) = None \<longleftrightarrow> (\<exists>x. fst r = Inr x)"
  by (auto simp: errOf_def split: prod.split sum.split)

lemma perform_cases:
  "(case requestOf c call of
      Inl r \<Rightarrow> perform env c call w = (r, w)
    | Inr req \<Rightarrow>
        (case h_NewRequest env (rq_Method req) (rq_URL req) of
           Some err \<Rightarrow> perform env c call w = (Some err, w)
         | None \<Rightarrow> snd (perform env c call w) = snd (h_Do env req w)
             \<and> (fst (perform env c call w) = None \<longrightarrow> delivered (fst (h_Do env req w)))))"
proof (cases call)
  case CallState
  show ?thesis
  proof (cases "h_NewRequest env ''GET'' (agentURL c ''/state'')")
    case None
    with CallState GetState_sends [OF None] show ?thesis by auto
  qed (simp add: CallState GetState_def errOf_def)
next
  case CallNextCommand
  show ?thesis
  proof (cases "h_NewRequest env ''GET'' (agentURL c ''/commands/next'')")
    case None
    with CallNextCommand GetNextCommand_sends [OF None] show ?thesis by auto
  qed (simp add: CallNextCommand GetNextCommand_def errOf_def)
next
  case (CallStats p)
  show ?thesis using ps.carries_out [where c = c and p = p and env = env and w = w] by (auto simp: CallStats split: sum.splits option.splits)
next
  case (CallOnline p)
  show ?thesis using po.carries_out [where c = c and p = p and env = env and w = w] by (auto simp: CallOnline split: sum.splits option.splits)
next
  case (CallMetrics p)
  show ?thesis using pm.carries_out [where c = c and p = p and env = env and w = w] by (auto simp: CallMetrics split: sum.splits option.splits)
next
  case CallHeartbeat
  show ?thesis using hb.carries_out [where c = c and env = env and w = w] by (auto simp: CallHeartbeat split: sum.splits option.splits)
next
  case (CallAck i a)
  show ?thesis using ak.carries_out [where c = c and p = "(i, a)" and env = env and w = w] by (auto simp: CallAck split: sum.splits option.splits)
qed

section \<open>Properties\<close>


lemma decodeState_encodeState:
  assumes "go_wf (st_Meta s)"
  shows "decodeState (encodeState s) zeroState = Inr s"
proof -
  have cl: "decElems decodeClient zeroClient (map encodeClient (st_Clients s)) [] = Inr (st_Clients s)"
    by (rule decElems_map) (rule decode_encode_client)
  have rl: "decElems decodeRouteRule zeroRoute (map encodeRouteRule (st_Routes s)) [] = Inr (st_Routes s)"
    by (rule decElems_map) (rule decode_encode_route)
  have v: "decInt64 (JInt (sint (st_ConfigVersion s))) old = Inr (st_ConfigVersion s)" for old
    using sint_int64_range [of "st_ConfigVersion s"] by (simp add: decInt64_def)
  have meta: "decMembers fs [(''meta'', if st_Meta s = [] then None else Some (JObj (st_Meta s)))] r =
      Inr (st_Meta_update (\<lambda>_. st_Meta s) r)"
    if "findField fs ''meta'' = Some (field decMap st_Meta st_Meta_update)" and "st_Meta r = []"
    for fs and r :: State
    using that go_fill_wf [OF assms] by (cases r) (simp add: decMembers_None decMembers_Nil decMembers_Some decMap_def)
  show ?thesis
    by (simp add: decodeState_def encodeState_def zeroState_def meta decMembers_simps decSlice_def cl rl v)
qed


definition sample_state :: State where
  "sample_state =
     \<lparr>st_ConfigVersion = - 3,
      st_Clients = [\<lparr>c_Proto = ''vless'', c_ID = ''1'', c_Password = [], c_Email = ''a''\<rparr>],
      st_Routes = [zeroRoute\<lparr>r_Tag := ''r'', r_Domain := [''x'', ''y'']\<rparr>], st_Meta = [(''k'', JBool True)]\<rparr>"

definition sample_env :: "nat http_env" where
  "sample_env =
     \<lparr>h_NewRequest = (\<lambda>_ _. None), h_Do = (\<lambda>_ n. (Inr \<lparr>rs_StatusCode = 200, rs_Body = []\<rparr>, n + 1)),
      h_scan = (\<lambda>_. Inr (encodeState sample_state))\<rparr>"


text \<open>
  The heartbeat reports the core version that was set last, as a tag: without surrounding white
  space and with a leading \<^verbatim>\<open>v\<close>; the member is absent exactly when the version was blank. The
  agent version is sent as it is and is not affected.
\<close>

theorem heartbeat_reports_core_version:
  "let c' = SetXrayCoreVersion v c; p = heartbeatPayload c' in
     hb_OK p \<and> hb_XrayCoreVersion p = normalizeTaggedVersion v \<and> hb_AgentVersion p = AgentVersion c
     \<and> (hb_XrayCoreVersion p = [] \<longleftrightarrow> TrimSpace v = [])
     \<and> (hb_XrayCoreVersion p = [] \<or> HasPrefix (hb_XrayCoreVersion p) ''v'')
     \<and> TrimSpace (hb_XrayCoreVersion p) = hb_XrayCoreVersion p
     \<and> (encodeHeartbeatPush p = encStruct [(''ok'', Some (JBool True)), (''agent_version'', omitEmpty (AgentVersion c)),
          (''xray_core_version'', omitEmpty (normalizeTaggedVersion v))])
     \<and> SetXrayCoreVersion (normalizeTaggedVersion v) c' = c'"
  using tv.tag_blank [of v] tv.tag_v [of v] tv.tag_trimmed [of v] tv.tag_idem [of v]
  by (auto simp: Let_def heartbeatPayload_def SetXrayCoreVersion_def AgentVersion_def encodeHeartbeatPush_def)

end
