(* ===== verification/Github_Release.thy ===== *)
theory Github_Release
  imports Control_Client File_Install
begin

text \<open>
  What the self-updater \<^verbatim>\<open>internal/selfupdate/selfupdate.go\<close> and the core installer
  \<^verbatim>\<open>internal/xraycore/xraycore.go\<close> have in common: the results they return, the release record of the
  GitHub API, the request for a release and the download of an asset into a file. The two packages
  hold the same text for these functions. A request does not touch the local files, so the network
  acts on the part \<open>w_ext\<close> of the world.
\<close>

section \<open>Data\<close>

record InstallResult =
  ir_FromVersion :: string
  ir_ToVersion :: string
  ir_Updated :: bool

record CheckResult =
  ck_InstalledVersion :: string
  ck_LatestVersion :: string
  ck_UpdateAvailable :: bool

record releaseAsset =
  ra_Name :: string
  ra_BrowserDownloadURL :: string

record releaseInfo =
  ri_TagName :: string
  ri_Assets :: "releaseAsset list"

definition zeroAsset :: releaseAsset where
  "zeroAsset = \<lparr>ra_Name = [], ra_BrowserDownloadURL = []\<rparr>"

definition decodeAsset :: "json \<Rightarrow> releaseAsset \<Rightarrow> releaseAsset go_result" where
  "decodeAsset = decStruct ''releaseAsset''
     [(''name'', field decString ra_Name ra_Name_update),
      (''browser_download_url'', field decString ra_BrowserDownloadURL ra_BrowserDownloadURL_update)]"

definition decodeRelease :: "json \<Rightarrow> releaseInfo \<Rightarrow> releaseInfo go_result" where
  "decodeRelease = decStruct ''releaseInfo''
     [(''tag_name'', field decString ri_TagName ri_TagName_update),
      (''assets'', field (decSlice ''[]releaseAsset'' decodeAsset zeroAsset) ri_Assets ri_Assets_update)]"

text \<open>The platform the program was built for, \<^verbatim>\<open>runtime.GOOS\<close> and \<^verbatim>\<open>runtime.GOARCH\<close>.\<close>

record platform =
  GOOS :: string
  GOARCH :: string

section \<open>Requests\<close>

definition httpDo :: "'x http_env \<Rightarrow> http_request \<Rightarrow> 'x world \<Rightarrow> http_response go_result \<times> 'x world" where
  "httpDo env req w = (case h_Do env req (w_ext w) of (r, x) \<Rightarrow> (r, w\<lparr>w_ext := x\<rparr>))"

definition withToken :: "string \<Rightarrow> (string, string) gomap \<Rightarrow> (string, string) gomap" where
  "withToken token h = (if token \<noteq> [] then go_set ''Authorization'' (''Bearer '' @ token) h else h)"

definition getFor :: "string \<Rightarrow> (string, string) gomap \<Rightarrow> http_request" where
  "getFor url h = \<lparr>rq_Method = ''GET'', rq_URL = url, rq_Header = h, rq_Body = None\<rparr>"

text \<open>
  The release of a tag, or the latest one when no version is given. A version of white space only
  has an empty tag, for which the URL ends after \<^verbatim>\<open>tags/\<close>.
\<close>

definition getRelease ::
  "'x http_env \<Rightarrow> (string \<Rightarrow> string) \<Rightarrow> string \<Rightarrow> string \<Rightarrow> string \<Rightarrow> 'x world
   \<Rightarrow> (releaseInfo \<times> string) go_result \<times> 'x world" where
  "getRelease env ensureTag repo version token w =
     (let tag = (if version \<noteq> [] then ensureTag version else []);
          url = (if version \<noteq> []
                 then ''https://api.github.com/repos/'' @ repo @ ''/releases/tags/'' @ tag
                 else ''https://api.github.com/repos/'' @ repo @ ''/releases/latest'') in
      case h_NewRequest env ''GET'' url of
        Some err \<Rightarrow> (Inl err, w)
      | None \<Rightarrow>
          (case httpDo env (getFor url (withToken token (go_set ''Accept'' ''application/vnd.github+json'' []))) w of
             (Inl err, w1) \<Rightarrow> (Inl err, w1)
           | (Inr resp, w1) \<Rightarrow>
               if rs_StatusCode resp div 100 \<noteq> 2
               then (Inl (ErrText (''github release http '' @ intText (int (rs_StatusCode resp)) @ '': '' @ rs_Body resp)), w1)
               else case h_scan env (rs_Body resp) of
                      Inl err \<Rightarrow> (Inl err, w1)
                    | Inr j \<Rightarrow>
                        (case decodeRelease j \<lparr>ri_TagName = [], ri_Assets = []\<rparr> of
                           Inl err \<Rightarrow> (Inl err, w1)
                         | Inr release \<Rightarrow>
                             (Inr (release, if tag \<noteq> [] then tag else ri_TagName release), w1))))"

definition downloadFile :: "'x http_env \<Rightarrow> string \<Rightarrow> string \<Rightarrow> string \<Rightarrow> 'x world \<Rightarrow> go_error option \<times> 'x world" where
  "downloadFile env url dest token w =
     (case h_NewRequest env ''GET'' url of
        Some err \<Rightarrow> (Some err, w)
      | None \<Rightarrow>
          (case httpDo env (getFor url (withToken token [])) w of
             (Inl err, w1) \<Rightarrow> (Some err, w1)
           | (Inr resp, w1) \<Rightarrow>
               if rs_StatusCode resp div 100 \<noteq> 2
               then (Some (ErrText (''download '' @ url @ '': http '' @ intText (int (rs_StatusCode resp)))), w1)
               else case os_Create dest w1 of
                      (Some err, w2) \<Rightarrow> (Some err, w2)
                    | (None, w2) \<Rightarrow>
                        (case io_Copy dest (\<lambda>_. Inr (rs_Body resp)) w2 of
                           (err, w3) \<Rightarrow> (err, snd (f_Close dest w3)))))"

section \<open>Facts\<close>

lemma httpDo_only: "httpDo env req w = (r, w1) \<Longrightarrow> only_changes K w w1 \<and> w_fs w1 = w_fs w \<and> w_faults w1 = w_faults w"
  by (auto simp: httpDo_def only_changes_def same_setup_def split: prod.splits)

lemma getRelease_only: "getRelease env tagOf repo ver token w = (r, w1) \<Longrightarrow> only_changes K w w1"
  using httpDo_only [of env _ w _ _ K]
  by (auto simp: getRelease_def Let_def split: option.splits prod.splits sum.splits if_splits)

text \<open>The version of a release is the tag that was asked for, or the tag the release has.\<close>

lemma getRelease_version:
  "getRelease env tagOf repo ver token w = (Inr (rel, v), w1) \<Longrightarrow>
   v = (if ver \<noteq> [] \<and> tagOf ver \<noteq> [] then tagOf ver else ri_TagName rel)"
  by (auto simp: getRelease_def Let_def split: option.splits prod.splits sum.splits if_splits)

text \<open>The bytes that a server gave for a URL.\<close>

definition served :: "'x http_env \<Rightarrow> string \<Rightarrow> string \<Rightarrow> string \<Rightarrow> bool" where
  "served env token url body \<longleftrightarrow>
     (\<exists>x x' resp. h_Do env (getFor url (withToken token [])) x = (Inr resp, x')
        \<and> rs_StatusCode resp div 100 = 2 \<and> rs_Body resp = body)"

lemma os_OpenFile_ok:
  assumes "os_OpenFile p perm w = (None, w1)"
  shows "p \<noteq> [] \<and> (\<exists>m. w_fs w1 (fileKey w p) = Some (RegFile [] m))"
  using assms
  by (auto simp: os_OpenFile_def effect_def node_at_def split: prod.splits option.splits if_splits node.splits)

lemma downloadFile_only: "only_changes {fileKey w dest} w (snd (downloadFile env url dest token w))"
proof -
  let ?K = "{fileKey w dest}"
  have create: "only_changes ?K w w2" if "os_Create dest v = (r, w2)" "only_changes ?K w v" for r v w2
    using that only_trans [OF that(2) writing_only(2) [of v dest]] only_key [OF that(2), of dest] by simp
  have copy: "only_changes ?K w (snd (f_Close dest w3))" if "io_Copy dest rd v = (r, w3)" "only_changes ?K w v" for r v w3 rd
  proof -
    have "only_changes ?K w w3"
      using that only_trans [OF that(2) io_Copy_only [of v dest]] only_key [OF that(2), of dest] by (metis insertI1 snd_conv)
    then show ?thesis using only_trans syncing_only(2) by blast
  qed
  show ?thesis
    using httpDo_only [of env _ w _ _ ?K]
    by (auto simp: downloadFile_def dest: create copy split: option.splits prod.splits sum.splits)
qed

text \<open>A download that succeeds stores the whole body of the answer.\<close>

lemma downloadFile_ok:
  assumes "downloadFile env url dest token w = (None, w')"
  obtains body m where "served env token url body" "w_fs w' (fileKey w dest) = Some (RegFile body m)" "dest \<noteq> []"
proof -
  obtain resp w1 w2 w3 where 1: "httpDo env (getFor url (withToken token [])) w = (Inr resp, w1)"
    and ok: "rs_StatusCode resp div 100 = 2" and 2: "os_Create dest w1 = (None, w2)"
    and 3: "f_Write dest (rs_Body resp) w2 = (None, w3)" and 4: "w' = snd (f_Close dest w3)"
    using assms by (auto simp: downloadFile_def io_Copy_def split: option.splits prod.splits sum.splits if_splits)
  have k1: "fileKey w1 dest = fileKey w dest" using only_key httpDo_only [OF 1] by blast
  have k2: "fileKey w2 dest = fileKey w dest"
    using only_key [OF writing_only(2) [of w1 dest UNIV], of dest] 2 k1 by simp
  obtain m where m: "w_fs w2 (fileKey w dest) = Some (RegFile [] m)" and ne: "dest \<noteq> []"
    using os_OpenFile_ok [of dest _ w1 w2] 2 k1 by (auto simp: os_Create_def)
  have "w_fs w3 (fileKey w dest) = Some (RegFile (rs_Body resp) m)" using f_Write_ok [OF 3 ne] m k2 by simp
  moreover have "w_fs w' = w_fs w3" using 4 f_Close_ok [of dest w3 _ w'] by (metis prod.collapse)
  moreover have "served env token url (rs_Body resp)"
    using 1 ok by (auto simp: served_def httpDo_def split: prod.splits)
  ultimately show thesis using that ne by metis
qed

end
