(* ===== verification/Healthy_Run.thy ===== *)
theory Healthy_Run
  imports Github_Release
begin

text \<open>
  The operations of the file system when no call fails from outside: then each succeeds unless the
  files themselves stand in its way. These facts carry the proofs that an update completes.
\<close>

section \<open>No failures\<close>

definition healthy :: "'x world \<Rightarrow> bool" where
  "healthy w \<longleftrightarrow> w_faults w = []"

text \<open>The same health and the same random numbers to come.\<close>

definition steady :: "'x world \<Rightarrow> 'x world \<Rightarrow> bool" where
  "steady w w' \<longleftrightarrow> (healthy w \<longrightarrow> healthy w') \<and> w_draws w' = w_draws w"

lemma steady_refl [simp]: "steady w w"
  by (simp add: steady_def)

lemma steady_trans: "steady w v \<Longrightarrow> steady v u \<Longrightarrow> steady w u"
  by (simp add: steady_def)

lemma healthy_fault: "healthy w \<Longrightarrow> nextFault w = (None, w)"
  by (simp add: healthy_def nextFault_def)

lemma healthy_effect: "healthy w \<Longrightarrow> effect m w = m w"
  by (simp add: effect_def healthy_fault)

lemma healthy_guarded: "healthy w \<Longrightarrow> guarded m w = m w"
  by (simp add: guarded_def healthy_fault)

lemma steady_setNode [simp]: "steady w (setNode p n v) = steady w v"
  by (simp add: steady_def healthy_def setNode_def)

lemma steady_fs [simp]: "steady w (v\<lparr>w_fs := fs\<rparr>) = steady w v"
  by (simp add: steady_def healthy_def)

lemmas healthy_simps = healthy_effect healthy_guarded healthy_fault

lemma healthy_append: "healthy w \<Longrightarrow> steady w (appendData p d w)"
  by (simp add: appendData_def split: option.split node.split)

lemma healthy_ops:
  assumes "healthy w"
  shows "steady w (snd (os_Stat p w))" "steady w (snd (os_Open p w))" "steady w (snd (os_ReadAll p w))"
    "steady w (snd (os_ReadFile p w))"
    "steady w (snd (os_OpenFile p perm w))" "steady w (snd (os_Create p w))" "steady w (snd (f_Write p d w))"
    "steady w (snd (f_Chmod p perm w))" "steady w (snd (f_Sync p w))" "steady w (snd (f_Close p w))"
    "steady w (snd (os_Rename p q w))" "steady w (snd (os_Remove p w))" "steady w (snd (os_MkdirAll p w))"
    "steady w (snd (os_RemoveAll p w))"
  using assms
  by (simp_all add: os_Stat_def os_Open_def os_ReadAll_def os_ReadFile_def os_OpenFile_def os_Create_def f_Write_def
      f_Chmod_def f_Sync_def f_Close_def os_Rename_def os_Remove_def os_MkdirAll_def os_RemoveAll_def
      healthy_simps healthy_append Let_def split: option.split node.split)

section \<open>Operations that succeed\<close>

lemma open_succeeds: "healthy w \<Longrightarrow> node_at w p \<noteq> None \<Longrightarrow> os_Open p w = (Inr (), w)"
  by (auto simp: os_Open_def healthy_guarded)

lemma read_succeeds: "healthy w \<Longrightarrow> readNode p w = Inr d \<Longrightarrow> os_ReadAll p w = (Inr d, w)"
  by (simp add: os_ReadAll_def healthy_guarded)

lemma readNode_Inr: "readNode p w = Inr d \<longleftrightarrow> (\<exists>m. node_at w p = Some (RegFile d m))"
  by (auto simp: readNode_def split: option.splits node.splits)

lemma readFile_succeeds: "healthy w \<Longrightarrow> readNode p w = Inr d \<Longrightarrow> os_ReadFile p w = (Inr d, w)"
  by (auto simp: os_ReadFile_def open_succeeds read_succeeds readNode_Inr)

lemma create_succeeds:
  "healthy w \<Longrightarrow> p \<noteq> [] \<Longrightarrow> w_fs w (fileKey w p) = None \<Longrightarrow> w_fs w (butlast (fileKey w p)) = Some Directory \<Longrightarrow>
   fst (os_Create p w) = None"
  by (simp add: os_Create_def os_OpenFile_def healthy_effect node_at_def)

lemma fill_succeeds: "healthy w \<Longrightarrow> fst (f_Write p d w) = None" "healthy w \<Longrightarrow> fst (f_Chmod p perm w) = None"
  "healthy w \<Longrightarrow> fst (f_Sync p w) = None" "healthy w \<Longrightarrow> fst (f_Close p w) = None"
  by (simp_all add: f_Write_def f_Chmod_def f_Sync_def f_Close_def healthy_simps)

lemma rename_succeeds:
  "healthy w \<Longrightarrow> p \<noteq> [] \<Longrightarrow> q \<noteq> [] \<Longrightarrow> w_fs w (fileKey w p) \<noteq> None \<Longrightarrow> w_fs w (fileKey w q) \<noteq> Some Directory \<Longrightarrow>
   w_fs w (butlast (fileKey w q)) = Some Directory \<Longrightarrow> fst (os_Rename p q w) = None"
  by (auto simp: os_Rename_def healthy_effect node_at_def)

text \<open>A directory that exists, with all directories above it.\<close>

definition dir_exists :: "'x world \<Rightarrow> string \<Rightarrow> bool" where
  "dir_exists w p \<longleftrightarrow> p \<noteq> [] \<and> (\<forall>q. prefix q (fileKey w p) \<longrightarrow> w_fs w q = Some Directory)"

lemma mkdir_succeeds:
  assumes "healthy w" and "dir_exists w p"
  shows "os_MkdirAll p w = (None, w)"
proof -
  have dir: "w_fs w q = Some Directory" if "prefix q (fileKey w p)" for q using assms(2) that by (simp add: dir_exists_def)
  then have "\<not> blocked (w_fs w) (fileKey w p)"
    by (auto simp: blocked_def list_ex_iff isRegFile_def take_is_prefix)
  moreover have "makeDirs n (fileKey w p) (w_fs w) = w_fs w" for n using dir by (auto simp: makeDirs_def)
  ultimately show ?thesis
    using assms dir [of "fileKey w p"] by (simp add: os_MkdirAll_def healthy_fault isRegFile_def Let_def dir_exists_def)
qed

text \<open>The next random number gives a free name in a directory that exists.\<close>

definition name_ready :: "'x world \<Rightarrow> nat \<Rightarrow> string \<Rightarrow> string \<Rightarrow> bool" where
  "name_ready w n dir pat \<longleftrightarrow> slash \<notin> set pat \<and> w_fs w (fileKey w (tempName dir pat (w_rand w n))) = None
     \<and> w_fs w (butlast (fileKey w (tempName dir pat (w_rand w n)))) = Some Directory"

lemma name_ready_only:
  assumes "name_ready w n dir pat" and "only_changes K w w'"
    and "fileKey w (tempName dir pat (w_rand w n)) \<notin> K" "butlast (fileKey w (tempName dir pat (w_rand w n))) \<notin> K"
  shows "name_ready w' n dir pat"
proof -
  have "w_rand w' = w_rand w" using only_setup [OF assms(2)] by (simp add: same_setup_def)
  then show ?thesis
    using assms only_at [OF assms(2)] only_key [OF assms(2)] by (simp add: name_ready_def)
qed

lemma createFresh_succeeds:
  assumes "healthy w" and "name_ready w (w_draws w) dir pat"
  shows "\<exists>w1. createFresh nd dir pat w = (Inr (tempName dir pat (w_rand w (w_draws w))), w1)
    \<and> healthy w1 \<and> w_draws w1 = Suc (w_draws w)"
proof -
  let ?n = "tempName dir pat (w_rand w (w_draws w))" and ?w = "w\<lparr>w_draws := Suc (w_draws w)\<rparr>"
  have "freshName 10000 (tempName dir pat) w = (Some ?n, ?w)"
    using assms(2) by (simp add: freshName.simps [of 10000] name_ready_def Let_def)
  moreover have "healthy ?w" "fileKey ?w = fileKey w" using assms(1) by (simp_all add: healthy_def fileKey_def fun_eq_iff)
  ultimately show ?thesis
    using assms by (simp add: createFresh_def healthy_guarded name_ready_def) (simp add: healthy_def setNode_def)
qed

lemma replaceVia_succeeds:
  assumes dest: "filePath dest" "temp_suffix suf" and w: "healthy w" "rd w = Inr d" "stable rd w"
    and name: "name_ready w (w_draws w) (pathDir dest) (pathBase dest @ suf)"
    and target: "w_fs w (fileKey w dest) \<noteq> Some Directory" "w_fs w (fileKey w (pathDir dest)) = Some Directory"
  shows "\<exists>w'. replaceVia suf perm dest rd w = (None, w') \<and> healthy w'"
proof -
  let ?t = "tempName (pathDir dest) (pathBase dest @ suf) (w_rand w (w_draws w))"
  obtain w1 where 1: "os_CreateTemp (pathDir dest) (pathBase dest @ suf) w = (Inr ?t, w1)" and h1: "healthy w1"
    using createFresh_succeeds [OF w(1) name] unfolding os_CreateTemp_def by blast
  note new = createTemp_spare [OF dest 1]
  have rd1: "rd w1 = Inr d"
  proof -
    have "w_fs w1 q = w_fs w q" if "w_fs w q \<noteq> None" for q
      using only_at [OF new(4), of q] that new(1) by (cases "q = fileKey w ?t") (auto simp: spare_def)
    then show ?thesis using w(2,3) only_setup [OF new(4)] unfolding stable_def by auto
  qed
  obtain w2 where 2: "f_Write ?t d w1 = (None, w2)" using fill_succeeds(1) [OF h1] by (metis prod.collapse)
  have h2: "healthy w2" using healthy_ops(7) [OF h1, of ?t d] 2 h1 by (simp add: steady_def)
  obtain w3 where 3: "f_Chmod ?t perm w2 = (None, w3)" using fill_succeeds(2) [OF h2] by (metis prod.collapse)
  have h3: "healthy w3" using healthy_ops(8) [OF h2, of ?t perm] 3 h2 by (simp add: steady_def)
  obtain w4 where 4: "f_Sync ?t w3 = (None, w4)" using fill_succeeds(3) [OF h3] by (metis prod.collapse)
  have h4: "healthy w4" using healthy_ops(9) [OF h3, of ?t] 4 h3 by (simp add: steady_def)
  obtain w5 where 5: "f_Close ?t w4 = (None, w5)" using fill_succeeds(4) [OF h4] by (metis prod.collapse)
  have h5: "healthy w5" using healthy_ops(10) [OF h4, of ?t] 5 h4 by (simp add: steady_def)
  let ?K = "{fileKey w ?t}"
  have o1: "only_changes ?K w w1" by (rule new)
  have o2: "only_changes ?K w w2" using only_trans [OF o1] writing_only(3) [of w1 ?t ?K d] 2 only_key [OF o1] by simp
  have o3: "only_changes ?K w w3" using only_trans [OF o2] writing_only(4) [of w2 ?t ?K perm] 3 only_key [OF o2] by simp
  have o5: "only_changes ?K w w5"
    using only_trans [OF only_trans [OF o3, of w4], of w5] syncing_only(1) [of ?K w3 ?t] syncing_only(2) [of ?K w4 ?t] 4 5 by simp
  have dir: "butlast (fileKey w dest) = fileKey w (pathDir dest)"
    using resolve_filePath [OF dest(1)] by (simp add: fileKey_def)
  have "w_fs w5 (fileKey w ?t) \<noteq> None"
    using f_Write_ok [OF 2 new(2)] f_Chmod_ok [OF 3 new(2)] f_Sync_ok [OF 4] f_Close_ok [OF 5] new(3)
      only_key [OF o1] only_key [OF o2] by simp
  moreover have "fileKey w (pathDir dest) \<noteq> fileKey w ?t" "fileKey w dest \<noteq> fileKey w ?t"
    using target(2) new(1) unfolding spare_def by (intro notI; simp)+
  then have "w_fs w5 (fileKey w dest) \<noteq> Some Directory" "w_fs w5 (butlast (fileKey w dest)) = Some Directory"
    using only_at [OF o5, of "fileKey w dest"] only_at [OF o5, of "fileKey w (pathDir dest)"] target dir by simp_all
  moreover have "dest \<noteq> []" using dest(1) by (auto simp: filePath_def lastName_def plain_def)
  ultimately obtain w6 where 6: "os_Rename ?t dest w5 = (None, w6)"
    using rename_succeeds [OF h5 new(2), of dest] only_key [OF o5] by (metis prod.collapse)
  have "healthy w6" using healthy_ops(11) [OF h5, of ?t dest] 6 h5 by (simp add: steady_def)
  then show ?thesis by (simp add: replaceVia_def 1 io_Copy_def rd1 2 3 4 5 6)
qed

text \<open>A download into a new file of a directory that exists, when the server answers.\<close>

lemma downloadFile_succeeds:
  assumes "healthy w" "dest \<noteq> []" "w_fs w (fileKey w dest) = None" "w_fs w (butlast (fileKey w dest)) = Some Directory"
    and "h_NewRequest env ''GET'' url = None"
    and "h_Do env (getFor url (withToken token [])) (w_ext w) = (Inr resp, x)" "rs_StatusCode resp div 100 = 2"
  shows "\<exists>w'. downloadFile env url dest token w = (None, w') \<and> healthy w' \<and> w_draws w' = w_draws w \<and> w_ext w' = x
    \<and> (\<exists>m. w_fs w' (fileKey w dest) = Some (RegFile (rs_Body resp) m))"
proof -
  let ?w1 = "w\<lparr>w_ext := x\<rparr>"
  have 1: "httpDo env (getFor url (withToken token [])) w = (Inr resp, ?w1)" using assms(6) by (simp add: httpDo_def)
  have k: "fileKey ?w1 dest = fileKey w dest" and h1: "healthy ?w1" using assms(1) by (simp_all add: fileKey_def healthy_def)
  let ?n = "RegFile (rs_Body resp) (mode 6 6 6 AND NOT (w_umask w))"
  have 2: "os_Create dest ?w1 = (None, setNode dest (Some (RegFile [] (mode 6 6 6 AND NOT (w_umask w)))) ?w1)"
    using assms h1 k by (simp add: os_Create_def os_OpenFile_def healthy_effect node_at_def)
  have h2: "healthy (setNode dest n ?w1)" for n using h1 by (simp add: healthy_def setNode_def)
  have "f_Write dest (rs_Body resp) (setNode dest (Some (RegFile [] (mode 6 6 6 AND NOT (w_umask w)))) ?w1)
    = (None, setNode dest (Some ?n) (setNode dest (Some (RegFile [] (mode 6 6 6 AND NOT (w_umask w)))) ?w1))"
    using assms(2) h2 by (simp add: f_Write_def healthy_fault appendData_def node_at_setNode)
  moreover have "snd (f_Close dest (setNode dest n (setNode dest m ?w1))) = setNode dest n (setNode dest m ?w1)" for n m
    using h1 by (simp add: f_Close_def effect_def nextFault_def healthy_def setNode_def)
  ultimately have "downloadFile env url dest token w =
    (None, setNode dest (Some ?n) (setNode dest (Some (RegFile [] (mode 6 6 6 AND NOT (w_umask w)))) ?w1))"
    using assms(5,7) by (simp add: downloadFile_def 1 2 io_Copy_def)
  then show ?thesis using assms(1) k by (simp add: healthy_def setNode_def fileKey_def)
qed

lemma getRelease_steady: "getRelease env tagOf repo ver token w = (r, w1) \<Longrightarrow> steady w w1"
  by (auto simp: getRelease_def httpDo_def steady_def healthy_def Let_def
      split: option.splits prod.splits sum.splits if_splits)

end
