(* ===== verification/Sha256.thy ===== *)
theory Sha256
  imports Go_Prelude
begin

text \<open>
  SHA-256 (FIPS 180-4), the function of \<^verbatim>\<open>crypto/sha256\<close> that the two updaters compare downloads
  with: bytes are characters, words have 32 bits with wrap-around addition, and \<open>sha256Hex\<close> is the
  digest as \<^verbatim>\<open>%x\<close> prints it.
\<close>

unbundle bit_operations_syntax

section \<open>Constants\<close>

definition sha256_K :: "uint32 list" where
  "sha256_K =
     [1116352408, 1899447441, 3049323471, 3921009573, 961987163, 1508970993, 2453635748, 2870763221,
      3624381080, 310598401, 607225278, 1426881987, 1925078388, 2162078206, 2614888103, 3248222580,
      3835390401, 4022224774, 264347078, 604807628, 770255983, 1249150122, 1555081692, 1996064986,
      2554220882, 2821834349, 2952996808, 3210313671, 3336571891, 3584528711, 113926993, 338241895,
      666307205, 773529912, 1294757372, 1396182291, 1695183700, 1986661051, 2177026350, 2456956037,
      2730485921, 2820302411, 3259730800, 3345764771, 3516065817, 3600352804, 4094571909, 275423344,
      430227734, 506948616, 659060556, 883997877, 958139571, 1322822218, 1537002063, 1747873779,
      1955562222, 2024104815, 2227730452, 2361852424, 2428436474, 2756734187, 3204031479, 3329325298]"

type_synonym sha_state = "uint32 \<times> uint32 \<times> uint32 \<times> uint32 \<times> uint32 \<times> uint32 \<times> uint32 \<times> uint32"

definition sha256_init :: sha_state where
  "sha256_init =
     (0x6a09e667, 0xbb67ae85, 0x3c6ef372, 0xa54ff53a, 0x510e527f, 0x9b05688c, 0x1f83d9ab, 0x5be0cd19)"

section \<open>One block\<close>

definition rotr :: "nat \<Rightarrow> uint32 \<Rightarrow> uint32" where
  "rotr n x = (drop_bit n x OR push_bit (32 - n) x)"

definition sigma0 :: "uint32 \<Rightarrow> uint32" where
  "sigma0 x = (rotr 7 x XOR rotr 18 x XOR drop_bit 3 x)"

definition sigma1 :: "uint32 \<Rightarrow> uint32" where
  "sigma1 x = (rotr 17 x XOR rotr 19 x XOR drop_bit 10 x)"

text \<open>The message schedule: a window of sixteen words that moves on by one word.\<close>

definition nextWindow :: "uint32 list \<Rightarrow> uint32 list" where
  "nextWindow ws = tl ws @ [sigma1 (ws ! 14) + ws ! 9 + sigma0 (ws ! 1) + ws ! 0]"

fun schedule :: "nat \<Rightarrow> uint32 list \<Rightarrow> uint32 list" where
  "schedule 0 ws = []"
| "schedule (Suc n) ws = ws ! 0 # schedule n (nextWindow ws)"

fun sha256_round :: "sha_state \<Rightarrow> uint32 \<times> uint32 \<Rightarrow> sha_state" where
  "sha256_round (a, b, c, d, e, f, g, h) (k, x) =
     (let t1 = h + (rotr 6 e XOR rotr 11 e XOR rotr 25 e) + ((e AND f) XOR (NOT e AND g)) + k + x;
          t2 = (rotr 2 a XOR rotr 13 a XOR rotr 22 a) + ((a AND b) XOR (a AND c) XOR (b AND c))
      in (t1 + t2, a, b, c, d + t1, e, f, g))"

fun addState :: "sha_state \<Rightarrow> sha_state \<Rightarrow> sha_state" where
  "addState (a, b, c, d, e, f, g, h) (a', b', c', d', e', f', g', h') =
     (a + a', b + b', c + c', d + d', e + e', f + f', g + g', h + h')"

definition compress :: "sha_state \<Rightarrow> uint32 list \<Rightarrow> sha_state" where
  "compress s ws = addState s (foldl sha256_round s (zip sha256_K (schedule 64 ws)))"

section \<open>The message\<close>

definition byteVal :: "char \<Rightarrow> int" where
  "byteVal c = of_char c"

definition bigEndian :: "nat \<Rightarrow> int \<Rightarrow> string" where
  "bigEndian n v = map (\<lambda>i. char_of (nat (v div 256 ^ (n - 1 - i) mod 256))) [0..<n]"

text \<open>A one bit, zeros, and the length in bits in the last eight bytes of a block of 64.\<close>

definition padded :: "string \<Rightarrow> string" where
  "padded m =
     m @ [CHR 0x80] @ replicate ((119 - length m mod 64) mod 64) (CHR 0x00)
     @ bigEndian 8 (int (8 * length m) mod 2 ^ 64)"

fun wordsOf :: "string \<Rightarrow> uint32 list" where
  "wordsOf (a # b # c # d # rest) =
     word_of_int (((byteVal a * 256 + byteVal b) * 256 + byteVal c) * 256 + byteVal d) # wordsOf rest"
| "wordsOf _ = []"

function blocks :: "uint32 list \<Rightarrow> uint32 list list" where
  "blocks ws = (if ws = [] then [] else take 16 ws # blocks (drop 16 ws))"
  by pat_completeness auto
termination
  by (relation "measure length") auto

declare blocks.simps [simp del]

definition hexWord :: "uint32 \<Rightarrow> string" where
  "hexWord x = map (\<lambda>i. hexChar (nat (uint x div 16 ^ (7 - i) mod 16))) [0..<8]"

definition sha256Hex :: "string \<Rightarrow> string" where
  "sha256Hex m =
     (case foldl compress sha256_init (blocks (wordsOf (padded m))) of
        (a, b, c, d, e, f, g, h) \<Rightarrow> concat (map hexWord [a, b, c, d, e, f, g, h]))"

section \<open>Facts\<close>

lemma length_sha256Hex [simp]: "length (sha256Hex m) = 64"
  by (simp add: sha256Hex_def hexWord_def split: prod.split)

text \<open>The padded message fills whole blocks.\<close>

lemma length_padded: "length (padded m) = 64 * (length m div 64 + (if length m mod 64 \<le> 55 then 1 else 2))"
proof -
  define q r where "q = length m div 64" and "r = length m mod 64"
  have len: "length (padded m) = length m + 1 + (119 - r) mod 64 + 8"
    by (simp add: padded_def bigEndian_def r_def)
  have m: "length m = 64 * q + r" and r: "r < 64" by (simp_all add: q_def r_def)
  show ?thesis
  proof (cases "r \<le> 55")
    case True
    then have "(119 - r) mod 64 = 55 - r" using mod_if [of "119 - r" 64] by simp
    then show ?thesis using True len m unfolding q_def [symmetric] r_def [symmetric] by simp
  next
    case False
    then have "(119 - r) mod 64 = 119 - r" by simp
    then show ?thesis using False len m r unfolding q_def [symmetric] r_def [symmetric] by simp
  qed
qed

end
