(* ===== verification/Xray_Core.thy ===== *)
theory Xray_Core
  imports Healthy_Run Sha256
begin

text \<open>
  The installer of the Xray core, \<^verbatim>\<open>internal/xraycore/xraycore.go\<close>: looking up a release, downloading
  the archive and its digest file, checking the SHA-256 digest, unpacking, and installing the binary,
  the data files, the sample configuration and the service unit. Running programs, reading the
  directory of a zip archive and the two embedded files are the fields of \<open>core_env\<close>.
\<close>

section \<open>Environment and options\<close>

text \<open>
  A member of an archive: its name, whether it is a directory, its mode, the error of opening it, and
  the bytes that reading it gives before its end or before an error.
\<close>

record zip_file =
  zf_Name :: string
  zf_IsDir :: bool
  zf_Mode :: FileMode
  zf_Open :: "go_error option"
  zf_Data :: string
  zf_ReadErr :: "go_error option"

record 'x core_env =
  ce_http :: "'x http_env"
  ce_run :: "'x runner"
  ce_zip :: "string \<Rightarrow> zip_file list go_result"
  ce_plat :: platform
  ce_sampleConfig :: string
  ce_serviceUnit :: string

definition defaultRepo :: string where "defaultRepo = ''XTLS/Xray-core''"
definition defaultBinDir :: string where "defaultBinDir = ''/usr/local/bin''"
definition defaultConfigPath :: string where "defaultConfigPath = ''/etc/xray/config.json''"
definition defaultServicePath :: string where "defaultServicePath = ''/usr/lib/systemd/system/xray.service''"
definition defaultShareDir :: string where "defaultShareDir = ''/usr/local/share/xray''"

record Options =
  xc_Repo :: string
  xc_Arch :: string
  xc_Version :: string
  xc_Token :: string
  xc_BinDir :: string
  xc_ConfigPath :: string
  xc_ServicePath :: string
  xc_ShareDir :: string

definition detectArch :: "platform \<Rightarrow> string" where
  "detectArch plat =
     (if GOARCH plat = ''amd64'' then ''linux-64''
      else if GOARCH plat = ''arm64'' then ''linux-arm64-v8a''
      else if GOARCH plat = ''arm'' then ''linux-arm32-v7a''
      else GOARCH plat)"

definition withDefaults :: "platform \<Rightarrow> Options \<Rightarrow> Options" where
  "withDefaults plat opts =
     \<lparr>xc_Repo = (if xc_Repo opts = [] then defaultRepo else xc_Repo opts),
      xc_Arch = (if xc_Arch opts = [] then detectArch plat else xc_Arch opts),
      xc_Version = xc_Version opts, xc_Token = xc_Token opts,
      xc_BinDir = (if xc_BinDir opts = [] then defaultBinDir else xc_BinDir opts),
      xc_ConfigPath = (if xc_ConfigPath opts = [] then defaultConfigPath else xc_ConfigPath opts),
      xc_ServicePath = (if xc_ServicePath opts = [] then defaultServicePath else xc_ServicePath opts),
      xc_ShareDir = (if xc_ShareDir opts = [] then defaultShareDir else xc_ShareDir opts)\<rparr>"

section \<open>Versions\<close>

definition normalizeVersion :: "string \<Rightarrow> string" where
  "normalizeVersion v = TrimPrefix (TrimSpace v) ''v''"

definition ensureTagPrefix :: "string \<Rightarrow> string" where
  "ensureTagPrefix v0 =
     (let v = TrimSpace v0 in if v = [] then v else if HasPrefix v ''v'' then v else ''v'' @ v)"

interpretation xv: version_tagger ensureTagPrefix normalizeVersion
  by unfold_locales (simp_all add: ensureTagPrefix_def normalizeVersion_def Let_def)

definition parseInstalledVersionOutput :: "string \<Rightarrow> string" where
  "parseInstalledVersionOutput out =
     (let fields = Fields out in if 2 \<le> length fields then ensureTagPrefix (fields ! 1) else [])"

definition installedVersion :: "'x core_env \<Rightarrow> 'x world \<Rightarrow> string \<times> 'x world" where
  "installedVersion env w =
     (case ce_run env [''xray'', ''-version''] w of
        ((out, Some err), w1) \<Rightarrow> ([], w1)
      | ((out, None), w1) \<Rightarrow> (parseInstalledVersionOutput out, w1))"

definition InstalledVersion :: "'x core_env \<Rightarrow> 'x world \<Rightarrow> string \<times> 'x world" where
  "InstalledVersion env w = installedVersion env w"

section \<open>Releases\<close>

definition fetchRelease :: "'x core_env \<Rightarrow> Options \<Rightarrow> 'x world \<Rightarrow> (releaseInfo \<times> string) go_result \<times> 'x world" where
  "fetchRelease env opts = getRelease (ce_http env) ensureTagPrefix (xc_Repo opts) (xc_Version opts) (xc_Token opts)"

definition fetchLatestVersion :: "'x core_env \<Rightarrow> Options \<Rightarrow> 'x world \<Rightarrow> string go_result \<times> 'x world" where
  "fetchLatestVersion env opts w =
     (case fetchRelease env opts w of
        (Inl err, w1) \<Rightarrow> (Inl err, w1)
      | (Inr (release, version), w1) \<Rightarrow>
          if version = [] \<and> ri_TagName release \<noteq> [] then (Inr (ri_TagName release), w1) else (Inr version, w1))"

definition Check :: "'x core_env \<Rightarrow> Options \<Rightarrow> 'x world \<Rightarrow> CheckResult go_result \<times> 'x world" where
  "Check env opts0 w =
     (let opts = withDefaults (ce_plat env) opts0 in
      case installedVersion env w of
        (installed, w1) \<Rightarrow>
          (case fetchLatestVersion env opts w1 of
             (Inl err, w2) \<Rightarrow> (Inl err, w2)
           | (Inr latest, w2) \<Rightarrow>
               (let upToDate = (normalizeVersion installed = normalizeVersion latest) in
                (Inr \<lparr>ck_InstalledVersion = installed, ck_LatestVersion = latest, ck_UpdateAvailable = (\<not> upToDate)\<rparr>, w2))))"

text \<open>
  A pattern that starts with \<^verbatim>\<open>^\<close>, ends with \<^verbatim>\<open>$\<close> and has only literal characters and escaped ones in
  between matches exactly one text. The patterns for assets have this form for every architecture that
  \<open>detectArch\<close> gives, since those are made of letters, digits and dashes, and no caller sets another one.
\<close>

fun unescape :: "string \<Rightarrow> string" where
  "unescape [] = []"
| "unescape [c] = [c]"
| "unescape (c # d # cs) = (if c = CHR 0x5C then d # unescape cs else c # unescape (d # cs))"

definition MatchString :: "string \<Rightarrow> string \<Rightarrow> bool" where
  "MatchString pat s \<longleftrightarrow> 2 \<le> length pat \<and> hd pat = CHR ''^'' \<and> last pat = CHR ''$'' \<and> s = unescape (butlast (tl pat))"

fun scanAssets :: "string \<Rightarrow> string \<Rightarrow> releaseAsset list \<Rightarrow> string \<times> string \<Rightarrow> string \<times> string" where
  "scanAssets zipPattern dgstPattern [] urls = urls"
| "scanAssets zipPattern dgstPattern (a # assets) (zipURL, dgstURL) =
     scanAssets zipPattern dgstPattern assets
       (if MatchString zipPattern (ra_Name a) then (ra_BrowserDownloadURL a, dgstURL)
        else if MatchString dgstPattern (ra_Name a) then (zipURL, ra_BrowserDownloadURL a)
        else (zipURL, dgstURL))"

definition pickAssetURLs :: "releaseInfo \<Rightarrow> string \<Rightarrow> (string \<times> string) go_result" where
  "pickAssetURLs rel arch =
     (let zipPattern = ''^Xray-'' @ arch @ [CHR 0x5C] @ ''.zip$'';
          dgstPattern = ''^Xray-'' @ arch @ [CHR 0x5C] @ ''.zip'' @ [CHR 0x5C] @ ''.dgst$'' in
      case scanAssets zipPattern dgstPattern (ri_Assets rel) ([], []) of
        (zipURL, dgstURL) \<Rightarrow>
          if zipURL = [] \<or> dgstURL = [] then Inl (ErrText (''asset not found for arch='' @ arch))
          else Inr (zipURL, dgstURL))"

definition download :: "'x core_env \<Rightarrow> string \<Rightarrow> string \<Rightarrow> string \<Rightarrow> 'x world \<Rightarrow> go_error option \<times> 'x world" where
  "download env = downloadFile (ce_http env)"

section \<open>The digest\<close>

text \<open>
  The first match of the pattern for a word of 64 hexadecimal digits, in any case, between word
  boundaries; the first argument tells whether the character before is part of a word.
\<close>

definition isWordChar :: "char \<Rightarrow> bool" where
  "isWordChar c = (let n = of_char c :: nat in
     48 \<le> n \<and> n \<le> 57 \<or> 65 \<le> n \<and> n \<le> 90 \<or> 97 \<le> n \<and> n \<le> 122 \<or> n = 95)"

definition isHexChar :: "char \<Rightarrow> bool" where
  "isHexChar c = (let n = of_char c :: nat in 48 \<le> n \<and> n \<le> 57 \<or> 65 \<le> n \<and> n \<le> 70 \<or> 97 \<le> n \<and> n \<le> 102)"

definition digestAt :: "string \<Rightarrow> bool" where
  "digestAt s \<longleftrightarrow> 64 \<le> length s \<and> list_all isHexChar (take 64 s) \<and> (drop 64 s = [] \<or> \<not> isWordChar (hd (drop 64 s)))"

fun findDigest :: "bool \<Rightarrow> string \<Rightarrow> string option" where
  "findDigest inWord [] = None"
| "findDigest inWord (c # cs) =
     (if \<not> inWord \<and> digestAt (c # cs) then Some (take 64 (c # cs)) else findDigest (isWordChar c) cs)"

definition verifySHA256 :: "string \<Rightarrow> string \<Rightarrow> 'x world \<Rightarrow> go_error option \<times> 'x world" where
  "verifySHA256 zipPath dgstPath w =
     (case os_ReadFile dgstPath w of
        (Inl err, w1) \<Rightarrow> (Some err, w1)
      | (Inr dgstBytes, w1) \<Rightarrow>
          (case findDigest False dgstBytes of
             None \<Rightarrow> (Some (ErrText ''sha256 not found in dgst file''), w1)
           | Some want \<Rightarrow>
               (case os_Open zipPath w1 of
                  (Inl err, w2) \<Rightarrow> (Some err, w2)
                | (Inr _, w2) \<Rightarrow>
                    (case os_ReadAll zipPath w2 of
                       (Inl err, w3) \<Rightarrow> (Some err, w3)
                     | (Inr content, w3) \<Rightarrow>
                         (let got = sha256Hex content in
                          if \<not> EqualFold got want
                          then (Some (ErrText (''sha256 mismatch: want '' @ want @ '' got '' @ got)), w3)
                          else (None, w3))))))"

section \<open>Unpacking\<close>

text \<open>Copying a member: a read error comes after the bytes that were read.\<close>

definition copyMember :: "zip_file \<Rightarrow> string \<Rightarrow> 'x world \<Rightarrow> go_error option \<times> 'x world" where
  "copyMember f outPath w =
     (case f_Write outPath (zf_Data f) w of
        (Some err, w1) \<Rightarrow> (Some err, w1)
      | (None, w1) \<Rightarrow> (zf_ReadErr f, w1))"

definition extractFile :: "string \<Rightarrow> zip_file \<Rightarrow> 'x world \<Rightarrow> go_error option \<times> 'x world" where
  "extractFile dest f w =
     (let outPath = pathJoin [dest, zf_Name f] in
      if zf_IsDir f then os_MkdirAll outPath w
      else case os_MkdirAll (pathDir outPath) w of
        (Some err, w1) \<Rightarrow> (Some err, w1)
      | (None, w1) \<Rightarrow>
          (case zf_Open f of
             Some err \<Rightarrow> (Some err, w1)
           | None \<Rightarrow>
               (case os_OpenFile outPath (zf_Mode f) w1 of
                  (Some err, w2) \<Rightarrow> (Some err, w2)
                | (None, w2) \<Rightarrow>
                    (case copyMember f outPath w2 of
                       (Some err, w3) \<Rightarrow> (Some err, snd (f_Close outPath w3))
                     | (None, w3) \<Rightarrow> (None, snd (f_Close outPath w3))))))"

definition unzip :: "'x core_env \<Rightarrow> string \<Rightarrow> string \<Rightarrow> 'x world \<Rightarrow> go_error option \<times> 'x world" where
  "unzip env src dest w =
     (case os_ReadFile src w of
        (Inl err, w1) \<Rightarrow> (Some err, w1)
      | (Inr data, w1) \<Rightarrow>
          (case ce_zip env data of
             Inl err \<Rightarrow> (Some err, w1)
           | Inr files \<Rightarrow>
               (case os_MkdirAll dest w1 of
                  (Some err, w2) \<Rightarrow> (Some err, w2)
                | (None, w2) \<Rightarrow> forEach (extractFile dest) files w2)))"

section \<open>Installing\<close>

definition writeStream ::
  "string \<Rightarrow> ('x world \<Rightarrow> string go_result) \<Rightarrow> FileMode \<Rightarrow> 'x world \<Rightarrow> go_error option \<times> 'x world" where
  "writeStream dest rd perm w =
     (case os_MkdirAll (pathDir dest) w of
        (Some err, w1) \<Rightarrow> (Some err, w1)
      | (None, w1) \<Rightarrow> replaceVia ''.tmp-*'' perm dest rd w1)"

definition writeBytes :: "string \<Rightarrow> string \<Rightarrow> FileMode \<Rightarrow> 'x world \<Rightarrow> go_error option \<times> 'x world" where
  "writeBytes dest data perm = writeStream dest (\<lambda>_. Inr data) perm"

definition copyFile :: "string \<Rightarrow> string \<Rightarrow> FileMode \<Rightarrow> 'x world \<Rightarrow> go_error option \<times> 'x world" where
  "copyFile src dest perm w =
     (case os_Open src w of
        (Inl err, w1) \<Rightarrow> (Some err, w1)
      | (Inr _, w1) \<Rightarrow> writeStream dest (readNode src) perm w1)"

definition runCmd :: "'x core_env \<Rightarrow> string list \<Rightarrow> 'x world \<Rightarrow> go_error option \<times> 'x world" where
  "runCmd env args w = (case ce_run env args w of ((out, err), w1) \<Rightarrow> (err, w1))"

definition createWorkDirs :: "Options \<Rightarrow> 'x world \<Rightarrow> go_error option \<times> 'x world" where
  "createWorkDirs opts = forEach os_MkdirAll [''/etc/xray'', ''/var/log/xray'', ''/var/lib/xray'', xc_ShareDir opts]"

definition copyData :: "string \<Rightarrow> Options \<Rightarrow> string \<Rightarrow> 'x world \<Rightarrow> go_error option \<times> 'x world" where
  "copyData unzipDir opts name w =
     (let srcPath = pathJoin [unzipDir, name] in
      case os_Stat srcPath w of
        (Inl _, w1) \<Rightarrow> (None, w1)
      | (Inr _, w1) \<Rightarrow> copyFile srcPath (pathJoin [xc_ShareDir opts, name]) (mode 6 4 4) w1)"

definition installBinaryAndData :: "string \<Rightarrow> Options \<Rightarrow> 'x world \<Rightarrow> go_error option \<times> 'x world" where
  "installBinaryAndData unzipDir opts w =
     (case os_MkdirAll (xc_BinDir opts) w of
        (Some err, w1) \<Rightarrow> (Some err, w1)
      | (None, w1) \<Rightarrow>
          (case copyFile (pathJoin [unzipDir, ''xray'']) (pathJoin [xc_BinDir opts, ''xray'']) (mode 7 5 5) w1 of
             (Some err, w2) \<Rightarrow> (Some err, w2)
           | (None, w2) \<Rightarrow> forEach (copyData unzipDir opts) [''geoip.dat'', ''geosite.dat''] w2))"

definition copySampleConfig :: "'x core_env \<Rightarrow> Options \<Rightarrow> 'x world \<Rightarrow> go_error option \<times> 'x world" where
  "copySampleConfig env opts w =
     (case os_Stat (xc_ConfigPath opts) w of
        (Inr _, w1) \<Rightarrow> (None, w1)
      | (Inl _, w1) \<Rightarrow> writeBytes (xc_ConfigPath opts) (ce_sampleConfig env) (mode 6 4 4) w1)"

definition installSystemdService :: "'x core_env \<Rightarrow> Options \<Rightarrow> 'x world \<Rightarrow> go_error option \<times> 'x world" where
  "installSystemdService env opts w =
     (case writeBytes (xc_ServicePath opts) (ce_serviceUnit env) (mode 6 4 4) w of
        (Some err, w1) \<Rightarrow> (Some err, w1)
      | (None, w1) \<Rightarrow>
          (case runCmd env [''systemctl'', ''daemon-reload''] w1 of
             (Some err, w2) \<Rightarrow> (Some err, w2)
           | (None, w2) \<Rightarrow> runCmd env [''systemctl'', ''enable'', ''--now'', ''xray''] w2))"

definition testConfig :: "'x core_env \<Rightarrow> Options \<Rightarrow> 'x world \<Rightarrow> go_error option \<times> 'x world" where
  "testConfig env opts =
     runCmd env [pathJoin [xc_BinDir opts, ''xray''], ''-test'', ''-config'', xc_ConfigPath opts]"

text \<open>The part of \<^verbatim>\<open>InstallOrUpdate\<close> up to a verified and unpacked archive, and the part after it.\<close>

definition fetchCore ::
  "'x core_env \<Rightarrow> Options \<Rightarrow> string \<Rightarrow> string \<Rightarrow> string \<Rightarrow> 'x world \<Rightarrow> go_error option \<times> 'x world" where
  "fetchCore env opts zipURL dgstURL tmpDir w =
     (let zipPath = pathJoin [tmpDir, ''xray.zip'']; dgstPath = pathJoin [tmpDir, ''xray.zip.dgst''] in
      case download env zipURL zipPath (xc_Token opts) w of
        (Some err, w1) \<Rightarrow> (Some (ErrWrap ''download zip'' err), w1)
      | (None, w1) \<Rightarrow>
          (case download env dgstURL dgstPath (xc_Token opts) w1 of
             (Some err, w2) \<Rightarrow> (Some (ErrWrap ''download dgst'' err), w2)
           | (None, w2) \<Rightarrow>
               (case verifySHA256 zipPath dgstPath w2 of
                  (Some err, w3) \<Rightarrow> (Some err, w3)
                | (None, w3) \<Rightarrow>
                    (case unzip env zipPath (pathJoin [tmpDir, ''unzipped'']) w3 of
                       (Some err, w4) \<Rightarrow> (Some (ErrWrap ''unzip'' err), w4)
                     | (None, w4) \<Rightarrow> (None, w4)))))"

definition installCore :: "'x core_env \<Rightarrow> Options \<Rightarrow> string \<Rightarrow> 'x world \<Rightarrow> go_error option \<times> 'x world" where
  "installCore env opts unzipDir w =
     (case createWorkDirs opts w of
        (Some err, w1) \<Rightarrow> (Some err, w1)
      | (None, w1) \<Rightarrow>
          (case installBinaryAndData unzipDir opts w1 of
             (Some err, w2) \<Rightarrow> (Some err, w2)
           | (None, w2) \<Rightarrow>
               (case copySampleConfig env opts w2 of
                  (Some err, w3) \<Rightarrow> (Some err, w3)
                | (None, w3) \<Rightarrow>
                    (case testConfig env opts w3 of
                       (Some err, w4) \<Rightarrow> (Some err, w4)
                     | (None, w4) \<Rightarrow> installSystemdService env opts w4))))"

definition InstallOrUpdate :: "'x core_env \<Rightarrow> Options \<Rightarrow> 'x world \<Rightarrow> InstallResult go_result \<times> 'x world" where
  "InstallOrUpdate env opts0 w =
     (let opts = withDefaults (ce_plat env) opts0 in
      case installedVersion env w of
        (installed, w1) \<Rightarrow>
          (case fetchRelease env opts w1 of
             (Inl err, w2) \<Rightarrow> (Inl err, w2)
           | (Inr (release, targetVersion), w2) \<Rightarrow>
               if normalizeVersion installed = normalizeVersion targetVersion
               then (Inr \<lparr>ir_FromVersion = installed, ir_ToVersion = targetVersion, ir_Updated = False\<rparr>, w2)
               else case os_MkdirTemp [] ''xraycore-*'' w2 of
                 (Inl err, w3) \<Rightarrow> (Inl err, w3)
               | (Inr tmpDir, w3) \<Rightarrow>
                   (case pickAssetURLs release (xc_Arch opts) of
                      Inl err \<Rightarrow> (Inl err, snd (os_RemoveAll tmpDir w3))
                    | Inr (zipURL, dgstURL) \<Rightarrow>
                        (case fetchCore env opts zipURL dgstURL tmpDir w3 of
                           (Some err, w4) \<Rightarrow> (Inl err, snd (os_RemoveAll tmpDir w4))
                         | (None, w4) \<Rightarrow>
                             (case installCore env opts (pathJoin [tmpDir, ''unzipped'']) w4 of
                                (Some err, w5) \<Rightarrow> (Inl err, snd (os_RemoveAll tmpDir w5))
                              | (None, w5) \<Rightarrow>
                                  (Inr \<lparr>ir_FromVersion = installed, ir_ToVersion = targetVersion, ir_Updated = True\<rparr>,
                                   snd (os_RemoveAll tmpDir w5)))))))"

end
