(* ===== verification/Core_Install.thy ===== *)
theory Core_Install
  imports Xray_Core
begin

text \<open>
  What the core installer promises: its two ways of writing a file keep the contract of
  \<open>atomic_writer\<close>; unpacking an archive whose names stay inside touches only the target directory; and
  an installation puts the binary of a verified archive in place or leaves the installed one.
\<close>

section \<open>Writing files\<close>

lemma writeStream_replaces:
  assumes dest: "filePath dest" and st: "stable rd (snd (os_MkdirAll (pathDir dest) w))"
    and rd: "\<And>d. rd (snd (os_MkdirAll (pathDir dest) w)) = Inr d \<Longrightarrow> rd w = Inr d"
  shows "replaces perm dest rd w (writeStream dest rd perm w)"
proof (cases "os_MkdirAll (pathDir dest) w")
  case (Pair r w1)
  have p1: "prepared w dest w1" using prepared_mkdir [OF dest, of w] Pair by simp
  then show ?thesis
    using Pair replaces_replaceVia [OF dest temp_suffixes(2) p1] st rd
    by (cases r) (simp_all add: writeStream_def replaces_error)
qed

lemma writeBytes_replaces: "filePath dest \<Longrightarrow> replaces perm dest (\<lambda>_. Inr data) w (writeBytes dest data perm w)"
  unfolding writeBytes_def by (rule writeStream_replaces) simp_all

lemma replaces_from:
  assumes "only_changes {} w v" "replaces perm dest rd v res" "rd v = rd w"
  shows "replaces perm dest rd w res"
  using assms only_nothing(1) [OF assms(1)] only_key [OF assms(1)] only_setup [OF assms(1)] same_setup_trans
  by (auto simp: replaces_def prepared_def split: prod.splits option.splits)

lemma copyFile_replaces:
  assumes dest: "filePath dest"
  shows "replaces perm dest (readNode src) w (copyFile src dest perm w)"
proof (cases "os_Open src w")
  case (Pair c w1)
  have o1: "only_changes {} w w1" using reading_only(2) [of "{}" w src] Pair by simp
  show ?thesis
  proof (cases c)
    case (Inl e)
    have "prepared w dest w1" using prepared_open [of w dest src] Pair by simp
    then show ?thesis using Pair Inl by (simp add: copyFile_def replaces_error)
  next
    case (Inr u)
    have n1: "node_at w1 src \<noteq> None"
      using Pair Inr by (auto simp: os_Open_def guarded_def split: prod.splits option.splits)
    have "node_at (snd (os_MkdirAll (pathDir dest) w1)) src \<noteq> None"
      using n1 mkdir_dest(3) [OF dest, of w1 "fileKey w1 src"] same_setup_key [OF mkdir_dest(1) [OF dest, of w1], of src]
      by (auto simp: node_at_def split: if_splits)
    then have "replaces perm dest (readNode src) w1 (writeStream dest (readNode src) perm w1)"
      by (rule writeStream_replaces [OF dest stable_readNode]) (rule mkdir_readNode)
    from replaces_from [OF o1 this only_nothing(2) [OF o1]] show ?thesis
      using Pair Inr by (simp add: copyFile_def)
  qed
qed

lemma writeBytes_atomic: "atomic_writer (\<lambda>s dest. writeBytes dest (fst s) (snd s)) (\<lambda>s dest w. Some s)"
proof -
  have "atomic_writer (\<lambda>s dest. writeBytes dest (fst s) (snd s))
    (\<lambda>s dest w. case (Inr (fst s) :: string go_result) of Inl _ \<Rightarrow> None | Inr d \<Rightarrow> Some (d, snd s))"
    by (rule atomic_writerI [of snd "\<lambda>s _. Inr (fst s)"]) (rule writeBytes_replaces)
  then show ?thesis by simp
qed

interpretation wb: atomic_writer "\<lambda>s dest. writeBytes dest (fst s) (snd s)" "\<lambda>s dest w. Some s"
  by (rule writeBytes_atomic)

interpretation cf: atomic_writer "\<lambda>s dest. copyFile (fst s) dest (snd s)"
  "\<lambda>s dest w. case readNode (fst s) w of Inl _ \<Rightarrow> None | Inr d \<Rightarrow> Some (d, snd s)"
  by (rule atomic_writerI [of snd "\<lambda>s. readNode (fst s)" "\<lambda>s dest. copyFile (fst s) dest (snd s)"]) (rule copyFile_replaces)

section \<open>Unpacking\<close>

text \<open>The names of a member below the target directory, and a name that does not lead out of it.\<close>

definition relPath :: "string \<Rightarrow> string list" where
  "relPath n = rev (foldl (cleanStep False) [] (splitOn slash n))"

definition inside :: "string \<Rightarrow> bool" where
  "inside n \<longleftrightarrow> ''..'' \<notin> set (relPath n)"

lemma cleanStep_dotdot: "''..'' \<in> set acc \<Longrightarrow> relNames acc \<Longrightarrow> ''..'' \<in> set (cleanStep False acc x)"
proof -
  assume dd: "''..'' \<in> set acc" and "relNames acc"
  then obtain ps n where acc: "acc = ps @ replicate n ''..''" "\<forall>y\<in>set ps. plain y" by (auto simp: relNames_def)
  then have n: "n \<noteq> 0" using dd by (auto simp: plain_def)
  show ?thesis using acc n by (cases ps; cases n) (auto simp: cleanStep.simps)
qed

lemma cleanStep_frame:
  "''..'' \<notin> set acc \<Longrightarrow> ''..'' \<notin> set (cleanStep False acc x) \<Longrightarrow> cleanStep b (acc @ A) x = cleanStep False acc x @ A"
  by (cases acc) (auto simp: cleanStep.simps split: if_splits)

text \<open>Names that stay inside do the same from every directory.\<close>

lemma foldl_inside:
  assumes "\<forall>x\<in>set xs. slash \<notin> set x" and "''..'' \<notin> set (foldl (cleanStep False) [] xs)"
  shows "foldl (cleanStep b) A xs = foldl (cleanStep False) [] xs @ A"
  using assms
proof (induction xs rule: rev_induct)
  case (snoc x xs)
  let ?acc = "foldl (cleanStep False) [] xs"
  have rel: "relNames ?acc" using relNames_foldl [of "[]" xs] snoc.prems(1) by simp
  have acc: "''..'' \<notin> set ?acc" using snoc.prems(2) cleanStep_dotdot [OF _ rel, of x] by auto
  then have "foldl (cleanStep b) A xs = ?acc @ A" using snoc by simp
  moreover have "cleanStep b (?acc @ A) x = cleanStep False ?acc x @ A"
    using snoc.prems(2) acc by (intro cleanStep_frame) simp_all
  ultimately show ?case by simp
qed simp

lemma pathJoin_two: "dir \<noteq> [] \<Longrightarrow> pathJoin [dir, n] = Clean (if n = [] then dir else dir @ slash # n)"
  by (simp add: pathJoin_def)

lemma relPath_Nil [simp]: "relPath [] = []"
  by (simp add: relPath_def cleanStep.simps)

lemma fileKey_inside:
  assumes dir: "dir \<noteq> []" and n: "inside n"
  shows "fileKey w (pathJoin [dir, n]) = fileKey w dir @ relPath n"
proof (cases "n = []")
  case False
  have "splitOn slash (dir @ slash # n) = splitOn slash dir @ splitOn slash n"
    by (simp add: splitOn_append [of slash dir])
  moreover have "foldl (cleanStep True) A (splitOn slash n) = rev (relPath n) @ A" for A
    using foldl_inside [of "splitOn slash n" True A] n splitOn_pieces [of _ slash n] by (auto simp: inside_def relPath_def)
  ultimately show ?thesis
    using dir False by (simp add: fileKey_def pathJoin_two resolve_Clean) (simp add: resolve_def rooted_append)
qed (use dir in \<open>simp add: fileKey_def pathJoin_two resolve_Clean\<close>)

lemma lastName_sep: "slash \<notin> set b \<Longrightarrow> lastName (a @ slash # b) = b"
  by (simp add: lastName_def takeWhile_append)

lemma Join_snoc: "xs \<noteq> [] \<Longrightarrow> Join (xs @ [x]) [d] = Join xs [d] @ d # x"
  by (induction xs "[d]" rule: Join.induct) auto

lemma lastName_Join:
  assumes "xs \<noteq> []" and "slash \<notin> set (last xs)"
  shows "lastName (Join xs [slash]) = last xs" "lastName (slash # Join xs [slash]) = last xs"
proof -
  obtain ys x where xs: "xs = ys @ [x]" using assms(1) by (cases xs rule: rev_cases) auto
  have x: "slash \<notin> set x" using assms xs by simp
  then have "takeWhile (\<lambda>c. c \<noteq> slash) (rev x) = rev x" by (auto simp: takeWhile_eq_all_conv)
  then have "lastName x = x" unfolding lastName_def by (simp only: rev_rev_ident)
  then show "lastName (Join xs [slash]) = last xs"
    using xs x by (cases "ys = []") (simp_all add: Join_snoc lastName_sep)
  show "lastName (slash # Join xs [slash]) = last xs"
    using xs x lastName_sep [of x "[]"] lastName_sep [of x "slash # Join ys [slash]"]
    by (cases "ys = []") (simp_all add: Join_snoc)
qed

text \<open>The path of a member ends in the last of its names.\<close>

lemma filePath_inside:
  assumes dir: "dir \<noteq> []" and n: "inside n" "relPath n \<noteq> []"
  shows "filePath (pathJoin [dir, n])" "lastName (pathJoin [dir, n]) = last (relPath n)"
proof -
  have ne: "n \<noteq> []" using n(2) by auto
  let ?p = "dir @ slash # n"
  have "splitOn slash ?p = splitOn slash dir @ splitOn slash n" by (simp add: splitOn_append [of slash dir])
  moreover have "foldl (cleanStep b) A (splitOn slash n) = rev (relPath n) @ A" for b A
    using foldl_inside [of "splitOn slash n" b A] n splitOn_pieces [of _ slash n] by (auto simp: inside_def relPath_def)
  ultimately obtain B where names: "cleanNames ?p = B @ relPath n" by (simp add: cleanNames_def)
  have "plain (last (relPath n))"
  proof -
    let ?acc = "foldl (cleanStep False) [] (splitOn slash n)"
    have "relNames ?acc" using relNames_foldl [of "[]" "splitOn slash n"] splitOn_pieces [of _ slash n] by auto
    then obtain ps k where ps: "?acc = ps @ replicate k ''..''" "\<forall>x\<in>set ps. plain x" by (auto simp: relNames_def)
    have "k = 0" using n(1) ps(1) by (cases k) (auto simp: inside_def relPath_def)
    then show ?thesis using ps n(2) by (simp add: relPath_def last_rev)
  qed
  then have pl: "plain (last (cleanNames ?p))" "cleanNames ?p \<noteq> []" using names n(2) by simp_all
  have "Join (cleanNames ?p) [slash] \<noteq> []"
    using lastName_Join(1) [OF pl(2)] pl(1) by (auto simp: plain_def lastName_def)
  then have "lastName (Clean ?p) = last (cleanNames ?p)"
    using lastName_Join [OF pl(2)] pl(1) by (simp add: Clean_def plain_def)
  then show "lastName (pathJoin [dir, n]) = last (relPath n)" "filePath (pathJoin [dir, n])"
    using pl names n(2) ne dir by (simp_all add: pathJoin_two filePath_def)
qed

text \<open>Extracting a member inside the directory touches only names below the directory.\<close>

definition all_above :: "'x world \<Rightarrow> string list \<Rightarrow> bool" where
  "all_above w k \<longleftrightarrow> (\<forall>q. prefix q k \<longrightarrow> w_fs w q \<noteq> None)"

lemma free_below:
  assumes "all_above w U" and "prefix k (U @ rel)"
  shows "free_prefixes w k \<subseteq> {q. prefix U q}"
proof
  fix q assume "q \<in> free_prefixes w k"
  then have q: "prefix q (U @ rel)" "w_fs w q = None"
    using assms(2) prefix_order.order_trans by (auto simp: free_prefixes_def)
  have "\<not> prefix q U" using assms(1) q(2) by (auto simp: all_above_def)
  then show "q \<in> {q. prefix U q}" using q(1) by (auto simp: prefix_append)
qed

lemma copyMember_only: "fileKey w p \<in> K \<Longrightarrow> only_changes K w (snd (copyMember f p w))"
  using writing_only(3) [of w p K "zf_Data f"] by (auto simp: copyMember_def split: prod.split option.split)

text \<open>A member that the program can unpack below the directory.\<close>

definition safe_member :: "zip_file \<Rightarrow> bool" where
  "safe_member f \<longleftrightarrow> inside (zf_Name f) \<and> (zf_IsDir f \<or> relPath (zf_Name f) \<noteq> [])"

lemma extractFile_only:
  assumes dir: "dest \<noteq> []" and f: "safe_member f" and above: "all_above w (fileKey w dest)"
  shows "only_changes {q. prefix (fileKey w dest) q} w (snd (extractFile dest f w))"
proof -
  let ?out = "pathJoin [dest, zf_Name f]" and ?K = "{q. prefix (fileKey w dest) q}"
  have inside: "inside (zf_Name f)" using f by (simp add: safe_member_def)
  have out: "fileKey w ?out = fileKey w dest @ relPath (zf_Name f)" by (rule fileKey_inside [OF dir inside])
  have mk: "only_changes ?K w (snd (os_MkdirAll p w))" if "prefix (fileKey w p) (fileKey w ?out)" for p
    using only_mono [OF os_MkdirAll_only free_below [OF above]] that out by simp
  show ?thesis
  proof (cases "zf_IsDir f")
    case True
    then show ?thesis using mk [of ?out] by (simp add: extractFile_def)
  next
    case False
    then have "filePath ?out" using filePath_inside(1) [OF dir inside] f by (simp add: safe_member_def)
    then have "prefix (fileKey w (pathDir ?out)) (fileKey w ?out)" by (simp add: fileKey_def resolve_filePath)
    then have m: "only_changes ?K w (snd (os_MkdirAll (pathDir ?out) w))" by (rule mk)
    obtain r1 w1 where 1: "os_MkdirAll (pathDir ?out) w = (r1, w1)" by fastforce
    obtain r2 w2 where 2: "os_OpenFile ?out (zf_Mode f) w1 = (r2, w2)" by fastforce
    obtain r3 w3 where 3: "copyMember f ?out w2 = (r3, w3)" by fastforce
    have o1: "only_changes ?K w w1" using m 1 by simp
    have o2: "only_changes ?K w w2"
      using only_trans [OF o1 writing_only(1) [of w1 ?out ?K "zf_Mode f"]] 2 only_key [OF o1] out by simp
    have o3: "only_changes ?K w w3"
      using only_trans [OF o2 copyMember_only [of w2 ?out ?K f]] 3 only_key [OF o2] out by simp
    show ?thesis
      using False o1 o2 only_trans [OF o3 syncing_only(2)] 1 2 3
      by (simp add: extractFile_def Let_def split: option.split)
  qed
qed

text \<open>A regular file after the extraction was there before, or holds the bytes of the member.\<close>

lemma extractFile_regular:
  assumes run: "extractFile dest f w = (None, w')" and dir: "dest \<noteq> []"
    and q: "w_fs w' q = Some (RegFile d m)"
  shows "w_fs w q = Some (RegFile d m) \<or> (\<not> zf_IsDir f \<and> q = fileKey w (pathJoin [dest, zf_Name f]) \<and> d = zf_Data f)"
proof -
  let ?out = "pathJoin [dest, zf_Name f]"
  show ?thesis
  proof (cases "zf_IsDir f")
    case True
    then show ?thesis using run q mkdir_RegFile [of ?out w] by (simp add: extractFile_def)
  next
    case False
    obtain w1 w2 w3 where 1: "os_MkdirAll (pathDir ?out) w = (None, w1)" and 2: "os_OpenFile ?out (zf_Mode f) w1 = (None, w2)"
      and 3: "copyMember f ?out w2 = (None, w3)" and 4: "w' = snd (f_Close ?out w3)"
      using run False by (auto simp: extractFile_def Let_def split: prod.splits option.splits)
    have k1: "fileKey w1 ?out = fileKey w ?out" using only_key [OF os_MkdirAll_only [of w "pathDir ?out"]] 1 by simp
    have o2: "only_changes {fileKey w ?out} w1 w2" using writing_only(1) [of w1 ?out "{fileKey w ?out}" "zf_Mode f"] 2 k1 by simp
    have o3: "only_changes {fileKey w ?out} w2 w3"
      using copyMember_only [of w2 ?out "{fileKey w ?out}" f] 3 only_key [OF o2] k1 by simp
    have w': "w_fs w' = w_fs w3" using 4 f_Close_ok [of ?out w3 _ w'] by (metis prod.collapse)
    show ?thesis
    proof (cases "q = fileKey w ?out")
      case True
      obtain m' where "w_fs w2 (fileKey w ?out) = Some (RegFile [] m')" using os_OpenFile_ok [OF 2] k1 by auto
      moreover have "f_Write ?out (zf_Data f) w2 = (None, w3)" using 3 by (auto simp: copyMember_def split: prod.splits option.splits)
      ultimately have "w_fs w3 (fileKey w ?out) = Some (RegFile (zf_Data f) m')"
        using f_Write_ok [of ?out "zf_Data f" w2 w3] dir only_key [OF o2] k1 by simp
      then show ?thesis using True q w' False by simp
    next
      case other: False
      then have "w_fs w1 q = Some (RegFile d m)" using q w' only_at [OF o2, of q] only_at [OF o3, of q] by simp
      then show ?thesis using mkdir_RegFile [of "pathDir ?out" w q d m] 1 by simp
    qed
  qed
qed

text \<open>The loop over the members.\<close>

lemma all_above_only: "all_above w U \<Longrightarrow> only_changes {q. prefix U q} w v \<Longrightarrow> w_fs v U \<noteq> None \<Longrightarrow> all_above v U"
  unfolding all_above_def by (metis mem_Collect_eq only_at prefix_order.dual_order.antisym)

definition keeps_all :: "'x world \<Rightarrow> 'x world \<Rightarrow> bool" where
  "keeps_all w w' \<longleftrightarrow> (\<forall>q. w_fs w q \<noteq> None \<longrightarrow> w_fs w' q \<noteq> None)"

lemma keeps_trans: "keeps_all w v \<Longrightarrow> keeps_all v u \<Longrightarrow> keeps_all w u"
  by (simp add: keeps_all_def)

lemma keeps_ops:
  "keeps_all w (snd (os_MkdirAll p w))" "keeps_all w (snd (os_OpenFile p perm w))"
  "keeps_all w (snd (f_Write p d w))" "keeps_all w (snd (f_Close p w))"
proof -
  show "keeps_all w (snd (os_MkdirAll p w))"
    using only_at [OF os_MkdirAll_only [of w p]] by (auto simp: keeps_all_def free_prefixes_def)
  show "keeps_all w (snd (os_OpenFile p perm w))"
    by (cases "nextFault w") (auto simp: keeps_all_def os_OpenFile_def effect_def split: option.split node.split)
  show "keeps_all w (snd (f_Write p d w))"
    by (cases "nextFault w") (auto simp: keeps_all_def f_Write_def appendData_def split: option.split node.split)
  show "keeps_all w (snd (f_Close p w))"
    by (cases "nextFault w") (auto simp: keeps_all_def f_Close_def effect_def split: option.split)
qed

lemma extractFile_keeps: "keeps_all w (snd (extractFile dest f w))"
proof -
  let ?out = "pathJoin [dest, zf_Name f]"
  obtain r1 w1 where 1: "os_MkdirAll (pathDir ?out) w = (r1, w1)" by fastforce
  obtain r2 w2 where 2: "os_OpenFile ?out (zf_Mode f) w1 = (r2, w2)" by fastforce
  obtain r3 w3 where 3: "copyMember f ?out w2 = (r3, w3)" by fastforce
  have k1: "keeps_all w w1" using keeps_ops(1) [of w "pathDir ?out"] 1 by simp
  have k2: "keeps_all w w2" using keeps_trans [OF k1] keeps_ops(2) [of w1 ?out "zf_Mode f"] 2 by simp
  have "keeps_all w2 w3" using keeps_ops(3) [of w2 ?out "zf_Data f"] 3 by (auto simp: copyMember_def split: prod.splits option.splits)
  then have k4: "keeps_all w (snd (f_Close ?out w3))" using keeps_trans [OF k2] keeps_trans keeps_ops(4) by blast
  show ?thesis using k1 k2 k4 keeps_ops(1) [of w ?out] 1 2 3
    by (simp add: extractFile_def Let_def split: option.split)
qed

definition safe_archive :: "'x core_env \<Rightarrow> bool" where
  "safe_archive env \<longleftrightarrow> (\<forall>data files. ce_zip env data = Inr files \<longrightarrow> list_all safe_member files)"

lemma extract_all_only:
  assumes "dest \<noteq> []" "list_all safe_member files" "all_above w (fileKey w dest)"
  shows "only_changes {q. prefix (fileKey w dest) q} w (snd (forEach (extractFile dest) files w))"
proof -
  let ?U = "fileKey w dest"
  let ?P = "\<lambda>v. only_changes {q. prefix ?U q} w v \<and> all_above v ?U"
  have "?P (snd (extractFile dest f v))" if "f \<in> set files" "?P v" for f v
  proof -
    have f: "safe_member f" using assms(2) that(1) by (simp add: list_all_iff)
    have k: "fileKey v dest = ?U" using only_key that(2) by blast
    have o: "only_changes {q. prefix ?U q} v (snd (extractFile dest f v))"
      using extractFile_only [OF assms(1) f, of v] that(2) k by simp
    have "w_fs (snd (extractFile dest f v)) ?U \<noteq> None"
      using extractFile_keeps [of v dest f] that(2) by (simp add: keeps_all_def all_above_def)
    then show ?thesis using only_trans o that(2) all_above_only [OF _ o] by blast
  qed
  then show ?thesis using forEach_invariant [of files ?P "extractFile dest" w] assms(3) by simp
qed

lemma extractFile_setup: "same_setup w (snd (extractFile dest f w))"
proof -
  let ?out = "pathJoin [dest, zf_Name f]"
  obtain r1 w1 where 1: "os_MkdirAll (pathDir ?out) w = (r1, w1)" by fastforce
  obtain r2 w2 where 2: "os_OpenFile ?out (zf_Mode f) w1 = (r2, w2)" by fastforce
  obtain r3 w3 where 3: "copyMember f ?out w2 = (r3, w3)" by fastforce
  have s1: "same_setup w w1" using only_setup [OF os_MkdirAll_only [of w "pathDir ?out"]] 1 by simp
  have s2: "same_setup w w2"
    using same_setup_trans [OF s1] only_setup [OF writing_only(1) [of w1 ?out UNIV "zf_Mode f"]] 2 by simp
  have s3: "same_setup w w3"
    using same_setup_trans [OF s2] only_setup [OF copyMember_only [of w2 ?out UNIV f]] 3 by simp
  have "same_setup w (snd (f_Close ?out w3))"
    using same_setup_trans [OF s3] only_setup [OF syncing_only(2) [of UNIV w3 ?out]] by simp
  then show ?thesis using s1 s2 only_setup [OF os_MkdirAll_only [of w ?out]] 1 2 3
    by (simp add: extractFile_def Let_def split: option.split)
qed

lemma extract_all_regular:
  assumes "dest \<noteq> []" "forEach (extractFile dest) files w = (None, w')" "w_fs w' q = Some (RegFile d m)"
  shows "w_fs w q = Some (RegFile d m) \<or>
    (\<exists>f\<in>set files. \<not> zf_IsDir f \<and> q = fileKey w (pathJoin [dest, zf_Name f]) \<and> d = zf_Data f)"
  using assms(2)
proof (induction files arbitrary: w)
  case Nil
  then show ?case using assms(3) by simp
next
  case (Cons f files)
  obtain v where v: "extractFile dest f w = (None, v)" "forEach (extractFile dest) files v = (None, w')"
    using Cons.prems by (auto split: prod.splits option.splits)
  have k: "fileKey v p = fileKey w p" for p using same_setup_key [OF extractFile_setup [of w dest f]] v(1) by simp
  from Cons.IH [OF v(2)] show ?case
    using extractFile_regular [OF v(1) assms(1), of q d m] k by auto
qed

lemma mkdir_all_above: "os_MkdirAll p w = (None, w1) \<Longrightarrow> all_above w1 (fileKey w p)"
  by (auto simp: os_MkdirAll_def Let_def makeDirs_def all_above_def dest: prefix_length_le split: prod.splits option.splits if_splits)

text \<open>Unpacking into a new directory below one that exists.\<close>

lemma unzip_spec:
  assumes arch: "safe_archive env" and dir: "tmpDir \<noteq> []" "all_above w (fileKey w tmpDir)"
    and run: "unzip env src (pathJoin [tmpDir, ''unzipped'']) w = (r, w')"
  shows "only_changes {q. prefix (fileKey w tmpDir) q} w w'"
    and "r = None \<Longrightarrow> \<exists>data files. readNode src w = Inr data \<and> ce_zip env data = Inr files \<and>
      (\<forall>q d m. w_fs w' q = Some (RegFile d m) \<longrightarrow> w_fs w q = Some (RegFile d m) \<or>
        (\<exists>f\<in>set files. \<not> zf_IsDir f \<and> q = fileKey w tmpDir @ ''unzipped'' # relPath (zf_Name f) \<and> d = zf_Data f))"
proof -
  let ?dest = "pathJoin [tmpDir, ''unzipped'']" and ?T = "fileKey w tmpDir"
  have pl: "plain ''unzipped''" by (simp add: plain_def slash_def)
  have kd: "fileKey w ?dest = ?T @ [''unzipped'']" using resolve_pathJoin [OF dir(1) pl] by (simp add: fileKey_def)
  have ne: "?dest \<noteq> []" using dir(1) by simp
  obtain r1 w1 where 1: "os_ReadFile src w = (r1, w1)" by fastforce
  obtain r2 w2 where 2: "os_MkdirAll ?dest w1 = (r2, w2)" by fastforce
  have o1: "only_changes {} w w1" using ReadFile_only [of "{}" w src] 1 by simp
  note fs1 = only_nothing(1) [OF o1] and k1 = only_key [OF o1]
  have "free_prefixes w1 (fileKey w1 ?dest) \<subseteq> {q. prefix ?T q}"
    using free_below [OF dir(2), of "fileKey w ?dest" "[''unzipped'']"] kd fs1 k1 by (simp add: free_prefixes_def)
  then have o2: "only_changes {q. prefix ?T q} w w2"
    using only_trans [OF only_mono [OF o1] only_mono [OF os_MkdirAll_only [of w1 ?dest]]] 2 by simp
  note k2 = only_key [OF o2]
  have loop: "only_changes {q. prefix ?T q} w (snd (forEach (extractFile ?dest) files w2))"
    if "list_all safe_member files" "r2 = None" for files
  proof -
    have "all_above w2 (fileKey w2 ?dest)" using mkdir_all_above [of ?dest w1 w2] 2 that(2) k1 k2 by simp
    then have "only_changes {q. prefix (fileKey w ?dest) q} w2 (snd (forEach (extractFile ?dest) files w2))"
      using extract_all_only [OF ne that(1), of w2] k2 by simp
    moreover have "{q. prefix (fileKey w ?dest) q} \<subseteq> {q. prefix ?T q}" using kd by (auto dest: append_prefixD)
    ultimately show ?thesis using only_trans [OF o2 only_mono] by blast
  qed
  show "only_changes {q. prefix ?T q} w w'"
    using run 1 2 o2 only_mono [OF o1] loop arch
    by (auto simp: unzip_def safe_archive_def split: sum.splits option.splits) (metis loop snd_conv)
  assume "r = None"
  then obtain data files where data: "r1 = Inr data" "ce_zip env data = Inr files" "r2 = None"
    "forEach (extractFile ?dest) files w2 = (None, w')"
    using run 1 2 by (auto simp: unzip_def split: sum.splits option.splits)
  have files: "list_all safe_member files" using arch data(2) by (simp add: safe_archive_def)
  have rd: "readNode src w = Inr data"
    using os_ReadFile_ok 1 data(1) by blast
  have "w_fs w q = Some (RegFile d m) \<or>
      (\<exists>f\<in>set files. \<not> zf_IsDir f \<and> q = ?T @ ''unzipped'' # relPath (zf_Name f) \<and> d = zf_Data f)"
    if q: "w_fs w' q = Some (RegFile d m)" for q d m
  proof -
    have "w_fs w2 q = Some (RegFile d m) \<Longrightarrow> w_fs w q = Some (RegFile d m)"
      using mkdir_RegFile [of ?dest w1 q d m] 2 fs1 by simp
    moreover have "fileKey w2 (pathJoin [?dest, zf_Name f]) = ?T @ ''unzipped'' # relPath (zf_Name f)" if "f \<in> set files" for f
      using fileKey_inside [OF ne, of "zf_Name f" w2] files that k2 kd by (simp add: list_all_iff safe_member_def)
    ultimately show ?thesis using extract_all_regular [OF ne data(4) q] by fastforce
  qed
  then show "\<exists>data files. readNode src w = Inr data \<and> ce_zip env data = Inr files \<and>
      (\<forall>q d m. w_fs w' q = Some (RegFile d m) \<longrightarrow> w_fs w q = Some (RegFile d m) \<or>
        (\<exists>f\<in>set files. \<not> zf_IsDir f \<and> q = ?T @ ''unzipped'' # relPath (zf_Name f) \<and> d = zf_Data f))"
    using rd data(2) by blast
qed

end
