(* ===== verification/Core_Update.thy ===== *)
theory Core_Update
  imports Core_Install
begin

text \<open>
  A run of the core installer as a whole: what becomes of the installed core and of the configuration
  when any of its steps fails.
\<close>

section \<open>The verified archive\<close>

lemma verifySHA256_only: "only_changes {} w (snd (verifySHA256 z d w))"
proof -
  note t = only_trans [where K = "{}"]
  obtain r1 w1 where 1: "os_ReadFile d w = (r1, w1)" by fastforce
  obtain r2 w2 where 2: "os_Open z w1 = (r2, w2)" by fastforce
  obtain r3 w3 where 3: "os_ReadAll z w2 = (r3, w3)" by fastforce
  have o1: "only_changes {} w w1" using ReadFile_only [of "{}" w d] 1 by simp
  have o2: "only_changes {} w w2" using t [OF o1] reading_only(2) [of "{}" w1 z] 2 by simp
  have o3: "only_changes {} w w3" using t [OF o2] reading_only(3) [of "{}" w2 z] 3 by simp
  show ?thesis using o1 o2 o3 by (simp add: verifySHA256_def 1 2 3 Let_def split: sum.split option.split)
qed

lemma verifySHA256_ok:
  assumes "verifySHA256 z d w = (None, w')"
  obtains dg want content where "readNode d w = Inr dg" "readNode z w = Inr content"
    "findDigest False dg = Some want" "EqualFold (sha256Hex content) want"
proof -
  obtain dg w1 want u w2 content w3 where 1: "os_ReadFile d w = (Inr dg, w1)" and 2: "os_Open z w1 = (Inr u, w2)"
    and 3: "os_ReadAll z w2 = (Inr content, w3)"
    and ok: "findDigest False dg = Some want" "EqualFold (sha256Hex content) want"
    using assms by (auto simp: verifySHA256_def Let_def split: prod.splits sum.splits option.splits if_splits)
  have "readNode z w2 = readNode z w1" using only_nothing(2) [OF reading_only(2), of z z w1] 2 by simp
  moreover have "readNode z w1 = readNode z w" using only_nothing(2) [OF ReadFile_only, of z d w] 1 by simp
  ultimately have "readNode z w = Inr content" using os_ReadAll_ok [OF 3] by simp
  then show thesis by (rule that [OF os_ReadFile_ok [OF 1] _ ok])
qed

text \<open>
  The evidence for an installed core: the bytes are those of the member \<^verbatim>\<open>xray\<close> of an archive that the
  server gave for the release's asset, and whose digest is the one in the asset's digest file.
\<close>

definition verified_archive :: "'x core_env \<Rightarrow> Options \<Rightarrow> string \<Rightarrow> string \<Rightarrow> zip_file list \<Rightarrow> bool" where
  "verified_archive env opts zipURL dgstURL files \<longleftrightarrow>
     (\<exists>data dg want. served (ce_http env) (xc_Token opts) zipURL data
        \<and> served (ce_http env) (xc_Token opts) dgstURL dg \<and> findDigest False dg = Some want
        \<and> EqualFold (sha256Hex data) want \<and> ce_zip env data = Inr files)"

definition verified_core :: "'x core_env \<Rightarrow> Options \<Rightarrow> releaseInfo \<Rightarrow> string \<Rightarrow> bool" where
  "verified_core env opts rel d \<longleftrightarrow>
     (\<exists>zipURL dgstURL files f. pickAssetURLs rel (xc_Arch opts) = Inr (zipURL, dgstURL)
        \<and> verified_archive env opts zipURL dgstURL files
        \<and> f \<in> set files \<and> \<not> zf_IsDir f \<and> relPath (zf_Name f) = [''xray''] \<and> zf_Data f = d)"

text \<open>The two downloads and the comparison of the digest: only the two files change, and they match.\<close>

lemma verified_download:
  assumes names: "fileKey w Z \<noteq> fileKey w D" "Z \<noteq> []" "D \<noteq> []"
    and 1: "downloadFile (ce_http env) zurl Z tok w = (r1, w1)" and 2: "downloadFile (ce_http env) durl D tok w1 = (r2, w2)"
    and 3: "verifySHA256 Z D w2 = (r3, w3)"
  shows "only_changes {fileKey w Z} w w1" and "only_changes {fileKey w Z, fileKey w D} w w2"
    and "only_changes {fileKey w Z, fileKey w D} w w3"
    and "r1 = None \<Longrightarrow> r2 = None \<Longrightarrow> r3 = None \<Longrightarrow> \<exists>data dg want. served (ce_http env) tok zurl data
      \<and> served (ce_http env) tok durl dg \<and> findDigest False dg = Some want \<and> EqualFold (sha256Hex data) want \<and> readNode Z w3 = Inr data"
proof -
  show o1: "only_changes {fileKey w Z} w w1" using downloadFile_only [of w Z "ce_http env" zurl tok] 1 by simp
  note k1 = only_key [OF o1]
  have o2: "only_changes {fileKey w D} w1 w2" using downloadFile_only [of w1 D "ce_http env" durl tok] 2 k1 by simp
  show o12: "only_changes {fileKey w Z, fileKey w D} w w2" using only_trans_Un [OF o1 o2] by (simp add: insert_commute)
  have o3: "only_changes {} w2 w3" using verifySHA256_only [of w2 Z D] 3 by simp
  show "only_changes {fileKey w Z, fileKey w D} w w3" using only_trans [OF o12 only_mono [OF o3]] by simp
  assume ok: "r1 = None" "r2 = None" "r3 = None"
  obtain data m where data: "served (ce_http env) tok zurl data" "w_fs w1 (fileKey w Z) = Some (RegFile data m)"
    using downloadFile_ok 1 ok(1) by blast
  obtain dg m' where dg: "served (ce_http env) tok durl dg" "w_fs w2 (fileKey w D) = Some (RegFile dg m')"
    using downloadFile_ok [of "ce_http env" durl D _ w1 w2] 2 ok(2) k1 by metis
  have rd: "readNode Z w2 = Inr data" "readNode D w2 = Inr dg"
    using readNode_at [of Z w2] readNode_at [of D w2] data(2) dg(2) only_at [OF o2, of "fileKey w Z"] names only_key [OF o12] by simp_all
  obtain want where "findDigest False dg = Some want" "EqualFold (sha256Hex data) want"
    using verifySHA256_ok [of Z D w2 w3] 3 ok(3) rd by (metis sum.inject(2))
  then show "\<exists>data dg want. served (ce_http env) tok zurl data \<and> served (ce_http env) tok durl dg
      \<and> findDigest False dg = Some want \<and> EqualFold (sha256Hex data) want \<and> readNode Z w3 = Inr data"
    using data(1) dg(1) only_nothing(2) [OF o3, of Z] rd(1) by auto
qed

lemma fetchCore_spec:
  assumes dir: "tmpDir \<noteq> []" "all_above w (fileKey w tmpDir)" "\<forall>q. strict_prefix (fileKey w tmpDir) q \<longrightarrow> w_fs w q = None"
    and arch: "safe_archive env" and run: "fetchCore env opts zurl durl tmpDir w = (r, w')"
  shows "only_changes {q. prefix (fileKey w tmpDir) q} w w'"
    and "r = None \<Longrightarrow> \<exists>files. verified_archive env opts zurl durl files \<and>
      (\<forall>d. readNode (pathJoin [pathJoin [tmpDir, ''unzipped''], ''xray'']) w' = Inr d \<longrightarrow>
        (\<exists>f\<in>set files. \<not> zf_IsDir f \<and> relPath (zf_Name f) = [''xray''] \<and> zf_Data f = d))"
proof -
  let ?Z = "pathJoin [tmpDir, ''xray.zip'']" and ?D = "pathJoin [tmpDir, ''xray.zip.dgst'']"
  let ?U = "pathJoin [tmpDir, ''unzipped'']" and ?T = "fileKey w tmpDir" and ?K = "{q. prefix (fileKey w tmpDir) q}"
  have kZ: "fileKey w ?Z = ?T @ [''xray.zip'']" and kD: "fileKey w ?D = ?T @ [''xray.zip.dgst'']"
    and kU: "fileKey w ?U = ?T @ [''unzipped'']"
    using resolve_pathJoin [OF dir(1)] by (simp_all add: fileKey_def plain_def slash_def)
  obtain r1 w1 where 1: "downloadFile (ce_http env) zurl ?Z (xc_Token opts) w = (r1, w1)" by fastforce
  obtain r2 w2 where 2: "downloadFile (ce_http env) durl ?D (xc_Token opts) w1 = (r2, w2)" by fastforce
  obtain r3 w3 where 3: "verifySHA256 ?Z ?D w2 = (r3, w3)" by fastforce
  obtain r4 w4 where 4: "unzip env ?Z ?U w3 = (r4, w4)" by fastforce
  have ne: "fileKey w ?Z \<noteq> fileKey w ?D" "?Z \<noteq> []" "?D \<noteq> []" using kZ kD dir(1) by simp_all
  note dl = verified_download [OF ne 1 2 3]
  have o: "only_changes ?K w w1" "only_changes ?K w w2" "only_changes ?K w w3"
    using only_mono [OF dl(1), of ?K] only_mono [OF dl(2), of ?K] only_mono [OF dl(3), of ?K] kZ kD by simp_all
  have above: "all_above w3 ?T"
    using dir(2) only_at [OF dl(3)] kZ kD by (auto simp: all_above_def) (metis append_prefixD not_Cons_self2 same_append_eq
        prefix_order.eq_iff self_append_conv)
  note un = unzip_spec [OF arch dir(1) _ 4, unfolded only_key [OF o(3)], OF above]
  have o4: "only_changes ?K w w4" by (rule only_trans [OF o(3) un(1)])
  show "only_changes ?K w w'"
    using run 1 2 3 4 o o4 by (auto simp: fetchCore_def Let_def download_def split: option.splits)
  assume "r = None"
  then have ok: "r1 = None" "r2 = None" "r3 = None" "r4 = None" "w' = w4"
    using run 1 2 3 4 by (auto simp: fetchCore_def Let_def download_def split: option.splits)
  obtain data dg want where data: "served (ce_http env) (xc_Token opts) zurl data" "served (ce_http env) (xc_Token opts) durl dg"
    "findDigest False dg = Some want" "EqualFold (sha256Hex data) want" "readNode ?Z w3 = Inr data" using dl(4) [OF ok(1-3)] by blast
  then obtain files where files: "ce_zip env data = Inr files"
    and reg: "w_fs w4 q = Some (RegFile d m) \<Longrightarrow> w_fs w3 q = Some (RegFile d m) \<or>
      (\<exists>f\<in>set files. \<not> zf_IsDir f \<and> q = ?T @ ''unzipped'' # relPath (zf_Name f) \<and> d = zf_Data f)" for q d m
    using un(2) [OF ok(4)] by auto
  have arch': "verified_archive env opts zurl durl files" unfolding verified_archive_def using data files by blast
  let ?X = "?T @ [''unzipped'', ''xray'']"
  have kX: "fileKey w4 (pathJoin [?U, ''xray'']) = ?X"
    using resolve_pathJoin [of ?U "''xray''"] kU only_key [OF o4, of ?U] dir(1) by (simp add: fileKey_def plain_def slash_def)
  have "w_fs w3 ?X = None" using only_at [OF dl(3), of ?X] dir(3) [rule_format, of ?X] kZ kD by (simp add: strict_prefix_def)
  then have "\<exists>f\<in>set files. \<not> zf_IsDir f \<and> relPath (zf_Name f) = [''xray''] \<and> zf_Data f = d"
    if "readNode (pathJoin [?U, ''xray'']) w' = Inr d" for d
    using that reg [of ?X d] ok(5) kX by (force simp: readNode_Inr node_at_def split: if_splits)
  with arch' show "\<exists>files. verified_archive env opts zurl durl files \<and>
      (\<forall>d. readNode (pathJoin [?U, ''xray'']) w' = Inr d \<longrightarrow>
        (\<exists>f\<in>set files. \<not> zf_IsDir f \<and> relPath (zf_Name f) = [''xray''] \<and> zf_Data f = d))" by blast
qed

section \<open>The installation\<close>

lemma keeps_file_copy: "filePath dest \<Longrightarrow> k \<noteq> fileKey w dest \<Longrightarrow> keeps_file k w (snd (copyFile src dest perm w))"
  using cf.put_frame [of dest w k "(src, perm)"] cf.put_setup [of dest w "(src, perm)"] by (simp add: keeps_file_def)

lemma keeps_file_write: "filePath dest \<Longrightarrow> k \<noteq> fileKey w dest \<Longrightarrow> keeps_file k w (snd (writeBytes dest d perm w))"
  using wb.put_frame [of dest w k "(d, perm)"] wb.put_setup [of dest w "(d, perm)"] by (simp add: keeps_file_def)

text \<open>The programs that the installer runs leave the file \<open>k\<close> alone.\<close>

definition spares :: "'x core_env \<Rightarrow> string list \<Rightarrow> bool" where
  "spares env k \<longleftrightarrow> (\<forall>args w. keeps_file k w (snd (ce_run env args w)))"

lemma keeps_file_run: "spares env k \<Longrightarrow> keeps_file k w (snd (runCmd env args w))"
  by (simp add: spares_def runCmd_def case_prod_beta)

text \<open>The files that the installer writes beside the binary.\<close>

definition otherTargets :: "Options \<Rightarrow> string list" where
  "otherTargets opts =
     [pathJoin [xc_ShareDir opts, ''geoip.dat''], pathJoin [xc_ShareDir opts, ''geosite.dat''],
      xc_ConfigPath opts, xc_ServicePath opts]"

definition apart :: "Options \<Rightarrow> string list \<Rightarrow> 'x world \<Rightarrow> bool" where
  "apart opts k w \<longleftrightarrow> list_all (\<lambda>p. filePath p \<and> k \<noteq> fileKey w p) (otherTargets opts)"

lemma apart_setup: "same_setup w v \<Longrightarrow> apart opts k v = apart opts k w"
  by (simp add: apart_def otherTargets_def same_setup_key)

lemma keeps_file_data: "apart opts k w \<Longrightarrow> name = ''geoip.dat'' \<or> name = ''geosite.dat'' \<Longrightarrow> keeps_file k w (snd (copyData u opts name w))"
proof -
  assume a: "apart opts k w" and n: "name = ''geoip.dat'' \<or> name = ''geosite.dat''"
  obtain r1 w1 where 1: "os_Stat (pathJoin [u, name]) w = (r1, w1)" by fastforce
  have s: "keeps_file k w w1" using keeps_file_only [OF reading_only(1)] 1 by (metis snd_conv)
  have "apart opts k w1" using a apart_setup s by (auto simp: keeps_file_def)
  then have "keeps_file k w1 (snd (copyFile src (pathJoin [xc_ShareDir opts, name]) (mode 6 4 4) w1))" for src
    using n by (intro keeps_file_copy) (auto simp: apart_def otherTargets_def)
  then show ?thesis using s keeps_file_trans [OF s] 1 by (simp add: copyData_def split: sum.split)
qed

text \<open>After the binary is in place, the remaining steps leave it.\<close>

lemma keeps_file_loop:
  assumes "\<And>x w. x \<in> set xs \<Longrightarrow> apart opts k w \<Longrightarrow> keeps_file k w (snd (f x w))" and "apart opts k w"
  shows "keeps_file k w (snd (forEach f xs w))"
proof -
  have "apart opts k v" if "keeps_file k w v" for v using that assms(2) apart_setup by (auto simp: keeps_file_def)
  then have "keeps_file k w (snd (f x v))" if "x \<in> set xs" "keeps_file k w v" for x v
    using assms(1) [OF that(1)] keeps_file_trans that(2) by blast
  then show ?thesis using forEach_invariant [of xs "keeps_file k w" f w] by simp
qed

definition finishCore :: "'x core_env \<Rightarrow> Options \<Rightarrow> string \<Rightarrow> 'x world \<Rightarrow> go_error option \<times> 'x world" where
  "finishCore env opts unzipDir w =
     (case forEach (copyData unzipDir opts) [''geoip.dat'', ''geosite.dat''] w of
        (Some err, w1) \<Rightarrow> (Some err, w1)
      | (None, w1) \<Rightarrow>
          (case copySampleConfig env opts w1 of
             (Some err, w2) \<Rightarrow> (Some err, w2)
           | (None, w2) \<Rightarrow>
               (case testConfig env opts w2 of
                  (Some err, w3) \<Rightarrow> (Some err, w3)
                | (None, w3) \<Rightarrow> installSystemdService env opts w3)))"

lemma keeps_file_sample: "apart opts k w \<Longrightarrow> keeps_file k w (snd (copySampleConfig env opts w))"
proof -
  assume a: "apart opts k w"
  obtain r1 w1 where 1: "os_Stat (xc_ConfigPath opts) w = (r1, w1)" by fastforce
  have s: "keeps_file k w w1" using keeps_file_only [OF reading_only(1)] 1 by (metis snd_conv)
  then have "apart opts k w1" using a apart_setup by (auto simp: keeps_file_def)
  then have "keeps_file k w1 (snd (writeBytes (xc_ConfigPath opts) d perm w1))" for d perm
    by (intro keeps_file_write) (auto simp: apart_def otherTargets_def)
  then show ?thesis using s keeps_file_trans [OF s] 1 by (simp add: copySampleConfig_def split: sum.split)
qed

lemma keeps_file_service: "apart opts k w \<Longrightarrow> spares env k \<Longrightarrow> keeps_file k w (snd (installSystemdService env opts w))"
proof -
  assume a: "apart opts k w" and sp: "spares env k"
  obtain r1 w1 where 1: "writeBytes (xc_ServicePath opts) (ce_serviceUnit env) (mode 6 4 4) w = (r1, w1)" by fastforce
  have k1: "keeps_file k w w1"
    using keeps_file_write [of "xc_ServicePath opts" k w "ce_serviceUnit env" "mode 6 4 4"] a 1
    by (auto simp: apart_def otherTargets_def)
  obtain r2 w2 where 2: "runCmd env [''systemctl'', ''daemon-reload''] w1 = (r2, w2)" by fastforce
  have k2: "keeps_file k w w2"
    using keeps_file_trans [OF k1] keeps_file_run [OF sp, of w1 "[''systemctl'', ''daemon-reload'']"] 2 by simp
  show ?thesis using k1 k2 keeps_file_trans [OF k2 keeps_file_run [OF sp]] 1 2
    by (simp add: installSystemdService_def split: option.split)
qed

lemma finishCore_keeps:
  assumes "apart opts k w" "spares env k"
  shows "keeps_file k w (snd (finishCore env opts u w))"
proof -
  have ap: "apart opts k v" if "keeps_file k w v" for v using that assms(1) apart_setup by (auto simp: keeps_file_def)
  obtain r1 w1 where 1: "forEach (copyData u opts) [''geoip.dat'', ''geosite.dat''] w = (r1, w1)" by fastforce
  obtain r2 w2 where 2: "copySampleConfig env opts w1 = (r2, w2)" by fastforce
  obtain r3 w3 where 3: "testConfig env opts w2 = (r3, w3)" by fastforce
  have "keeps_file k w (snd (forEach (copyData u opts) [''geoip.dat'', ''geosite.dat''] w))"
    by (rule keeps_file_loop [OF _ assms(1)]) (rule keeps_file_data, simp_all)
  then have k1: "keeps_file k w w1" unfolding 1 by simp
  have k2: "keeps_file k w w2" using keeps_file_trans [OF k1] keeps_file_sample [OF ap [OF k1], of env] 2 by simp
  have k3: "keeps_file k w w3"
    using keeps_file_trans [OF k2] keeps_file_run [OF assms(2), of w2] 3 by (metis snd_conv testConfig_def)
  show ?thesis using k1 k2 k3 keeps_file_trans [OF k3 keeps_file_service [OF ap [OF k3] assms(2)]]
    unfolding finishCore_def 1 prod.case by (simp add: 2 3 split: option.split)
qed

text \<open>The installation is: directories, then the binary, then the rest.\<close>

lemma installCore_eq:
  "installCore env opts u w =
     (case createWorkDirs opts w of
        (Some err, w1) \<Rightarrow> (Some err, w1)
      | (None, w1) \<Rightarrow>
          (case os_MkdirAll (xc_BinDir opts) w1 of
             (Some err, w2) \<Rightarrow> (Some err, w2)
           | (None, w2) \<Rightarrow>
               (case copyFile (pathJoin [u, ''xray'']) (pathJoin [xc_BinDir opts, ''xray'']) (mode 7 5 5) w2 of
                  (Some err, w3) \<Rightarrow> (Some err, w3)
                | (None, w3) \<Rightarrow> finishCore env opts u w3)))"
  by (simp add: installCore_def installBinaryAndData_def finishCore_def split: prod.split option.split)

lemma workDirs_spec:
  "keeps_file k w (snd (forEach os_MkdirAll ds w))"
  "readNode src (snd (forEach os_MkdirAll ds w)) = Inr d \<Longrightarrow> readNode src w = Inr d"
proof -
  show "keeps_file k w (snd (forEach os_MkdirAll ds w))"
    using forEach_invariant [of ds "keeps_file k w" os_MkdirAll w] keeps_file_trans keeps_file_mkdir by (metis keeps_file_refl)
  have "readNode src (snd (forEach os_MkdirAll ds w)) = Inr d \<longrightarrow> readNode src w = Inr d"
    using forEach_invariant [of ds "\<lambda>v. readNode src v = Inr d \<longrightarrow> readNode src w = Inr d" os_MkdirAll w] mkdir_readNode by blast
  then show "readNode src (snd (forEach os_MkdirAll ds w)) = Inr d \<Longrightarrow> readNode src w = Inr d" by simp
qed

lemma installCore_binary:
  assumes bin: "filePath (pathJoin [xc_BinDir opts, ''xray''])"
    and ap: "apart opts (fileKey w (pathJoin [xc_BinDir opts, ''xray''])) w"
    and sp: "spares env (fileKey w (pathJoin [xc_BinDir opts, ''xray'']))"
    and run: "installCore env opts u w = (r, w')"
  shows "keeps_file (fileKey w (pathJoin [xc_BinDir opts, ''xray''])) w w' \<and> r \<noteq> None
    \<or> (\<exists>d. readNode (pathJoin [u, ''xray'']) w = Inr d \<and> same_setup w w'
          \<and> w_fs w' (fileKey w (pathJoin [xc_BinDir opts, ''xray''])) = Some (RegFile d (mode 7 5 5)))"
proof -
  let ?bin = "pathJoin [xc_BinDir opts, ''xray'']" and ?src = "pathJoin [u, ''xray'']"
  let ?k = "fileKey w ?bin"
  obtain r1 w1 where 1: "createWorkDirs opts w = (r1, w1)" by fastforce
  obtain r2 w2 where 2: "os_MkdirAll (xc_BinDir opts) w1 = (r2, w2)" by fastforce
  obtain r3 w3 where 3: "copyFile ?src ?bin (mode 7 5 5) w2 = (r3, w3)" by fastforce
  have k1: "keeps_file ?k w w1" using workDirs_spec(1) 1 unfolding createWorkDirs_def by (metis snd_conv)
  have k2: "keeps_file ?k w w2" using keeps_file_trans [OF k1] keeps_file_mkdir [of ?k w1 "xc_BinDir opts"] 2 by simp
  have key2: "fileKey w2 ?bin = ?k" using k2 same_setup_key [of w w2] by (simp add: keeps_file_def)
  have rd: "readNode ?src w = Inr d" if "readNode ?src w2 = Inr d" for d
  proof -
    have "readNode ?src w1 = Inr d" using that mkdir_readNode [of ?src "xc_BinDir opts" w1 d] 2 by simp
    moreover have "w1 = snd (createWorkDirs opts w)" using 1 by simp
    ultimately show ?thesis unfolding createWorkDirs_def using workDirs_spec(2) by blast
  qed
  show ?thesis
  proof (cases "r1 = None \<and> r2 = None \<and> r3 = None")
    case False
    have "keeps_file ?k w2 w3" if "r3 \<noteq> None"
      using cf.put_err [OF bin, of "(?src, mode 7 5 5)" w2 _ w3] cf.put_setup [OF bin, of w2 "(?src, mode 7 5 5)"] 3 that key2
      by (auto simp: keeps_file_def)
    then have "r3 \<noteq> None \<Longrightarrow> keeps_file ?k w w3" using keeps_file_trans [OF k2] by blast
    then show ?thesis using False k1 k2 run 1 2 3 by (auto simp: installCore_eq split: option.splits)
  next
    case True
    obtain d where d: "readNode ?src w2 = Inr d" "w_fs w3 ?k = Some (RegFile d (mode 7 5 5))"
      using cf.put_ok [OF bin, of "(?src, mode 7 5 5)" w2 w3] 3 True key2 by (auto split: sum.splits)
    have s3: "same_setup w w3"
      using cf.put_setup [OF bin, of w2 "(?src, mode 7 5 5)"] 3 k2 same_setup_trans by (auto simp: keeps_file_def)
    have "keeps_file ?k w3 (snd (finishCore env opts u w3))"
      by (rule finishCore_keeps) (use ap sp apart_setup [OF s3] in simp_all)
    moreover have "w' = snd (finishCore env opts u w3)" using run 1 2 3 True by (simp add: installCore_eq)
    ultimately show ?thesis using d rd s3 same_setup_trans by (auto simp: keeps_file_def)
  qed
qed

section \<open>A run\<close>

definition corePath :: "'x core_env \<Rightarrow> Options \<Rightarrow> string" where
  "corePath env opts0 = pathJoin [xc_BinDir (withDefaults (ce_plat env) opts0), ''xray'']"

text \<open>
  The surroundings of a run: the binary is a file outside the directory for temporary files and none
  of the other files that the installer writes, the programs it runs leave it alone and leave a file
  system with all directories, and the names in an archive stay inside.
\<close>

definition core_setting :: "'x core_env \<Rightarrow> Options \<Rightarrow> 'x world \<Rightarrow> bool" where
  "core_setting env opts0 w \<longleftrightarrow>
     filePath (corePath env opts0)
     \<and> apart (withDefaults (ce_plat env) opts0) (fileKey w (corePath env opts0)) w
     \<and> spares env (fileKey w (corePath env opts0))
     \<and> \<not> prefix (fileKey w (os_TempDir w)) (fileKey w (corePath env opts0))
     \<and> safe_archive env \<and> tree (w_fs w) \<and> (\<forall>args v. tree (w_fs v) \<longrightarrow> tree (w_fs (snd (ce_run env args v))))"

lemma installedVersion_run: "snd (installedVersion env w) = snd (ce_run env [''xray'', ''-version''] w)"
  by (simp add: installedVersion_def split: prod.split option.split)

text \<open>A new directory in a tree: everything above it is there.\<close>

lemma all_above_new:
  assumes "tree (w_fs w)" and "w_fs w (butlast k) = Some Directory" and "only_changes {k} w v" and "w_fs v k = Some Directory" and "k \<noteq> []"
  shows "all_above v k"
  unfolding all_above_def
proof (intro allI impI)
  fix q assume q: "prefix q k"
  show "w_fs v q \<noteq> None"
  proof (cases "q = k")
    case False
    then have "prefix q (butlast k)"
      using q assms(5) prefix_snoc [of q "butlast k" "last k"] by (auto simp: strict_prefix_def)
    then have "w_fs w q \<noteq> None" using assms(1,2) unfolding tree_def by (metis option.distinct(1))
    then show ?thesis using only_at [OF assms(3), of q] False by simp
  qed (simp add: assms(4))
qed

text \<open>The work in the temporary directory: the old binary, or the binary of a verified archive.\<close>

lemma coreWork_spec:
  assumes bin: "filePath (pathJoin [xc_BinDir opts, ''xray''])"
    and ap: "apart opts (fileKey w (pathJoin [xc_BinDir opts, ''xray''])) w"
    and sp: "spares env (fileKey w (pathJoin [xc_BinDir opts, ''xray'']))"
    and out: "\<not> prefix (fileKey w (os_TempDir w)) (fileKey w (pathJoin [xc_BinDir opts, ''xray'']))"
    and arch: "safe_archive env" "tree (w_fs w)"
    and dir: "os_MkdirTemp [] ''xraycore-*'' w = (Inr tmpDir, w1)"
    and 2: "fetchCore env opts zurl durl tmpDir w1 = (r2, w2)"
    and 3: "installCore env opts (pathJoin [tmpDir, ''unzipped'']) w2 = (r3, w3)"
  shows "keeps_file (fileKey w (pathJoin [xc_BinDir opts, ''xray''])) w (snd (os_RemoveAll tmpDir w1))"
    and "keeps_file (fileKey w (pathJoin [xc_BinDir opts, ''xray''])) w (snd (os_RemoveAll tmpDir w2))"
    and "r2 = None \<Longrightarrow> keeps_file (fileKey w (pathJoin [xc_BinDir opts, ''xray''])) w (snd (os_RemoveAll tmpDir w3)) \<and> r3 \<noteq> None
      \<or> (\<exists>files f. verified_archive env opts zurl durl files \<and> f \<in> set files \<and> \<not> zf_IsDir f \<and> relPath (zf_Name f) = [''xray'']
          \<and> w_fs (snd (os_RemoveAll tmpDir w3)) (fileKey w (pathJoin [xc_BinDir opts, ''xray''])) = Some (RegFile (zf_Data f) (mode 7 5 5)))"
proof -
  let ?bin = "pathJoin [xc_BinDir opts, ''xray'']"
  let ?k = "fileKey w ?bin" and ?T = "fileKey w tmpDir"
  have "os_MkdirTemp [] (''xraycore-'' @ ''*'') w = (Inr tmpDir, w1)" using dir by simp
  from os_MkdirTemp_ok [OF this] have T: "tmpDir \<noteq> []" "strict_prefix (fileKey w (os_TempDir w)) ?T" "w_fs w ?T = None"
    "w_fs w1 ?T = Some Directory" "only_changes {?T} w w1" "w_fs w (butlast ?T) = Some Directory" by (simp_all add: slash_def)
  have outT: "\<not> prefix ?T ?k" using out T(2) by (meson prefix_order.order_trans prefix_order.less_imp_le)
  have below: "w_fs w q = None" if "prefix ?T q" for q using arch(2) T(3) that unfolding tree_def by blast
  have "?T \<noteq> []" using T(2) by auto
  then have above: "all_above w1 ?T" using all_above_new [OF arch(2) T(6,5,4)] by simp
  have k1: "keeps_file ?k w w1" using only_at [OF T(5), of ?k] only_setup [OF T(5)] outT by (auto simp: keeps_file_def)
  have key1: "fileKey w1 p = fileKey w p" for p by (rule only_key [OF T(5)])
  have empty: "\<forall>q. strict_prefix ?T q \<longrightarrow> w_fs w1 q = None"
    using only_at [OF T(5)] below by (auto simp: strict_prefix_def)
  note fetch = fetchCore_spec [OF T(1) _ _ arch(1) 2, unfolded key1, OF above empty]
  have "keeps_file ?k w1 w2" using only_at [OF fetch(1), of ?k] only_setup [OF fetch(1)] outT by (simp add: keeps_file_def)
  then have k2: "keeps_file ?k w w2" by (rule keeps_file_trans [OF k1])
  have rm: "w_fs (snd (os_RemoveAll tmpDir v)) ?k = w_fs v ?k" "keeps_file ?k w v \<Longrightarrow> keeps_file ?k w (snd (os_RemoveAll tmpDir v))"
    if "same_setup w v" for v
    using only_at [OF os_RemoveAll_only [of v tmpDir], of ?k] only_setup [OF os_RemoveAll_only [of v tmpDir]]
      same_setup_key [OF that, of tmpDir] outT same_setup_trans by (auto simp: keeps_file_def)
  show "keeps_file ?k w (snd (os_RemoveAll tmpDir w1))" "keeps_file ?k w (snd (os_RemoveAll tmpDir w2))"
    using rm k1 k2 by (simp_all add: keeps_file_def)
  assume r2: "r2 = None"
  have s2: "same_setup w w2" using k2 by (simp add: keeps_file_def)
  note key2 = same_setup_key [OF s2]
  have inst: "keeps_file ?k w2 w3 \<and> r3 \<noteq> None \<or> (\<exists>d. readNode (pathJoin [pathJoin [tmpDir, ''unzipped''], ''xray'']) w2 = Inr d
      \<and> same_setup w2 w3 \<and> w_fs w3 ?k = Some (RegFile d (mode 7 5 5)))"
    using installCore_binary [OF bin _ _ 3] ap sp apart_setup [OF s2] by (simp add: key2)
  then show "keeps_file ?k w (snd (os_RemoveAll tmpDir w3)) \<and> r3 \<noteq> None
      \<or> (\<exists>files f. verified_archive env opts zurl durl files \<and> f \<in> set files \<and> \<not> zf_IsDir f \<and> relPath (zf_Name f) = [''xray'']
          \<and> w_fs (snd (os_RemoveAll tmpDir w3)) ?k = Some (RegFile (zf_Data f) (mode 7 5 5)))"
  proof
    assume "keeps_file ?k w2 w3 \<and> r3 \<noteq> None"
    then have k3: "keeps_file ?k w w3" and "r3 \<noteq> None" using keeps_file_trans [OF k2] by auto
    then show ?thesis using rm(2) by (simp add: keeps_file_def)
  next
    assume "\<exists>d. readNode (pathJoin [pathJoin [tmpDir, ''unzipped''], ''xray'']) w2 = Inr d
      \<and> same_setup w2 w3 \<and> w_fs w3 ?k = Some (RegFile d (mode 7 5 5))"
    then obtain d where d: "readNode (pathJoin [pathJoin [tmpDir, ''unzipped''], ''xray'']) w2 = Inr d"
      "same_setup w2 w3" "w_fs w3 ?k = Some (RegFile d (mode 7 5 5))" by blast
    obtain files f where "verified_archive env opts zurl durl files" "f \<in> set files" "\<not> zf_IsDir f"
      "relPath (zf_Name f) = [''xray'']" "zf_Data f = d" using fetch(2) [OF r2] d(1) by blast
    then show ?thesis using rm(1) [OF same_setup_trans [OF s2 d(2)]] d(3) by auto
  qed
qed

text \<open>The ways through \<^verbatim>\<open>InstallOrUpdate\<close>: stopped before the work, no assets, or the work with its outcome.\<close>

lemma coreInstall_cases:
  assumes opts: "opts = withDefaults (ce_plat env) opts0" and w1: "w1 = snd (installedVersion env w)"
    and run: "InstallOrUpdate env opts0 w = (r, w')"
  obtains (still) "only_changes {} w1 w'" "case r of Inl _ \<Rightarrow> True | Inr res \<Rightarrow>
       \<not> ir_Updated res \<and> normalizeVersion (ir_FromVersion res) = normalizeVersion (ir_ToVersion res)"
  | (unnamed) e w2 tmpDir w3 where "only_changes {} w1 w2" "os_MkdirTemp [] ''xraycore-*'' w2 = (Inr tmpDir, w3)"
      "r = Inl e" "w' = snd (os_RemoveAll tmpDir w3)"
  | (work) rel v w2 tmpDir w3 zurl durl r4 w4 r5 w5 where "fetchRelease env opts w1 = (Inr (rel, v), w2)" "only_changes {} w1 w2"
      "os_MkdirTemp [] ''xraycore-*'' w2 = (Inr tmpDir, w3)" "pickAssetURLs rel (xc_Arch opts) = Inr (zurl, durl)"
      "fetchCore env opts zurl durl tmpDir w3 = (r4, w4)" "installCore env opts (pathJoin [tmpDir, ''unzipped'']) w4 = (r5, w5)"
      "w' = snd (os_RemoveAll tmpDir (if r4 = None then w5 else w4))"
      "case r of Inl _ \<Rightarrow> r4 \<noteq> None \<or> r5 \<noteq> None | Inr res \<Rightarrow> r4 = None \<and> r5 = None \<and> ir_Updated res \<and> ir_ToVersion res = v"
proof -
  obtain installed where 1: "installedVersion env w = (installed, w1)" using w1 by (cases "installedVersion env w") simp
  obtain fr w2 where 2: "fetchRelease env opts w1 = (fr, w2)" by fastforce
  have o2: "only_changes {} w1 w2" using getRelease_only 2 by (auto simp: fetchRelease_def)
  note run = run [unfolded InstallOrUpdate_def Let_def, folded opts, unfolded 1 prod.case 2]
  show thesis
  proof (cases "\<exists>rel v tmpDir w3. fr = Inr (rel, v) \<and> normalizeVersion installed \<noteq> normalizeVersion v
      \<and> os_MkdirTemp [] ''xraycore-*'' w2 = (Inr tmpDir, w3)")
    case False
    have tmp: "only_changes {} w1 w3" if "os_MkdirTemp [] ''xraycore-*'' w2 = (Inl e, w3)" for e w3
      using only_trans [OF o2] createFresh_error that unfolding os_MkdirTemp_def by blast
    show thesis by (rule still) (use run False o2 tmp in \<open>auto split: sum.splits prod.splits if_splits\<close>)
  next
    case True
    then obtain rel v tmpDir w3 where fr: "fr = Inr (rel, v)" "normalizeVersion installed \<noteq> normalizeVersion v"
      and 3: "os_MkdirTemp [] ''xraycore-*'' w2 = (Inr tmpDir, w3)" by blast
    show thesis
    proof (cases "pickAssetURLs rel (xc_Arch opts)")
      case (Inl e)
      then show thesis using unnamed [OF o2 3, of e] run fr 3 by auto
    next
      case (Inr urls)
      obtain zurl durl where urls: "urls = (zurl, durl)" by (cases urls)
      obtain r4 w4 where 4: "fetchCore env opts zurl durl tmpDir w3 = (r4, w4)" by fastforce
      obtain r5 w5 where 5: "installCore env opts (pathJoin [tmpDir, ''unzipped'']) w4 = (r5, w5)" by fastforce
      show thesis
        by (rule work [OF 2 [unfolded fr] o2 3 Inr [unfolded urls] 4 5])
          (use run fr 3 Inr urls 4 5 in \<open>auto split: option.splits\<close>)
    qed
  qed
qed

text \<open>The setting of an installation still holds after the version was looked up and files were only read.\<close>

lemma core_setting_after:
  assumes set: "core_setting env opts0 w" and opts: "opts = withDefaults (ce_plat env) opts0"
    and o: "only_changes {} (snd (installedVersion env w)) v"
  shows "fileKey v (pathJoin [xc_BinDir opts, ''xray'']) = fileKey w (corePath env opts0)"
    and "keeps_file (fileKey w (corePath env opts0)) w v" and "filePath (pathJoin [xc_BinDir opts, ''xray''])"
    and "apart opts (fileKey v (pathJoin [xc_BinDir opts, ''xray''])) v" and "spares env (fileKey v (pathJoin [xc_BinDir opts, ''xray'']))"
    and "\<not> prefix (fileKey v (os_TempDir v)) (fileKey v (pathJoin [xc_BinDir opts, ''xray'']))"
    and "safe_archive env" and "tree (w_fs v)"
proof -
  let ?k = "fileKey w (corePath env opts0)" and ?bin = "pathJoin [xc_BinDir opts, ''xray'']" and ?w1 = "snd (installedVersion env w)"
  have cp: "corePath env opts0 = ?bin" by (simp add: corePath_def opts)
  note set' = set [unfolded core_setting_def, folded opts]
  have k1: "keeps_file ?k w ?w1" and t1: "tree (w_fs ?w1)" using set' installedVersion_run [of env w] by (auto simp: spares_def)
  show k: "keeps_file ?k w v" by (rule keeps_file_trans [OF k1 keeps_file_only [OF o]])
  then have s: "same_setup w v" by (simp add: keeps_file_def)
  then have "os_TempDir v = os_TempDir w" by (simp add: os_TempDir_def os_Getenv_def same_setup_def)
  then show "fileKey v ?bin = ?k" "filePath ?bin" "apart opts (fileKey v ?bin) v" "spares env (fileKey v ?bin)"
    "\<not> prefix (fileKey v (os_TempDir v)) (fileKey v ?bin)" "safe_archive env" "tree (w_fs v)"
    using set' t1 only_nothing(1) [OF o] by (simp_all add: cp same_setup_key [OF s] apart_setup [OF s])
qed

text \<open>
  C2: an installed core is never left half-written. Whatever fails during an installation or update (the
  network, the file system, the configuration test, the service manager), the binary of the core is
  the one that was there, or the complete member \<^verbatim>\<open>xray\<close> of an archive that the release names for this
  architecture and whose SHA-256 digest is the one in the release's digest file. A reported update
  means the second, a report without update means that the version was the installed one.
\<close>

theorem core_binary_all_or_nothing:
  assumes "core_setting env opts0 w" and "InstallOrUpdate env opts0 w = (r, w')"
  shows "(keeps_file (fileKey w (corePath env opts0)) w w' \<and> (case r of Inl _ \<Rightarrow> True | Inr res \<Rightarrow>
       \<not> ir_Updated res \<and> normalizeVersion (ir_FromVersion res) = normalizeVersion (ir_ToVersion res)))
    \<or> (\<exists>rel v w2. fetchRelease env (withDefaults (ce_plat env) opts0) (snd (installedVersion env w)) = (Inr (rel, v), w2)
       \<and> (\<exists>d. verified_core env (withDefaults (ce_plat env) opts0) rel d
            \<and> w_fs w' (fileKey w (corePath env opts0)) = Some (RegFile d (mode 7 5 5)))
       \<and> (case r of Inl _ \<Rightarrow> True | Inr res \<Rightarrow> ir_Updated res \<and> ir_ToVersion res = v))"
proof -
  define opts where "opts = withDefaults (ce_plat env) opts0"
  define w1 where "w1 = snd (installedVersion env w)"
  let ?k = "fileKey w (corePath env opts0)"
  note key = core_setting_after [OF assms(1) opts_def, folded w1_def]
  show ?thesis
  proof (rule coreInstall_cases [OF opts_def w1_def assms(2)], goal_cases)
    case 1
    then show ?case using key(2) by blast
  next
    case (2 e w2 tmpDir w3)
    note k = key [OF 2(1)]
    have "keeps_file ?k w w'"
      using coreWork_spec(1) [OF k(3-8) 2(2) prod.collapse [symmetric] prod.collapse [symmetric]] keeps_file_trans [OF k(2)] k(1) 2(4) by simp
    then show ?case using 2(3) by simp
  next
    case (3 rel v w2 tmpDir w3 zurl durl r4 w4 r5 w5)
    note k = key [OF 3(2)]
    note work = coreWork_spec(2,3) [OF k(3-8) 3(3,5,6), unfolded k(1)]
    show ?case
    proof (cases "r4 = None \<and> \<not> (keeps_file ?k w2 w' \<and> r5 \<noteq> None)")
      case False
      then have "keeps_file ?k w w'" using work(1) 3(7) keeps_file_trans [OF k(2)] by (auto split: if_splits)
      then show ?thesis using 3(8) False by (auto split: sum.splits)
    next
      case True
      then obtain files f where f: "verified_archive env opts zurl durl files" "f \<in> set files" "\<not> zf_IsDir f"
        "relPath (zf_Name f) = [''xray'']" "w_fs w' ?k = Some (RegFile (zf_Data f) (mode 7 5 5))"
        using work(2) 3(7) by auto
      then have "verified_core env opts rel (zf_Data f)" using 3(4) unfolding verified_core_def by blast
      then show ?thesis using 3(1,8) f(5) unfolding opts_def [symmetric] w1_def [symmetric] by (auto split: sum.splits)
    qed
  qed
qed

section \<open>The sample configuration\<close>

lemma os_Stat_only: "only_changes {} w (snd (os_Stat p w))"
  by (rule reading_only)

text \<open>
  The sample configuration. When \<^verbatim>\<open>os.Stat\<close> finds a configuration, \<open>copySampleConfig\<close> changes nothing.
  When \<^verbatim>\<open>os.Stat\<close> fails, for whatever reason and not only because there is no file, the sample is
  written: then success means that the file now is the sample, also if there was another
  configuration before, and failure means that the file is as it was.
\<close>

theorem sample_config_written_on_stat_error:
  assumes "filePath (xc_ConfigPath opts)"
  shows "case fst (os_Stat (xc_ConfigPath opts) w) of
      Inr n \<Rightarrow> fst (copySampleConfig env opts w) = None \<and> w_fs (snd (copySampleConfig env opts w)) = w_fs w
    | Inl e \<Rightarrow> w_fs (snd (copySampleConfig env opts w)) (fileKey w (xc_ConfigPath opts)) =
        (case fst (copySampleConfig env opts w) of
           None \<Rightarrow> Some (RegFile (ce_sampleConfig env) (mode 6 4 4))
         | Some err \<Rightarrow> w_fs w (fileKey w (xc_ConfigPath opts)))"
proof -
  let ?c = "xc_ConfigPath opts"
  obtain r1 w1 where 1: "os_Stat ?c w = (r1, w1)" by fastforce
  have o1: "only_changes {} w w1" using os_Stat_only [of w ?c] 1 by simp
  obtain r2 w2 where 2: "writeBytes ?c (ce_sampleConfig env) (mode 6 4 4) w1 = (r2, w2)" by fastforce
  have "w_fs w2 (fileKey w ?c) = (case r2 of None \<Rightarrow> Some (RegFile (ce_sampleConfig env) (mode 6 4 4))
      | Some err \<Rightarrow> w_fs w (fileKey w ?c))"
    using wb.put_ok [OF assms, of "(ce_sampleConfig env, mode 6 4 4)" w1 w2]
      wb.put_err [OF assms, of "(ce_sampleConfig env, mode 6 4 4)" w1 _ w2] 2 only_key [OF o1] only_nothing(1) [OF o1]
    by (cases r2) auto
  then show ?thesis using 1 2 only_nothing(1) [OF o1] by (cases r1) (simp_all add: copySampleConfig_def)
qed

end
