(* ===== verification/State_Store.thy ===== *)
theory State_Store
  imports Xray_Model
begin

text \<open>
  The state store of \<^verbatim>\<open>internal/state/store.go\<close>: the version, clients and routes that were
  applied last. Every method holds the store's lock for its whole body, so each is one step
  on the store value. The interface \<open>desired_cache\<close> states what the agent relies on; the
  store implements it, and the agent's facts about it are proved from the interface.
\<close>

section \<open>State and operations\<close>

record Store =
  s_lastVersion :: int64
  s_clients :: "(string, Client) gomap"
  s_routes :: "(string, RouteRule) gomap"

definition New_Store :: Store where
  "New_Store = \<lparr>s_lastVersion = -1, s_clients = [], s_routes = []\<rparr>"

definition equalClient_store :: "Client \<Rightarrow> Client \<Rightarrow> bool" where
  "equalClient_store a b \<longleftrightarrow>
     c_Proto a = c_Proto b \<and> c_ID a = c_ID b \<and> c_Password a = c_Password b"

definition slicesEqual :: "string list \<Rightarrow> string list \<Rightarrow> bool" where
  "slicesEqual a b \<longleftrightarrow> a = b"

definition equalRoute :: "RouteRule \<Rightarrow> RouteRule \<Rightarrow> bool" where
  "equalRoute a b \<longleftrightarrow>
     r_Tag a = r_Tag b \<and> r_OutboundTag a = r_OutboundTag b \<and> r_BalancerTag a = r_BalancerTag b
     \<and> r_Port a = r_Port b \<and> r_SourcePort a = r_SourcePort b
     \<and> slicesEqual (r_Domain a) (r_Domain b) \<and> slicesEqual (r_IP a) (r_IP b)
     \<and> slicesEqual (r_InboundTag a) (r_InboundTag b) \<and> slicesEqual (r_Protocol a) (r_Protocol b)"

definition IsUnchanged :: "Store \<Rightarrow> int64 \<Rightarrow> Client list \<Rightarrow> RouteRule list \<Rightarrow> bool" where
  "IsUnchanged s version clients routes =
     (if version \<noteq> s_lastVersion s \<or> length clients \<noteq> go_len (s_clients s)
         \<or> length routes \<noteq> go_len (s_routes s)
      then False
      else list_all (\<lambda>c. case go_get (s_clients s) (c_Email c) of
                           None \<Rightarrow> False | Some existing \<Rightarrow> equalClient_store existing c) clients
         \<and> list_all (\<lambda>r. case go_get (s_routes s) (r_Tag r) of
                           None \<Rightarrow> False | Some existing \<Rightarrow> equalRoute existing r) routes)"

definition Update :: "Store \<Rightarrow> int64 \<Rightarrow> Client list \<Rightarrow> RouteRule list \<Rightarrow> Store" where
  "Update s version clients routes =
     s\<lparr>s_lastVersion := version, s_clients := go_index c_Email clients, s_routes := go_index r_Tag routes\<rparr>"

definition Emails :: "string range_order \<Rightarrow> Store \<Rightarrow> string list" where
  "Emails ord s = map fst (go_range ord (s_clients s))"

text \<open>A snapshot copies the map entry by entry; the order of the visits leaves no trace.\<close>

definition go_copy :: "('k, 'v) gomap \<Rightarrow> ('k, 'v) gomap" where
  "go_copy m = foldl (\<lambda>c (k, v). go_set k v c) [] m"

definition ClientsSnapshot :: "Store \<Rightarrow> (string, Client) gomap" where
  "ClientsSnapshot s = go_copy (s_clients s)"

definition RoutesSnapshot :: "Store \<Rightarrow> (string, RouteRule) gomap" where
  "RoutesSnapshot s = go_copy (s_routes s)"

section \<open>Invariant\<close>

definition store_wf :: "Store \<Rightarrow> bool" where
  "store_wf s \<longleftrightarrow>
     go_wf (s_clients s) \<and> go_wf (s_routes s)
     \<and> keyed_by c_Email (s_clients s) \<and> keyed_by r_Tag (s_routes s)"

lemma store_wf_New [simp]: "store_wf New_Store"
  by (simp add: store_wf_def New_Store_def)

lemma store_wf_Update [simp]: "store_wf (Update s v cs rs)"
  by (simp add: store_wf_def Update_def)

lemma go_copy_id: "go_wf m \<Longrightarrow> go_copy m = m"
  using go_fill_wf [of m] by (simp add: go_copy_def case_prod_beta')

lemma ClientsSnapshot_id [simp]: "store_wf s \<Longrightarrow> ClientsSnapshot s = s_clients s"
  by (simp add: ClientsSnapshot_def store_wf_def go_copy_id)

lemma RoutesSnapshot_id [simp]: "store_wf s \<Longrightarrow> RoutesSnapshot s = s_routes s"
  by (simp add: RoutesSnapshot_def store_wf_def go_copy_id)

lemma equalClient_store_eq: "c_Email a = c_Email b \<Longrightarrow> equalClient_store a b \<longleftrightarrow> a = b"
  by (auto simp: equalClient_store_def)

lemma equalRoute_eq: "equalRoute a b \<longleftrightarrow> a = b"
  by (auto simp: equalRoute_def slicesEqual_def)

lemma finite_dom_go_get [simp]: "finite (dom (go_get m))"
  using gm.set_keys [of m] by (metis List.finite_set dom_def)

section \<open>The interface the agent relies on\<close>

locale desired_cache =
  fixes new :: 's
    and update :: "'s \<Rightarrow> int64 \<Rightarrow> Client list \<Rightarrow> RouteRule list \<Rightarrow> 's"
    and unchanged :: "'s \<Rightarrow> int64 \<Rightarrow> Client list \<Rightarrow> RouteRule list \<Rightarrow> bool"
    and version_of :: "'s \<Rightarrow> int64"
    and clients_of :: "'s \<Rightarrow> string \<Rightarrow> Client option"
    and routes_of :: "'s \<Rightarrow> string \<Rightarrow> RouteRule option"
    and inv :: "'s \<Rightarrow> bool"
  assumes inv_new: "inv new"
    and inv_update: "inv (update s v cs rs)"
    and version_update: "version_of (update s v cs rs) = v"
    and clients_update: "clients_of (update s v cs rs) = last_with c_Email cs"
    and routes_update: "routes_of (update s v cs rs) = last_with r_Tag rs"
    and finite_clients: "finite (dom (clients_of s))"
    and finite_routes: "finite (dom (routes_of s))"
    and unchanged_iff: "inv s \<Longrightarrow> unchanged s v cs rs \<longleftrightarrow>
      v = version_of s \<and> length cs = card (dom (clients_of s)) \<and> length rs = card (dom (routes_of s))
      \<and> (\<forall>c\<in>set cs. clients_of s (c_Email c) = Some c) \<and> (\<forall>r\<in>set rs. routes_of s (r_Tag r) = Some r)"
begin

lemma unchanged_after_update:
  assumes "distinct (map c_Email cs)" and "distinct (map r_Tag rs)"
  shows "unchanged (update s v cs rs) v cs rs"
proof -
  have dom: "dom (last_with key xs) = key ` set xs" for key :: "'x \<Rightarrow> string" and xs
    by (auto simp: last_with_None dom_def dest: last_with_SomeD)
  have card: "card (c_Email ` set cs) = length cs" "card (r_Tag ` set rs) = length rs"
    using distinct_card [OF assms(1)] distinct_card [OF assms(2)] by simp_all
  show ?thesis
    using assms
    by (simp add: unchanged_iff inv_update version_update clients_update routes_update dom card
        last_with_distinct)
qed

text \<open>A map that holds every element under its key and has no room for others is the index.\<close>

lemma full_map_is_index:
  assumes "finite (dom m)" and "length xs = card (dom m)" and "distinct (map key xs)"
    and hold: "\<forall>x\<in>set xs. m (key x) = Some x"
  shows "m = last_with key xs"
proof -
  have sub: "key ` set xs \<subseteq> dom m" using hold by auto
  have "card (key ` set xs) = card (dom m)"
    using distinct_card [OF assms(3)] assms(2) by simp
  with sub assms(1) have dom: "dom m = key ` set xs" by (metis card_subset_eq)
  show ?thesis
  proof
    fix k
    show "m k = last_with key xs k"
    proof (cases "k \<in> dom m")
      case True
      then obtain x where "x \<in> set xs" "key x = k" using dom by auto
      then show ?thesis using hold last_with_distinct [OF assms(3)] by metis
    next
      case False
      then show ?thesis using dom by (metis domIff last_with_None)
    qed
  qed
qed

text \<open>An answer "unchanged" means that storing the new state would store what is there.\<close>

lemma unchanged_sound:
  assumes "inv s" and "unchanged s v cs rs" and "distinct (map c_Email cs)" and "distinct (map r_Tag rs)"
  shows "version_of s = v" "clients_of s = last_with c_Email cs" "routes_of s = last_with r_Tag rs"
  using assms(2) unfolding unchanged_iff [OF assms(1)]
  by (auto intro: full_map_is_index finite_clients finite_routes assms)

lemma repeated_email_never_unchanged:
  assumes "\<not> distinct (map c_Email cs)"
  shows "\<not> unchanged (update s v cs rs) v cs rs"
proof -
  have "dom (last_with c_Email cs) \<subseteq> c_Email ` set cs"
    by (metis domIff last_with_None subsetI)
  then have "card (dom (last_with c_Email cs)) \<le> card (c_Email ` set cs)"
    by (simp add: card_mono)
  also have "\<dots> < length cs"
    using assms by (metis List.finite_set card_distinct card_image_le length_map list.set_map nat_less_le
        card_length)
  finally show ?thesis
    by (simp add: unchanged_iff inv_update clients_update)
qed

end

interpretation ss: desired_cache New_Store Update IsUnchanged s_lastVersion
  "\<lambda>s. go_get (s_clients s)" "\<lambda>s. go_get (s_routes s)" store_wf
proof unfold_locales
  fix s :: Store and v cs rs
  show "store_wf New_Store" "store_wf (Update s v cs rs)" by simp_all
  show "s_lastVersion (Update s v cs rs) = v" by (simp add: Update_def)
  show "go_get (s_clients (Update s v cs rs)) = last_with c_Email cs"
    "go_get (s_routes (Update s v cs rs)) = last_with r_Tag rs"
    by (simp_all add: Update_def fun_eq_iff)
  show "finite (dom (go_get (s_clients s)))" "finite (dom (go_get (s_routes s)))"
    by simp_all
  assume wf: "store_wf s"
  have len: "go_len m = card (dom (go_get m))" if "go_wf m" for m :: "(string, 'x) gomap"
    using gm.length_keys [OF that] by (simp add: go_len_def go_keys_def dom_def)
  have "(case go_get (s_clients s) (c_Email c) of None \<Rightarrow> False | Some e \<Rightarrow> equalClient_store e c)
      \<longleftrightarrow> go_get (s_clients s) (c_Email c) = Some c" for c
    using wf by (cases "go_get (s_clients s) (c_Email c)") (simp_all add: store_wf_def keyed_by_def equalClient_store_eq)
  then have "list_all (\<lambda>c. case go_get (s_clients s) (c_Email c) of None \<Rightarrow> False
      | Some e \<Rightarrow> equalClient_store e c) cs \<longleftrightarrow> (\<forall>c\<in>set cs. go_get (s_clients s) (c_Email c) = Some c)"
    by (simp add: list_all_iff)
  moreover have "list_all (\<lambda>r. case go_get (s_routes s) (r_Tag r) of None \<Rightarrow> False
      | Some e \<Rightarrow> equalRoute e r) rs \<longleftrightarrow> (\<forall>r\<in>set rs. go_get (s_routes s) (r_Tag r) = Some r)"
    by (auto simp: list_all_iff equalRoute_eq split: option.splits)
  ultimately show "IsUnchanged s v cs rs \<longleftrightarrow>
      v = s_lastVersion s \<and> length cs = card (dom (go_get (s_clients s)))
      \<and> length rs = card (dom (go_get (s_routes s)))
      \<and> (\<forall>c\<in>set cs. go_get (s_clients s) (c_Email c) = Some c)
      \<and> (\<forall>r\<in>set rs. go_get (s_routes s) (r_Tag r) = Some r)"
    using wf by (auto simp: IsUnchanged_def store_wf_def len)
qed

section \<open>Properties\<close>

text \<open>
  C34: after \<open>Update\<close> with clients of distinct emails and routes of distinct tags, \<open>IsUnchanged\<close>
  recognises exactly that state, and the snapshots hold exactly those clients and routes.
\<close>

theorem store_update_roundtrip:
  assumes "distinct (map c_Email clients)" and "distinct (map r_Tag routes)"
  shows "IsUnchanged (Update s version clients routes) version clients routes
    \<and> (\<forall>k c. go_get (ClientsSnapshot (Update s version clients routes)) k = Some c \<longleftrightarrow> c \<in> set clients \<and> c_Email c = k)
    \<and> (\<forall>k r. go_get (RoutesSnapshot (Update s version clients routes)) k = Some r \<longleftrightarrow> r \<in> set routes \<and> r_Tag r = k)"
  using ss.unchanged_after_update [OF assms] assms
  by (simp add: ss.clients_update ss.routes_update last_with_distinct_iff)

theorem store_update_roundtrip_witness:
  "IsUnchanged (Update New_Store 7 [\<lparr>c_Proto = ''vless'', c_ID = ''1'', c_Password = [], c_Email = ''a''\<rparr>] [])
     7 [\<lparr>c_Proto = ''vless'', c_ID = ''1'', c_Password = [], c_Email = ''a''\<rparr>] []"
  by (rule store_update_roundtrip [THEN conjunct1]) simp_all

text \<open>
  \<open>IsUnchanged\<close> is sound on desired states without repeated keys: when it answers true, storing
  the desired state would leave the version and every client and route entry as they are.
\<close>

theorem is_unchanged_sound:
  assumes "store_wf s" and "IsUnchanged s version clients routes"
    and "distinct (map c_Email clients)" and "distinct (map r_Tag routes)"
  shows "s_lastVersion (Update s version clients routes) = s_lastVersion s
    \<and> go_get (s_clients (Update s version clients routes)) = go_get (s_clients s)
    \<and> go_get (s_routes (Update s version clients routes)) = go_get (s_routes s)"
  using ss.unchanged_sound [OF assms]
  by (simp only: ss.version_update ss.clients_update ss.routes_update simp_thms)

theorem is_unchanged_sound_witness:
  "s_lastVersion (Update New_Store (-1) [] []) = s_lastVersion New_Store"
proof -
  have "IsUnchanged New_Store (-1) [] []"
    by (simp add: IsUnchanged_def New_Store_def go_len_def)
  from is_unchanged_sound [OF store_wf_New this] show ?thesis by simp
qed

text \<open>
  C40: without that hypothesis \<open>IsUnchanged\<close> is not sound. A desired list that names one stored email
  twice hides the removal of another client of the same version: it is reported as unchanged,
  although the other client is no longer wanted.
\<close>

theorem is_unchanged_repeated_email_hides_removal:
  assumes "c_Email a \<noteq> c_Email b"
  shows "IsUnchanged (Update s version [a, b] []) version [a, a] []
    \<and> go_get (s_clients (Update s version [a, b] [])) (c_Email b) = Some b
    \<and> go_get (s_clients (Update s version [a, a] [])) (c_Email b) = None"
  using assms
  by (simp add: IsUnchanged_def Update_def go_len_index last_with_def equalClient_store_def card_insert_if)

theorem is_unchanged_repeated_email_hides_removal_witness:
  "IsUnchanged (Update New_Store 1 [\<lparr>c_Proto = ''vless'', c_ID = ''1'', c_Password = [], c_Email = ''a''\<rparr>,
       \<lparr>c_Proto = ''vless'', c_ID = ''2'', c_Password = [], c_Email = ''b''\<rparr>] []) 1
     [\<lparr>c_Proto = ''vless'', c_ID = ''1'', c_Password = [], c_Email = ''a''\<rparr>,
      \<lparr>c_Proto = ''vless'', c_ID = ''1'', c_Password = [], c_Email = ''a''\<rparr>] []"
  by (rule is_unchanged_repeated_email_hides_removal [THEN conjunct1]) simp

end
