(* ===== verification/Xray_Manager.thy ===== *)
theory Xray_Manager
  imports Xray_Model Agent_Config
begin

text \<open>
  The manager of \<^verbatim>\<open>internal/xray/manager.go\<close>: the difference between the applied and the desired
  clients and routes, and the calls to Xray's HandlerService and RoutingService that apply it.
  The services, the gRPC status decoder and xray-core's router configuration builder are not
  part of the repository: they are the fields of the record \<open>xray_api\<close>, functions on a world of
  any type, and may fail at any call. What is assumed of them is stated as the predicates
  \<open>handler_contract\<close> and \<open>routing_contract\<close>.
\<close>

section \<open>The services\<close>

datatype account =
    VlessAccount string string
  | VmessAccount string
  | TrojanAccount string

record User =
  u_Email :: string
  u_Account :: account

datatype inbound_op = AddUserOperation User | RemoveUserOperation string

datatype grpc_code = NotFound | Unknown | OtherCode nat

text \<open>The duration argument of a call is its timeout.\<close>

record ('w, 'c, 'm) xray_api =
  x_NewClient :: "string \<Rightarrow> 'w \<Rightarrow> go_error option \<times> 'w"
  x_AlterInbound :: "int64 \<Rightarrow> string \<Rightarrow> inbound_op \<Rightarrow> 'w \<Rightarrow> go_error option \<times> 'w"
  x_RemoveRule :: "int64 \<Rightarrow> string \<Rightarrow> 'w \<Rightarrow> go_error option \<times> 'w"
  x_AddRule :: "int64 \<Rightarrow> 'm \<Rightarrow> bool \<Rightarrow> 'w \<Rightarrow> go_error option \<times> 'w"
  x_Build :: "json list \<Rightarrow> 'c go_result"
  x_ToTypedMessage :: "'c \<Rightarrow> 'm option"
  x_FromError :: "go_error \<Rightarrow> (grpc_code \<times> string) option"
  x_unicode :: "string \<Rightarrow> string"

section \<open>Users\<close>

definition tagForProto :: "Config \<Rightarrow> string \<Rightarrow> string" where
  "tagForProto cfg proto =
     (if proto = ''vless'' then VLESS (InboundTags (Xray cfg))
      else if proto = ''vmess'' then VMESS (InboundTags (Xray cfg))
      else if proto = ''trojan'' then TROJAN (InboundTags (Xray cfg))
      else [])"

definition buildUser :: "Client \<Rightarrow> User go_result" where
  "buildUser c =
     (if c_Proto c = ''vless'' then Inr \<lparr>u_Email = c_Email c, u_Account = VlessAccount (c_ID c) ''none''\<rparr>
      else if c_Proto c = ''vmess'' then Inr \<lparr>u_Email = c_Email c, u_Account = VmessAccount (c_ID c)\<rparr>
      else if c_Proto c = ''trojan'' then Inr \<lparr>u_Email = c_Email c, u_Account = TrojanAccount (c_Password c)\<rparr>
      else Inl (ErrText (''unsupported proto '' @ c_Proto c)))"

definition removeUser :: "Config \<Rightarrow> ('w, 'c, 'm) xray_api \<Rightarrow> Client \<Rightarrow> 'w \<Rightarrow> go_error option \<times> 'w" where
  "removeUser cfg api c w =
     (let tag = tagForProto cfg (c_Proto c) in
      if tag = [] then (Some (ErrText (''inbound tag for proto '' @ c_Proto c @ '' not configured'')), w)
      else x_AlterInbound api (apiTimeout cfg) tag (RemoveUserOperation (c_Email c)) w)"

definition addUser :: "Config \<Rightarrow> ('w, 'c, 'm) xray_api \<Rightarrow> Client \<Rightarrow> 'w \<Rightarrow> go_error option \<times> 'w" where
  "addUser cfg api c w =
     (let w1 = snd (removeUser cfg api c w) in
      case buildUser c of
        Inl err \<Rightarrow> (Some err, w1)
      | Inr user \<Rightarrow>
          (let tag = tagForProto cfg (c_Proto c) in
           if tag = [] then (Some (ErrText (''inbound tag for proto '' @ c_Proto c @ '' not configured'')), w1)
           else x_AlterInbound api (apiTimeout cfg) tag (AddUserOperation user) w1))"

definition equalClient :: "Client \<Rightarrow> Client \<Rightarrow> bool" where
  "equalClient a b \<longleftrightarrow> c_Proto a = c_Proto b \<and> c_ID a = c_ID b \<and> c_Password a = c_Password b"

definition diffClients ::
  "string range_order \<Rightarrow> (string, Client) gomap \<Rightarrow> Client list \<Rightarrow> Client list \<times> Client list" where
  "diffClients ord current dc =
     (let Map = go_index c_Email dc;
          removes = map snd (filter (\<lambda>(email, cur).
            case go_get Map email of None \<Rightarrow> True | Some want \<Rightarrow> \<not> equalClient cur want) (go_range ord current));
          adds = filter (\<lambda>want.
            case go_get current (c_Email want) of None \<Rightarrow> True | Some cur \<Rightarrow> \<not> equalClient cur want) dc
      in (adds, removes))"

definition applyViaHandler ::
  "Config \<Rightarrow> ('w, 'c, 'm) xray_api \<Rightarrow> string range_order \<Rightarrow> (string, Client) gomap \<Rightarrow> Client list
   \<Rightarrow> 'w \<Rightarrow> bool \<times> go_error option \<times> 'w" where
  "applyViaHandler cfg api ord current desired w =
     (case diffClients ord current desired of
        (adds, removes) \<Rightarrow>
          if adds = [] \<and> removes = [] then (False, None, w)
          else case x_NewClient api (APIServer (Xray cfg)) w of
            (Some err, w1) \<Rightarrow> (False, Some err, w1)
          | (None, w1) \<Rightarrow>
              (case forEach (removeUser cfg api) removes w1 of
                 (Some err, w2) \<Rightarrow> (False, Some err, w2)
               | (None, w2) \<Rightarrow>
                   (case forEach (addUser cfg api) adds w2 of
                      (Some err, w3) \<Rightarrow> (False, Some err, w3)
                    | (None, w3) \<Rightarrow> (True, None, w3))))"

section \<open>Routes\<close>

definition equalRouteRule :: "RouteRule \<Rightarrow> RouteRule \<Rightarrow> bool" where
  "equalRouteRule a b \<longleftrightarrow>
     r_Tag a = r_Tag b \<and> r_OutboundTag a = r_OutboundTag b \<and> r_BalancerTag a = r_BalancerTag b
     \<and> r_Port a = r_Port b \<and> r_SourcePort a = r_SourcePort b
     \<and> r_Domain a = r_Domain b \<and> r_IP a = r_IP b
     \<and> r_InboundTag a = r_InboundTag b \<and> r_Protocol a = r_Protocol b"

definition diffRoutes ::
  "string range_order \<Rightarrow> (string, RouteRule) gomap \<Rightarrow> RouteRule list \<Rightarrow> RouteRule list \<times> RouteRule list" where
  "diffRoutes ord current desired0 =
     (let desired = fst (NormalizeRouteRules desired0);
          desiredMap = go_index r_Tag desired;
          removes = map snd (filter (\<lambda>(tag, cur).
            case go_get desiredMap tag of None \<Rightarrow> True | Some want \<Rightarrow> \<not> equalRouteRule cur want) (go_range ord current));
          adds = filter (\<lambda>want.
            case go_get current (r_Tag want) of None \<Rightarrow> True | Some cur \<Rightarrow> \<not> equalRouteRule cur want) desired
      in (adds, removes))"

definition mentionsNotFound :: "string \<Rightarrow> bool" where
  "mentionsNotFound msg \<longleftrightarrow>
     Contains msg ''not found'' \<or> Contains msg (''can'' @ [CHR 0x27] @ ''t find'')
     \<or> Contains msg ''cannot find'' \<or> Contains msg ''no such''"

definition isRouteNotFoundError :: "('w, 'c, 'm) xray_api \<Rightarrow> go_error option \<Rightarrow> bool" where
  "isRouteNotFoundError api err =
     (case err of
        None \<Rightarrow> False
      | Some e \<Rightarrow>
          (case x_FromError api e of
             Some (NotFound, _) \<Rightarrow> True
           | Some (Unknown, m) \<Rightarrow>
               mentionsNotFound (ToLower (x_unicode api) m)
               \<or> mentionsNotFound (ToLower (x_unicode api) (errText e))
           | _ \<Rightarrow> mentionsNotFound (ToLower (x_unicode api) (errText e))))"

text \<open>The JSON field rule of a route: only the fields that are set.\<close>

definition fieldRule :: "RouteRule \<Rightarrow> (string, json) gomap" where
  "fieldRule r =
     (let m0 = go_set ''ruleTag'' (JStr (r_Tag r)) (go_set ''type'' (JStr ''field'') []);
          m1 = (if r_OutboundTag r \<noteq> [] then go_set ''outboundTag'' (JStr (r_OutboundTag r)) m0 else m0);
          m2 = (if r_BalancerTag r \<noteq> [] then go_set ''balancerTag'' (JStr (r_BalancerTag r)) m1 else m1);
          m3 = (if length (r_Domain r) > 0 then go_set ''domain'' (JArr (map JStr (r_Domain r))) m2 else m2);
          m4 = (if length (r_IP r) > 0 then go_set ''ip'' (JArr (map JStr (r_IP r))) m3 else m3);
          m5 = (if r_Port r \<noteq> [] then go_set ''port'' (JStr (r_Port r)) m4 else m4);
          m6 = (if r_SourcePort r \<noteq> [] then go_set ''sourcePort'' (JStr (r_SourcePort r)) m5 else m5);
          m7 = (if length (r_InboundTag r) > 0 then go_set ''inboundTag'' (JArr (map JStr (r_InboundTag r))) m6 else m6);
          m8 = (if length (r_Protocol r) > 0 then go_set ''protocol'' (JArr (map JStr (r_Protocol r))) m7 else m7)
      in m8)"

definition buildRoutingConfig :: "('w, 'c, 'm) xray_api \<Rightarrow> RouteRule \<Rightarrow> 'm go_result" where
  "buildRoutingConfig api r =
     (if r_Tag r = [] then Inl (ErrText ''route tag required'')
      else if r_OutboundTag r = [] \<and> r_BalancerTag r = []
      then Inl (ErrText (''route '' @ r_Tag r @ '': outbound_tag or balancer_tag required''))
      else case x_Build api [jsonOfMap (fieldRule r)] of
             Inl err \<Rightarrow> Inl err
           | Inr rc \<Rightarrow>
               (case x_ToTypedMessage api rc of
                  None \<Rightarrow> Inl (ErrText (''route '' @ r_Tag r @ '': failed to create typed message''))
                | Some tmsg \<Rightarrow> Inr tmsg))"

definition removeRoute :: "Config \<Rightarrow> ('w, 'c, 'm) xray_api \<Rightarrow> RouteRule \<Rightarrow> 'w \<Rightarrow> go_error option \<times> 'w" where
  "removeRoute cfg api r w =
     (if r_Tag r = [] then (Some (ErrText ''route tag required for removal''), w)
      else x_RemoveRule api (apiTimeout cfg) (r_Tag r) w)"

definition addRoute :: "Config \<Rightarrow> ('w, 'c, 'm) xray_api \<Rightarrow> RouteRule \<Rightarrow> 'w \<Rightarrow> go_error option \<times> 'w" where
  "addRoute cfg api r w =
     (let add = (\<lambda>w1. case buildRoutingConfig api r of
                    Inl err \<Rightarrow> (Some err, w1)
                  | Inr tmsg \<Rightarrow> x_AddRule api (apiTimeout cfg) tmsg True w1) in
      case removeRoute cfg api r w of
        (Some err, w1) \<Rightarrow>
          if isRouteNotFoundError api (Some err) then add w1
          else (Some (ErrWrap (''remove stale route '' @ quoteGo (r_Tag r) @ '' before add'') err), w1)
      | (None, w1) \<Rightarrow> add w1)"

definition applyRoutes ::
  "Config \<Rightarrow> ('w, 'c, 'm) xray_api \<Rightarrow> string range_order \<Rightarrow> (string, RouteRule) gomap \<Rightarrow> RouteRule list
   \<Rightarrow> 'w \<Rightarrow> bool \<times> go_error option \<times> 'w" where
  "applyRoutes cfg api ord current desired w =
     (case diffRoutes ord current desired of
        (adds, removes) \<Rightarrow>
          if adds = [] \<and> removes = [] then (False, None, w)
          else case x_NewClient api (APIServer (Xray cfg)) w of
            (Some err, w1) \<Rightarrow> (False, Some err, w1)
          | (None, w1) \<Rightarrow>
              (case forEach (removeRoute cfg api) removes w1 of
                 (Some err, w2) \<Rightarrow> (False, Some err, w2)
               | (None, w2) \<Rightarrow>
                   (case forEach (addRoute cfg api) adds w2 of
                      (Some err, w3) \<Rightarrow> (False, Some err, w3)
                    | (None, w3) \<Rightarrow> (True, None, w3))))"

definition Manager_State ::
  "Config \<Rightarrow> ('w, 'c, 'm) xray_api \<Rightarrow> string range_order
   \<Rightarrow> (string, Client) gomap \<Rightarrow> Client list \<Rightarrow> (string, RouteRule) gomap \<Rightarrow> RouteRule list
   \<Rightarrow> 'w \<Rightarrow> bool \<times> go_error option \<times> 'w" where
  "Manager_State cfg api ord currentClients desiredClients currentRoutes desiredRoutes w =
     (case applyViaHandler cfg api ord currentClients desiredClients w of
        (clientsChanged, Some err, w1) \<Rightarrow> (False, Some err, w1)
      | (clientsChanged, None, w1) \<Rightarrow>
          (case applyRoutes cfg api ord currentRoutes desiredRoutes w1 of
             (routesChanged, Some err, w2) \<Rightarrow> (clientsChanged, Some err, w2)
           | (routesChanged, None, w2) \<Rightarrow> (clientsChanged \<or> routesChanged, None, w2)))"

section \<open>What a difference promises\<close>

text \<open>
  Both differences have the same shape: the desired list, possibly normalised first, is
  compared with the current map key by key. The laws are the shape and that, under equal keys,
  the comparison is equality; the facts that the reconciliation uses follow from them.
\<close>

locale keyed_diff =
  fixes key :: "'a \<Rightarrow> string"
    and same :: "'a \<Rightarrow> 'a \<Rightarrow> bool"
    and norm :: "'a list \<Rightarrow> 'a list"
    and diff :: "string range_order \<Rightarrow> (string, 'a) gomap \<Rightarrow> 'a list \<Rightarrow> 'a list \<times> 'a list"
  assumes same_iff: "key a = key b \<Longrightarrow> same a b \<longleftrightarrow> a = b"
    and adds_shape: "fst (diff ord cur des) =
      filter (\<lambda>want. case go_get cur (key want) of None \<Rightarrow> True | Some c \<Rightarrow> \<not> same c want) (norm des)"
    and removes_shape: "snd (diff ord cur des) =
      map snd (filter (\<lambda>(k, c). case last_with key (norm des) k of None \<Rightarrow> True | Some want \<Rightarrow> \<not> same c want)
        (go_range ord cur))"
begin

lemma adds_filter:
  assumes "keyed_by key cur"
  shows "fst (diff ord cur des) = filter (\<lambda>x. go_get cur (key x) \<noteq> Some x) (norm des)"
  unfolding adds_shape
proof (rule filter_cong [OF refl])
  fix x
  show "(case go_get cur (key x) of None \<Rightarrow> True | Some c \<Rightarrow> \<not> same c x) \<longleftrightarrow> go_get cur (key x) \<noteq> Some x"
    using keyed_byD [OF assms] same_iff by (cases "go_get cur (key x)") auto
qed

lemma set_removes:
  assumes "range_order ord" and "keyed_by key cur"
  shows "set (snd (diff ord cur des)) =
    {x. go_get cur (key x) = Some x \<and> last_with key (norm des) (key x) \<noteq> Some x}"
proof -
  have dec: "(case last_with key (norm des) (key c) of None \<Rightarrow> True | Some want \<Rightarrow> \<not> same c want)
      \<longleftrightarrow> last_with key (norm des) (key c) \<noteq> Some c" for c
  proof (cases "last_with key (norm des) (key c)")
    case (Some want)
    from last_with_SomeD [OF Some] have "same c want \<longleftrightarrow> c = want" by (intro same_iff) simp
    with Some show ?thesis by auto
  qed simp
  have "x \<in> set (snd (diff ord cur des)) \<longleftrightarrow>
      (\<exists>k. go_get cur k = Some x \<and> (case last_with key (norm des) k of None \<Rightarrow> True | Some want \<Rightarrow> \<not> same x want))"
    for x
    unfolding removes_shape by (rule set_filter_go_range [OF assms(1)])
  then show ?thesis
    using keyed_byD [OF assms(2)] dec by blast
qed

lemma distinct_removes:
  assumes "range_order ord" and "keyed_by key cur" and "go_wf cur"
  shows "distinct (map key (snd (diff ord cur des)))"
proof -
  have "map key (map snd (filter P (go_range ord cur))) = map fst (filter P (go_range ord cur))" for P
    using keyed_byD [OF assms(2)] by (auto simp: set_go_range [OF assms(1)])
  moreover have "distinct (map fst (filter P (go_range ord cur)))" for P
    by (rule distinct_map_filter) (rule distinct_go_range [OF assms(1,3)])
  ultimately show ?thesis unfolding removes_shape by metis
qed

text \<open>The current entries are the removed ones and those that stay; the desired ones are the
  added ones and those that stay.\<close>

lemma current_split:
  assumes "range_order ord" and "keyed_by key cur" and "distinct (map key (norm des))"
  shows "ran (go_get cur) = set (snd (diff ord cur des)) \<union> {x \<in> set (norm des). go_get cur (key x) = Some x}"
proof -
  have "x \<in> ran (go_get cur) \<longleftrightarrow> go_get cur (key x) = Some x" for x
    using keyed_byD [OF assms(2)] by (auto simp: ran_def)
  then show ?thesis
    unfolding set_removes [OF assms(1,2)] using last_with_distinct_iff [OF assms(3)] by auto
qed

lemma desired_split:
  assumes "keyed_by key cur"
  shows "set (norm des) = set (fst (diff ord cur des)) \<union> {x \<in> set (norm des). go_get cur (key x) = Some x}"
  unfolding adds_filter [OF assms] by auto

lemma no_change_iff:
  assumes "range_order ord" and "keyed_by key cur" and "distinct (map key (norm des))"
  shows "fst (diff ord cur des) = [] \<and> snd (diff ord cur des) = [] \<longleftrightarrow> go_get cur = last_with key (norm des)"
proof
  assume *: "fst (diff ord cur des) = [] \<and> snd (diff ord cur des) = []"
  show "go_get cur = last_with key (norm des)"
  proof
    fix k
    have adds: "x \<in> set (norm des) \<Longrightarrow> go_get cur (key x) = Some x" for x
      using * by (auto simp: adds_filter [OF assms(2)] filter_empty_conv)
    have rem: "go_get cur (key x) = Some x \<Longrightarrow> last_with key (norm des) (key x) = Some x" for x
      using * set_removes [OF assms(1,2), of des] by auto
    show "go_get cur k = last_with key (norm des) k"
    proof (cases "go_get cur k")
      case (Some x)
      with rem keyed_byD [OF assms(2)] show ?thesis by metis
    next
      case None
      with adds last_with_SomeD [of key "norm des" k] show ?thesis
        by (metis option.exhaust)
    qed
  qed
next
  assume "go_get cur = last_with key (norm des)"
  then show "fst (diff ord cur des) = [] \<and> snd (diff ord cur des) = []"
    using last_with_distinct [OF assms(3)] set_removes [OF assms(1,2), of des]
    by (auto simp: adds_filter [OF assms(2)] filter_empty_conv)
qed

end

lemma equalClient_iff: "c_Email a = c_Email b \<Longrightarrow> equalClient a b \<longleftrightarrow> a = b"
  by (auto simp: equalClient_def)

lemma equalRouteRule_iff: "equalRouteRule a b \<longleftrightarrow> a = b"
  by (auto simp: equalRouteRule_def)

interpretation dc: keyed_diff c_Email equalClient "\<lambda>cs. cs" diffClients
  by unfold_locales (simp_all add: equalClient_iff diffClients_def Let_def)

interpretation dr: keyed_diff r_Tag equalRouteRule "\<lambda>rs. fst (NormalizeRouteRules rs)" diffRoutes
  by unfold_locales (simp_all add: equalRouteRule_iff diffRoutes_def Let_def)

section \<open>Properties of the differences\<close>

lemma diffClients_spec:
  assumes "range_order ord" and "keyed_by c_Email current" and "distinct (map c_Email desired)"
  shows "fst (diffClients ord current desired) = filter (\<lambda>c. go_get current (c_Email c) \<noteq> Some c) desired
    \<and> set (snd (diffClients ord current desired)) =
        {c. go_get current (c_Email c) = Some c \<and> c \<notin> set desired}"
  using dc.adds_filter [OF assms(2)] dc.set_removes [OF assms(1,2), of desired]
    last_with_distinct_iff [OF assms(3)] by auto

text \<open>
  \<open>diffClients\<close> adds exactly the desired clients that are not already applied as they are, in
  the order of the desired list, and removes exactly the applied clients that are no longer
  wanted as they are; a client that stays the same is neither added nor removed.
\<close>

theorem diffClients_exact:
  assumes "range_order ord" and "keyed_by c_Email current" and "distinct (map c_Email desired)"
  shows "fst (diffClients ord current desired) = filter (\<lambda>c. go_get current (c_Email c) \<noteq> Some c) desired
    \<and> set (snd (diffClients ord current desired)) =
        {c. go_get current (c_Email c) = Some c \<and> c \<notin> set desired}"
  using assms by (rule diffClients_spec)

theorem diffClients_exact_witness:
  "fst (diffClients rev [] [\<lparr>c_Proto = ''vless'', c_ID = ''1'', c_Password = [], c_Email = ''a''\<rparr>])
     = [\<lparr>c_Proto = ''vless'', c_ID = ''1'', c_Password = [], c_Email = ''a''\<rparr>]"
  using diffClients_exact
    [of rev "[]" "[\<lparr>c_Proto = ''vless'', c_ID = ''1'', c_Password = [], c_Email = ''a''\<rparr>]"]
  by simp

lemma diffRoutes_spec:
  assumes "range_order ord" and "keyed_by r_Tag current"
  shows "fst (diffRoutes ord current desired) = filter (\<lambda>r. go_get current (r_Tag r) \<noteq> Some r) (keep_last r_Tag desired)
    \<and> set (snd (diffRoutes ord current desired)) =
        {r. go_get current (r_Tag r) = Some r \<and> last_with r_Tag desired (r_Tag r) \<noteq> Some r}
    \<and> (diffRoutes ord current desired = ([], []) \<longleftrightarrow> go_get current = last_with r_Tag desired)"
  using dr.adds_filter [OF assms(2)] dr.set_removes [OF assms, of desired] dr.no_change_iff [OF assms, of desired]
  by (simp add: prod_eq_iff distinct_keep_last)

text \<open>
  \<open>diffRoutes\<close> treats the desired routes through \<open>NormalizeRouteRules\<close>: it adds the last rule
  of each tag that is not applied as it is, and removes exactly the applied rules whose tag
  no longer stands for them; nothing is added or removed exactly when the applied routes are
  the desired ones.
\<close>

theorem diffRoutes_exact:
  assumes "range_order ord" and "keyed_by r_Tag current"
  shows "fst (diffRoutes ord current desired) = filter (\<lambda>r. go_get current (r_Tag r) \<noteq> Some r) (keep_last r_Tag desired)
    \<and> set (snd (diffRoutes ord current desired)) =
        {r. go_get current (r_Tag r) = Some r \<and> last_with r_Tag desired (r_Tag r) \<noteq> Some r}
    \<and> (diffRoutes ord current desired = ([], []) \<longleftrightarrow> go_get current = last_with r_Tag desired)"
  using assms by (rule diffRoutes_spec)

theorem diffRoutes_exact_witness:
  "diffRoutes rev [] [] = ([], [])"
  using diffRoutes_exact [of rev "[]" "[]"] by (simp add: fun_eq_iff)

end
