(* ===== verification/Xray_Reconcile.thy ===== *)
theory Xray_Reconcile
  imports Xray_Manager
begin

text \<open>
  What applying a difference does to the running Xray. Two observations of a world, the users
  of the inbounds and the list of routing rules, and the documented behaviour of the services
  on them, are the hypotheses; the results are the exact effect of a successful application,
  convergence to the desired state, and what a failed application leaves alone.
\<close>

section \<open>Observations and contracts\<close>

text \<open>
  Xray identifies a user of an inbound by its email up to a normalisation \<open>nrm\<close>, a parameter.
  A failed call may or may not have had its effect (a timeout can strike after it).
\<close>

type_synonym 'w users_view = "'w \<Rightarrow> string \<times> string \<Rightarrow> account option"

definition handler_contract ::
  "('w, 'c, 'm) xray_api \<Rightarrow> (string \<Rightarrow> string) \<Rightarrow> 'w users_view \<Rightarrow> bool" where
  "handler_contract api nrm users \<longleftrightarrow>
     (\<forall>t w. users (snd (x_NewClient api t w)) = users w)
     \<and> (\<forall>d tag u w w'. x_AlterInbound api d tag (AddUserOperation u) w = (None, w')
          \<longrightarrow> users w' = (users w)((tag, nrm (u_Email u)) \<mapsto> u_Account u))
     \<and> (\<forall>d tag e w w'. x_AlterInbound api d tag (RemoveUserOperation e) w = (None, w')
          \<longrightarrow> users w' = (users w)((tag, nrm e) := None))
     \<and> (\<forall>d tag u err w w'. x_AlterInbound api d tag (AddUserOperation u) w = (Some err, w')
          \<longrightarrow> users w' = users w \<or> users w' = (users w)((tag, nrm (u_Email u)) \<mapsto> u_Account u))
     \<and> (\<forall>d tag e err w w'. x_AlterInbound api d tag (RemoveUserOperation e) w = (Some err, w')
          \<longrightarrow> users w' = users w \<or> users w' = (users w)((tag, nrm e) := None))"

type_synonym ('w, 'm) rules_view = "'w \<Rightarrow> 'm list"

text \<open>
  The routing table is a list of rules with tags; adding appends; the builder keeps the tag of
  the JSON rule; an error that means "no such rule" is given only when there is none.
\<close>

definition routing_contract ::
  "('w, 'c, 'm) xray_api \<Rightarrow> ('m \<Rightarrow> string) \<Rightarrow> ('w, 'm) rules_view \<Rightarrow> bool" where
  "routing_contract api tagOf rules \<longleftrightarrow>
     (\<forall>t w. rules (snd (x_NewClient api t w)) = rules w)
     \<and> (\<forall>d t w w'. x_RemoveRule api d t w = (None, w') \<longrightarrow> rules w' = filter (\<lambda>m. tagOf m \<noteq> t) (rules w))
     \<and> (\<forall>d t err w w'. x_RemoveRule api d t w = (Some err, w') \<longrightarrow>
          rules w' = rules w \<or> rules w' = filter (\<lambda>m. tagOf m \<noteq> t) (rules w))
     \<and> (\<forall>d t err w w'. x_RemoveRule api d t w = (Some err, w') \<and> isRouteNotFoundError api (Some err) \<longrightarrow>
          (\<forall>m\<in>set (rules w). tagOf m \<noteq> t))
     \<and> (\<forall>d m w w'. x_AddRule api d m True w = (None, w') \<longrightarrow> rules w' = rules w @ [m])
     \<and> (\<forall>d m err w w'. x_AddRule api d m True w = (Some err, w') \<longrightarrow> rules w' = rules w \<or> rules w' = rules w @ [m])
     \<and> (\<forall>r rc m. x_Build api [jsonOfMap (fieldRule r)] = Inr rc \<and> x_ToTypedMessage api rc = Some m
          \<longrightarrow> tagOf m = r_Tag r)"

definition accountOf :: "Client \<Rightarrow> account option" where
  "accountOf c = (case buildUser c of Inr u \<Rightarrow> Some (u_Account u) | Inl _ \<Rightarrow> None)"

definition userKey :: "Config \<Rightarrow> (string \<Rightarrow> string) \<Rightarrow> Client \<Rightarrow> string \<times> string" where
  "userKey cfg nrm c = (tagForProto cfg (c_Proto c), nrm (c_Email c))"

text \<open>The inbounds hold exactly the accounts of a set of clients.\<close>

definition users_in_sync ::
  "Config \<Rightarrow> (string \<Rightarrow> string) \<Rightarrow> Client set \<Rightarrow> (string \<times> string \<Rightarrow> account option) \<Rightarrow> bool" where
  "users_in_sync cfg nrm cs m \<longleftrightarrow>
     (\<forall>k a. m k = Some a \<longleftrightarrow> (\<exists>c\<in>cs. userKey cfg nrm c = k \<and> accountOf c = Some a))"

section \<open>Effect of the single calls\<close>

lemma buildUser_Inr: "buildUser c = Inr u \<Longrightarrow> u_Email u = c_Email c \<and> accountOf c = Some (u_Account u)"
  by (auto simp: accountOf_def) (auto simp: buildUser_def split: if_splits)

lemma removeUser_effect:
  assumes "handler_contract api nrm users" and "removeUser cfg api c w = (None, w')"
  shows "users w' = (users w)(userKey cfg nrm c := None)"
  using assms by (auto simp: removeUser_def handler_contract_def userKey_def Let_def split: if_splits)

lemma removeUser_any:
  assumes "handler_contract api nrm users"
  shows "users (snd (removeUser cfg api c w)) = users w
    \<or> users (snd (removeUser cfg api c w)) = (users w)(userKey cfg nrm c := None)"
proof (cases "removeUser cfg api c w")
  case (Pair r w')
  with assms show ?thesis
    by (cases r) (auto simp: removeUser_def handler_contract_def userKey_def Let_def split: if_splits)
qed

lemma addUser_effect:
  assumes "handler_contract api nrm users" and "addUser cfg api c w = (None, w')"
  shows "users w' = (users w)(userKey cfg nrm c := accountOf c)" "accountOf c \<noteq> None"
proof -
  let ?w1 = "snd (removeUser cfg api c w)"
  from assms(2) obtain u where u: "buildUser c = Inr u" "tagForProto cfg (c_Proto c) \<noteq> []"
    and call: "x_AlterInbound api (apiTimeout cfg) (tagForProto cfg (c_Proto c)) (AddUserOperation u) ?w1 = (None, w')"
    by (auto simp: addUser_def Let_def split: sum.splits if_splits)
  from call assms(1) have "users w' = (users ?w1)((tagForProto cfg (c_Proto c), nrm (u_Email u)) \<mapsto> u_Account u)"
    by (auto simp: handler_contract_def)
  with buildUser_Inr [OF u(1)] removeUser_any [OF assms(1), of cfg c w]
  show "users w' = (users w)(userKey cfg nrm c := accountOf c)"
    by (auto simp: userKey_def)
  show "accountOf c \<noteq> None" using buildUser_Inr [OF u(1)] by simp
qed

lemma addUser_frame:
  assumes "handler_contract api nrm users" and "k \<noteq> userKey cfg nrm c"
  shows "users (snd (addUser cfg api c w)) k = users w k"
proof -
  let ?w1 = "snd (removeUser cfg api c w)"
  have w1: "users ?w1 k = users w k"
    using removeUser_any [OF assms(1), of cfg c w] assms(2) by auto
  show ?thesis
  proof (cases "buildUser c")
    case (Inr u)
    have "users (snd (x_AlterInbound api d t (AddUserOperation u) v)) k = users v k"
      if "(t, nrm (u_Email u)) \<noteq> k" for d t v
      using assms(1) that
      by (cases "x_AlterInbound api d t (AddUserOperation u) v"; cases "fst (x_AlterInbound api d t (AddUserOperation u) v)")
        (fastforce simp: handler_contract_def)+
    with Inr w1 assms(2) buildUser_Inr [OF Inr] show ?thesis
      by (auto simp: addUser_def Let_def userKey_def)
  qed (simp add: addUser_def Let_def w1)
qed

lemma removeUser_frame:
  assumes "handler_contract api nrm users" and "k \<noteq> userKey cfg nrm c"
  shows "users (snd (removeUser cfg api c w)) k = users w k"
  using removeUser_any [OF assms(1), of cfg c w] assms(2) by auto

section \<open>Effect of the loops\<close>

lemma removes_effect:
  assumes "handler_contract api nrm users" and "forEach (removeUser cfg api) cs w = (None, w')"
  shows "users w' = (\<lambda>k. if k \<in> userKey cfg nrm ` set cs then None else users w k)"
  by (rule forEach_complete [OF assms(2),
        where P = "\<lambda>dn v. users v = (\<lambda>k. if k \<in> userKey cfg nrm ` set dn then None else users w k)"])
    (auto simp: removeUser_effect [OF assms(1)] fun_eq_iff)

lemma adds_effect:
  assumes "handler_contract api nrm users" and "forEach (addUser cfg api) cs w = (None, w')"
  shows "users w' = (\<lambda>k. case last_with (userKey cfg nrm) cs k of Some c \<Rightarrow> accountOf c | None \<Rightarrow> users w k)"
    and "\<forall>c\<in>set cs. accountOf c \<noteq> None"
proof -
  show "users w' = (\<lambda>k. case last_with (userKey cfg nrm) cs k of Some c \<Rightarrow> accountOf c | None \<Rightarrow> users w k)"
    by (rule forEach_complete [OF assms(2), where P = "\<lambda>dn v. users v =
          (\<lambda>k. case last_with (userKey cfg nrm) dn k of Some c \<Rightarrow> accountOf c | None \<Rightarrow> users w k)"])
      (auto simp: addUser_effect(1) [OF assms(1)] fun_eq_iff)
  show "\<forall>c\<in>set cs. accountOf c \<noteq> None"
    by (rule forEach_complete [OF assms(2), where P = "\<lambda>dn v. \<forall>c\<in>set dn. accountOf c \<noteq> None"])
      (auto dest: addUser_effect(2) [OF assms(1)])
qed

lemma applyViaHandler_effect:
  assumes contract: "handler_contract api nrm users"
    and run: "applyViaHandler cfg api ord current desired w = (ch, None, w')"
  shows "users w' =
      (\<lambda>k. case last_with (userKey cfg nrm) (fst (diffClients ord current desired)) k of
             Some c \<Rightarrow> accountOf c
           | None \<Rightarrow> if k \<in> userKey cfg nrm ` set (snd (diffClients ord current desired)) then None else users w k)"
    and "\<forall>c\<in>set (fst (diffClients ord current desired)). accountOf c \<noteq> None"
proof -
  obtain adds removes where d: "diffClients ord current desired = (adds, removes)" by fastforce
  let ?A = "users w' = (\<lambda>k. case last_with (userKey cfg nrm) adds k of Some c \<Rightarrow> accountOf c
       | None \<Rightarrow> if k \<in> userKey cfg nrm ` set removes then None else users w k) \<and> (\<forall>c\<in>set adds. accountOf c \<noteq> None)"
  have ?A
  proof (cases "adds = [] \<and> removes = []")
    case True
    with run d show ?thesis by (simp add: applyViaHandler_def)
  next
    case False
    with run d obtain w1 w2 where
      1: "x_NewClient api (APIServer (Xray cfg)) w = (None, w1)" and
      2: "forEach (removeUser cfg api) removes w1 = (None, w2)" and
      3: "forEach (addUser cfg api) adds w2 = (None, w')"
      by (auto simp: applyViaHandler_def split: prod.splits option.splits)
    have "users w1 = users w" using contract 1 unfolding handler_contract_def by (metis snd_conv)
    then show ?thesis
      using removes_effect [OF contract 2] adds_effect [OF contract 3]
      by (auto intro!: ext split: option.split)
  qed
  then show "users w' =
      (\<lambda>k. case last_with (userKey cfg nrm) (fst (diffClients ord current desired)) k of
             Some c \<Rightarrow> accountOf c
           | None \<Rightarrow> if k \<in> userKey cfg nrm ` set (snd (diffClients ord current desired)) then None else users w k)"
    "\<forall>c\<in>set (fst (diffClients ord current desired)). accountOf c \<noteq> None"
    unfolding d fst_conv snd_conv by blast+
qed

text \<open>Whatever happens, users of clients in neither list are left alone.\<close>

lemma applyViaHandler_frame:
  assumes contract: "handler_contract api nrm users"
    and k: "k \<notin> userKey cfg nrm ` (set (fst (diffClients ord current desired)) \<union> set (snd (diffClients ord current desired)))"
  shows "users (snd (snd (applyViaHandler cfg api ord current desired w))) k = users w k"
proof -
  obtain adds removes where d: "diffClients ord current desired = (adds, removes)" by fastforce
  have new: "users (snd (x_NewClient api t v)) = users v" for t v
    using contract by (simp add: handler_contract_def)
  have keys: "x \<in> set removes \<Longrightarrow> k \<noteq> userKey cfg nrm x" "x \<in> set adds \<Longrightarrow> k \<noteq> userKey cfg nrm x" for x
    using k d by auto
  have rem: "users (snd (forEach (removeUser cfg api) removes v)) k = users v k" for v
    by (rule forEach_invariant [where P = "\<lambda>u. users u k = users v k"])
      (simp_all add: removeUser_frame [OF contract keys(1)])
  have add: "users (snd (forEach (addUser cfg api) adds v)) k = users v k" for v
    by (rule forEach_invariant [where P = "\<lambda>u. users u k = users v k"])
      (simp_all add: addUser_frame [OF contract keys(2)])
  show ?thesis
    using new [of "APIServer (Xray cfg)" w] rem add
    by (auto simp: applyViaHandler_def d split: prod.splits option.splits) (metis snd_conv)+
qed

section \<open>Convergence of the users\<close>

lemma users_in_syncI:
  "(\<And>k a. m k = Some a \<longleftrightarrow> (\<exists>c\<in>cs. userKey cfg nrm c = k \<and> accountOf c = Some a)) \<Longrightarrow> users_in_sync cfg nrm cs m"
  by (simp add: users_in_sync_def)

lemma users_in_syncD:
  "users_in_sync cfg nrm cs m \<Longrightarrow> m k = Some a \<longleftrightarrow> (\<exists>c\<in>cs. userKey cfg nrm c = k \<and> accountOf c = Some a)"
  by (simp only: users_in_sync_def)

text \<open>Removing the users of some clients, when no other client has their key.\<close>

lemma users_in_sync_remove:
  assumes "users_in_sync cfg nrm (R \<union> U) m"
    and disj: "\<And>r u. r \<in> R \<Longrightarrow> u \<in> U \<Longrightarrow> userKey cfg nrm r \<noteq> userKey cfg nrm u"
  shows "users_in_sync cfg nrm U (\<lambda>k. if k \<in> userKey cfg nrm ` R then None else m k)"
proof (rule users_in_syncI)
  fix k a
  have out: "u \<in> U \<Longrightarrow> userKey cfg nrm u \<notin> userKey cfg nrm ` R" for u
    using disj by (metis imageE)
  show "(if k \<in> userKey cfg nrm ` R then None else m k) = Some a
    \<longleftrightarrow> (\<exists>c\<in>U. userKey cfg nrm c = k \<and> accountOf c = Some a)"
    using users_in_syncD [OF assms(1), of k a] out by (cases "k \<in> userKey cfg nrm ` R") auto
qed

text \<open>Adding clients, when the added ones and those that stay have different keys.\<close>

lemma users_in_sync_add:
  assumes sync: "users_in_sync cfg nrm U m"
    and inj: "inj_on (userKey cfg nrm) (U \<union> set as)" and disj: "U \<inter> set as = {}"
    and acc: "\<forall>c\<in>set as. accountOf c \<noteq> None"
  shows "users_in_sync cfg nrm (U \<union> set as)
    (\<lambda>k. case last_with (userKey cfg nrm) as k of Some c \<Rightarrow> accountOf c | None \<Rightarrow> m k)"
proof (rule users_in_syncI)
  fix k a
  show "(case last_with (userKey cfg nrm) as k of Some c \<Rightarrow> accountOf c | None \<Rightarrow> m k) = Some a
    \<longleftrightarrow> (\<exists>c\<in>U \<union> set as. userKey cfg nrm c = k \<and> accountOf c = Some a)"
  proof (cases "last_with (userKey cfg nrm) as k")
    case None
    then have "\<forall>c\<in>set as. userKey cfg nrm c \<noteq> k" by (auto simp: last_with_None)
    with None users_in_syncD [OF sync, of k a] show ?thesis by auto
  next
    case (Some c)
    then have c: "c \<in> set as" "userKey cfg nrm c = k" by (auto dest: last_with_SomeD)
    then have "\<And>d. d \<in> U \<union> set as \<Longrightarrow> userKey cfg nrm d = k \<longleftrightarrow> d = c"
      using inj by (auto dest: inj_onD)
    with Some c show ?thesis by auto
  qed
qed

lemma inj_on_userKey:
  assumes "inj_on (\<lambda>c. nrm (c_Email c)) S"
  shows "inj_on (userKey cfg nrm) S"
  using assms by (auto simp: inj_on_def userKey_def)

lemma users_converge:
  assumes contract: "handler_contract api nrm users" and ord: "range_order ord"
    and keyed: "keyed_by c_Email current"
    and cur_inj: "inj_on (\<lambda>c. nrm (c_Email c)) (ran (go_get current))"
    and des_inj: "distinct (map (\<lambda>c. nrm (c_Email c)) desired)"
    and sync: "users_in_sync cfg nrm (ran (go_get current)) (users w)"
    and run: "applyViaHandler cfg api ord current desired w = (changed, None, w')"
  shows "users_in_sync cfg nrm (set desired) (users w')"
proof -
  let ?key = "userKey cfg nrm"
  let ?A = "fst (diffClients ord current desired)" and ?R = "snd (diffClients ord current desired)"
  let ?U = "{c \<in> set desired. go_get current (c_Email c) = Some c}"
  have dist: "distinct (map c_Email desired)"
    using des_inj by (auto simp: distinct_map inj_on_def)
  have cur: "ran (go_get current) = set ?R \<union> ?U"
    using dc.current_split [OF ord keyed] dist by simp
  have des: "set desired = ?U \<union> set ?A" using dc.desired_split [OF keyed, of desired ord] by auto
  have AR: "c \<in> ?U \<Longrightarrow> c \<notin> set ?A \<and> c \<notin> set ?R" for c
    using diffClients_spec [OF ord keyed dist] by simp
  have RU: "?key r \<noteq> ?key u" if "r \<in> set ?R" "u \<in> ?U" for r u
    using inj_onD [OF inj_on_userKey [OF cur_inj], of cfg r u] that AR cur by blast
  have 1: "users_in_sync cfg nrm ?U (\<lambda>k. if k \<in> ?key ` set ?R then None else users w k)"
    using sync RU unfolding cur by (rule users_in_sync_remove)
  have 2: "inj_on ?key (?U \<union> set ?A)"
    using des_inj inj_on_userKey [of nrm "set desired" cfg] by (simp add: distinct_map flip: des)
  have 3: "?U \<inter> set ?A = {}" using AR by blast
  show ?thesis
    using users_in_sync_add [OF 1 2 3 applyViaHandler_effect(2) [OF contract run]]
    unfolding applyViaHandler_effect(1) [OF contract run] des [symmetric] .
qed

text \<open>
  C9: reconciliation of the users. If the inbounds hold exactly the accounts of the applied clients
  and applying the desired clients succeeds, they hold exactly the accounts of the desired
  clients afterwards, whatever the order in which the applied clients are visited.
\<close>

theorem users_reconciled:
  assumes contract: "handler_contract api nrm users" and ord: "range_order ord"
    and keyed: "keyed_by c_Email current"
    and cur_inj: "inj_on (\<lambda>c. nrm (c_Email c)) (ran (go_get current))"
    and des_inj: "distinct (map (\<lambda>c. nrm (c_Email c)) desired)"
    and sync: "users_in_sync cfg nrm (ran (go_get current)) (users w)"
    and run: "applyViaHandler cfg api ord current desired w = (changed, None, w')"
  shows "users_in_sync cfg nrm (set desired) (users w')"
  using assms by (rule users_converge)

section \<open>Routes\<close>

lemma buildRoutingConfig_tag:
  assumes "routing_contract api tagOf rules" and "buildRoutingConfig api r = Inr m"
  shows "tagOf m = r_Tag r"
  using assms by (auto simp: buildRoutingConfig_def routing_contract_def split: if_splits sum.splits option.splits)

lemma buildRoutingConfig_Inr: "buildRoutingConfig api r = Inr m \<Longrightarrow> r_Tag r \<noteq> []"
  by (auto simp: buildRoutingConfig_def)

lemma removeRoute_effect:
  assumes "routing_contract api tagOf rules" and "removeRoute cfg api r w = (None, w')"
  shows "rules w' = filter (\<lambda>m. tagOf m \<noteq> r_Tag r) (rules w)"
  using assms by (auto simp: removeRoute_def routing_contract_def split: if_splits)

lemma addRoute_effect:
  assumes contract: "routing_contract api tagOf rules" and run: "addRoute cfg api r w = (None, w')"
  obtains m where "buildRoutingConfig api r = Inr m"
    and "rules w' = filter (\<lambda>m. tagOf m \<noteq> r_Tag r) (rules w) @ [m]"
proof -
  have add: "rules w' = rules v @ [m]" if "x_AddRule api d m True v = (None, w')" for d m v
    using contract that by (auto simp: routing_contract_def)
  have clean: "rules v = filter (\<lambda>m. tagOf m \<noteq> r_Tag r) (rules w)"
    if rm: "removeRoute cfg api r w = (e, v)"
      and ok: "e = None \<or> isRouteNotFoundError api e" for e v
  proof (cases e)
    case None
    with rm removeRoute_effect [OF contract] show ?thesis by blast
  next
    case (Some err)
    show ?thesis
    proof (cases "r_Tag r = []")
      case True
      with run have False
        by (auto simp: addRoute_def removeRoute_def buildRoutingConfig_def Let_def split: if_splits)
      then show ?thesis ..
    next
      case False
      with rm Some have call: "x_RemoveRule api (apiTimeout cfg) (r_Tag r) w = (Some err, v)"
        by (simp add: removeRoute_def)
      with contract Some ok have "\<forall>m\<in>set (rules w). tagOf m \<noteq> r_Tag r"
        unfolding routing_contract_def by blast
      then have "filter (\<lambda>m. tagOf m \<noteq> r_Tag r) (rules w) = rules w" by (simp add: filter_id_conv)
      with contract call show ?thesis unfolding routing_contract_def by metis
    qed
  qed
  from run obtain e v m where "removeRoute cfg api r w = (e, v)" "e = None \<or> isRouteNotFoundError api e"
    and b: "buildRoutingConfig api r = Inr m" and a: "x_AddRule api (apiTimeout cfg) m True v = (None, w')"
    by (auto simp: addRoute_def Let_def split: prod.splits option.splits sum.splits if_splits)
  with clean add show ?thesis using that by metis
qed

lemma routes_removed:
  assumes contract: "routing_contract api tagOf rules" and run: "forEach (removeRoute cfg api) rs w = (None, w')"
  shows "rules w' = filter (\<lambda>m. tagOf m \<notin> r_Tag ` set rs) (rules w)"
proof (rule forEach_complete [OF run, where P = "\<lambda>dn v. rules v = filter (\<lambda>m. tagOf m \<notin> r_Tag ` set dn) (rules w)"])
  fix dn :: "RouteRule list" and r rest v v'
  assume IH: "rules v = filter (\<lambda>m. tagOf m \<notin> r_Tag ` set dn) (rules w)"
    and step: "removeRoute cfg api r v = (None, v')"
  from removeRoute_effect [OF contract step]
  show "rules v' = filter (\<lambda>m. tagOf m \<notin> r_Tag ` set (dn @ [r])) (rules w)"
    by (simp add: IH conj_commute)
qed simp

lemma routes_added:
  assumes contract: "routing_contract api tagOf rules" and run: "forEach (addRoute cfg api) rs w = (None, w')"
    and dist: "distinct (map r_Tag rs)"
  obtains ms where "list_all2 (\<lambda>r m. buildRoutingConfig api r = Inr m) rs ms"
    and "rules w' = filter (\<lambda>m. tagOf m \<notin> r_Tag ` set rs) (rules w) @ ms"
proof -
  let ?B = "\<lambda>r m. buildRoutingConfig api r = Inr m"
  have "\<exists>ms. list_all2 ?B rs ms \<and> rules w' = filter (\<lambda>m. tagOf m \<notin> r_Tag ` set rs) (rules w) @ ms"
  proof (rule forEach_complete [OF run, where P = "\<lambda>dn v. \<exists>ms. list_all2 ?B dn ms
      \<and> rules v = filter (\<lambda>m. tagOf m \<notin> r_Tag ` set dn) (rules w) @ ms"])
    fix dn r rest v v'
    assume split: "rs = dn @ r # rest" and step: "addRoute cfg api r v = (None, v')"
      and "\<exists>ms. list_all2 ?B dn ms \<and> rules v = filter (\<lambda>m. tagOf m \<notin> r_Tag ` set dn) (rules w) @ ms"
    then obtain ms where ms: "list_all2 ?B dn ms"
      and v: "rules v = filter (\<lambda>m. tagOf m \<notin> r_Tag ` set dn) (rules w) @ ms" by blast
    from addRoute_effect [OF contract step] obtain m where m: "?B r m"
      and v': "rules v' = filter (\<lambda>m. tagOf m \<noteq> r_Tag r) (rules v) @ [m]" by blast
    have "tagOf x \<in> r_Tag ` set dn" if "x \<in> set ms" for x
      using ms that buildRoutingConfig_tag [OF contract]
      by (auto simp: list_all2_conv_all_nth in_set_conv_nth) (metis image_eqI nth_mem)
    moreover have "r_Tag r \<notin> r_Tag ` set dn" using dist split by simp
    ultimately have "filter (\<lambda>m. tagOf m \<noteq> r_Tag r) ms = ms"
      unfolding filter_id_conv by metis
    with v v' have "rules v' = filter (\<lambda>m. tagOf m \<notin> r_Tag ` set (dn @ [r])) (rules w) @ ms @ [m]"
      by (simp add: conj_commute)
    moreover have "list_all2 ?B (dn @ [r]) (ms @ [m])" using ms m by (simp add: list_all2_appendI)
    ultimately show "\<exists>ms. list_all2 ?B (dn @ [r]) ms
        \<and> rules v' = filter (\<lambda>m. tagOf m \<notin> r_Tag ` set (dn @ [r])) (rules w) @ ms" by blast
  qed simp
  then show ?thesis using that by blast
qed

lemma applyRoutes_effect:
  assumes contract: "routing_contract api tagOf rules"
    and keyed: "keyed_by r_Tag current"
    and run: "applyRoutes cfg api ord current desired w = (changed, None, w')"
  shows "\<exists>ms. list_all2 (\<lambda>r m. buildRoutingConfig api r = Inr m) (fst (diffRoutes ord current desired)) ms
    \<and> rules w' = filter (\<lambda>m. tagOf m \<notin> r_Tag ` (set (fst (diffRoutes ord current desired))
        \<union> set (snd (diffRoutes ord current desired)))) (rules w) @ ms"
proof -
  obtain adds removes where d: "diffRoutes ord current desired = (adds, removes)" by fastforce
  have dist: "distinct (map r_Tag adds)"
    using dr.adds_filter [OF keyed, of ord desired] d distinct_keep_last [of r_Tag desired]
    by (simp add: distinct_map_filter)
  show ?thesis
  proof (cases "adds = [] \<and> removes = []")
    case True
    with run d show ?thesis by (simp add: applyRoutes_def)
  next
    case False
    with run d obtain w1 w2 where
      1: "x_NewClient api (APIServer (Xray cfg)) w = (None, w1)" and
      2: "forEach (removeRoute cfg api) removes w1 = (None, w2)" and
      3: "forEach (addRoute cfg api) adds w2 = (None, w')"
      by (auto simp: applyRoutes_def split: prod.splits option.splits)
    have w1: "rules w1 = rules w" using contract 1 unfolding routing_contract_def by (metis snd_conv)
    obtain ms where "list_all2 (\<lambda>r m. buildRoutingConfig api r = Inr m) adds ms"
      "rules w' = filter (\<lambda>m. tagOf m \<notin> r_Tag ` set adds) (rules w2) @ ms"
      using routes_added [OF contract 3 dist] by blast
    moreover have "rules w2 = filter (\<lambda>m. tagOf m \<notin> r_Tag ` set removes) (rules w)"
      using routes_removed [OF contract 2] w1 by simp
    ultimately show ?thesis
      by (auto simp: d image_Un conj_commute intro!: exI [of _ ms] filter_cong)
  qed
qed

text \<open>
  The exact effect of a successful \<open>applyRoutes\<close> on the ordered routing table: every rule whose
  tag is removed or added disappears, the others keep their order, and the added rules follow
  at the end in the order of the normalised desired list.
\<close>

theorem routes_applied:
  assumes contract: "routing_contract api tagOf rules"
    and keyed: "keyed_by r_Tag current"
    and run: "applyRoutes cfg api ord current desired w = (changed, None, w')"
  shows "\<exists>ms. list_all2 (\<lambda>r m. buildRoutingConfig api r = Inr m) (fst (diffRoutes ord current desired)) ms
    \<and> rules w' = filter (\<lambda>m. tagOf m \<notin> r_Tag ` (set (fst (diffRoutes ord current desired))
        \<union> set (snd (diffRoutes ord current desired)))) (rules w) @ ms"
  using assms by (rule applyRoutes_effect)

text \<open>A set of routes is in force: each has its rule, there are no others, no tag occurs twice.\<close>

definition routes_in_sync ::
  "('w, 'c, 'm) xray_api \<Rightarrow> ('m \<Rightarrow> string) \<Rightarrow> RouteRule set \<Rightarrow> 'm list \<Rightarrow> bool" where
  "routes_in_sync api tagOf rs ms \<longleftrightarrow> distinct (map tagOf ms) \<and> Inr ` set ms = buildRoutingConfig api ` rs"

lemma list_all2_build:
  assumes contract: "routing_contract api tagOf rules"
    and "list_all2 (\<lambda>r m. buildRoutingConfig api r = Inr m) rs ms"
  shows "Inr ` set ms = buildRoutingConfig api ` set rs" "map tagOf ms = map r_Tag rs"
  using assms(2) by (induction rule: list_all2_induct) (auto simp: buildRoutingConfig_tag [OF contract])

lemma kept_rules:
  assumes contract: "routing_contract api tagOf rules"
    and sync: "Inr ` set ms = buildRoutingConfig api ` (R \<union> U)"
    and out: "r_Tag ` R \<subseteq> T" and keep: "r_Tag ` U \<inter> T = {}"
  shows "Inr ` set (filter (\<lambda>m. tagOf m \<notin> T) ms) = buildRoutingConfig api ` U"
proof (intro subset_antisym subsetI)
  fix x :: "'c go_result"
  assume "x \<in> Inr ` set (filter (\<lambda>m. tagOf m \<notin> T) ms)"
  then obtain m where m: "x = Inr m" "m \<in> set ms" "tagOf m \<notin> T" by auto
  then obtain r where r: "r \<in> R \<union> U" "buildRoutingConfig api r = Inr m" using sync by (metis imageE imageI)
  then have "r \<notin> R" using m(3) out buildRoutingConfig_tag [OF contract r(2)] by auto
  with r m show "x \<in> buildRoutingConfig api ` U" by force
next
  fix x :: "'c go_result"
  assume "x \<in> buildRoutingConfig api ` U"
  then obtain r where r: "r \<in> U" "x = buildRoutingConfig api r" by auto
  then obtain m where m: "x = Inr m" "m \<in> set ms" using sync by (metis UnCI imageE imageI)
  then have "tagOf m = r_Tag r" using buildRoutingConfig_tag [OF contract] r by metis
  then have "tagOf m \<notin> T" using r keep by auto
  with m show "x \<in> Inr ` set (filter (\<lambda>m. tagOf m \<notin> T) ms)" by simp
qed

lemma routes_converge:
  assumes contract: "routing_contract api tagOf rules" and ord: "range_order ord"
    and keyed: "keyed_by r_Tag current"
    and sync: "routes_in_sync api tagOf (ran (go_get current)) (rules w)"
    and run: "applyRoutes cfg api ord current desired w = (changed, None, w')"
  shows "routes_in_sync api tagOf (set (fst (NormalizeRouteRules desired))) (rules w')"
proof -
  let ?A = "fst (diffRoutes ord current desired)" and ?R = "snd (diffRoutes ord current desired)"
  let ?D = "keep_last r_Tag desired"
  let ?U = "{r \<in> set ?D. go_get current (r_Tag r) = Some r}"
  let ?T = "r_Tag ` (set ?A \<union> set ?R)"
  obtain ms where ms: "list_all2 (\<lambda>r m. buildRoutingConfig api r = Inr m) ?A ms"
    and w': "rules w' = filter (\<lambda>m. tagOf m \<notin> ?T) (rules w) @ ms"
    using applyRoutes_effect [OF contract keyed run] by blast
  have dist: "distinct (map r_Tag ?D)" by (rule distinct_keep_last)
  have cur: "ran (go_get current) = set ?R \<union> ?U"
    using dr.current_split [OF ord keyed, of desired] dist by simp
  have des: "set ?D = ?U \<union> set ?A" using dr.desired_split [OF keyed, of desired ord] by auto
  have A: "set ?A = {r \<in> set ?D. go_get current (r_Tag r) \<noteq> Some r}"
    using dr.adds_filter [OF keyed, of ord desired] by auto
  have R: "set ?R = {r. go_get current (r_Tag r) = Some r \<and> r \<notin> set ?D}"
    using dr.set_removes [OF ord keyed, of desired] last_with_distinct_iff [OF dist] by auto
  have "r_Tag u \<notin> ?T" if "u \<in> ?U" for u
  proof
    assume "r_Tag u \<in> ?T"
    then obtain r where r: "r_Tag r = r_Tag u" "r \<in> set ?A \<or> r \<in> set ?R" by auto
    then have "r \<noteq> u" using that A R by auto
    then show False
      using r that A R dist by (auto simp: distinct_map dest: inj_onD)
  qed
  then have keep: "r_Tag ` ?U \<inter> ?T = {}" by auto
  have kept: "Inr ` set (filter (\<lambda>m. tagOf m \<notin> ?T) (rules w)) = buildRoutingConfig api ` ?U"
    using sync cur by (intro kept_rules [OF contract _ _ keep, of _ "set ?R"]) (auto simp: routes_in_sync_def)
  have tags: "map tagOf ms = map r_Tag ?A" and built: "Inr ` set ms = buildRoutingConfig api ` set ?A"
    using list_all2_build [OF contract ms] by auto
  have "distinct (map r_Tag ?A)"
    unfolding dr.adds_filter [OF keyed] using dist by (simp add: distinct_map_filter)
  moreover have "distinct (map tagOf (filter (\<lambda>m. tagOf m \<notin> ?T) (rules w)))"
    using sync by (simp add: routes_in_sync_def distinct_map_filter)
  moreover have "tagOf ` set ms \<subseteq> ?T"
    using arg_cong [OF tags, of set] by auto
  ultimately have "distinct (map tagOf (rules w'))"
    unfolding w' by (auto simp: tags)
  moreover have "buildRoutingConfig api ` set ?D = buildRoutingConfig api ` ?U \<union> buildRoutingConfig api ` set ?A"
    using arg_cong [OF des, of "image (buildRoutingConfig api)"] by (simp only: image_Un)
  then have "Inr ` set (rules w') = buildRoutingConfig api ` set ?D"
    unfolding w' set_append image_Un [of Inr] kept built by simp
  ultimately show ?thesis by (simp add: routes_in_sync_def)
qed

text \<open>
  C10: reconciliation of the routes. If the routing table holds exactly the rules of the applied
  routes and applying the desired routes succeeds, it holds exactly the rules of the
  normalised desired routes afterwards, each tag once.
\<close>

theorem routes_reconciled:
  assumes contract: "routing_contract api tagOf rules" and ord: "range_order ord"
    and keyed: "keyed_by r_Tag current"
    and sync: "routes_in_sync api tagOf (ran (go_get current)) (rules w)"
    and run: "applyRoutes cfg api ord current desired w = (changed, None, w')"
  shows "routes_in_sync api tagOf (set (fst (NormalizeRouteRules desired))) (rules w')"
  using assms by (rule routes_converge)

section \<open>What is left alone, and what goes wrong\<close>

text \<open>
  Only the differences are applied: a client that is applied and still wanted as it is keeps its
  user untouched, also when the application fails at any of its calls.
\<close>

theorem unchanged_users_untouched:
  assumes contract: "handler_contract api nrm users" and ord: "range_order ord"
    and keyed: "keyed_by c_Email current"
    and cur_inj: "inj_on (\<lambda>c. nrm (c_Email c)) (ran (go_get current))"
    and des_inj: "distinct (map (\<lambda>c. nrm (c_Email c)) desired)"
    and c: "c \<in> set desired" "go_get current (c_Email c) = Some c"
  shows "users (snd (snd (applyViaHandler cfg api ord current desired w))) (userKey cfg nrm c)
    = users w (userKey cfg nrm c)"
proof (rule applyViaHandler_frame [OF contract], rule notI)
  let ?A = "fst (diffClients ord current desired)" and ?R = "snd (diffClients ord current desired)"
  have dist: "distinct (map c_Email desired)"
    using des_inj by (auto simp: distinct_map inj_on_def)
  assume "userKey cfg nrm c \<in> userKey cfg nrm ` (set ?A \<union> set ?R)"
  then obtain d where d: "userKey cfg nrm d = userKey cfg nrm c" "d \<in> set ?A \<union> set ?R" by auto
  then have nrm: "nrm (c_Email d) = nrm (c_Email c)" by (simp add: userKey_def)
  from d(2) diffClients_spec [OF ord keyed dist]
  consider "d \<in> set desired" "d \<noteq> c" | "go_get current (c_Email d) = Some d" "d \<noteq> c"
    using c by auto
  then show False
  proof cases
    case 1
    with des_inj c nrm show False by (auto simp: distinct_map dest: inj_onD)
  next
    case 2
    then have "d \<in> ran (go_get current)" "c \<in> ran (go_get current)" using c by (auto intro: ranI)
    with cur_inj nrm 2 show False by (auto dest: inj_onD)
  qed
qed

lemma Manager_State_noop:
  assumes "range_order ord" and "keyed_by c_Email currentClients" and "keyed_by r_Tag currentRoutes"
    and "distinct (map c_Email desiredClients)"
    and "go_get currentClients = last_with c_Email desiredClients"
    and "go_get currentRoutes = last_with r_Tag desiredRoutes"
  shows "Manager_State cfg api ord currentClients desiredClients currentRoutes desiredRoutes w = (False, None, w)"
proof -
  have "diffClients ord currentClients desiredClients = ([], [])"
    using dc.no_change_iff [OF assms(1,2), of desiredClients] assms(4,5) by (simp add: prod_eq_iff)
  moreover have "diffRoutes ord currentRoutes desiredRoutes = ([], [])"
    using diffRoutes_spec [OF assms(1,3), of desiredRoutes] assms(6) by simp
  ultimately show ?thesis
    by (simp add: Manager_State_def applyViaHandler_def applyRoutes_def)
qed

text \<open>
  When the applied clients and routes are the desired ones, \<open>State\<close> reports no change and makes no
  call at all.
\<close>

theorem nothing_to_apply:
  assumes "range_order ord" and "keyed_by c_Email currentClients" and "keyed_by r_Tag currentRoutes"
    and "distinct (map c_Email desiredClients)"
    and "go_get currentClients = last_with c_Email desiredClients"
    and "go_get currentRoutes = last_with r_Tag desiredRoutes"
  shows "Manager_State cfg api ord currentClients desiredClients currentRoutes desiredRoutes w = (False, None, w)"
  using assms by (rule Manager_State_noop)

text \<open>
  A desired list that names an email twice is applied wrongly on the second round: the store keeps
  the last entry, so the first one differs from it and is applied again, and the user ends
  up with the credentials of the entry that lost.
\<close>

theorem repeated_email_reverts_credentials:
  assumes contract: "handler_contract api nrm users" and ord: "range_order ord"
    and same: "c_Email a = c_Email b" and diff: "a \<noteq> b"
    and run: "applyViaHandler cfg api ord (go_index c_Email [a, b]) [a, b] w = (changed, None, w')"
  shows "users w' (userKey cfg nrm a) = accountOf a \<and> go_get (go_index c_Email [a, b]) (c_Email b) = Some b"
proof -
  have adds: "fst (diffClients ord (go_index c_Email [a, b]) [a, b]) = [a]"
    using dc.adds_filter [of "go_index c_Email [a, b]" ord "[a, b]"] same diff
    by (simp add: last_with_def)
  show ?thesis
    using applyViaHandler_effect(1) [OF contract run] by (simp add: adds last_with_def)
qed

text \<open>
  Updating a route moves it behind the routes that stay: with rules for \<open>r\<close> and \<open>s\<close> in this order,
  replacing \<open>r\<close> by another rule of the same tag leaves the rule of \<open>s\<close> first, although the
  desired list has the new rule first.
\<close>

theorem route_update_changes_order:
  assumes contract: "routing_contract api tagOf rules" and ord: "range_order ord"
    and tags: "r_Tag r' = r_Tag r" "r_Tag s \<noteq> r_Tag r" and diff: "r' \<noteq> r"
    and built: "buildRoutingConfig api r = Inr mr" "buildRoutingConfig api s = Inr ms"
    and table: "rules w = [mr, ms]"
    and run: "applyRoutes cfg api ord (go_index r_Tag [r, s]) [r', s] w = (changed, None, w')"
  shows "\<exists>mr'. buildRoutingConfig api r' = Inr mr' \<and> rules w' = [ms, mr']"
proof -
  let ?cur = "go_index r_Tag [r, s]"
  have keyed: "keyed_by r_Tag ?cur" by simp
  have adds: "fst (diffRoutes ord ?cur [r', s]) = [r']"
    using dr.adds_filter [OF keyed, of ord "[r', s]"] tags diff by (auto simp: last_with_def)
  have "last_with r_Tag [r, s] (r_Tag x) = Some x \<longleftrightarrow> x = r \<or> x = s"
    and "last_with r_Tag [r', s] (r_Tag x) = Some x \<longleftrightarrow> x = r' \<or> x = s" for x
    using tags by (simp_all add: last_with_distinct_iff)
  moreover have "r \<noteq> s" using tags by auto
  ultimately have rem: "set (snd (diffRoutes ord ?cur [r', s])) = {r}"
    using dr.set_removes [OF ord keyed, of "[r', s]"] diff tags by auto
  have "tagOf mr = r_Tag r" "tagOf ms = r_Tag s"
    using built buildRoutingConfig_tag [OF contract] by auto
  then show ?thesis
    using applyRoutes_effect [OF contract keyed run] table tags
    by (auto simp: adds rem list_all2_Cons1)
qed

text \<open>The service refuses to remove a user that it does not have.\<close>

definition strict_removal :: "('w, 'c, 'm) xray_api \<Rightarrow> (string \<Rightarrow> string) \<Rightarrow> 'w users_view \<Rightarrow> bool" where
  "strict_removal api nrm users \<longleftrightarrow>
     (\<forall>d tag e w. users w (tag, nrm e) = None \<longrightarrow> fst (x_AlterInbound api d tag (RemoveUserOperation e) w) \<noteq> None)"

lemma removes_keep_None:
  assumes "handler_contract api nrm users" and "users w k = None"
  shows "users (snd (forEach (removeUser cfg api) cs w)) k = None"
proof (rule forEach_invariant [where P = "\<lambda>v. users v k = None"])
  fix x v
  assume "users v k = None"
  then show "users (snd (removeUser cfg api x v)) k = None"
    using removeUser_any [OF assms(1), of cfg x v] by (cases "k = userKey cfg nrm x") auto
qed (rule assms(2))

lemma removal_blocked:
  assumes contract: "handler_contract api nrm users" and strict: "strict_removal api nrm users"
    and ord: "range_order ord" and keyed: "keyed_by c_Email current" and dist: "distinct (map c_Email desired)"
    and c: "go_get current (c_Email c) = Some c" "c \<notin> set desired" and gone: "users w (userKey cfg nrm c) = None"
  shows "\<exists>err w'. applyViaHandler cfg api ord current desired w = (False, Some err, w')
    \<and> users w' (userKey cfg nrm c) = None"
proof -
  obtain adds removes where d: "diffClients ord current desired = (adds, removes)" by fastforce
  have "c \<in> set removes" using diffClients_spec [OF ord keyed dist] d c by auto
  then obtain xs ys where split: "removes = xs @ c # ys" by (auto simp: in_set_conv_decomp)
  obtain r1 w1 where new: "x_NewClient api (APIServer (Xray cfg)) w = (r1, w1)" by fastforce
  have w1: "users w1 (userKey cfg nrm c) = None"
    using contract new gone unfolding handler_contract_def by (metis snd_conv)
  have fails: "fst (removeUser cfg api c v) \<noteq> None" if "users v (userKey cfg nrm c) = None" for v
    using strict that by (simp add: removeUser_def strict_removal_def userKey_def Let_def)
  have "fst (forEach (removeUser cfg api) removes w1) \<noteq> None"
    using fails [OF removes_keep_None [OF contract w1, of cfg xs]]
    by (auto simp: split forEach_append split: prod.splits option.splits)
  then obtain err w2 where rem: "forEach (removeUser cfg api) removes w1 = (Some err, w2)"
    by (cases "forEach (removeUser cfg api) removes w1") auto
  have "users w2 (userKey cfg nrm c) = None"
    using removes_keep_None [OF contract w1, of cfg removes] rem by simp
  with w1 show ?thesis
    using \<open>c \<in> set removes\<close> by (cases r1) (auto simp: applyViaHandler_def d new rem)
qed

text \<open>
  A removal that was carried out but not recorded blocks the reconciliation for good: if a client is
  recorded as applied, is no longer wanted, and its user is already gone, every application
  fails and leaves this situation as it is.
\<close>

theorem unrecorded_removal_blocks:
  assumes contract: "handler_contract api nrm users" and strict: "strict_removal api nrm users"
    and ord: "range_order ord" and keyed: "keyed_by c_Email current" and dist: "distinct (map c_Email desired)"
    and c: "go_get current (c_Email c) = Some c" "c \<notin> set desired" and gone: "users w (userKey cfg nrm c) = None"
  shows "\<exists>err w'. applyViaHandler cfg api ord current desired w = (False, Some err, w')
    \<and> users w' (userKey cfg nrm c) = None"
  using assms by (rule removal_blocked)

end
