(* ===== verification/Stats_Collector.thy ===== *)
theory Stats_Collector
  imports Xray_Model Agent_Config
begin

text \<open>
  The statistics collector of \<^verbatim>\<open>internal/stats/stats.go\<close>: traffic counters, online users with
  their addresses, and runtime statistics, read from Xray's StatsService. The service is the
  record \<open>stats_api\<close>; each call may change the world and may fail. What the collector relies on
  when it reads counters is the predicate \<open>counters_contract\<close>: the documented behaviour of
  \<^verbatim>\<open>QueryStats\<close>, which returns the counters whose name contains the pattern and, if asked, sets
  them to zero.
\<close>

section \<open>The service\<close>

record SysStatsResponse =
  sr_NumGoroutine :: uint32
  sr_NumGC :: uint32
  sr_Alloc :: uint64
  sr_TotalAlloc :: uint64
  sr_Sys :: uint64
  sr_Mallocs :: uint64
  sr_Frees :: uint64
  sr_LiveObjects :: uint64
  sr_PauseTotalNs :: uint64
  sr_Uptime :: uint32

record 'w stats_api =
  q_NewClient :: "string \<Rightarrow> 'w \<Rightarrow> go_error option \<times> 'w"
  q_QueryStats :: "string \<Rightarrow> bool \<Rightarrow> 'w \<Rightarrow> (string \<times> int64) list go_result \<times> 'w"
  q_GetAllOnlineUsers :: "'w \<Rightarrow> string list go_result \<times> 'w"
  q_GetStatsOnlineIpList :: "string \<Rightarrow> 'w \<Rightarrow> (string, int64) gomap go_result \<times> 'w"
  q_GetSysStats :: "'w \<Rightarrow> SysStatsResponse go_result \<times> 'w"

section \<open>Traffic counters\<close>

type_synonym usage = "int64 \<times> int64"

definition uplinkName :: "string \<Rightarrow> string" where
  "uplinkName email = ''user>>>'' @ email @ ''>>>traffic>>>uplink''"

definition downlinkName :: "string \<Rightarrow> string" where
  "downlinkName email = ''user>>>'' @ email @ ''>>>traffic>>>downlink''"

definition querySingle :: "Config \<Rightarrow> 'w stats_api \<Rightarrow> string \<Rightarrow> 'w \<Rightarrow> int64 go_result \<times> 'w" where
  "querySingle cfg api name w =
     (case q_QueryStats api name (StatsResetEachPush (Xray cfg)) w of
        (Inl err, w1) \<Rightarrow> (Inl (ErrWrap (''stats query '' @ name) err), w1)
      | (Inr stats, w1) \<Rightarrow>
          (case List.find (\<lambda>stat. fst stat = name) stats of
             Some stat \<Rightarrow> (Inr (snd stat), w1)
           | None \<Rightarrow> (Inr 0, w1)))"

definition fetch :: "Config \<Rightarrow> 'w stats_api \<Rightarrow> string \<Rightarrow> 'w \<Rightarrow> usage go_result \<times> 'w" where
  "fetch cfg api email w =
     (case querySingle cfg api (uplinkName email) w of
        (Inl err, w1) \<Rightarrow> (Inl err, w1)
      | (Inr up, w1) \<Rightarrow>
          (case querySingle cfg api (downlinkName email) w1 of
             (Inl err, w2) \<Rightarrow> (Inl err, w2)
           | (Inr down, w2) \<Rightarrow> (Inr (up, down), w2)))"

fun fetchAll :: "Config \<Rightarrow> 'w stats_api \<Rightarrow> string list \<Rightarrow> (string, usage) gomap \<Rightarrow> 'w
    \<Rightarrow> (string, usage) gomap go_result \<times> 'w" where
  "fetchAll cfg api [] res w = (Inr res, w)"
| "fetchAll cfg api (email # emails) res w =
     (case fetch cfg api email w of
        (Inl err, w1) \<Rightarrow> (Inl err, w1)
      | (Inr u, w1) \<Rightarrow> fetchAll cfg api emails (go_set email u res) w1)"

definition QueryUserBytes :: "Config \<Rightarrow> 'w stats_api \<Rightarrow> string list \<Rightarrow> 'w \<Rightarrow> (string, usage) gomap go_result \<times> 'w" where
  "QueryUserBytes cfg api emails w =
     (case q_NewClient api (APIServer (Xray cfg)) w of
        (Some err, w1) \<Rightarrow> (Inl err, w1)
      | (None, w1) \<Rightarrow> fetchAll cfg api emails [] w1)"

section \<open>Online users\<close>

definition onlineStatPrefix :: string where "onlineStatPrefix = ''user>>>''"
definition onlineStatSuffix :: string where "onlineStatSuffix = ''>>>online''"

definition emailFromOnlineStatName :: "string \<Rightarrow> string option" where
  "emailFromOnlineStatName name =
     (if \<not> HasPrefix name onlineStatPrefix \<or> \<not> HasSuffix name onlineStatSuffix then None
      else let email = TrimSuffix (TrimPrefix name onlineStatPrefix) onlineStatSuffix in
           if email = [] then None else Some email)"

text \<open>
  \<^verbatim>\<open>time.Unix(ts, 0)\<close>. The addresses come out of a map, so their sorting by address has one
  result; the order in which the loop visits the map is \<open>ord\<close>.
\<close>

definition onlineUserIPs ::
  "'w stats_api \<Rightarrow> string range_order \<Rightarrow> string \<Rightarrow> 'w \<Rightarrow> OnlineUserIP list go_result \<times> 'w" where
  "onlineUserIPs api ord statName w =
     (case q_GetStatsOnlineIpList api statName w of
        (Inl err, w1) \<Rightarrow> (Inl (ErrWrap (''online ip list '' @ statName) err), w1)
      | (Inr ips, w1) \<Rightarrow>
          (Inr (sort_key ip_Address
             (map (\<lambda>(address, unixTS). \<lparr>ip_Address = address, ip_LastSeenAt = sint unixTS * 1000000000\<rparr>)
               (filter (\<lambda>(address, unixTS). address \<noteq> []) (go_range ord ips)))), w1))"

fun onlineInfos ::
  "'w stats_api \<Rightarrow> string range_order \<Rightarrow> string list \<Rightarrow> 'w \<Rightarrow> OnlineUserInfo list go_result \<times> 'w" where
  "onlineInfos api ord [] w = (Inr [], w)"
| "onlineInfos api ord (statName # names) w =
     (case emailFromOnlineStatName statName of
        None \<Rightarrow> onlineInfos api ord names w
      | Some email \<Rightarrow>
          (case onlineUserIPs api ord statName w of
             (Inl err, w1) \<Rightarrow> (Inl err, w1)
           | (Inr ips, w1) \<Rightarrow>
               (case onlineInfos api ord names w1 of
                  (Inl err, w2) \<Rightarrow> (Inl err, w2)
                | (Inr users, w2) \<Rightarrow> (Inr (\<lparr>ou_Email = email, ou_Proto = [], ou_IPs = ips\<rparr> # users), w2))))"

definition OnlineUsers ::
  "Config \<Rightarrow> 'w stats_api \<Rightarrow> (string \<Rightarrow> string) \<Rightarrow> string range_order \<Rightarrow> OnlineUserInfo sort_func \<Rightarrow> 'w
   \<Rightarrow> OnlineUserInfo list go_result \<times> 'w" where
  "OnlineUsers cfg api unicode ord srt w =
     (case q_NewClient api (APIServer (Xray cfg)) w of
        (Some err, w1) \<Rightarrow> (Inl err, w1)
      | (None, w1) \<Rightarrow>
          (case q_GetAllOnlineUsers api w1 of
             (Inl err, w2) \<Rightarrow> (Inl (ErrWrap ''online users query'' err), w2)
           | (Inr names, w2) \<Rightarrow>
               (case onlineInfos api ord names w2 of
                  (Inl err, w3) \<Rightarrow> (Inl err, w3)
                | (Inr users, w3) \<Rightarrow> (Inr (srt (\<lambda>u. ToLower unicode (ou_Email u)) users), w3))))"

definition SysStats :: "Config \<Rightarrow> 'w stats_api \<Rightarrow> 'w \<Rightarrow> XraySysStats go_result \<times> 'w" where
  "SysStats cfg api w =
     (case q_NewClient api (APIServer (Xray cfg)) w of
        (Some err, w1) \<Rightarrow> (Inl err, w1)
      | (None, w1) \<Rightarrow>
          (case q_GetSysStats api w1 of
             (Inl err, w2) \<Rightarrow> (Inl (ErrWrap ''sys stats query'' err), w2)
           | (Inr resp, w2) \<Rightarrow>
               (Inr \<lparr>xs_NumGoroutine = sr_NumGoroutine resp, xs_NumGC = sr_NumGC resp, xs_Alloc = sr_Alloc resp,
                     xs_TotalAlloc = sr_TotalAlloc resp, xs_Sys = sr_Sys resp, xs_Mallocs = sr_Mallocs resp,
                     xs_Frees = sr_Frees resp, xs_LiveObjects = sr_LiveObjects resp,
                     xs_PauseTotalNs = sr_PauseTotalNs resp, xs_Uptime = sr_Uptime resp\<rparr>, w2)))"

section \<open>Reading counters\<close>

text \<open>
  The contract of the service: the counters are a partial function of the world, a connection
  leaves them alone, a query that succeeds lists the counters whose names contain the pattern and
  sets exactly these to zero when it was asked to, and a query that fails leaves them alone.
\<close>

definition zeroed :: "string \<Rightarrow> (string \<Rightarrow> int64 option) \<Rightarrow> string \<Rightarrow> int64 option" where
  "zeroed pat m n = (if Contains n pat then map_option (\<lambda>_. 0) (m n) else m n)"

definition counters_contract :: "'w stats_api \<Rightarrow> ('w \<Rightarrow> string \<Rightarrow> int64 option) \<Rightarrow> bool" where
  "counters_contract api counters \<longleftrightarrow>
     (\<forall>s w. counters (snd (q_NewClient api s w)) = counters w)
     \<and> (\<forall>pat reset w e w'. q_QueryStats api pat reset w = (Inl e, w') \<longrightarrow> counters w' = counters w)
     \<and> (\<forall>pat reset w stats w'. q_QueryStats api pat reset w = (Inr stats, w') \<longrightarrow>
          (\<forall>n v. (n, v) \<in> set stats \<longleftrightarrow> Contains n pat \<and> counters w n = Some v)
          \<and> counters w' = (if reset then zeroed pat (counters w) else counters w))"

lemma counters_NewClient: "counters_contract api counters \<Longrightarrow> counters (snd (q_NewClient api s w)) = counters w"
  unfolding counters_contract_def by blast

lemma counters_error:
  "counters_contract api counters \<Longrightarrow> q_QueryStats api pat reset w = (Inl e, w') \<Longrightarrow> counters w' = counters w"
  unfolding counters_contract_def by blast

lemma counters_ok:
  assumes "counters_contract api counters" and "q_QueryStats api pat reset w = (Inr stats, w')"
  shows "(n, v) \<in> set stats \<longleftrightarrow> Contains n pat \<and> counters w n = Some v"
    and "counters w' = (if reset then zeroed pat (counters w) else counters w)"
  using assms unfolding counters_contract_def by blast+

definition counterVal :: "(string \<Rightarrow> int64 option) \<Rightarrow> string \<Rightarrow> int64" where
  "counterVal m n = (case m n of Some v \<Rightarrow> v | None \<Rightarrow> 0)"

lemma querySingle_value:
  assumes "counters_contract api counters" and "querySingle cfg api name w = (Inr v, w')"
  shows "v = counterVal (counters w) name"
    and "counters w' = (if StatsResetEachPush (Xray cfg) then zeroed name (counters w) else counters w)"
proof -
  obtain stats where q: "q_QueryStats api name (StatsResetEachPush (Xray cfg)) w = (Inr stats, w')"
    using assms(2) by (auto simp: querySingle_def split: prod.splits sum.splits option.splits)
  note ok = counters_ok [OF assms(1) q]
  show "counters w' = (if StatsResetEachPush (Xray cfg) then zeroed name (counters w) else counters w)"
    by (rule ok(2))
  have mem: "(name, x) \<in> set stats \<longleftrightarrow> counters w name = Some x" for x
    using ok(1) [of name x] by (simp add: Contains_def)
  show "v = counterVal (counters w) name"
  proof (cases "List.find (\<lambda>stat. fst stat = name) stats")
    case None
    with assms(2) q have "v = 0" by (simp add: querySingle_def)
    moreover have "counters w name = None"
      using None mem by (cases "counters w name") (force simp: find_None_iff)+
    ultimately show ?thesis by (simp add: counterVal_def)
  next
    case (Some st)
    from Some have st: "st \<in> set stats \<and> fst st = name" by (auto simp: find_Some_iff)
    with mem [of "snd st"] have "counters w name = Some (snd st)" by auto
    moreover have "v = snd st" using assms(2) q Some by (simp add: querySingle_def)
    ultimately show ?thesis by (simp add: counterVal_def)
  qed
qed

lemma querySingle_error:
  assumes "counters_contract api counters" and "querySingle cfg api name w = (Inl e, w')"
  shows "counters w' = counters w"
  using assms by (auto simp: querySingle_def intro: counters_error split: prod.splits sum.splits option.splits)

lemma fetch_value:
  assumes con: "counters_contract api counters" and run: "fetch cfg api email w = (Inr u, w')"
    and keep: "\<not> StatsResetEachPush (Xray cfg)"
  shows "u = (counterVal (counters w) (uplinkName email), counterVal (counters w) (downlinkName email))"
    and "counters w' = counters w"
proof -
  obtain up w1 down where up: "querySingle cfg api (uplinkName email) w = (Inr up, w1)"
    and down: "querySingle cfg api (downlinkName email) w1 = (Inr down, w')" and u: "u = (up, down)"
    using run by (auto simp: fetch_def split: prod.splits sum.splits)
  note 1 = querySingle_value [OF con up] and 2 = querySingle_value [OF con down]
  from 1 2 keep u show "u = (counterVal (counters w) (uplinkName email), counterVal (counters w) (downlinkName email))"
    and "counters w' = counters w" by simp_all
qed

lemma fetchAll_value:
  assumes con: "counters_contract api counters" and keep: "\<not> StatsResetEachPush (Xray cfg)"
  shows "fetchAll cfg api emails res w = (Inr m, w') \<Longrightarrow>
    counters w' = counters w \<and>
    (\<forall>e. go_get m e = (if e \<in> set emails
        then Some (counterVal (counters w) (uplinkName e), counterVal (counters w) (downlinkName e))
        else go_get res e))"
proof (induction emails arbitrary: res w)
  case (Cons email emails)
  from Cons.prems obtain u w1 where f: "fetch cfg api email w = (Inr u, w1)"
    and rest: "fetchAll cfg api emails (go_set email u res) w1 = (Inr m, w')"
    by (auto split: prod.splits sum.splits)
  note v = fetch_value [OF con f keep]
  from Cons.IH [OF rest] v show ?case by auto
qed simp

section \<open>Names of online users\<close>

lemma emailFromOnlineStatName_canonical:
  "email \<noteq> [] \<Longrightarrow> emailFromOnlineStatName (onlineStatPrefix @ email @ onlineStatSuffix) = Some email"
  using HasSuffix_append [of "onlineStatPrefix @ email" onlineStatSuffix]
  by (simp add: emailFromOnlineStatName_def)

text \<open>Where the prefix and the suffix of a name overlap, the suffix is not there to be removed.\<close>

lemma online_overlap:
  assumes "''user>>>'' @ t = zs @ ''>>>online''" and "length t < 9"
  shows "t = ''online'' \<or> t = ''>online'' \<or> t = ''>>online''"
proof -
  have len: "length t + 7 = length zs + 9" using arg_cong [OF assms(1), of length] by simp
  have zs: "zs = take (length zs) (''user>>>'' @ t)" by (simp only: assms(1) append_eq_conv_conj) simp
  have t: "t = drop 7 (zs @ ''>>>online'')" using arg_cong [OF assms(1), of "drop 7"] by simp
  have tk: "take (length zs) (''user>>>'' @ t) = take (length zs) ''user>>>''"
    unfolding take_append using len assms(2) by (simp del: append.simps)
  have z: "length zs < 7" using len assms(2) by simp
  then consider "length zs = 0" | "length zs = 1" | "length zs = 2" | "length zs = 3"
    | "length zs = 4" | "length zs = 5" | "length zs = 6" by linarith
  then show ?thesis
  proof cases
    case 1 with zs tk have "zs = []" by simp
    with assms(1) show ?thesis by simp
  next
    case 2 with zs tk have "zs = ''u''" by simp
    with assms(1) show ?thesis by simp
  next
    case 3 with zs tk have "zs = ''us''" by (simp add: numeral_2_eq_2)
    with assms(1) show ?thesis by simp
  next
    case 4 with zs tk have "zs = ''use''" by (simp add: numeral_3_eq_3)
    with assms(1) show ?thesis by simp
  next
    case 5 with zs tk have "zs = ''user''" by simp
    with t show ?thesis by simp
  next
    case 6 with zs tk have "zs = ''user>''" by simp
    with t show ?thesis by simp
  next
    case 7 with zs tk have "zs = ''user>>''" by simp
    with t show ?thesis by simp
  qed
qed

lemma emailFromOnlineStatName_Some:
  "emailFromOnlineStatName name = Some email \<longleftrightarrow>
     (email \<noteq> [] \<and> name = ''user>>>'' @ email @ ''>>>online'')
     \<or> (name, email) \<in> {(''user>>>online'', ''online''), (''user>>>>online'', ''>online''),
                          (''user>>>>>online'', ''>>online'')}" (is "?L \<longleftrightarrow> ?R")
proof
  assume ?L
  then obtain t zs where t: "name = ''user>>>'' @ t" and zs: "name = zs @ ''>>>online''"
    and e: "email = TrimSuffix t ''>>>online''" and ne: "email \<noteq> []"
    by (auto simp: emailFromOnlineStatName_def onlineStatPrefix_def onlineStatSuffix_def Let_def HasPrefix_def
        HasSuffix_def prefix_def suffix_def TrimPrefix_def split: if_splits)
  show ?R
  proof (cases "HasSuffix t ''>>>online''")
    case True
    then have "t = email @ ''>>>online''" using e by (auto simp: go_simps suffix_def)
    with t ne show ?thesis by simp
  next
    case False
    then have et: "email = t" using e by (simp add: TrimSuffix_def)
    have "length t < 9"
    proof (rule ccontr)
      assume len: "\<not> length t < 9"
      have "suffix ''>>>online'' name" unfolding zs by (rule suffixI) (rule refl)
      moreover have "suffix t name" unfolding t by (rule suffixI) (rule refl)
      ultimately have "suffix ''>>>online'' t" by (rule suffix_length_suffix) (use len in simp)
      with False show False by (simp add: HasSuffix_def)
    qed
    with online_overlap [of t zs] t zs have "t = ''online'' \<or> t = ''>online'' \<or> t = ''>>online''" by simp
    with t et show ?thesis by auto
  qed
next
  assume ?R
  then show ?L
    using emailFromOnlineStatName_canonical [of email]
    by (auto simp: onlineStatPrefix_def onlineStatSuffix_def emailFromOnlineStatName_def go_simps suffix_def)
qed

section \<open>Online users\<close>

lemma onlineUserIPs_Inr:
  assumes "onlineUserIPs api ord n w = (Inr ips, w')" and "range_order ord"
  obtains m where "q_GetStatsOnlineIpList api n w = (Inr m, w')"
    and "\<And>a t. \<lparr>ip_Address = a, ip_LastSeenAt = t\<rparr> \<in> set ips \<longleftrightarrow>
      a \<noteq> [] \<and> (\<exists>ts. go_get m a = Some ts \<and> t = sint ts * 1000000000)"
    and "go_wf m \<Longrightarrow> sorted (map ip_Address ips) \<and> distinct (map ip_Address ips)"
proof -
  obtain m where q: "q_GetStatsOnlineIpList api n w = (Inr m, w')"
    and ips: "ips = sort_key ip_Address
             (map (\<lambda>(address, unixTS). \<lparr>ip_Address = address, ip_LastSeenAt = sint unixTS * 1000000000\<rparr>)
               (filter (\<lambda>(address, unixTS). address \<noteq> []) (go_range ord m)))"
    using assms(1) by (auto simp: onlineUserIPs_def split: prod.splits sum.splits)
  have "\<lparr>ip_Address = a, ip_LastSeenAt = t\<rparr> \<in> set ips \<longleftrightarrow>
      a \<noteq> [] \<and> (\<exists>ts. go_get m a = Some ts \<and> t = sint ts * 1000000000)" for a t
    by (auto simp: ips image_iff Bex_def set_go_range [OF assms(2)])
  moreover have "sorted (map ip_Address ips) \<and> distinct (map ip_Address ips)" if "go_wf m"
  proof -
    let ?mk = "\<lambda>(address, unixTS :: int64). \<lparr>ip_Address = address, ip_LastSeenAt = sint unixTS * 1000000000\<rparr>"
    let ?ps = "filter (\<lambda>(address, unixTS). address \<noteq> []) (go_range ord m)"
    have "distinct (map fst ?ps)"
      by (rule distinct_map_filter) (rule distinct_go_range [OF assms(2) that])
    moreover have "map ip_Address (map ?mk xs) = map fst xs" for xs by (induction xs) auto
    ultimately have "distinct (map ip_Address (map ?mk ?ps))" by (simp only:)
    then have "distinct (map ip_Address ips)"
      using mset_eq_imp_distinct_iff [of "map ip_Address ips" "map ip_Address (map ?mk ?ps)"]
      by (simp only: ips mset_map mset_sort)
    then show ?thesis by (simp add: ips)
  qed
  ultimately show ?thesis using that q by blast
qed

lemma onlineInfos_emails:
  "onlineInfos api ord names w = (Inr users, w') \<Longrightarrow>
     map ou_Email users = List.map_filter emailFromOnlineStatName names \<and> (\<forall>u\<in>set users. ou_Proto u = [])"
proof (induction names arbitrary: w users)
  case (Cons n names)
  show ?case
  proof (cases "emailFromOnlineStatName n")
    case None
    with Cons show ?thesis by (simp add: map_filter_simps)
  next
    case (Some e)
    with Cons.prems obtain ips w1 us where "onlineInfos api ord names w1 = (Inr us, w')"
      and "users = \<lparr>ou_Email = e, ou_Proto = [], ou_IPs = ips\<rparr> # us"
      by (auto split: prod.splits sum.splits)
    with Cons.IH Some show ?thesis by (fastforce simp: map_filter_simps)
  qed
qed (simp add: map_filter_simps)

lemma onlineInfos_ips:
  assumes "range_order ord" and wf: "\<And>n w m w'. q_GetStatsOnlineIpList api n w = (Inr m, w') \<Longrightarrow> go_wf m"
  shows "onlineInfos api ord names w = (Inr users, w') \<Longrightarrow>
    \<forall>u\<in>set users. [] \<notin> ip_Address ` set (ou_IPs u) \<and> sorted (map ip_Address (ou_IPs u)) \<and> distinct (map ip_Address (ou_IPs u))"
proof (induction names arbitrary: w users)
  case (Cons n names)
  show ?case
  proof (cases "emailFromOnlineStatName n")
    case None
    with Cons show ?thesis by simp
  next
    case (Some e)
    with Cons.prems obtain ips w1 us where ips: "onlineUserIPs api ord n w = (Inr ips, w1)"
      and us: "onlineInfos api ord names w1 = (Inr us, w')"
      and users: "users = \<lparr>ou_Email = e, ou_Proto = [], ou_IPs = ips\<rparr> # us"
      by (auto split: prod.splits sum.splits)
    obtain m where m: "q_GetStatsOnlineIpList api n w = (Inr m, w1)"
      and mem: "\<And>a t. \<lparr>ip_Address = a, ip_LastSeenAt = t\<rparr> \<in> set ips \<longleftrightarrow>
        a \<noteq> [] \<and> (\<exists>ts. go_get m a = Some ts \<and> t = sint ts * 1000000000)"
      and srt: "go_wf m \<Longrightarrow> sorted (map ip_Address ips) \<and> distinct (map ip_Address ips)"
      using onlineUserIPs_Inr [OF ips assms(1)] by blast
    have ne: "[] \<noteq> ip_Address i" if "i \<in> set ips" for i
    proof -
      have "i = \<lparr>ip_Address = ip_Address i, ip_LastSeenAt = ip_LastSeenAt i\<rparr>" by simp
      with that mem [of "ip_Address i" "ip_LastSeenAt i"] show ?thesis by auto
    qed
    then have "[] \<notin> ip_Address ` set ips" by blast
    with Cons.IH [OF us] srt [OF wf [OF m]] users show ?thesis by simp
  qed
qed simp

text \<open>A counter that is zero, or missing, stays so under queries.\<close>

lemma querySingle_zero:
  assumes "counters_contract api counters" and "counterVal (counters w) n = 0"
  shows "counterVal (counters (snd (querySingle cfg api name w))) n = 0"
proof (cases "querySingle cfg api name w")
  case (Pair r w')
  show ?thesis
  proof (cases r)
    case (Inl e)
    with querySingle_error [OF assms(1), of cfg name w e w'] Pair assms(2) show ?thesis by simp
  next
    case (Inr v)
    with querySingle_value(2) [OF assms(1), of cfg name w v w'] Pair assms(2) show ?thesis
      by (auto simp: zeroed_def counterVal_def split: option.splits)
  qed
qed

lemma fetch_zero:
  assumes "counters_contract api counters" and "counterVal (counters w) n = 0"
  shows "counterVal (counters (snd (fetch cfg api email w))) n = 0"
proof -
  let ?q = "querySingle cfg api (uplinkName email) w"
  have 1: "counterVal (counters (snd ?q)) n = 0" by (rule querySingle_zero [OF assms])
  have "counterVal (counters (snd (querySingle cfg api (downlinkName email) (snd ?q)))) n = 0"
    by (rule querySingle_zero [OF assms(1) 1])
  with 1 show ?thesis by (auto simp: fetch_def split: prod.splits sum.splits)
qed

lemma fetchAll_zero:
  assumes "counters_contract api counters"
  shows "counterVal (counters w) n = 0 \<Longrightarrow> counterVal (counters (snd (fetchAll cfg api emails res w))) n = 0"
proof (induction emails arbitrary: res w)
  case (Cons email emails)
  have "counterVal (counters (snd (fetch cfg api email w))) n = 0"
    by (rule fetch_zero [OF assms Cons.prems])
  with Cons.IH show ?case by (auto split: prod.splits sum.splits)
qed simp

lemma fetch_resets:
  assumes con: "counters_contract api counters" and reset: "StatsResetEachPush (Xray cfg)"
    and run: "fetch cfg api email w = (Inr u, w')"
  shows "counterVal (counters w') (uplinkName email) = 0" "counterVal (counters w') (downlinkName email) = 0"
proof -
  obtain up w1 down where up: "querySingle cfg api (uplinkName email) w = (Inr up, w1)"
    and down: "querySingle cfg api (downlinkName email) w1 = (Inr down, w')"
    using run by (auto simp: fetch_def split: prod.splits sum.splits)
  have self: "counterVal (zeroed n m) n = 0" for n m
    by (simp add: zeroed_def counterVal_def Contains_def split: option.split)
  have "counterVal (counters w1) (uplinkName email) = 0"
    using querySingle_value(2) [OF con up] reset self by simp
  with querySingle_zero [OF con this, of cfg "downlinkName email"] down
  show "counterVal (counters w') (uplinkName email) = 0" by simp
  show "counterVal (counters w') (downlinkName email) = 0"
    using querySingle_value(2) [OF con down] reset self by simp
qed

section \<open>Properties\<close>

text \<open>
  C28: without resetting, a successful query of the counters leaves the service as it was and
  returns, for exactly the given emails, the values of the two counters of the email, zero for
  a counter that does not exist. A counter of another user whose name contains the pattern does
  not disturb the result.
\<close>

theorem query_user_bytes_exact:
  assumes "counters_contract api counters" and "\<not> StatsResetEachPush (Xray cfg)"
    and "QueryUserBytes cfg api emails w = (Inr m, w')"
  shows "counters w' = counters w \<and>
    (\<forall>e. go_get m e = (if e \<in> set emails
        then Some (counterVal (counters w) (uplinkName e), counterVal (counters w) (downlinkName e))
        else None))"
proof -
  obtain w1 where c: "q_NewClient api (APIServer (Xray cfg)) w = (None, w1)"
    and f: "fetchAll cfg api emails [] w1 = (Inr m, w')"
    using assms(3) by (auto simp: QueryUserBytes_def split: prod.splits option.splits)
  have "counters w1 = counters w" using counters_NewClient [OF assms(1), of "APIServer (Xray cfg)" w] c by simp
  with fetchAll_value [OF assms(1,2) f] show ?thesis by simp
qed

text \<open>
  Parsing the name of an online statistic gives back the email of every well-formed name.
  Three further names are accepted, in which the prefix and the suffix overlap: these give
  an email that is not a part between them (\<^verbatim>\<open>user>>>online\<close> is read as the user \<^verbatim>\<open>online\<close>).
\<close>

theorem online_name_parse:
  "emailFromOnlineStatName name = Some email \<longleftrightarrow>
     (email \<noteq> [] \<and> name = ''user>>>'' @ email @ ''>>>online'')
     \<or> (name, email) \<in> {(''user>>>online'', ''online''), (''user>>>>online'', ''>online''),
                          (''user>>>>>online'', ''>>online'')}"
  by (rule emailFromOnlineStatName_Some)

text \<open>
  The online users are, as a multiset, those of the names that parse, none has a protocol yet,
  and they are sorted by their email in lower case, whatever the sorting algorithm does with
  equal keys. The addresses of a user are not empty, distinct and sorted.
\<close>

theorem online_users_sorted:
  assumes "sorts srt" and "range_order ord"
    and "\<And>n w m w'. q_GetStatsOnlineIpList api n w = (Inr m, w') \<Longrightarrow> go_wf m"
    and "OnlineUsers cfg api unicode ord srt w = (Inr users, w')"
  shows "(\<exists>names w1 w2. q_GetAllOnlineUsers api w1 = (Inr names, w2)
      \<and> mset (map ou_Email users) = mset (List.map_filter emailFromOnlineStatName names))
    \<and> sorted (map (\<lambda>u. ToLower unicode (ou_Email u)) users) \<and> list_all (\<lambda>u. ou_Proto u = []) users
    \<and> list_all (\<lambda>u. [] \<notin> ip_Address ` set (ou_IPs u) \<and> sorted (map ip_Address (ou_IPs u))
        \<and> distinct (map ip_Address (ou_IPs u))) users"
proof -
  obtain w1 names w2 us where c: "q_GetAllOnlineUsers api w1 = (Inr names, w2)"
    and i: "onlineInfos api ord names w2 = (Inr us, w')"
    and users: "users = srt (\<lambda>u. ToLower unicode (ou_Email u)) us"
    using assms(4) by (auto simp: OnlineUsers_def split: prod.splits option.splits sum.splits)
  note e = onlineInfos_emails [OF i] and ips = onlineInfos_ips [OF assms(2,3) i]
  have "mset (map ou_Email users) = mset (List.map_filter emailFromOnlineStatName names)"
    unfolding users mset_map sorts_mset [OF assms(1)] by (metis e mset_map)
  moreover have "sorted (map (\<lambda>u. ToLower unicode (ou_Email u)) users)"
    unfolding users by (rule sorts_sorted [OF assms(1)])
  moreover have "list_all (\<lambda>u. ou_Proto u = []) users"
    using e by (simp add: users list_all_iff sorts_set [OF assms(1)])
  moreover have "list_all (\<lambda>u. [] \<notin> ip_Address ` set (ou_IPs u) \<and> sorted (map ip_Address (ou_IPs u))
        \<and> distinct (map ip_Address (ou_IPs u))) users"
    using ips by (simp add: users list_all_iff sorts_set [OF assms(1)])
  ultimately show ?thesis using c by blast
qed


section \<open>A simulated service\<close>

text \<open>
  A service with a table of counters and a list of patterns whose query fails; it has two online
  users and a name that is not theirs.
\<close>

type_synonym sim_counters = "(string, int64) gomap \<times> string list"

definition sim_view :: "sim_counters \<Rightarrow> string \<Rightarrow> int64 option" where
  "sim_view w = go_get (fst w)"

definition sim_query :: "string \<Rightarrow> bool \<Rightarrow> sim_counters \<Rightarrow> (string \<times> int64) list go_result \<times> sim_counters" where
  "sim_query pat reset w =
     (if pat \<in> set (snd w) then (Inl (ErrExt 1 ''unavailable''), w)
      else (Inr (filter (\<lambda>(n, v). go_get (fst w) n = Some v \<and> Contains n pat) (fst w)),
            if reset then (map (\<lambda>(n, v). (n, if Contains n pat then 0 else v)) (fst w), snd w) else w))"

definition sim_stats :: "sim_counters stats_api" where
  "sim_stats =
     \<lparr>q_NewClient = (\<lambda>_ w. (None, w)), q_QueryStats = sim_query,
      q_GetAllOnlineUsers = (\<lambda>w. (Inr [''user>>>b>>>online'', ''x'', ''user>>>A>>>online''], w)),
      q_GetStatsOnlineIpList = (\<lambda>_ w. (Inr [(''::1'', 7)], w)),
      q_GetSysStats = (\<lambda>w. (Inl (ErrExt 2 ''unimplemented''), w))\<rparr>"

lemma map_of_zeroed:
  "map_of (map (\<lambda>(n, v). (n, if P n then 0 else v)) xs) n = (if P n then map_option (\<lambda>_. 0) (map_of xs n) else map_of xs n)"
  by (induction xs) auto

lemma sim_counters_contract: "counters_contract sim_stats sim_view"
  unfolding counters_contract_def
proof (intro conjI allI impI)
  fix s w pat reset e stats n v and w' :: sim_counters
  show "sim_view (snd (q_NewClient sim_stats s w)) = sim_view w" by (simp add: sim_stats_def)
  show "sim_view w' = sim_view w" if "q_QueryStats sim_stats pat reset w = (Inl e, w')"
    using that by (auto simp: sim_stats_def sim_query_def split: if_splits)
  assume "q_QueryStats sim_stats pat reset w = (Inr stats, w')"
  then have st: "stats = filter (\<lambda>(n, v). go_get (fst w) n = Some v \<and> Contains n pat) (fst w)"
    and w': "w' = (if reset then (map (\<lambda>(n, v). (n, if Contains n pat then 0 else v)) (fst w), snd w) else w)"
    by (auto simp: sim_stats_def sim_query_def split: if_splits)
  show "(n, v) \<in> set stats \<longleftrightarrow> Contains n pat \<and> sim_view w n = Some v"
    by (auto simp: st sim_view_def go_get_def dest: map_of_SomeD)
  show "sim_view w' = (if reset then zeroed pat (sim_view w) else sim_view w)"
    by (auto simp: w' sim_view_def zeroed_def go_get_def map_of_zeroed [where P = "\<lambda>n. Contains n pat"])
qed

definition sim_counters0 :: sim_counters where
  "sim_counters0 = ([(uplinkName ''a'', 5), (downlinkName ''a'', 9)], [uplinkName ''b''])"

definition reset_config :: Config where
  "reset_config = sample_config\<lparr>Xray := (Xray sample_config)\<lparr>StatsResetEachPush := True\<rparr>\<rparr>"

theorem query_user_bytes_exact_witness:
  "\<exists>m. QueryUserBytes sample_config sim_stats [''a'', ''c''] sim_counters0 = (Inr m, sim_counters0)
    \<and> go_get m ''a'' = Some (5, 9) \<and> go_get m ''c'' = Some (0, 0) \<and> go_get m ''b'' = None"
proof -
  have run: "QueryUserBytes sample_config sim_stats [''a'', ''c''] sim_counters0 =
      (Inr [(''a'', 5, 9), (''c'', 0, 0)], sim_counters0)"
    by code_simp
  have "\<not> StatsResetEachPush (Xray sample_config)" by (simp add: sample_config_def)
  from query_user_bytes_exact [OF sim_counters_contract this run] run show ?thesis
    by (auto simp: sim_view_def sim_counters0_def counterVal_def uplinkName_def downlinkName_def go_get_def)
qed

theorem online_users_sorted_witness:
  "\<exists>users. OnlineUsers sample_config sim_stats (\<lambda>s. s) (\<lambda>ks. ks) (\<lambda>key xs. sort_key key xs) sim_counters0
       = (Inr users, sim_counters0)
    \<and> map ou_Email users = [''A'', ''b''] \<and> sorted (map (\<lambda>u. ToLower (\<lambda>s. s) (ou_Email u)) users)"
proof -
  have run: "OnlineUsers sample_config sim_stats (\<lambda>s. s) (\<lambda>ks. ks) (\<lambda>key xs. sort_key key xs) sim_counters0
     = (Inr [\<lparr>ou_Email = ''A'', ou_Proto = [], ou_IPs = [\<lparr>ip_Address = ''::1'', ip_LastSeenAt = 7000000000\<rparr>]\<rparr>,
             \<lparr>ou_Email = ''b'', ou_Proto = [], ou_IPs = [\<lparr>ip_Address = ''::1'', ip_LastSeenAt = 7000000000\<rparr>]\<rparr>],
        sim_counters0)"
    by code_simp
  have wf: "q_GetStatsOnlineIpList sim_stats n w = (Inr m, w') \<Longrightarrow> go_wf m" for n w m w'
    by (auto simp: sim_stats_def go_wf_def)
  from online_users_sorted [OF sorts_sort_key range_order_id wf run] run show ?thesis by simp
qed


end
