(* ===== verification/Usage_Accounting.thy ===== *)
theory Usage_Accounting
  imports Stats_Collector
begin

text \<open>
  The traffic accounting of \<^verbatim>\<open>internal/agent/agent.go\<close>: when Xray does not reset its counters,
  the agent keeps the last counters of every user, under the lower-case email, and reports
  differences. Counters are signed 64-bit words. The lemmas show that the differences reported
  over any number of rounds add up to the traffic, restarts of Xray included.
\<close>

section \<open>Operations\<close>

definition usageCounterDelta :: "int64 \<Rightarrow> int64 \<Rightarrow> int64" where
  "usageCounterDelta prev cur =
     (if cur \<le>s 0 then 0 else if prev \<le>s cur then cur - prev else cur)"

definition pairDelta :: "usage option \<Rightarrow> usage \<Rightarrow> usage" where
  "pairDelta prev u =
     (case prev of
        None \<Rightarrow> (0, 0)
      | Some p \<Rightarrow> (usageCounterDelta (fst p) (fst u), usageCounterDelta (snd p) (snd u)))"

text \<open>One round of the loop: the results, the keys that were seen, and the snapshot.\<close>

definition deltaStep ::
  "(string \<Rightarrow> string) \<Rightarrow> (string, usage) gomap \<times> (string, unit) gomap \<times> (string, usage) gomap \<Rightarrow> string \<times> usage
   \<Rightarrow> (string, usage) gomap \<times> (string, unit) gomap \<times> (string, usage) gomap" where
  "deltaStep unicode st eu =
     (case (st, eu) of
        ((normalized, present, snapshot), (email, usage)) \<Rightarrow>
          (let key = ToLower unicode email in
           (go_set email (pairDelta (go_get snapshot key) usage) normalized,
            go_set key () present,
            go_set key usage snapshot)))"

definition dropAbsent :: "(string, unit) gomap \<Rightarrow> string list \<Rightarrow> (string, usage) gomap \<Rightarrow> (string, usage) gomap" where
  "dropAbsent present ks snapshot =
     foldl (\<lambda>s k. if go_get present k = None then go_delete k s else s) snapshot ks"

definition normalizeStatsDeltas ::
  "(string \<Rightarrow> string) \<Rightarrow> string range_order \<Rightarrow> (string, usage) gomap \<Rightarrow> (string, usage) gomap
   \<Rightarrow> (string, usage) gomap \<times> (string, usage) gomap" where
  "normalizeStatsDeltas unicode ord snapshot current =
     (if go_len current = 0 then (current, [])
      else case foldl (deltaStep unicode) ([], [], snapshot) (go_range ord current) of
        (normalized, present, snapshot') \<Rightarrow>
          (normalized, dropAbsent present (ord (go_keys snapshot')) snapshot'))"

section \<open>The delta of one counter\<close>

lemma usageCounterDelta_sint:
  assumes "0 \<le> sint prev"
  shows "sint (usageCounterDelta prev cur) =
    (if sint cur \<le> 0 then 0 else if sint prev \<le> sint cur then sint cur - sint prev else sint cur)"
proof -
  have "sint (cur - prev) = sint cur - sint prev" if "sint prev \<le> sint cur"
    using that assms sint_int64_range [of cur] by (intro sint_int64_diff) auto
  then show ?thesis by (simp add: usageCounterDelta_def word_sle_eq)
qed

lemma usageCounterDelta_bounds:
  assumes "0 \<le> sint prev"
  shows "0 \<le> sint (usageCounterDelta prev cur)" "sint (usageCounterDelta prev cur) \<le> max 0 (sint cur)"
  using assms by (auto simp: usageCounterDelta_sint)

section \<open>What the loops compute\<close>

definition deltas_from :: "(string \<Rightarrow> string) \<Rightarrow> (string, usage) gomap \<Rightarrow> (string \<times> usage) list
    \<Rightarrow> (string, usage) gomap \<times> (string, unit) gomap \<times> (string, usage) gomap" where
  "deltas_from unicode snapshot ps = foldl (deltaStep unicode) ([], [], snapshot) ps"

lemma deltas_from_snoc: "deltas_from u s (ps @ [p]) = deltaStep u (deltas_from u s ps) p"
  by (simp add: deltas_from_def)

lemma deltaStep_simps:
  "fst (deltaStep u st p) = go_set (fst p) (pairDelta (go_get (snd (snd st)) (ToLower u (fst p))) (snd p)) (fst st)"
  "fst (snd (deltaStep u st p)) = go_set (ToLower u (fst p)) () (fst (snd st))"
  "snd (snd (deltaStep u st p)) = go_set (ToLower u (fst p)) (snd p) (snd (snd st))"
  by (simp_all add: deltaStep_def Let_def case_prod_beta)

lemma deltas_from_snapshot:
  "go_get (snd (snd (deltas_from u s ps))) k =
     (case last_with (\<lambda>p. ToLower u (fst p)) ps k of Some p \<Rightarrow> Some (snd p) | None \<Rightarrow> go_get s k)"
  by (induction ps rule: rev_induct) (simp_all add: deltas_from_snoc deltaStep_simps, simp add: deltas_from_def)

lemma deltas_from_present:
  "go_get (fst (snd (deltas_from u s ps))) k = (if last_with (\<lambda>p. ToLower u (fst p)) ps k = None then None else Some ())"
  by (induction ps rule: rev_induct) (simp_all add: deltas_from_snoc deltaStep_simps, simp add: deltas_from_def)

lemma deltas_from_result:
  assumes "distinct (map (\<lambda>p. ToLower u (fst p)) ps)"
  shows "go_get (fst (deltas_from u s ps)) e =
    map_option (\<lambda>p. pairDelta (go_get s (ToLower u e)) (snd p)) (last_with fst ps e)"
  using assms
proof (induction ps rule: rev_induct)
  case (snoc p ps)
  then have "last_with (\<lambda>p. ToLower u (fst p)) ps (ToLower u (fst p)) = None" by (simp add: last_with_None)
  with snoc show ?case by (simp add: deltas_from_snoc deltaStep_simps deltas_from_snapshot)
qed (simp add: deltas_from_def)

lemma go_get_dropAbsent:
  "go_get (dropAbsent present ks s) k = (if k \<in> set ks \<and> go_get present k = None then None else go_get s k)"
  by (induction ks rule: rev_induct) (auto simp: dropAbsent_def)

lemma last_with_go_range:
  assumes "range_order ord" and "go_wf m"
  shows "map_option snd (last_with fst (go_range ord m) e) = go_get m e"
proof (cases "go_get m e")
  case None
  then have "(e, v) \<notin> set (go_range ord m)" for v using set_go_range [OF assms(1), of e v m] by simp
  then have "last_with fst (go_range ord m) e = None" by (force simp: last_with_None)
  with None show ?thesis by simp
next
  case (Some v)
  then have "(e, v) \<in> set (go_range ord m)" using set_go_range [OF assms(1), of e v m] by simp
  from last_with_distinct [OF distinct_go_range [OF assms] this] Some show ?thesis by simp
qed

lemma lower_distinct:
  assumes "range_order ord" and "go_wf m" and "inj_on (ToLower u) (set (go_keys m))"
  shows "distinct (map (\<lambda>p. ToLower u (fst p)) (go_range ord m))"
proof -
  have "set (ord (go_keys m)) = set (go_keys m)" using assms(1) by (metis range_order_def mset_eq_setD)
  then have "distinct (map (ToLower u) (map fst (go_range ord m)))"
    using assms(3) distinct_go_range [OF assms(1,2)]
    by (simp only: distinct_map map_fst_go_range [OF assms(1)])
  then show ?thesis by (simp add: comp_def)
qed

lemma normalizeStatsDeltas_eq:
  "normalizeStatsDeltas u ord snapshot current =
     (if current = [] then ([], [])
      else let st = deltas_from u snapshot (go_range ord current); s' = snd (snd st) in
           (fst st, dropAbsent (fst (snd st)) (ord (go_keys s')) s'))"
  by (auto simp: normalizeStatsDeltas_def deltas_from_def go_len_def Let_def case_prod_beta)

text \<open>The result of a round, when no two emails differ only in letter case.\<close>

lemma normalizeStatsDeltas_result:
  assumes "range_order ord" and "go_wf current" and "inj_on (ToLower u) (set (go_keys current))"
  shows "go_get (fst (normalizeStatsDeltas u ord snapshot current)) e =
    map_option (pairDelta (go_get snapshot (ToLower u e))) (go_get current e)"
proof (cases "current = []")
  case False
  have "go_get (fst (normalizeStatsDeltas u ord snapshot current)) e =
      map_option (\<lambda>p. pairDelta (go_get snapshot (ToLower u e)) (snd p)) (last_with fst (go_range ord current) e)"
    using False by (simp add: normalizeStatsDeltas_eq Let_def deltas_from_result [OF lower_distinct [OF assms]])
  then show ?thesis
    unfolding last_with_go_range [OF assms(1,2), symmetric] by (simp add: option.map_comp comp_def)
qed (simp add: normalizeStatsDeltas_eq)

lemma normalizeStatsDeltas_snapshot:
  assumes "range_order ord" and "go_wf current" and "inj_on (ToLower u) (set (go_keys current))"
  shows "go_get (snd (normalizeStatsDeltas u ord snapshot current)) k = Some v \<longleftrightarrow>
    (\<exists>e. go_get current e = Some v \<and> ToLower u e = k)"
proof (cases "current = []")
  case False
  let ?ps = "go_range ord current" and ?low = "\<lambda>p :: string \<times> usage. ToLower u (fst p)"
  let ?s = "snd (snd (deltas_from u snapshot ?ps))"
  have ks: "k \<in> set (ord (go_keys ?s)) \<longleftrightarrow> go_get ?s k \<noteq> None"
    using assms(1) gm.set_keys [of ?s] unfolding range_order_def by (metis (mono_tags) mem_Collect_eq mset_eq_setD)
  have "go_get (snd (normalizeStatsDeltas u ord snapshot current)) k =
      (if go_get (fst (snd (deltas_from u snapshot ?ps))) k = None then None else go_get ?s k)"
    using False ks by (simp add: normalizeStatsDeltas_eq Let_def go_get_dropAbsent del: not_None_eq)
  also have "\<dots> = map_option snd (last_with ?low ?ps k)"
    unfolding deltas_from_present deltas_from_snapshot by (simp split: option.split)
  finally have "go_get (snd (normalizeStatsDeltas u ord snapshot current)) k = map_option snd (last_with ?low ?ps k)" .
  then have "go_get (snd (normalizeStatsDeltas u ord snapshot current)) k = Some v \<longleftrightarrow>
      (\<exists>p. last_with ?low ?ps k = Some p \<and> snd p = v)" by auto
  also have "\<dots> \<longleftrightarrow> (\<exists>e. (e, v) \<in> set ?ps \<and> ToLower u e = k)"
    unfolding last_with_distinct_iff [OF lower_distinct [OF assms]] by (cases v) auto
  finally show ?thesis unfolding set_go_range [OF assms(1)] .
qed (simp add: normalizeStatsDeltas_eq)

section \<open>Rounds\<close>

text \<open>The results of the rounds over a sequence of counter readings, from a snapshot.\<close>

fun rounds :: "(string \<Rightarrow> string) \<Rightarrow> string range_order \<Rightarrow> (string, usage) gomap \<Rightarrow> (string, usage) gomap list
    \<Rightarrow> (string, usage) gomap list" where
  "rounds u ord snapshot [] = []"
| "rounds u ord snapshot (cur # curs) =
     (case normalizeStatsDeltas u ord snapshot cur of (m, snapshot') \<Rightarrow> m # rounds u ord snapshot' curs)"

text \<open>
  The traffic that a sequence of readings of one counter stands for, over the integers: a reading
  below the one before means that the counter started again from zero.
\<close>

fun trafficSince :: "int \<Rightarrow> int list \<Rightarrow> int" where
  "trafficSince prev [] = 0"
| "trafficSince prev (c # cs) = (if prev \<le> c then c - prev else c) + trafficSince c cs"

lemma trafficSince_grows: "sorted (prev # cs) \<Longrightarrow> trafficSince prev cs = last (prev # cs) - prev"
  by (induction cs arbitrary: prev) auto

definition usageOf :: "(string, usage) gomap \<Rightarrow> string \<Rightarrow> usage" where
  "usageOf m e = (case go_get m e of Some u \<Rightarrow> u | None \<Rightarrow> (0, 0))"

definition reading_ok :: "(string \<Rightarrow> string) \<Rightarrow> string \<Rightarrow> (string, usage) gomap \<Rightarrow> bool" where
  "reading_ok u e m \<longleftrightarrow>
     go_wf m \<and> inj_on (ToLower u) (set (go_keys m)) \<and> go_get m e \<noteq> None
     \<and> 0 \<le> sint (fst (usageOf m e)) \<and> 0 \<le> sint (snd (usageOf m e))"

lemma snapshot_after:
  assumes "range_order ord" and "reading_ok u e cur"
  shows "go_get (snd (normalizeStatsDeltas u ord snapshot cur)) (ToLower u e) = Some (usageOf cur e)"
proof -
  from assms(2) obtain v where v: "go_get cur e = Some v" by (auto simp: reading_ok_def)
  then have "usageOf cur e = v" by (simp add: usageOf_def)
  with v normalizeStatsDeltas_snapshot [OF assms(1), of cur u snapshot "ToLower u e" v] assms(2) show ?thesis
    by (auto simp: reading_ok_def)
qed

lemma usageOf_round:
  assumes "range_order ord" and "reading_ok u e cur"
  shows "usageOf (fst (normalizeStatsDeltas u ord snapshot cur)) e = pairDelta (go_get snapshot (ToLower u e)) (usageOf cur e)"
  using normalizeStatsDeltas_result [OF assms(1), of cur u snapshot e] assms(2)
  by (auto simp: reading_ok_def usageOf_def)

lemma delta_traffic:
  "0 \<le> sint prev \<Longrightarrow> 0 \<le> sint cur \<Longrightarrow>
   sint (usageCounterDelta prev cur) = (if sint prev \<le> sint cur then sint cur - sint prev else sint cur)"
  by (auto simp: usageCounterDelta_sint)

lemma rounds_traffic:
  assumes ord: "range_order ord"
  shows "\<lbrakk>go_get snapshot (ToLower u e) = Some p; 0 \<le> sint (fst p); 0 \<le> sint (snd p); list_all (reading_ok u e) curs\<rbrakk> \<Longrightarrow>
    sum_list (map (\<lambda>m. sint (fst (usageOf m e))) (rounds u ord snapshot curs))
      = trafficSince (sint (fst p)) (map (\<lambda>m. sint (fst (usageOf m e))) curs)
    \<and> sum_list (map (\<lambda>m. sint (snd (usageOf m e))) (rounds u ord snapshot curs))
      = trafficSince (sint (snd p)) (map (\<lambda>m. sint (snd (usageOf m e))) curs)"
proof (induction curs arbitrary: snapshot p)
  case (Cons cur curs)
  let ?s = "snd (normalizeStatsDeltas u ord snapshot cur)"
  from Cons.prems have ok: "reading_ok u e cur" by simp
  then have nn: "0 \<le> sint (fst (usageOf cur e))" "0 \<le> sint (snd (usageOf cur e))" by (simp_all add: reading_ok_def)
  have "list_all (reading_ok u e) curs" using Cons.prems by simp
  note IH = Cons.IH [OF snapshot_after [OF ord ok] nn this, of snapshot]
  have "usageOf (fst (normalizeStatsDeltas u ord snapshot cur)) e =
      (usageCounterDelta (fst p) (fst (usageOf cur e)), usageCounterDelta (snd p) (snd (usageOf cur e)))"
    unfolding usageOf_round [OF ord ok] by (simp add: Cons.prems(1) pairDelta_def)
  with IH delta_traffic [OF Cons.prems(2) nn(1)] delta_traffic [OF Cons.prems(3) nn(2)] show ?case
    by (simp add: case_prod_beta)
qed simp

section \<open>Properties\<close>

text \<open>
  C11: the deltas reported for a user over any number of rounds add up to the user's traffic since
  the first reading, over the integers and without wrap-around: the first round reports zero and
  every later one the growth of the counter, or the whole counter after a restart of Xray. In
  particular, while the counter grows, the reports add up to the last reading minus the first.
\<close>

theorem reported_usage_adds_up:
  assumes "range_order ord" and "go_get snapshot (ToLower u e) = None"
    and "list_all (reading_ok u e) (cur # curs)"
  shows "sum_list (map (\<lambda>m. sint (fst (usageOf m e))) (rounds u ord snapshot (cur # curs)))
      = trafficSince (sint (fst (usageOf cur e))) (map (\<lambda>m. sint (fst (usageOf m e))) curs)
    \<and> sum_list (map (\<lambda>m. sint (snd (usageOf m e))) (rounds u ord snapshot (cur # curs)))
      = trafficSince (sint (snd (usageOf cur e))) (map (\<lambda>m. sint (snd (usageOf m e))) curs)
    \<and> (sorted (map (\<lambda>m. sint (fst (usageOf m e))) (cur # curs)) \<longrightarrow>
         sum_list (map (\<lambda>m. sint (fst (usageOf m e))) (rounds u ord snapshot (cur # curs)))
         = sint (fst (usageOf (last (cur # curs)) e)) - sint (fst (usageOf cur e)))"
proof -
  from assms(3) have ok: "reading_ok u e cur" and oks: "list_all (reading_ok u e) curs" by simp_all
  then have nn: "0 \<le> sint (fst (usageOf cur e))" "0 \<le> sint (snd (usageOf cur e))" by (simp_all add: reading_ok_def)
  have first: "usageOf (fst (normalizeStatsDeltas u ord snapshot cur)) e = (0, 0)"
    unfolding usageOf_round [OF assms(1) ok] by (simp add: assms(2) pairDelta_def)
  have "last (sint (fst (usageOf cur e)) # map (\<lambda>m. sint (fst (usageOf m e))) curs)
      = sint (fst (usageOf (last (cur # curs)) e))"
    by (induction curs arbitrary: cur) auto
  with first rounds_traffic [OF assms(1) snapshot_after [OF assms(1) ok] nn oks, of snapshot]
    trafficSince_grows [of "sint (fst (usageOf cur e))" "map (\<lambda>m. sint (fst (usageOf m e))) curs"]
  show ?thesis by (simp add: case_prod_beta del: last.simps)
qed

theorem reported_usage_adds_up_witness:
  "sum_list (map (\<lambda>m. sint (fst (usageOf m ''a''))) (rounds (\<lambda>s. s) (\<lambda>ks. ks) []
     [[(''a'', 100, 0)], [(''a'', 130, 0)], [(''a'', 20, 0)], [(''a'', 25, 0)]])) = 30 + 20 + 5"
proof -
  have "list_all (reading_ok (\<lambda>s. s) ''a'') [[(''a'', 100, 0)], [(''a'', 130, 0)], [(''a'', 20, 0)], [(''a'', 25, 0)]]"
    by (simp add: reading_ok_def usageOf_def go_get_def go_wf_def go_keys_def)
  from reported_usage_adds_up [OF range_order_id _ this, of "[]", THEN conjunct1] show ?thesis
    by (simp add: usageOf_def go_get_def)
qed

text \<open>
  One round, user by user: the reported delta is that of the counters against the snapshot
  entry of the lower-case email, zero for a user seen for the first time, and the new snapshot
  holds exactly the counters of the users of this round, whatever order the maps are visited in.
\<close>

theorem usage_round_exact:
  assumes "range_order ord" and "go_wf current" and "inj_on (ToLower u) (set (go_keys current))"
  shows "go_get (fst (normalizeStatsDeltas u ord snapshot current)) e =
      (case go_get current e of
         None \<Rightarrow> None
       | Some (up, down) \<Rightarrow>
           (case go_get snapshot (ToLower u e) of
              None \<Rightarrow> Some (0, 0)
            | Some (pup, pdown) \<Rightarrow> Some (usageCounterDelta pup up, usageCounterDelta pdown down)))
    \<and> (go_get (snd (normalizeStatsDeltas u ord snapshot current)) k = Some v \<longleftrightarrow>
         (\<exists>e. go_get current e = Some v \<and> ToLower u e = k))"
  using normalizeStatsDeltas_result [OF assms, of snapshot e] normalizeStatsDeltas_snapshot [OF assms, of snapshot k v]
  by (auto simp: pairDelta_def split: option.split)

theorem usage_round_exact_witness:
  "go_get (fst (normalizeStatsDeltas (\<lambda>s. s) rev [(''a'', 5, 5), (''b'', 1, 1)] [(''A'', 7, 3)])) ''A'' = Some (2, 3)
   \<and> go_get (snd (normalizeStatsDeltas (\<lambda>s. s) rev [(''a'', 5, 5), (''b'', 1, 1)] [(''A'', 7, 3)])) ''b'' \<noteq> Some (1, 1)"
proof -
  have "go_wf [(''A'', 7 :: int64, 3 :: int64)]" "inj_on (ToLower (\<lambda>s. s)) (set (go_keys [(''A'', 7 :: int64, 3 :: int64)]))"
    by (simp_all add: go_wf_def go_keys_def)
  note r = usage_round_exact [OF range_order_rev this, of "[(''a'', 5, 5), (''b'', 1, 1)]" "''A''" "''b''" "(1, 1)"]
  have "ToLower (\<lambda>s. s) ''A'' = ''a''" by code_simp
  with r show ?thesis by (simp add: go_get_def usageCounterDelta_def word_sle_eq)
qed

text \<open>
  The delta of one counter is never negative and never exceeds the counter, provided the
  previous reading is not negative; from a negative one it can wrap around to the smallest number.
\<close>

theorem usage_delta_bounds:
  assumes "0 \<le> sint prev"
  shows "0 \<le> sint (usageCounterDelta prev cur) \<and> sint (usageCounterDelta prev cur) \<le> max 0 (sint cur)
    \<and> sint (usageCounterDelta (- 1) (2 ^ 63 - 1)) = - (2 ^ 63)"
  using usageCounterDelta_bounds [OF assms, of cur] by (simp add: usageCounterDelta_def word_sle_eq)

theorem usage_delta_bounds_witness:
  "0 \<le> sint (usageCounterDelta 9 4) \<and> sint (usageCounterDelta 9 4) \<le> 4"
  using usage_delta_bounds [of 9 4] by simp

end
