(* ===== verification/Metrics_Collector.thy ===== *)
theory Metrics_Collector
  imports Xray_Model
begin

text \<open>
  The host metrics of \<^verbatim>\<open>internal/metrics/collector.go\<close>: CPU and memory use and the network
  throughput between two samples. The readings of the operating system and the clock are the
  fields of \<open>host_api\<close>. Byte counters are 64-bit unsigned words; a \<^verbatim>\<open>float64\<close> is a real number,
  so rounding is not modelled. The difference of two clock readings is taken to fit in a duration.
\<close>

section \<open>State and operations\<close>

record IOCountersStat =
  BytesSent :: uint64
  BytesRecv :: uint64

record 'w host_api =
  p_CPU :: "'w \<Rightarrow> real list go_result \<times> 'w"
  p_Mem :: "'w \<Rightarrow> real option go_result \<times> 'w"
  p_Net :: "'w \<Rightarrow> IOCountersStat list go_result \<times> 'w"
  p_Now :: "'w \<Rightarrow> time \<times> 'w"

record MetricsCollector =
  m_lastNet :: "IOCountersStat option"
  m_lastAt :: time

definition New_Metrics :: MetricsCollector where
  "New_Metrics = \<lparr>m_lastNet = None, m_lastAt = - 62135596800 * 1000000000\<rparr>"

definition diffUint64 :: "uint64 \<Rightarrow> uint64 \<Rightarrow> uint64" where
  "diffUint64 cur prev = (if cur \<ge> prev then cur - prev else 0)"

definition bytesToMbps :: "uint64 \<Rightarrow> real \<Rightarrow> real" where
  "bytesToMbps delta secs = (if secs \<le> 0 then 0 else (real (unat delta) * 8) / (secs * 1000000))"

definition elapsedSeconds :: "time \<Rightarrow> time \<Rightarrow> real" where
  "elapsedSeconds now since = real_of_int (now - since) / 1000000000"

text \<open>The critical section of \<^verbatim>\<open>netThroughput\<close>: what the reading \<open>tot\<close> at \<open>now\<close> does.\<close>

definition netUpdate :: "time \<Rightarrow> IOCountersStat \<Rightarrow> MetricsCollector \<Rightarrow> (real \<times> real) option \<times> MetricsCollector" where
  "netUpdate now tot c =
     (let c' = \<lparr>m_lastNet = Some tot, m_lastAt = now\<rparr> in
      case m_lastNet c of
        None \<Rightarrow> (None, c')
      | Some lastNet \<Rightarrow>
          (let elapsed = elapsedSeconds now (m_lastAt c) in
           if elapsed \<le> 0 then (None, c')
           else (Some (bytesToMbps (diffUint64 (BytesSent tot) (BytesSent lastNet)) elapsed,
                       bytesToMbps (diffUint64 (BytesRecv tot) (BytesRecv lastNet)) elapsed), c')))"

definition netThroughput ::
  "'w host_api \<Rightarrow> MetricsCollector \<Rightarrow> 'w \<Rightarrow> (real \<times> real) option \<times> MetricsCollector \<times> 'w" where
  "netThroughput api c w =
     (case p_Net api w of
        (Inl err, w1) \<Rightarrow> (None, c, w1)
      | (Inr [], w1) \<Rightarrow> (None, c, w1)
      | (Inr (tot # _), w1) \<Rightarrow>
          (case p_Now api w1 of
             (now, w2) \<Rightarrow> (case netUpdate now tot c of (r, c') \<Rightarrow> (r, c', w2))))"

definition emptySample :: "time \<Rightarrow> ServerMetricPush" where
  "emptySample t =
     \<lparr>sm_ServerTime = t, sm_CPUPercent = None, sm_MemoryPercent = None, sm_BandwidthDownMbps = None,
      sm_BandwidthUpMbps = None, sm_XraySysStats = None\<rparr>"

definition Sample :: "'w host_api \<Rightarrow> MetricsCollector \<Rightarrow> 'w \<Rightarrow> ServerMetricPush option \<times> MetricsCollector \<times> 'w" where
  "Sample api c w =
     (case p_Now api w of
        (t, w0) \<Rightarrow>
          (case p_CPU api w0 of
             (cpu, w1) \<Rightarrow>
               (let (s1, d1) = (case cpu of
                      Inr (x # _) \<Rightarrow> ((emptySample t)\<lparr>sm_CPUPercent := Some x\<rparr>, True)
                    | _ \<Rightarrow> (emptySample t, False)) in
                case p_Mem api w1 of
                  (vm, w2) \<Rightarrow>
                    (let (s2, d2) = (case vm of
                           Inr (Some p) \<Rightarrow> (s1\<lparr>sm_MemoryPercent := Some p\<rparr>, True)
                         | _ \<Rightarrow> (s1, d1)) in
                     case netThroughput api c w2 of
                       (Some (up, down), c', w3) \<Rightarrow>
                         (Some (s2\<lparr>sm_BandwidthUpMbps := Some up, sm_BandwidthDownMbps := Some down\<rparr>), c', w3)
                     | (None, c', w3) \<Rightarrow> (if d2 then Some s2 else None, c', w3)))))"

section \<open>Throughput\<close>

lemma unat_diffUint64: "unat (diffUint64 cur prev) = unat cur - unat prev"
  by (simp add: diffUint64_def unat_sub word_le_nat_alt)

lemma bytesToMbps_times:
  "0 < secs \<Longrightarrow> bytesToMbps d secs * secs * 125000 = real (unat d)"
  by (simp add: bytesToMbps_def field_simps)

lemma bytesToMbps_nonneg: "0 \<le> bytesToMbps d secs"
proof -
  have "0 \<le> real (unat d) * 8" by (rule mult_nonneg_nonneg [OF of_nat_0_le_iff]) simp
  then show ?thesis unfolding bytesToMbps_def by (auto simp only: divide_nonneg_pos split: if_split)
qed

lemma elapsed_positive: "0 < elapsedSeconds now since \<longleftrightarrow> since < now"
  by (simp add: elapsedSeconds_def)

text \<open>
  The bytes that the reported rates stand for, over a sequence of readings: a rate in Mbit/s
  times the seconds since the reading before, times 125000 bytes per megabit.
\<close>

fun reportedBytes :: "MetricsCollector \<Rightarrow> (time \<times> IOCountersStat) list \<Rightarrow> real \<times> real" where
  "reportedBytes c [] = (0, 0)"
| "reportedBytes c ((now, tot) # rs) =
     (case netUpdate now tot c of
        (r, c') \<Rightarrow>
          (case reportedBytes c' rs of
             (up, down) \<Rightarrow>
               (case r of
                  None \<Rightarrow> (up, down)
                | Some (u, d) \<Rightarrow> (u * elapsedSeconds now (m_lastAt c) * 125000 + up,
                                  d * elapsedSeconds now (m_lastAt c) * 125000 + down))))"

definition counters_grow :: "IOCountersStat \<Rightarrow> IOCountersStat \<Rightarrow> bool" where
  "counters_grow a b \<longleftrightarrow> BytesSent a \<le> BytesSent b \<and> BytesRecv a \<le> BytesRecv b"

lemma reportedBytes_from:
  assumes "sorted_wrt (\<lambda>a b. fst a < fst b \<and> counters_grow (snd a) (snd b)) ((t0, n0) # rs)"
  shows "reportedBytes \<lparr>m_lastNet = Some n0, m_lastAt = t0\<rparr> rs =
    (real (unat (BytesSent (snd (last ((t0, n0) # rs))))) - real (unat (BytesSent n0)),
     real (unat (BytesRecv (snd (last ((t0, n0) # rs))))) - real (unat (BytesRecv n0)))"
  using assms
proof (induction rs arbitrary: t0 n0)
  case (Cons r rs)
  obtain t n where r: "r = (t, n)" by (cases r)
  have lt: "t0 < t" and g: "counters_grow n0 n" using Cons.prems r by auto
  have pos: "0 < elapsedSeconds t t0" using lt by (simp add: elapsed_positive)
  have le: "unat (BytesSent n0) \<le> unat (BytesSent n)" "unat (BytesRecv n0) \<le> unat (BytesRecv n)"
    using g by (simp_all add: counters_grow_def word_le_nat_alt)
  have "sorted_wrt (\<lambda>a b. fst a < fst b \<and> counters_grow (snd a) (snd b)) ((t, n) # rs)"
    using Cons.prems r by simp
  from Cons.IH [OF this] pos le r show ?case
    by (simp add: netUpdate_def Let_def bytesToMbps_times unat_diffUint64 of_nat_diff)
qed simp

section \<open>Properties\<close>



text \<open>
  C31: throughput is never negative and never larger than the counter allows: a counter that was
  reset (the reading is below the one before) gives a rate of zero and not a difference that
  wrapped around, the first reading and a clock that did not advance give no rate, and every
  reading becomes the new reference.
\<close>

theorem net_update_rate:
  "case netUpdate now tot c of
     (None, c') \<Rightarrow> (m_lastNet c = None \<or> now \<le> m_lastAt c) \<and> c' = \<lparr>m_lastNet = Some tot, m_lastAt = now\<rparr>
   | (Some (up, down), c') \<Rightarrow>
       c' = \<lparr>m_lastNet = Some tot, m_lastAt = now\<rparr> \<and> m_lastAt c < now \<and> 0 \<le> up \<and> 0 \<le> down
       \<and> (\<exists>prev. m_lastNet c = Some prev
            \<and> up * elapsedSeconds now (m_lastAt c) * 125000 = real (unat (BytesSent tot) - unat (BytesSent prev))
            \<and> down * elapsedSeconds now (m_lastAt c) * 125000 = real (unat (BytesRecv tot) - unat (BytesRecv prev)))"
proof (cases "m_lastNet c")
  case (Some prev)
  show ?thesis
  proof (cases "m_lastAt c < now")
    case True
    then have pos: "0 < elapsedSeconds now (m_lastAt c)" by (simp add: elapsed_positive)
    have "0 \<le> bytesToMbps d (elapsedSeconds now (m_lastAt c))" for d
      by (rule bytesToMbps_nonneg)
    with Some True pos show ?thesis
      by (simp add: netUpdate_def Let_def bytesToMbps_times unat_diffUint64)
  next
    case False
    then have "elapsedSeconds now (m_lastAt c) \<le> 0" using elapsed_positive [of now "m_lastAt c"] by linarith
    with Some False show ?thesis by (simp add: netUpdate_def Let_def)
  qed
qed (simp add: netUpdate_def)

text \<open>
  A sample is sent exactly when at least one of the three sources gave a value; it is stamped
  with the time at which sampling began, and a network reading that failed leaves the reference of
  the next rate as it was, so that its bytes are counted later.
\<close>

theorem sample_none_iff:
  "case Sample api c w of
     (s, c', w') \<Rightarrow>
       (let (t, w0) = p_Now api w; (cpu, w1) = p_CPU api w0; (vm, w2) = p_Mem api w1;
            (net, c3, w3) = netThroughput api c w2 in
        (s = None \<longleftrightarrow> (\<forall>x xs. cpu \<noteq> Inr (x # xs)) \<and> (\<forall>p. vm \<noteq> Inr (Some p)) \<and> net = None)
        \<and> (case s of None \<Rightarrow> True | Some x \<Rightarrow> sm_ServerTime x = t \<and> sm_XraySysStats x = None)
        \<and> c' = c3 \<and> w' = w3
        \<and> (case p_Net api w2 of (Inl _, _) \<Rightarrow> c' = c | (Inr [], _) \<Rightarrow> c' = c | _ \<Rightarrow> m_lastNet c' \<noteq> None))"
proof -
  obtain t w0 where 0: "p_Now api w = (t, w0)" by fastforce
  obtain cpu w1 where 1: "p_CPU api w0 = (cpu, w1)" by fastforce
  obtain vm w2 where 2: "p_Mem api w1 = (vm, w2)" by fastforce
  obtain net c3 w3 where 3: "netThroughput api c w2 = (net, c3, w3)" by (cases "netThroughput api c w2")
  have n: "case p_Net api w2 of (Inl _, _) \<Rightarrow> c3 = c | (Inr [], _) \<Rightarrow> c3 = c | _ \<Rightarrow> m_lastNet c3 \<noteq> None"
    using 3 by (auto simp: netThroughput_def netUpdate_def Let_def
        split: prod.splits sum.splits list.splits option.splits if_splits)
  have "Sample api c w = (s, c', w') \<Longrightarrow>
      (s = None \<longleftrightarrow> (\<forall>x xs. cpu \<noteq> Inr (x # xs)) \<and> (\<forall>p. vm \<noteq> Inr (Some p)) \<and> net = None)
      \<and> (case s of None \<Rightarrow> True | Some x \<Rightarrow> sm_ServerTime x = t \<and> sm_XraySysStats x = None) \<and> c' = c3 \<and> w' = w3"
    for s c' w'
    by (auto simp: Sample_def 0 1 2 3 emptySample_def Let_def
        split: sum.splits list.splits option.splits if_splits prod.splits)
  with n show ?thesis by (auto simp: 0 1 2 3 split: prod.split)
qed

end
