(* ===== verification/Agent_Core.thy ===== *)
theory Agent_Core
  imports State_Store Xray_Reconcile Control_Client Usage_Accounting Metrics_Collector Github_Release
begin

text \<open>
  The agent of \<^verbatim>\<open>internal/agent/agent.go\<close>: its state, the synchronisation with the control panel,
  and one round of each of its loops. The loops run concurrently; a synchronisation holds
  \<^verbatim>\<open>syncMu\<close> for its whole body, the store and the core version have locks of their own, the
  snapshot of counters belongs to the statistics loop and the last network reading to the metrics
  loop, so a round is modelled as one step on the agent. The world stands for everything outside.
  Logging has no effect on the state and is not modelled, except for the core-update loop, whose
  local variables exist only to decide what to log.
\<close>

section \<open>State and environment\<close>

text \<open>
  The services the agent talks to, the variable \<^verbatim>\<open>xrayCoreChecker\<close>, and the parameters that stand
  for what the language leaves open: the order of a range over a map, the Unicode case table and the
  order of equal elements after sorting.
\<close>

record ('w, 'c, 'm) agent_env =
  e_http :: "'w http_env"
  e_xray :: "('w, 'c, 'm) xray_api"
  e_stats :: "'w stats_api"
  e_host :: "'w host_api"
  e_coreCheck :: "string \<Rightarrow> 'w \<Rightarrow> CheckResult option go_result \<times> 'w"
  e_ord :: "string range_order"
  e_unicode :: "string \<Rightarrow> string"
  e_srt :: "OnlineUserInfo sort_func"

record Agent =
  a_cfg :: Config
  a_ctrl :: CtrlClient
  a_hasStats :: bool
  a_metrics :: "MetricsCollector option"
  a_state :: Store
  a_statsSnapshot :: "(string, usage) gomap"

definition New_Agent :: "Config \<Rightarrow> CtrlClient \<Rightarrow> bool \<Rightarrow> MetricsCollector option \<Rightarrow> Agent" where
  "New_Agent cfg ctrl hasStats metricsCollector =
     \<lparr>a_cfg = cfg, a_ctrl = ctrl, a_hasStats = hasStats, a_metrics = metricsCollector,
      a_state = New_Store, a_statsSnapshot = []\<rparr>"

section \<open>Synchronisation\<close>

definition syncState ::
  "('w, 'c, 'm) agent_env \<Rightarrow> bool \<Rightarrow> Agent \<Rightarrow> 'w \<Rightarrow> go_error option \<times> Agent \<times> 'w" where
  "syncState env assumeEmptyRuntime a w =
     (case GetState (e_http env) (a_ctrl a) w of
        (Inl err, w1) \<Rightarrow> (Some err, a, w1)
      | (Inr ds, w1) \<Rightarrow>
          (let normalizedRoutes = fst (NormalizeRouteRules (st_Routes ds)) in
           if \<not> assumeEmptyRuntime \<and> IsUnchanged (a_state a) (st_ConfigVersion ds) (st_Clients ds) normalizedRoutes
           then (None, a, w1)
           else
             (let current = (if assumeEmptyRuntime then [] else ClientsSnapshot (a_state a));
                  currentRoutes = (if assumeEmptyRuntime then [] else RoutesSnapshot (a_state a)) in
              case Manager_State (a_cfg a) (e_xray env) (e_ord env) current (st_Clients ds) currentRoutes
                     normalizedRoutes w1 of
                (changed, Some err, w2) \<Rightarrow> (Some err, a, w2)
              | (changed, None, w2) \<Rightarrow>
                  (None, a\<lparr>a_state := Update (a_state a) (st_ConfigVersion ds) (st_Clients ds) normalizedRoutes\<rparr>, w2))))"

definition syncStateOnce :: "('w, 'c, 'm) agent_env \<Rightarrow> Agent \<Rightarrow> 'w \<Rightarrow> go_error option \<times> Agent \<times> 'w" where
  "syncStateOnce env a w = syncState env False a w"

definition syncStateAfterRuntimeReset :: "('w, 'c, 'm) agent_env \<Rightarrow> Agent \<Rightarrow> 'w \<Rightarrow> go_error option \<times> Agent \<times> 'w" where
  "syncStateAfterRuntimeReset env a w = syncState env True a w"

text \<open>The body of the state loop: an error is logged and the loop goes on.\<close>

definition stateRound :: "('w, 'c, 'm) agent_env \<Rightarrow> Agent \<Rightarrow> 'w \<Rightarrow> Agent \<times> 'w" where
  "stateRound env a w = snd (syncStateOnce env a w)"

section \<open>Statistics\<close>

definition usersOf :: "(string \<Rightarrow> string) \<Rightarrow> string list \<Rightarrow> (string, usage) gomap \<Rightarrow> UserUsage list" where
  "usersOf unicode emails statsMap =
     List.map_filter (\<lambda>email.
       case go_get statsMap email of
         None \<Rightarrow> None
       | Some usage \<Rightarrow> Some \<lparr>uu_Email = ToLower unicode email, uu_Uplink = fst usage, uu_Downlink = snd usage\<rparr>) emails"

definition statsRound :: "('w, 'c, 'm) agent_env \<Rightarrow> Agent \<Rightarrow> 'w \<Rightarrow> Agent \<times> 'w" where
  "statsRound env a w =
     (let emails0 = Emails (e_ord env) (a_state a) in
      if length emails0 > 0 then
        (let emails = sort emails0 in
         case QueryUserBytes (a_cfg a) (e_stats env) emails w of
           (Inl err, w1) \<Rightarrow> (a, w1)
         | (Inr statsMap0, w1) \<Rightarrow>
             (let (statsMap, snapshot) =
                    (if \<not> StatsResetEachPush (Xray (a_cfg a))
                     then normalizeStatsDeltas (e_unicode env) (e_ord env) (a_statsSnapshot a) statsMap0
                     else (statsMap0, if go_len (a_statsSnapshot a) > 0 then [] else a_statsSnapshot a));
                  a' = a\<lparr>a_statsSnapshot := snapshot\<rparr>;
                  users = usersOf (e_unicode env) emails statsMap
              in if length users > 0 then
                   (case p_Now (e_host env) w1 of
                      (now, w2) \<Rightarrow>
                        (a', snd (PostStats (e_http env) (a_ctrl a) \<lparr>sp_ServerTime = now, sp_Users = users\<rparr> w2)))
                 else (a', w1)))
      else (a, w))"

section \<open>Online users\<close>

definition lowerIndex :: "(string \<Rightarrow> string) \<Rightarrow> (string \<times> Client) list \<Rightarrow> (string, Client) gomap" where
  "lowerIndex unicode cs = foldl (\<lambda>m ec. go_set (ToLower unicode (fst ec)) (snd ec) m) [] cs"

definition fillProto :: "(string \<Rightarrow> string) \<Rightarrow> (string, Client) gomap \<Rightarrow> OnlineUserInfo \<Rightarrow> OnlineUserInfo" where
  "fillProto unicode byEmail user =
     (let u = user\<lparr>ou_Email := ToLower unicode (ou_Email user)\<rparr> in
      case go_get byEmail (ou_Email u) of
        Some client \<Rightarrow> if ou_Proto u = [] then u\<lparr>ou_Proto := c_Proto client\<rparr> else u
      | None \<Rightarrow> u)"

definition collectOnlineSnapshot ::
  "('w, 'c, 'm) agent_env \<Rightarrow> Agent \<Rightarrow> 'w \<Rightarrow> OnlineUsersPush go_result \<times> 'w" where
  "collectOnlineSnapshot env a w =
     (case OnlineUsers (a_cfg a) (e_stats env) (e_unicode env) (e_ord env) (e_srt env) w of
        (Inl err, w1) \<Rightarrow> (Inl err, w1)
      | (Inr users, w1) \<Rightarrow>
          (let byEmail = lowerIndex (e_unicode env) (go_range (e_ord env) (ClientsSnapshot (a_state a)));
               users' = e_srt env ou_Email (map (fillProto (e_unicode env) byEmail) users)
           in case p_Now (e_host env) w1 of
                (now, w2) \<Rightarrow> (Inr \<lparr>op_ServerTime = now, op_Users = users'\<rparr>, w2)))"

definition onlineRound :: "('w, 'c, 'm) agent_env \<Rightarrow> Agent \<Rightarrow> 'w \<Rightarrow> Agent \<times> 'w" where
  "onlineRound env a w =
     (if \<not> a_hasStats a then (a, w)
      else case collectOnlineSnapshot env a w of
        (Inl err, w1) \<Rightarrow> (a, w1)
      | (Inr payload, w1) \<Rightarrow> (a, snd (PostOnlineUsers (e_http env) (a_ctrl a) (Some payload) w1)))"

section \<open>Heartbeat, metrics and the check for core updates\<close>

definition heartbeatRound :: "('w, 'c, 'm) agent_env \<Rightarrow> Agent \<Rightarrow> 'w \<Rightarrow> Agent \<times> 'w" where
  "heartbeatRound env a w = (a, snd (Heartbeat (e_http env) (a_ctrl a) w))"

definition collectXraySysStats :: "('w, 'c, 'm) agent_env \<Rightarrow> Agent \<Rightarrow> 'w \<Rightarrow> XraySysStats option \<times> 'w" where
  "collectXraySysStats env a w =
     (if \<not> a_hasStats a then (None, w)
      else case SysStats (a_cfg a) (e_stats env) w of
        (Inl err, w1) \<Rightarrow> (None, w1)
      | (Inr st, w1) \<Rightarrow> (Some st, w1))"

definition collectMetricsSample ::
  "('w, 'c, 'm) agent_env \<Rightarrow> Agent \<Rightarrow> 'w \<Rightarrow> ServerMetricPush option \<times> Agent \<times> 'w" where
  "collectMetricsSample env a w =
     (let (sample, a1, w1) =
            (case a_metrics a of
               None \<Rightarrow> (None, a, w)
             | Some m \<Rightarrow> (case Sample (e_host env) m w of (s, m', w1) \<Rightarrow> (s, a\<lparr>a_metrics := Some m'\<rparr>, w1)))
      in case collectXraySysStats env a1 w1 of
           (None, w2) \<Rightarrow> (sample, a1, w2)
         | (Some sysStats, w2) \<Rightarrow>
             (case sample of
                Some s \<Rightarrow> (Some (s\<lparr>sm_XraySysStats := Some sysStats\<rparr>), a1, w2)
              | None \<Rightarrow>
                  (case p_Now (e_host env) w2 of
                     (now, w3) \<Rightarrow> (Some ((emptySample now)\<lparr>sm_XraySysStats := Some sysStats\<rparr>), a1, w3))))"

definition metricsRound :: "('w, 'c, 'm) agent_env \<Rightarrow> Agent \<Rightarrow> 'w \<Rightarrow> Agent \<times> 'w" where
  "metricsRound env a w =
     (if a_metrics a = None \<and> \<not> a_hasStats a then (a, w)
      else case collectMetricsSample env a w of
        (None, a1, w1) \<Rightarrow> (a1, w1)
      | (Some s, a1, w1) \<Rightarrow> (a1, snd (PostMetrics (e_http env) (a_ctrl a1) (Some s) w1)))"

definition checkCoreUpdateOnce :: "('w, 'c, 'm) agent_env \<Rightarrow> Agent \<Rightarrow> 'w \<Rightarrow> CheckResult option go_result \<times> 'w" where
  "checkCoreUpdateOnce env a w = e_coreCheck env (GitHubToken (a_cfg a)) w"

record CoreLoop =
  cl_lastInstalled :: string
  cl_lastLatest :: string
  cl_lastUpdateAvailable :: bool
  cl_hasLastResult :: bool

definition New_CoreLoop :: CoreLoop where
  "New_CoreLoop = \<lparr>cl_lastInstalled = [], cl_lastLatest = [], cl_lastUpdateAvailable = False, cl_hasLastResult = False\<rparr>"

datatype core_log = CheckFailed | UpdateAvailableLog string string | UpToDateLog string string

definition coreRound ::
  "('w, 'c, 'm) agent_env \<Rightarrow> CoreLoop \<Rightarrow> Agent \<Rightarrow> 'w \<Rightarrow> core_log option \<times> CoreLoop \<times> Agent \<times> 'w" where
  "coreRound env l a w =
     (case checkCoreUpdateOnce env a w of
        (Inl err, w1) \<Rightarrow> (Some CheckFailed, l, a, w1)
      | (Inr None, w1) \<Rightarrow> (None, l, a, w1)
      | (Inr (Some res), w1) \<Rightarrow>
          (let a' = (if ck_InstalledVersion res \<noteq> []
                     then a\<lparr>a_ctrl := SetXrayCoreVersion (ck_InstalledVersion res) (a_ctrl a)\<rparr> else a) in
           if \<not> cl_hasLastResult l \<or> cl_lastInstalled l \<noteq> ck_InstalledVersion res
              \<or> cl_lastLatest l \<noteq> ck_LatestVersion res \<or> cl_lastUpdateAvailable l \<noteq> ck_UpdateAvailable res
           then (Some (if ck_UpdateAvailable res then UpdateAvailableLog (ck_InstalledVersion res) (ck_LatestVersion res)
                       else UpToDateLog (ck_InstalledVersion res) (ck_LatestVersion res)),
                 \<lparr>cl_lastInstalled = ck_InstalledVersion res, cl_lastLatest = ck_LatestVersion res,
                  cl_lastUpdateAvailable = ck_UpdateAvailable res, cl_hasLastResult = True\<rparr>, a', w1)
           else (None, l, a', w1)))"

end
