(* ===== verification/Xray_Sim.thy ===== *)
theory Xray_Sim
  imports Xray_Reconcile
begin

text \<open>
  A small Xray that satisfies the contracts of the services: a table of users, a list of rules,
  an error for adding a user that exists and for removing one that does not. It shows that the
  hypotheses of the reconciliation theorems can hold together, and the witnesses run on it.
\<close>

record Sim =
  sim_users :: "string \<times> string \<Rightarrow> account option"
  sim_rules :: "json list"

definition sim_tag :: "json \<Rightarrow> string" where
  "sim_tag m =
     (case m of
        JObj ms \<Rightarrow> (case map_of ms ''ruleTag'' of Some (JStr t) \<Rightarrow> t | _ \<Rightarrow> [])
      | _ \<Rightarrow> [])"

definition sim_alter :: "int64 \<Rightarrow> string \<Rightarrow> inbound_op \<Rightarrow> 'a Sim_scheme \<Rightarrow> go_error option \<times> 'a Sim_scheme" where
  "sim_alter d tag op w =
     (case op of
        AddUserOperation u \<Rightarrow>
          if sim_users w (tag, u_Email u) \<noteq> None then (Some (ErrExt 1 ''User already exists.''), w)
          else (None, w\<lparr>sim_users := (sim_users w)((tag, u_Email u) \<mapsto> u_Account u)\<rparr>)
      | RemoveUserOperation e \<Rightarrow>
          if sim_users w (tag, e) = None then (Some (ErrExt 2 ''User not found.''), w)
          else (None, w\<lparr>sim_users := (sim_users w)((tag, e) := None)\<rparr>))"

definition sim_api :: "('a Sim_scheme, json, json) xray_api" where
  "sim_api =
     \<lparr>x_NewClient = (\<lambda>_ w. (None, w)),
      x_AlterInbound = sim_alter,
      x_RemoveRule = (\<lambda>_ t w. (None, w\<lparr>sim_rules := filter (\<lambda>m. sim_tag m \<noteq> t) (sim_rules w)\<rparr>)),
      x_AddRule = (\<lambda>_ m app w. (None, w\<lparr>sim_rules := (if app then sim_rules w else []) @ [m]\<rparr>)),
      x_Build = (\<lambda>rs. case rs of r # _ \<Rightarrow> Inr r | [] \<Rightarrow> Inl (ErrExt 3 ''empty'')),
      x_ToTypedMessage = Some,
      x_FromError = (\<lambda>_. None),
      x_unicode = (\<lambda>s. s)\<rparr>"

lemma sim_api_simps [simp]:
  "x_NewClient sim_api t w = (None, w)"
  "x_AlterInbound sim_api d tag op w = sim_alter d tag op w"
  "x_RemoveRule sim_api d t w = (None, w\<lparr>sim_rules := filter (\<lambda>m. sim_tag m \<noteq> t) (sim_rules w)\<rparr>)"
  "x_AddRule sim_api d m app w = (None, w\<lparr>sim_rules := (if app then sim_rules w else []) @ [m]\<rparr>)"
  "x_Build sim_api (j # js) = Inr j" "x_ToTypedMessage sim_api j = Some j"
  "x_FromError sim_api e = None" "x_unicode sim_api s = s"
  by (simp_all add: sim_api_def)

lemma sim_handler: "handler_contract (sim_api :: ('a Sim_scheme, json, json) xray_api) (\<lambda>e. e) sim_users"
  by (auto simp: handler_contract_def sim_alter_def split: if_splits)

lemma map_of_sort_key: "go_wf m \<Longrightarrow> map_of (sort_key fst m) = map_of m"
proof -
  assume "go_wf m"
  then have "distinct (map fst m)" by (simp add: go_wf_def)
  moreover from this have "distinct (map fst (sort_key fst m))"
    by (metis mset_eq_imp_distinct_iff mset_map mset_sort)
  ultimately show ?thesis by (simp add: map_of_inject_set)
qed

lemma sim_tag_fieldRule: "sim_tag (jsonOfMap (fieldRule r)) = r_Tag r"
proof -
  have "go_wf (fieldRule r)" by (simp add: fieldRule_def Let_def)
  moreover have "go_get (fieldRule r) ''ruleTag'' = Some (JStr (r_Tag r))"
    by (simp add: fieldRule_def Let_def)
  ultimately show ?thesis
    by (simp add: sim_tag_def jsonOfMap_def map_of_sort_key go_get_def)
qed

lemma sim_routing: "routing_contract (sim_api :: ('a Sim_scheme, json, json) xray_api) sim_tag sim_rules"
  by (auto simp: routing_contract_def sim_tag_fieldRule)

lemma sim_buildRoutingConfig:
  "buildRoutingConfig sim_api r =
     (if r_Tag r = [] then Inl (ErrText ''route tag required'')
      else if r_OutboundTag r = [] \<and> r_BalancerTag r = []
      then Inl (ErrText (''route '' @ r_Tag r @ '': outbound_tag or balancer_tag required''))
      else Inr (jsonOfMap (fieldRule r)))"
  by (simp add: buildRoutingConfig_def)

lemma sim_addRoute:
  "buildRoutingConfig (sim_api :: ('a Sim_scheme, json, json) xray_api) r = Inr m \<Longrightarrow>
   addRoute cfg (sim_api :: ('a Sim_scheme, json, json) xray_api) r w = (None, w\<lparr>sim_rules := filter (\<lambda>m. sim_tag m \<noteq> r_Tag r) (sim_rules w) @ [m]\<rparr>)"
  by (simp add: addRoute_def removeRoute_def buildRoutingConfig_Inr)

lemma sim_strict: "strict_removal (sim_api :: ('a Sim_scheme, json, json) xray_api) (\<lambda>e. e) sim_users"
  by (simp add: strict_removal_def sim_alter_def)

section \<open>Witnesses\<close>

definition sim0 :: Sim where
  "sim0 = \<lparr>sim_users = (\<lambda>_. None), sim_rules = []\<rparr>"

definition client_a :: Client where
  "client_a = \<lparr>c_Proto = ''vless'', c_ID = ''1'', c_Password = [], c_Email = ''a''\<rparr>"

definition client_a2 :: Client where
  "client_a2 = \<lparr>c_Proto = ''vless'', c_ID = ''2'', c_Password = [], c_Email = ''a''\<rparr>"

definition route_r :: RouteRule where
  "route_r = \<lparr>r_Tag = ''ads'', r_OutboundTag = ''blocked'', r_BalancerTag = [], r_Domain = [''geosite:ads''],
     r_IP = [], r_Port = [], r_SourcePort = [], r_InboundTag = [], r_Protocol = []\<rparr>"

definition route_r2 :: RouteRule where
  "route_r2 = route_r\<lparr>r_OutboundTag := ''direct''\<rparr>"

definition route_s :: RouteRule where
  "route_s = route_r\<lparr>r_Tag := ''local''\<rparr>"

lemmas sim_simps = sim0_def client_a_def client_a2_def route_r_def route_r2_def route_s_def
  sim_alter_def diffClients_def diffRoutes_def go_index_def go_set_def go_get_def go_range_def go_keys_def
  map_filter_simps Let_def equalClient_def equalRouteRule_def applyViaHandler_def applyRoutes_def
  addUser_def removeUser_def addRoute_def removeRoute_def buildUser_def tagForProto_def
  sample_config_def

lemma sim_apply_a:
  "applyViaHandler sample_config sim_api rev [] [client_a] sim0
   = (True, None, sim0\<lparr>sim_users := (sim_users sim0)((''v'', ''a'') \<mapsto> VlessAccount ''1'' ''none'')\<rparr>)"
  by (simp add: sim_simps)

theorem users_reconciled_witness:
  "users_in_sync sample_config (\<lambda>e. e) (set [client_a])
     (sim_users (sim0\<lparr>sim_users := (sim_users sim0)((''v'', ''a'') \<mapsto> VlessAccount ''1'' ''none'')\<rparr>))"
  by (rule users_reconciled [OF sim_handler _ _ _ _ _ sim_apply_a])
    (simp_all add: ran_def users_in_sync_def sim0_def)

lemma sim_built:
  "buildRoutingConfig sim_api route_r = Inr (jsonOfMap (fieldRule route_r))"
  "buildRoutingConfig sim_api route_r2 = Inr (jsonOfMap (fieldRule route_r2))"
  "buildRoutingConfig sim_api route_s = Inr (jsonOfMap (fieldRule route_s))"
  by (simp_all add: sim_buildRoutingConfig route_r_def route_r2_def route_s_def)

lemma sim_apply_r:
  "applyRoutes sample_config sim_api rev [] [route_r] sim0
   = (True, None, sim0\<lparr>sim_rules := [jsonOfMap (fieldRule route_r)]\<rparr>)"
proof -
  have "diffRoutes rev [] [route_r] = ([route_r], [])"
    by (simp add: diffRoutes_def Let_def go_range_def go_keys_def map_filter_simps)
  then show ?thesis
    by (simp add: applyRoutes_def sim_addRoute [OF sim_built(1)]) (simp add: sim0_def)
qed

theorem routes_applied_witness:
  "\<exists>ms. sim_rules (sim0\<lparr>sim_rules := [jsonOfMap (fieldRule route_r)]\<rparr>) = filter (\<lambda>m. sim_tag m \<notin> {''ads''}) [] @ ms"
  using routes_applied [OF sim_routing _ sim_apply_r] by simp

theorem routes_reconciled_witness:
  "routes_in_sync (sim_api :: (Sim, json, json) xray_api) sim_tag (set (fst (NormalizeRouteRules [route_r])))
     (sim_rules (sim0\<lparr>sim_rules := [jsonOfMap (fieldRule route_r)]\<rparr>))"
  by (rule routes_reconciled [OF sim_routing _ _ _ sim_apply_r])
    (simp_all add: routes_in_sync_def ran_def sim0_def)

theorem unchanged_users_untouched_witness:
  "sim_users (snd (snd (applyViaHandler sample_config sim_api rev (go_index c_Email [client_a]) [client_a] sim0)))
     (userKey sample_config (\<lambda>e. e) client_a) = sim_users sim0 (userKey sample_config (\<lambda>e. e) client_a)"
  by (rule unchanged_users_untouched [OF sim_handler])
    (simp_all add: last_with_def ran_def inj_on_def)

theorem nothing_to_apply_witness:
  "Manager_State sample_config sim_api rev (go_index c_Email [client_a]) [client_a] [] [] sim0 = (False, None, sim0)"
  by (rule nothing_to_apply) (simp_all add: fun_eq_iff)

theorem repeated_email_reverts_credentials_witness:
  "\<exists>w'. applyViaHandler sample_config sim_api rev (go_index c_Email [client_a, client_a2]) [client_a, client_a2]
          (sim0\<lparr>sim_users := (sim_users sim0)((''v'', ''a'') \<mapsto> VlessAccount ''2'' ''none'')\<rparr>) = (True, None, w')
     \<and> sim_users w' (userKey sample_config (\<lambda>e. e) client_a) = accountOf client_a"
proof -
  let ?w = "sim0\<lparr>sim_users := (sim_users sim0)((''v'', ''a'') \<mapsto> VlessAccount ''2'' ''none'')\<rparr>"
  let ?w' = "sim0\<lparr>sim_users := (sim_users sim0)((''v'', ''a'') := None, (''v'', ''a'') \<mapsto> VlessAccount ''1'' ''none'')\<rparr>"
  have run: "applyViaHandler sample_config sim_api rev (go_index c_Email [client_a, client_a2]) [client_a, client_a2] ?w
      = (True, None, ?w')"
    by (simp add: sim_simps)
  have "sim_users ?w' (userKey sample_config (\<lambda>e. e) client_a) = accountOf client_a"
    by (rule repeated_email_reverts_credentials [OF sim_handler _ _ _ run, THEN conjunct1])
      (simp_all add: client_a_def client_a2_def)
  with run show ?thesis by blast
qed

theorem route_update_changes_order_witness:
  "\<exists>mr'. sim_rules (sim0\<lparr>sim_rules := [jsonOfMap (fieldRule route_s), jsonOfMap (fieldRule route_r2)]\<rparr>)
     = [jsonOfMap (fieldRule route_s), mr']"
proof -
  let ?w = "sim0\<lparr>sim_rules := [jsonOfMap (fieldRule route_r), jsonOfMap (fieldRule route_s)]\<rparr>"
  let ?w' = "sim0\<lparr>sim_rules := [jsonOfMap (fieldRule route_s), jsonOfMap (fieldRule route_r2)]\<rparr>"
  have tags: "r_Tag route_r2 = r_Tag route_r" "r_Tag route_s \<noteq> r_Tag route_r" "r_Tag route_r \<noteq> []" "route_r2 \<noteq> route_r"
    by (simp_all add: route_r_def route_r2_def route_s_def)
  have "diffRoutes rev (go_index r_Tag [route_r, route_s]) [route_r2, route_s] = ([route_r2], [route_r])"
    by (simp add: sim_simps)
  then have run: "applyRoutes sample_config sim_api rev (go_index r_Tag [route_r, route_s]) [route_r2, route_s] ?w
      = (True, None, ?w')"
    using tags
    by (simp add: applyRoutes_def sim_addRoute [OF sim_built(2)] removeRoute_def sim_tag_fieldRule)
  show ?thesis
    using route_update_changes_order [OF sim_routing _ tags(1,2,4) sim_built(1,3) _ run] by auto
qed

theorem unrecorded_removal_blocks_witness:
  "\<exists>err w'. applyViaHandler sample_config sim_api rev (go_index c_Email [client_a]) [] sim0 = (False, Some err, w')
     \<and> sim_users w' (userKey sample_config (\<lambda>e. e) client_a) = None"
  by (rule unrecorded_removal_blocks [OF sim_handler sim_strict])
    (simp_all add: last_with_def sim0_def)

end
