(* ===== verification/Agent_Sync.thy ===== *)
theory Agent_Sync
  imports Agent_Core Xray_Sim
begin

text \<open>
  What a synchronisation achieves: it brings the running Xray and the store to the state of the
  control panel together, it changes nothing of the agent when it fails, it makes no call when there
  is nothing to do, and after a restart of Xray it restores everything only because the agent
  forces it. The last theorem shows the situation in which the state loop fails for ever.
\<close>

section \<open>The runtime as a whole\<close>

text \<open>
  The contracts of both services, and that users and rules are independent of each other and of the
  traffic with the control panel.
\<close>

definition runtime_contract ::
  "('w, 'c, 'm) agent_env \<Rightarrow> (string \<Rightarrow> string) \<Rightarrow> 'w users_view \<Rightarrow> ('m \<Rightarrow> string) \<Rightarrow> ('w, 'm) rules_view \<Rightarrow> bool" where
  "runtime_contract env nrm users tagOf rules \<longleftrightarrow>
     handler_contract (e_xray env) nrm users \<and> routing_contract (e_xray env) tagOf rules
     \<and> range_order (e_ord env)
     \<and> (\<forall>d tag op w. rules (snd (x_AlterInbound (e_xray env) d tag op w)) = rules w)
     \<and> (\<forall>d t w. users (snd (x_RemoveRule (e_xray env) d t w)) = users w)
     \<and> (\<forall>d m b w. users (snd (x_AddRule (e_xray env) d m b w)) = users w)
     \<and> (\<forall>req w. users (snd (h_Do (e_http env) req w)) = users w \<and> rules (snd (h_Do (e_http env) req w)) = rules w)"

text \<open>The running Xray holds exactly what the store says was applied.\<close>

definition in_force ::
  "('w, 'c, 'm) agent_env \<Rightarrow> Config \<Rightarrow> (string \<Rightarrow> string) \<Rightarrow> 'w users_view \<Rightarrow> ('m \<Rightarrow> string) \<Rightarrow> ('w, 'm) rules_view
   \<Rightarrow> Store \<Rightarrow> 'w \<Rightarrow> bool" where
  "in_force env cfg nrm users tagOf rules s w \<longleftrightarrow>
     users_in_sync cfg nrm (ran (go_get (s_clients s))) (users w)
     \<and> routes_in_sync (e_xray env) tagOf (ran (go_get (s_routes s))) (rules w)"

lemma GetState_frame:
  assumes "\<And>req w. V (snd (h_Do env req w)) = V w"
  shows "V (snd (GetState env c w)) = V w"
proof (cases "h_NewRequest env ''GET'' (agentURL c ''/state'')")
  case None
  with GetState_sends(1) [OF None, of w] assms show ?thesis by simp
qed (simp add: GetState_def)

lemma applyViaHandler_frame_rules:
  assumes new: "\<And>t w. V (snd (x_NewClient api t w)) = V w"
    and alter: "\<And>d tag op w. V (snd (x_AlterInbound api d tag op w)) = V w"
  shows "V (snd (snd (applyViaHandler cfg api ord current desired w))) = V w"
proof -
  have rem1: "V (snd (removeUser cfg api c v)) = V v" for c v
    by (simp add: removeUser_def alter Let_def)
  have add1: "V (snd (addUser cfg api c v)) = V v" for c v
    using rem1 by (auto simp: addUser_def alter Let_def split: sum.split)
  have rem: "V (snd (forEach (removeUser cfg api) cs v)) = V v" for cs v
    by (rule forEach_invariant [where P = "\<lambda>u. V u = V v"]) (simp_all add: rem1)
  have add: "V (snd (forEach (addUser cfg api) cs v)) = V v" for cs v
    by (rule forEach_invariant [where P = "\<lambda>u. V u = V v"]) (simp_all add: add1)
  show ?thesis
    using new [of "APIServer (Xray cfg)" w] rem add
    by (auto simp: applyViaHandler_def split: prod.splits option.splits) (metis snd_conv)+
qed

lemma applyRoutes_frame_users:
  assumes new: "\<And>t w. V (snd (x_NewClient api t w)) = V w"
    and rm: "\<And>d t w. V (snd (x_RemoveRule api d t w)) = V w"
    and ad: "\<And>d m b w. V (snd (x_AddRule api d m b w)) = V w"
  shows "V (snd (snd (applyRoutes cfg api ord current desired w))) = V w"
proof -
  have rem1: "V (snd (removeRoute cfg api c v)) = V v" for c v
    by (simp add: removeRoute_def rm Let_def)
  have add1: "V (snd (addRoute cfg api c v)) = V v" for c v
    using rem1 [of c v] by (auto simp: addRoute_def ad Let_def split: sum.split prod.split option.split)
  have rem: "V (snd (forEach (removeRoute cfg api) cs v)) = V v" for cs v
    by (rule forEach_invariant [where P = "\<lambda>u. V u = V v"]) (simp_all add: rem1)
  have add: "V (snd (forEach (addRoute cfg api) cs v)) = V v" for cs v
    by (rule forEach_invariant [where P = "\<lambda>u. V u = V v"]) (simp_all add: add1)
  show ?thesis
    using new [of "APIServer (Xray cfg)" w] rem add
    by (auto simp: applyRoutes_def split: prod.splits option.splits) (metis snd_conv)+
qed

text \<open>Applying both parts brings both views to the desired state.\<close>

lemma Manager_State_converges:
  assumes con: "runtime_contract env nrm users tagOf rules"
    and wf: "keyed_by c_Email cur" "keyed_by r_Tag curR"
    and inj: "inj_on (\<lambda>c. nrm (c_Email c)) (ran (go_get cur))" "distinct (map (\<lambda>c. nrm (c_Email c)) cs)"
    and sync: "users_in_sync cfg nrm (ran (go_get cur)) (users w)"
      "routes_in_sync (e_xray env) tagOf (ran (go_get curR)) (rules w)"
    and run: "Manager_State cfg (e_xray env) (e_ord env) cur cs curR rs w = (changed, None, w')"
  shows "users_in_sync cfg nrm (set cs) (users w')"
    and "routes_in_sync (e_xray env) tagOf (set (fst (NormalizeRouteRules rs))) (rules w')"
proof -
  from run obtain ch w1 ch2 where h: "applyViaHandler cfg (e_xray env) (e_ord env) cur cs w = (ch, None, w1)"
    and r: "applyRoutes cfg (e_xray env) (e_ord env) curR rs w1 = (ch2, None, w')"
    by (auto simp: Manager_State_def split: prod.splits option.splits)
  have hc: "handler_contract (e_xray env) nrm users" and rc: "routing_contract (e_xray env) tagOf rules"
    and ord: "range_order (e_ord env)" using con by (simp_all add: runtime_contract_def)
  have "rules w1 = rules w"
    using applyViaHandler_frame_rules [of rules "e_xray env" cfg "e_ord env" cur cs w] con h
    by (auto simp: runtime_contract_def routing_contract_def)
  then have "routes_in_sync (e_xray env) tagOf (ran (go_get curR)) (rules w1)" using sync(2) by simp
  then show "routes_in_sync (e_xray env) tagOf (set (fst (NormalizeRouteRules rs))) (rules w')"
    by (rule routes_converge [OF rc ord wf(2) _ r])
  have "users w' = users w1"
    using applyRoutes_frame_users [of users "e_xray env" cfg "e_ord env" curR rs w1] con r
    by (auto simp: runtime_contract_def handler_contract_def)
  with users_converge [OF hc ord wf(1) inj sync(1) h] show "users_in_sync cfg nrm (set cs) (users w')" by simp
qed

lemma ran_last_with: "distinct (map key xs) \<Longrightarrow> ran (last_with key xs) = set xs"
  by (auto simp: ran_def last_with_distinct_iff)

lemma go_get_index_fun: "go_get (go_index key xs) = last_with key xs"
  by (rule ext) simp

lemma ran_go_get_empty [simp]: "ran (go_get []) = {}"
  by (simp add: ran_def)

lemma New_Store_simps [simp]: "s_clients New_Store = []" "s_routes New_Store = []"
  by (simp_all add: New_Store_def)

lemma distinct_emails: "distinct (map (\<lambda>c. nrm (c_Email c)) cs) \<Longrightarrow> distinct (map c_Email cs)"
  by (auto simp: distinct_map inj_on_def)

section \<open>A successful synchronisation\<close>

lemma syncState_cases:
  assumes "syncState env force a w = (None, a', w')"
  obtains ds w1 where "GetState (e_http env) (a_ctrl a) w = (Inr ds, w1)"
    and "\<not> force \<and> IsUnchanged (a_state a) (st_ConfigVersion ds) (st_Clients ds) (fst (NormalizeRouteRules (st_Routes ds)))
         \<and> a' = a \<and> w' = w1
       \<or> (\<exists>changed. Manager_State (a_cfg a) (e_xray env) (e_ord env)
            (if force then [] else ClientsSnapshot (a_state a)) (st_Clients ds)
            (if force then [] else RoutesSnapshot (a_state a)) (fst (NormalizeRouteRules (st_Routes ds))) w1 = (changed, None, w')
         \<and> a' = a\<lparr>a_state := Update (a_state a) (st_ConfigVersion ds) (st_Clients ds) (fst (NormalizeRouteRules (st_Routes ds)))\<rparr>)"
proof (cases "GetState (e_http env) (a_ctrl a) w")
  case (Pair r w1)
  show ?thesis
  proof (cases r)
    case (Inl e)
    with Pair assms show ?thesis by (simp add: syncState_def)
  next
    case (Inr ds)
    with Pair assms show ?thesis
      by (intro that [of ds w1]) (auto simp: syncState_def Let_def split: if_splits prod.splits option.splits)
  qed
qed

lemma in_forceI:
  "users_in_sync cfg nrm (ran (go_get (s_clients s))) (users w) \<Longrightarrow>
   routes_in_sync (e_xray env) tagOf (ran (go_get (s_routes s))) (rules w) \<Longrightarrow>
   in_force env cfg nrm users tagOf rules s w"
  by (simp add: in_force_def)

lemma syncState_ok:
  assumes "syncState env force a w = (None, a', w')" and "GetState (e_http env) (a_ctrl a) w = (Inr ds, w1)"
  obtains (same) "\<not> force" "IsUnchanged (a_state a) (st_ConfigVersion ds) (st_Clients ds) (fst (NormalizeRouteRules (st_Routes ds)))"
      "a' = a" "w' = w1"
  | (applied) changed where "Manager_State (a_cfg a) (e_xray env) (e_ord env)
        (if force then [] else ClientsSnapshot (a_state a)) (st_Clients ds)
        (if force then [] else RoutesSnapshot (a_state a)) (fst (NormalizeRouteRules (st_Routes ds))) w1 = (changed, None, w')"
      "a' = a\<lparr>a_state := Update (a_state a) (st_ConfigVersion ds) (st_Clients ds) (fst (NormalizeRouteRules (st_Routes ds)))\<rparr>"
  using assms(1)
proof (rule syncState_cases, goal_cases)
  case (1 ds' w1')
  then have eq: "ds' = ds" "w1' = w1" using assms(2) by simp_all
  show ?case using 1(4) unfolding eq by (auto intro: same applied)
qed

text \<open>What is in force after an application that starts from the store \<open>s\<close>.\<close>

lemma applied_in_force:
  assumes con: "runtime_contract env nrm users tagOf rules" and wf: "store_wf s"
    and inj: "inj_on (\<lambda>c. nrm (c_Email c)) (ran (go_get (s_clients s)))"
    and dist: "distinct (map (\<lambda>c. nrm (c_Email c)) cs)" and before: "in_force env cfg nrm users tagOf rules s w"
    and dR: "distinct (map r_Tag rs)"
    and run: "Manager_State cfg (e_xray env) (e_ord env) (s_clients s) cs (s_routes s) rs w = (changed, None, w')"
  shows "in_force env cfg nrm users tagOf rules (Update s' v cs rs) w'"
proof -
  have kb: "keyed_by c_Email (s_clients s)" "keyed_by r_Tag (s_routes s)" using wf by (simp_all add: store_wf_def)
  note conv = Manager_State_converges [OF con kb inj dist _ _ run]
  have b: "users_in_sync cfg nrm (ran (go_get (s_clients s))) (users w)"
    "routes_in_sync (e_xray env) tagOf (ran (go_get (s_routes s))) (rules w)"
    using before by (simp_all add: in_force_def)
  have "fst (NormalizeRouteRules rs) = rs" using dR by (simp add: keep_last_distinct)
  then show ?thesis
    using conv(1) [OF b] conv(2) [OF b] ran_last_with [OF distinct_emails [OF dist]] ran_last_with [OF dR]
    by (simp add: in_force_def Update_def go_get_index_fun)
qed

lemma sync_converges:
  assumes con: "runtime_contract env nrm users tagOf rules" and wf: "store_wf (a_state a)"
    and inj: "inj_on (\<lambda>c. nrm (c_Email c)) (ran (go_get (s_clients (a_state a))))"
    and got: "GetState (e_http env) (a_ctrl a) w = (Inr ds, w1)"
    and dist: "distinct (map (\<lambda>c. nrm (c_Email c)) (st_Clients ds))"
    and before: "in_force env (a_cfg a) nrm users tagOf rules (if force then New_Store else a_state a) w"
    and run: "syncState env force a w = (None, a', w')"
  shows "in_force env (a_cfg a) nrm users tagOf rules (a_state a') w'
    \<and> s_lastVersion (a_state a') = st_ConfigVersion ds
    \<and> go_get (s_clients (a_state a')) = last_with c_Email (st_Clients ds)
    \<and> go_get (s_routes (a_state a')) = last_with r_Tag (st_Routes ds)"
proof -
  let ?R = "fst (NormalizeRouteRules (st_Routes ds))" and ?s = "if force then New_Store else a_state a"
  have d: "distinct (map c_Email (st_Clients ds))" using dist by (rule distinct_emails)
  have dR: "distinct (map r_Tag ?R)" by (simp add: distinct_keep_last)
  have "users w1 = users w" "rules w1 = rules w"
    using GetState_frame [of users "e_http env" "a_ctrl a" w] GetState_frame [of rules "e_http env" "a_ctrl a" w]
      con got by (simp_all add: runtime_contract_def)
  then have now: "in_force env (a_cfg a) nrm users tagOf rules ?s w1" using before by (simp add: in_force_def)
  from run got show ?thesis
  proof (cases rule: syncState_ok)
    case same
    then show ?thesis using now ss.unchanged_sound [OF wf same(2) d dR] by simp
  next
    case (applied changed)
    have cur: "(if force then [] else ClientsSnapshot (a_state a)) = s_clients ?s"
      "(if force then [] else RoutesSnapshot (a_state a)) = s_routes ?s"
      using wf by (simp_all add: New_Store_def)
    have s: "store_wf ?s" using wf by simp
    have i: "inj_on (\<lambda>c. nrm (c_Email c)) (ran (go_get (s_clients ?s)))" using inj by (simp add: New_Store_def ran_def)
    show ?thesis
      using applied_in_force [OF con s i dist now dR applied(1) [unfolded cur]] unfolding applied(2)
      by (simp add: Update_def go_get_index_fun)
  qed
qed

section \<open>A synchronisation that cannot succeed\<close>

text \<open>The rounds of the state loop, with the result of each.\<close>

primrec syncRounds :: "('w, 'c, 'm) agent_env \<Rightarrow> nat \<Rightarrow> Agent \<Rightarrow> 'w \<Rightarrow> go_error option list \<times> Agent \<times> 'w" where
  "syncRounds env 0 a w = ([], a, w)"
| "syncRounds env (Suc n) a w =
     (case syncStateOnce env a w of
        (r, a1, w1) \<Rightarrow> (case syncRounds env n a1 w1 of (rs, a2, w2) \<Rightarrow> (r # rs, a2, w2)))"

text \<open>
  A client that is recorded as applied and whose user is gone, while the panel no longer wants the
  client: the client cannot be removed and cannot be forgotten.
\<close>

definition stuck_client ::
  "('w, 'c, 'm) agent_env \<Rightarrow> (string \<Rightarrow> string) \<Rightarrow> 'w users_view \<Rightarrow> Client \<Rightarrow> Agent \<Rightarrow> 'w \<Rightarrow> bool" where
  "stuck_client env nrm users c a w \<longleftrightarrow>
     store_wf (a_state a) \<and> go_get (s_clients (a_state a)) (c_Email c) = Some c
     \<and> users w (userKey (a_cfg a) nrm c) = None
     \<and> (\<forall>w ds w1. GetState (e_http env) (a_ctrl a) w = (Inr ds, w1) \<longrightarrow>
          distinct (map c_Email (st_Clients ds)) \<and> c \<notin> set (st_Clients ds))"

lemma applyViaHandler_blocked:
  assumes "handler_contract api nrm users" "strict_removal api nrm users" "range_order ord"
    "keyed_by c_Email current" "distinct (map c_Email desired)" "go_get current (c_Email c) = Some c"
    "c \<notin> set desired" "users w (userKey cfg nrm c) = None"
  obtains err w' where "applyViaHandler cfg api ord current desired w = (False, Some err, w')"
    "users w' (userKey cfg nrm c) = None"
  using removal_blocked [OF assms] by blast

lemma stuck_round:
  assumes con: "runtime_contract env nrm users tagOf rules" and strict: "strict_removal (e_xray env) nrm users"
    and stuck: "stuck_client env nrm users c a w"
  shows "\<exists>err w'. syncStateOnce env a w = (Some err, a, w') \<and> stuck_client env nrm users c a w'"
proof -
  have hc: "handler_contract (e_xray env) nrm users" and ord: "range_order (e_ord env)"
    using con by (simp_all add: runtime_contract_def)
  obtain r w1 where got: "GetState (e_http env) (a_ctrl a) w = (r, w1)" by fastforce
  have "users w1 = users w"
    using GetState_frame [of users "e_http env" "a_ctrl a" w] con got by (simp add: runtime_contract_def)
  then have stuck1: "stuck_client env nrm users c a w1" using stuck by (simp add: stuck_client_def)
  show ?thesis
  proof (cases r)
    case (Inl e)
    with got stuck1 show ?thesis by (simp add: syncStateOnce_def syncState_def)
  next
    case (Inr ds)
    let ?R = "fst (NormalizeRouteRules (st_Routes ds))"
    have wf: "store_wf (a_state a)" and c: "go_get (s_clients (a_state a)) (c_Email c) = Some c"
      and d: "distinct (map c_Email (st_Clients ds))" and out: "c \<notin> set (st_Clients ds)"
      and gone: "users w1 (userKey (a_cfg a) nrm c) = None"
      using stuck1 stuck got Inr by (auto simp: stuck_client_def)
    have "\<not> IsUnchanged (a_state a) (st_ConfigVersion ds) (st_Clients ds) ?R"
    proof
      assume "IsUnchanged (a_state a) (st_ConfigVersion ds) (st_Clients ds) ?R"
      from ss.unchanged_sound(2) [OF wf this d] c have "last_with c_Email (st_Clients ds) (c_Email c) = Some c"
        by (simp add: distinct_keep_last)
      with out show False by (auto dest: last_with_SomeD)
    qed
    moreover have "keyed_by c_Email (s_clients (a_state a))" using wf by (simp add: store_wf_def)
    then obtain err w2 where "applyViaHandler (a_cfg a) (e_xray env) (e_ord env) (s_clients (a_state a)) (st_Clients ds) w1
        = (False, Some err, w2)" and "users w2 (userKey (a_cfg a) nrm c) = None"
      using applyViaHandler_blocked [OF hc strict ord _ d c out gone] by blast
    ultimately show ?thesis
      using got Inr stuck1 wf
      by (simp add: syncStateOnce_def syncState_def Let_def Manager_State_def stuck_client_def)
  qed
qed

section \<open>Users the agent does not know\<close>

text \<open>A user of an inbound that neither the store nor the panel's state has.\<close>

definition unknown_user ::
  "('w, 'c, 'm) agent_env \<Rightarrow> (string \<Rightarrow> string) \<Rightarrow> string \<times> string \<Rightarrow> Agent \<Rightarrow> bool" where
  "unknown_user env nrm key a \<longleftrightarrow>
     store_wf (a_state a) \<and> key \<notin> userKey (a_cfg a) nrm ` ran (go_get (s_clients (a_state a)))
     \<and> (\<forall>w ds w1. GetState (e_http env) (a_ctrl a) w = (Inr ds, w1) \<longrightarrow> key \<notin> userKey (a_cfg a) nrm ` set (st_Clients ds))"

lemma unknown_user_round:
  assumes con: "runtime_contract env nrm users tagOf rules" and u: "unknown_user env nrm key a"
    and run: "syncStateOnce env a w = (r, a', w')"
  shows "users w' key = users w key \<and> unknown_user env nrm key a'"
proof -
  have hc: "handler_contract (e_xray env) nrm users" and ord: "range_order (e_ord env)"
    using con by (simp_all add: runtime_contract_def)
  obtain g w1 where got: "GetState (e_http env) (a_ctrl a) w = (g, w1)" by fastforce
  have w1: "users w1 = users w"
    using GetState_frame [of users "e_http env" "a_ctrl a" w] con got by (simp add: runtime_contract_def)
  show ?thesis
  proof (cases g)
    case (Inl e)
    with got run w1 u show ?thesis by (simp add: syncStateOnce_def syncState_def)
  next
    case (Inr ds)
    let ?R = "fst (NormalizeRouteRules (st_Routes ds))" and ?S = "s_clients (a_state a)"
    obtain ch e w2 where m: "Manager_State (a_cfg a) (e_xray env) (e_ord env) ?S (st_Clients ds) (s_routes (a_state a)) ?R w1 = (ch, e, w2)"
      by (cases "Manager_State (a_cfg a) (e_xray env) (e_ord env) ?S (st_Clients ds) (s_routes (a_state a)) ?R w1")
    have wf: "store_wf (a_state a)" and k1: "key \<notin> userKey (a_cfg a) nrm ` ran (go_get ?S)"
      and k2: "key \<notin> userKey (a_cfg a) nrm ` set (st_Clients ds)"
      using u got Inr by (auto simp: unknown_user_def)
    have kb: "keyed_by c_Email ?S" using wf by (simp add: store_wf_def)
    have "set (snd (diffClients (e_ord env) ?S (st_Clients ds))) \<subseteq> ran (go_get ?S)"
      using dc.set_removes [OF ord kb, of "st_Clients ds"] by (auto intro: ranI)
    moreover have "set (fst (diffClients (e_ord env) ?S (st_Clients ds))) \<subseteq> set (st_Clients ds)"
      using dc.adds_filter [OF kb, of "e_ord env" "st_Clients ds"] by auto
    ultimately have "users (snd (snd (applyViaHandler (a_cfg a) (e_xray env) (e_ord env) ?S (st_Clients ds) w1))) key = users w1 key"
      using k1 k2 by (intro applyViaHandler_frame [OF hc]) blast
    moreover have "users (snd (snd (applyRoutes (a_cfg a) (e_xray env) (e_ord env) (s_routes (a_state a)) ?R v))) = users v" for v
      using con by (intro applyRoutes_frame_users) (simp_all add: runtime_contract_def handler_contract_def)
    ultimately have "users (snd (snd (Manager_State (a_cfg a) (e_xray env) (e_ord env) ?S (st_Clients ds) (s_routes (a_state a)) ?R w1))) key
        = users w1 key"
      by (auto simp: Manager_State_def split: prod.split option.split) (metis snd_conv)+
    then have w2: "users w2 key = users w1 key" using m by simp
    have "key \<notin> userKey (a_cfg a) nrm ` ran (last_with c_Email (st_Clients ds))"
      using k2 by (auto simp: ran_def dest: last_with_SomeD)
    then have "unknown_user env nrm key (a\<lparr>a_state := Update (a_state a) (st_ConfigVersion ds) (st_Clients ds) ?R\<rparr>)"
      using u by (simp add: unknown_user_def ss.clients_update)
    with run got Inr m w1 w2 u wf show ?thesis
      by (auto simp: syncStateOnce_def syncState_def Let_def split: if_splits option.splits)
  qed
qed

section \<open>A simulated environment\<close>

text \<open>A control panel that answers every request with the state \<open>ds\<close>, and the simulated Xray.\<close>

definition sim_env :: "State \<Rightarrow> (Sim, json, json) agent_env" where
  "sim_env ds =
     \<lparr>e_http = \<lparr>h_NewRequest = (\<lambda>_ _. None), h_Do = (\<lambda>_ w. (Inr \<lparr>rs_StatusCode = 200, rs_Body = []\<rparr>, w)),
                h_scan = (\<lambda>_. Inr (encodeState ds))\<rparr>,
      e_xray = sim_api,
      e_stats = \<lparr>q_NewClient = (\<lambda>_ w. (None, w)), q_QueryStats = (\<lambda>_ _ w. (Inr [], w)),
                 q_GetAllOnlineUsers = (\<lambda>w. (Inr [''user>>>A>>>online''], w)),
                 q_GetStatsOnlineIpList = (\<lambda>_ w. (Inr [(''::1'', 7)], w)),
                 q_GetSysStats = (\<lambda>w. (Inl (ErrExt 4 ''unimplemented''), w))\<rparr>,
      e_host = \<lparr>p_CPU = (\<lambda>w. (Inr [], w)), p_Mem = (\<lambda>w. (Inr None, w)), p_Net = (\<lambda>w. (Inr [], w)),
                p_Now = (\<lambda>w. (0, w))\<rparr>,
      e_coreCheck = (\<lambda>_ w. (Inr None, w)), e_ord = rev, e_unicode = (\<lambda>s. s),
      e_srt = (\<lambda>key xs. sort_key key xs)\<rparr>"

lemma sim_env_simps [simp]:
  "e_xray (sim_env ds) = sim_api" "e_ord (sim_env ds) = rev" "e_unicode (sim_env ds) = (\<lambda>s. s)"
  "h_Do (e_http (sim_env ds)) req w = (Inr \<lparr>rs_StatusCode = 200, rs_Body = []\<rparr>, w)"
  by (simp_all add: sim_env_def)

lemma sim_runtime: "runtime_contract (sim_env ds) (\<lambda>e. e) sim_users sim_tag sim_rules"
  using sim_handler [where ?'a = unit] sim_routing [where ?'a = unit]
  by (auto simp: runtime_contract_def sim_alter_def split: inbound_op.splits)

lemma sim_GetState: "go_wf (st_Meta ds) \<Longrightarrow> GetState (e_http (sim_env ds)) c w = (Inr ds, w)"
  by (simp add: GetState_def exchange_def sim_env_def decodeState_encodeState)

definition state_a :: State where
  "state_a = \<lparr>st_ConfigVersion = 7, st_Clients = [client_a], st_Routes = [], st_Meta = []\<rparr>"

definition agent0 :: Agent where
  "agent0 = New_Agent sample_config (NewClient sample_config ''1.0'' []) True None"

definition agent_a :: Agent where
  "agent_a = agent0\<lparr>a_state := Update New_Store 7 [client_a] []\<rparr>"

definition sim_a :: Sim where
  "sim_a = sim0\<lparr>sim_users := (sim_users sim0)((''v'', ''a'') \<mapsto> VlessAccount ''1'' ''none'')\<rparr>"

lemma agent_simps [simp]:
  "a_state agent0 = New_Store" "a_cfg agent0 = sample_config" "a_cfg agent_a = sample_config"
  "a_state agent_a = Update New_Store 7 [client_a] []" "a_ctrl agent_a = a_ctrl agent0"
  by (simp_all add: agent0_def agent_a_def New_Agent_def)

lemma state_a_simps [simp]:
  "st_ConfigVersion state_a = 7" "st_Clients state_a = [client_a]" "st_Routes state_a = []" "go_wf (st_Meta state_a)"
  by (simp_all add: state_a_def)

lemma sim_apply_state:
  "Manager_State sample_config sim_api rev [] [client_a] [] [] sim0 = (True, None, sim_a)"
proof -
  have "diffRoutes rev [] [] = ([], [])"
    by (simp add: diffRoutes_def Let_def go_range_def go_keys_def map_filter_simps NormalizeRouteRules_def)
  then show ?thesis
    using sim_apply_a by (simp add: Manager_State_def applyRoutes_def sim_a_def)
qed

lemma sim_sync:
  "syncState (sim_env state_a) False agent0 sim0 = (None, agent_a, sim_a)"
  "syncState (sim_env state_a) True agent_a sim0 = (None, agent_a, sim_a)"
proof -
  have "ClientsSnapshot New_Store = []" "RoutesSnapshot New_Store = []"
    by (simp_all add: New_Store_def ClientsSnapshot_def RoutesSnapshot_def go_copy_def)
  moreover have "\<not> IsUnchanged New_Store 7 [client_a] []" by (simp add: IsUnchanged_def New_Store_def)
  ultimately show "syncState (sim_env state_a) False agent0 sim0 = (None, agent_a, sim_a)"
    "syncState (sim_env state_a) True agent_a sim0 = (None, agent_a, sim_a)"
    by (simp_all add: syncState_def sim_GetState sim_apply_state) (simp_all add: agent_a_def Update_def)
qed

lemma sim0_in_force: "in_force (sim_env ds) sample_config (\<lambda>e. e) sim_users sim_tag sim_rules New_Store sim0"
  by (simp add: in_force_def users_in_sync_def routes_in_sync_def sim0_def)

section \<open>Properties\<close>

text \<open>
  C4: a synchronisation that succeeds brings the store and the running Xray together to the state
  that the control panel sent. If Xray held exactly what the store recorded (or nothing, when the
  agent assumes an empty runtime after a restart), then afterwards the store records exactly the
  sent version, clients and normalised routes, and Xray's users and rules are exactly theirs.
\<close>

theorem sync_reaches_desired_state:
  assumes "runtime_contract env nrm users tagOf rules" and "store_wf (a_state a)"
    and "inj_on (\<lambda>c. nrm (c_Email c)) (ran (go_get (s_clients (a_state a))))"
    and "GetState (e_http env) (a_ctrl a) w = (Inr ds, w1)"
    and "distinct (map (\<lambda>c. nrm (c_Email c)) (st_Clients ds))"
    and "in_force env (a_cfg a) nrm users tagOf rules (if force then New_Store else a_state a) w"
    and "syncState env force a w = (None, a', w')"
  shows "in_force env (a_cfg a) nrm users tagOf rules (a_state a') w'
    \<and> s_lastVersion (a_state a') = st_ConfigVersion ds
    \<and> go_get (s_clients (a_state a')) = last_with c_Email (st_Clients ds)
    \<and> go_get (s_routes (a_state a')) = last_with r_Tag (st_Routes ds)"
  using assms by (rule sync_converges)

text \<open>
  A synchronisation that fails leaves the agent exactly as it was, so that the next one starts
  from the same record; one that succeeds changes only the store. The store's invariant is kept
  in both cases.
\<close>

theorem sync_failure_keeps_agent:
  "(case syncState env force a w of
      (Some err, a', w') \<Rightarrow> a' = a
    | (None, a', w') \<Rightarrow> a' = a\<lparr>a_state := a_state a'\<rparr>)
   \<and> (store_wf (a_state a) \<longrightarrow> store_wf (a_state (fst (snd (syncState env force a w)))))"
  by (auto simp: syncState_def Let_def split: prod.splits sum.splits option.splits)

theorem sync_failure_keeps_agent_witness:
  "store_wf (a_state (fst (snd (syncState (sim_env state_a) False agent0 sim0))))"
  using sync_failure_keeps_agent [where env = "sim_env state_a" and force = False and a = agent0 and w = sim0] by simp

text \<open>
  Once a state has been applied, receiving the same state again costs nothing: a normal
  synchronisation succeeds without any call to Xray and without changing the agent, so it also
  cannot repair a runtime that lost its users. A forced one, after a restart of Xray, does not
  depend on what the store recorded at all.
\<close>

theorem sync_same_state_is_free:
  assumes "a_state a = Update s (st_ConfigVersion ds) (st_Clients ds) (fst (NormalizeRouteRules (st_Routes ds)))"
    and "distinct (map c_Email (st_Clients ds))"
    and "GetState (e_http env) (a_ctrl a) w = (Inr ds, w1)"
  shows "syncState env False a w = (None, a, w1)
    \<and> (fst (syncState env True a w), snd (snd (syncState env True a w)))
      = (fst (syncState env True (a\<lparr>a_state := New_Store\<rparr>) w), snd (snd (syncState env True (a\<lparr>a_state := New_Store\<rparr>) w)))"
proof -
  have "IsUnchanged (a_state a) (st_ConfigVersion ds) (st_Clients ds) (fst (NormalizeRouteRules (st_Routes ds)))"
    unfolding assms(1) by (rule ss.unchanged_after_update [OF assms(2)]) (simp add: distinct_keep_last)
  then show ?thesis
    using assms(3) by (simp add: syncState_def Let_def split: prod.split option.split)
qed

theorem sync_same_state_is_free_witness:
  "syncState (sim_env state_a) False agent_a sim0 = (None, agent_a, sim0)
   \<and> syncState (sim_env state_a) True agent_a sim0 = (None, agent_a, sim_a)"
proof
  show "syncState (sim_env state_a) False agent_a sim0 = (None, agent_a, sim0)"
    by (rule sync_same_state_is_free [where s = New_Store, THEN conjunct1])
      (simp_all add: sim_GetState NormalizeRouteRules_def)
qed (rule sim_sync(2))

theorem sync_reaches_desired_state_witness:
  "in_force (sim_env state_a) sample_config (\<lambda>e. e) sim_users sim_tag sim_rules (a_state agent_a) sim_a
   \<and> go_get (s_clients (a_state agent_a)) ''a'' = Some client_a"
proof -
  have "in_force (sim_env state_a) sample_config (\<lambda>e. e) sim_users sim_tag sim_rules (a_state agent_a) sim_a
      \<and> go_get (s_clients (a_state agent_a)) = last_with c_Email [client_a]"
    using sync_reaches_desired_state [OF sim_runtime, of agent0 state_a sim0 state_a sim0 False agent_a sim_a]
      sim0_in_force [of state_a] sim_sync(1)
    by (simp add: sim_GetState)
  then show ?thesis by (simp add: last_with_def client_a_def)
qed

text \<open>
  C36: a removal that reached Xray but was not recorded (because a later call of the same
  synchronisation failed, or its answer was lost) stops the state loop for good. While the panel
  does not want the client back, every round fails, none changes the agent, and no later change of
  the panel's state is recorded; only a restart of Xray with a forced synchronisation ends it.
\<close>

theorem unrecorded_removal_livelock:
  assumes "runtime_contract env nrm users tagOf rules" and "strict_removal (e_xray env) nrm users"
    and "stuck_client env nrm users c a w"
  shows "case syncRounds env n a w of
    (rs, a', w') \<Rightarrow> length rs = n \<and> None \<notin> set rs \<and> a' = a \<and> stuck_client env nrm users c a w'"
  using assms(3)
proof (induction n arbitrary: w)
  case (Suc n)
  from stuck_round [OF assms(1,2) Suc.prems] obtain err w1
    where 1: "syncStateOnce env a w = (Some err, a, w1)" and s: "stuck_client env nrm users c a w1" by blast
  from Suc.IH [OF s] show ?case by (auto simp: 1 split: prod.splits)
qed simp

theorem unrecorded_removal_livelock_witness:
  "case syncRounds (sim_env (state_a\<lparr>st_Clients := []\<rparr>)) 100 agent_a sim0 of
    (rs, a', w') \<Rightarrow> length rs = 100 \<and> None \<notin> set rs \<and> a' = agent_a"
proof -
  let ?ds = "state_a\<lparr>st_Clients := []\<rparr>"
  have "go_wf (st_Meta ?ds)" by (simp add: state_a_def)
  note got = sim_GetState [OF this]
  have "stuck_client (sim_env ?ds) (\<lambda>e. e) sim_users client_a agent_a sim0"
    unfolding stuck_client_def got by (auto simp: ss.clients_update last_with_def sim0_def)
  from unrecorded_removal_livelock [OF sim_runtime _ this, of 100] sim_strict [where ?'a = unit]
  show ?thesis by (auto split: prod.splits)
qed

text \<open>
  C37: a user that reached Xray without being recorded is never revoked. If a synchronisation added a
  user and then failed, and the panel drops the client before the next round, the agent has no record
  of the user: however many rounds follow, successful or not, the user keeps its account.
\<close>

theorem unrecorded_user_keeps_access:
  assumes "runtime_contract env nrm users tagOf rules" and "unknown_user env nrm key a"
    and "users w key = Some acc"
  shows "users (snd (snd (syncRounds env n a w))) key = Some acc"
  using assms(2,3)
proof (induction n arbitrary: a w)
  case (Suc n)
  obtain r a1 w1 where s: "syncStateOnce env a w = (r, a1, w1)" by (cases "syncStateOnce env a w")
  note rd = unknown_user_round [OF assms(1) Suc.prems(1) s]
  have "users (snd (snd (syncRounds env n a1 w1))) key = Some acc"
    using rd Suc.prems by (intro Suc.IH) simp_all
  then show ?case by (simp add: s case_prod_beta)
qed simp

theorem unrecorded_user_keeps_access_witness:
  "sim_users (snd (snd (syncRounds (sim_env (state_a\<lparr>st_Clients := []\<rparr>)) 100 agent0 sim_a))) (''v'', ''a'')
     = Some (VlessAccount ''1'' ''none'')"
proof -
  have "go_wf (st_Meta (state_a\<lparr>st_Clients := []\<rparr>))" by (simp add: state_a_def)
  note got = sim_GetState [OF this]
  have "unknown_user (sim_env (state_a\<lparr>st_Clients := []\<rparr>)) (\<lambda>e. e) (''v'', ''a'') agent0"
    unfolding unknown_user_def got by simp
  from unrecorded_user_keeps_access [OF sim_runtime this, of sim_a "VlessAccount ''1'' ''none''" 100]
  show ?thesis by (simp add: sim_a_def)
qed

end
