(* ===== verification/Agent_Reports.thy ===== *)
theory Agent_Reports
  imports Agent_Sync
begin

text \<open>
  What the reporting loops of \<^verbatim>\<open>internal/agent/agent.go\<close> send: the traffic of every stored client,
  the online users with their protocols, and what the core-update loop logs and remembers.
\<close>

section \<open>Traffic\<close>

lemma fetchAll_keys:
  "fetchAll cfg api emails res w = (Inr m, w') \<Longrightarrow>
     (go_get m e \<noteq> None \<longleftrightarrow> e \<in> set emails \<or> go_get res e \<noteq> None) \<and> (go_wf res \<longrightarrow> go_wf m)"
  by (induction emails arbitrary: res w) (auto split: prod.splits sum.splits if_splits)

lemma QueryUserBytes_keys:
  assumes "QueryUserBytes cfg api emails w = (Inr m, w')"
  shows "go_get m e \<noteq> None \<longleftrightarrow> e \<in> set emails" and "go_wf m" and "set (go_keys m) = set emails"
proof -
  obtain w1 where "fetchAll cfg api emails [] w1 = (Inr m, w')"
    using assms by (auto simp: QueryUserBytes_def split: prod.splits option.splits)
  note k = fetchAll_keys [OF this]
  show 1: "go_get m e \<noteq> None \<longleftrightarrow> e \<in> set emails" for e using k [of e] by simp
  show "go_wf m" using k by simp
  show "set (go_keys m) = set emails" using 1 gm.set_keys [of m] by auto
qed

lemma usersOf_all:
  "(\<And>e. e \<in> set emails \<Longrightarrow> go_get m e \<noteq> None) \<Longrightarrow>
   usersOf u emails m = map (\<lambda>e. \<lparr>uu_Email = ToLower u e, uu_Uplink = fst (usageOf m e), uu_Downlink = snd (usageOf m e)\<rparr>) emails"
  by (induction emails) (auto simp: usersOf_def map_filter_simps usageOf_def split: option.split)

text \<open>The counters that a round reports for each email.\<close>

definition reportedMap :: "('w, 'c, 'm) agent_env \<Rightarrow> Agent \<Rightarrow> (string, usage) gomap \<Rightarrow> (string, usage) gomap" where
  "reportedMap env a m =
     (if StatsResetEachPush (Xray (a_cfg a)) then m
      else fst (normalizeStatsDeltas (e_unicode env) (e_ord env) (a_statsSnapshot a) m))"

definition nextSnapshot :: "('w, 'c, 'm) agent_env \<Rightarrow> Agent \<Rightarrow> (string, usage) gomap \<Rightarrow> (string, usage) gomap" where
  "nextSnapshot env a m =
     (if StatsResetEachPush (Xray (a_cfg a)) then []
      else snd (normalizeStatsDeltas (e_unicode env) (e_ord env) (a_statsSnapshot a) m))"

lemma statsRound_eq:
  "statsRound env a w =
     (if Emails (e_ord env) (a_state a) = [] then (a, w)
      else case QueryUserBytes (a_cfg a) (e_stats env) (sort (Emails (e_ord env) (a_state a))) w of
        (Inl err, w1) \<Rightarrow> (a, w1)
      | (Inr m, w1) \<Rightarrow>
          (a\<lparr>a_statsSnapshot := nextSnapshot env a m\<rparr>,
           let users = usersOf (e_unicode env) (sort (Emails (e_ord env) (a_state a))) (reportedMap env a m) in
           if users = [] then w1
           else case p_Now (e_host env) w1 of
             (now, w2) \<Rightarrow> snd (PostStats (e_http env) (a_ctrl a) \<lparr>sp_ServerTime = now, sp_Users = users\<rparr> w2)))"
proof -
  have clear: "(if go_len (a_statsSnapshot a) > 0 then [] else a_statsSnapshot a) = []" by (simp add: go_len_def)
  show ?thesis
    unfolding statsRound_def clear
    by (simp add: Let_def nextSnapshot_def reportedMap_def case_prod_beta split: prod.split sum.split)
qed

lemma Emails_set: "range_order ord \<Longrightarrow> set (Emails ord s) = {e. go_get (s_clients s) e \<noteq> None}"
  using gm.set_keys [of "s_clients s"]
  by (simp add: Emails_def map_fst_go_range range_order_def) (metis mset_eq_setD)

lemma Emails_distinct: "range_order ord \<Longrightarrow> store_wf s \<Longrightarrow> distinct (Emails ord s)"
  by (simp add: Emails_def distinct_go_range store_wf_def)

section \<open>Online users\<close>

lemma go_get_lowerIndex:
  assumes "inj_on (ToLower u) (fst ` set cs)" and "distinct (map fst cs)" and "(e, c) \<in> set cs"
  shows "go_get (lowerIndex u cs) (ToLower u e) = Some c"
proof -
  have "go_get (lowerIndex u cs) k = map_option snd (last_with (\<lambda>ec. ToLower u (fst ec)) cs k)" for k
    by (induction cs rule: rev_induct) (simp_all add: lowerIndex_def)
  moreover have "distinct (map (\<lambda>ec. ToLower u (fst ec)) cs)"
    using assms(1,2) by (auto simp: distinct_map inj_on_def)
  ultimately show ?thesis
    using last_with_distinct [of "\<lambda>ec. ToLower u (fst ec)" cs "(e, c)"] assms(3) by simp
qed

lemma fillProto_email: "ou_Email (fillProto u m x) = ToLower u (ou_Email x)"
  and fillProto_ips: "ou_IPs (fillProto u m x) = ou_IPs x"
  and fillProto_proto: "ou_Proto x = [] \<Longrightarrow>
    ou_Proto (fillProto u m x) = (case go_get m (ToLower u (ou_Email x)) of Some c \<Rightarrow> c_Proto c | None \<Rightarrow> [])"
  by (simp_all add: fillProto_def Let_def split: option.split)

lemma OnlineUsers_proto:
  assumes "sorts srt" and "OnlineUsers cfg api u ord srt w = (Inr users, w')"
  shows "\<forall>x\<in>set users. ou_Proto x = []"
proof -
  obtain names w2 us where i: "onlineInfos api ord names w2 = (Inr us, w')"
    and users: "users = srt (\<lambda>x. ToLower u (ou_Email x)) us"
    using assms(2) by (auto simp: OnlineUsers_def split: prod.splits option.splits sum.splits)
  show ?thesis using onlineInfos_emails [OF i] by (simp add: users sorts_set [OF assms(1)])
qed

section \<open>Properties\<close>



text \<open>
  C39: traffic whose push fails is not reported again. The agent after a statistics round does not
  depend on the network at all: the snapshot moves on to the counters just read whether the push
  arrived or not, so the next round reports only what came after them.
\<close>

theorem failed_stats_push_is_not_repeated:
  "fst (statsRound env a w) = fst (statsRound (env\<lparr>e_http := h\<rparr>) a w)
   \<and> (case QueryUserBytes (a_cfg a) (e_stats env) (sort (Emails (e_ord env) (a_state a))) w of
        (Inl err, w1) \<Rightarrow> fst (statsRound env a w) = a
      | (Inr m, w1) \<Rightarrow> Emails (e_ord env) (a_state a) = []
          \<or> fst (statsRound env a w) = a\<lparr>a_statsSnapshot := nextSnapshot env a m\<rparr>)"
proof -
  have "nextSnapshot (env\<lparr>e_http := h\<rparr>) a m = nextSnapshot env a m" for m
    by (simp add: nextSnapshot_def)
  then show ?thesis by (simp add: statsRound_eq split: prod.split sum.split)
qed

text \<open>
  The online snapshot is sorted by email, its emails are those of the collector in lower case,
  and a user that belongs to a stored client carries that client's protocol; a user that belongs to
  none carries no protocol.
\<close>

theorem online_snapshot_protocols:
  assumes "range_order (e_ord env)" and "sorts (e_srt env)" and "store_wf (a_state a)"
    and "inj_on (ToLower (e_unicode env)) (set (go_keys (s_clients (a_state a))))"
    and "collectOnlineSnapshot env a w = (Inr p, w')"
  shows "sorted (map ou_Email (op_Users p))
    \<and> (\<exists>users w1. OnlineUsers (a_cfg a) (e_stats env) (e_unicode env) (e_ord env) (e_srt env) w = (Inr users, w1)
         \<and> mset (map ou_Email (op_Users p)) = mset (map (\<lambda>u. ToLower (e_unicode env) (ou_Email u)) users))
    \<and> (\<forall>u c. u \<in> set (op_Users p) \<and> go_get (s_clients (a_state a)) (c_Email c) = Some c
         \<and> ToLower (e_unicode env) (c_Email c) = ou_Email u \<longrightarrow> ou_Proto u = c_Proto c)"
proof -
  let ?low = "ToLower (e_unicode env)" and ?cs = "go_range (e_ord env) (s_clients (a_state a))"
  let ?by = "lowerIndex (e_unicode env) ?cs"
  obtain users w1 where on: "OnlineUsers (a_cfg a) (e_stats env) (e_unicode env) (e_ord env) (e_srt env) w = (Inr users, w1)"
    and p: "op_Users p = e_srt env ou_Email (map (fillProto (e_unicode env) ?by) users)"
    using assms(3,5) by (auto simp: collectOnlineSnapshot_def Let_def split: prod.splits sum.splits)
  have "mset (map ou_Email (op_Users p)) = mset (map (\<lambda>u. ?low (ou_Email u)) users)"
    unfolding p mset_map sorts_mset [OF assms(2)] by (simp add: image_mset.compositionality comp_def fillProto_email)
  moreover have "sorted (map ou_Email (op_Users p))" unfolding p by (rule sorts_sorted [OF assms(2)])
  moreover have "ou_Proto u = c_Proto c" if u: "u \<in> set (op_Users p)"
    and c: "go_get (s_clients (a_state a)) (c_Email c) = Some c" "?low (c_Email c) = ou_Email u" for u c
  proof -
    from u obtain x where x: "x \<in> set users" "u = fillProto (e_unicode env) ?by x"
      by (auto simp: p sorts_set [OF assms(2)])
    have "fst ` set ?cs = set (go_keys (s_clients (a_state a)))"
      using arg_cong [OF map_fst_go_range [OF assms(1), of "s_clients (a_state a)"], of set] assms(1)
      by (simp add: range_order_def) (metis mset_eq_setD)
    then have "go_get ?by (?low (c_Email c)) = Some c"
      using assms(1,3,4) c(1)
      by (intro go_get_lowerIndex) (simp_all add: distinct_go_range store_wf_def set_go_range)
    with x c(2) OnlineUsers_proto [OF assms(2) on] show ?thesis by (simp add: fillProto_proto fillProto_email)
  qed
  ultimately show ?thesis using on by blast
qed

theorem online_snapshot_protocols_witness:
  "\<exists>p w'. collectOnlineSnapshot (sim_env state_a) agent_a sim_a = (Inr p, w')
     \<and> map ou_Email (op_Users p) = [''a''] \<and> (\<forall>u\<in>set (op_Users p). ou_Proto u = ''vless'')"
proof -
  let ?p = "\<lparr>op_ServerTime = 0, op_Users = [\<lparr>ou_Email = ''a'', ou_Proto = ''vless'',
      ou_IPs = [\<lparr>ip_Address = ''::1'', ip_LastSeenAt = 7000000000\<rparr>]\<rparr>]\<rparr>"
  have "fst (collectOnlineSnapshot (sim_env state_a) agent_a sim_a) = Inr ?p" by code_simp
  then obtain w' where run: "collectOnlineSnapshot (sim_env state_a) agent_a sim_a = (Inr ?p, w')"
    by (cases "collectOnlineSnapshot (sim_env state_a) agent_a sim_a") auto
  have c: "go_get (s_clients (a_state agent_a)) (c_Email client_a) = Some client_a"
    by (simp add: ss.clients_update last_with_def)
  have low: "ToLower (\<lambda>s. s) (c_Email client_a) = ''a''" by code_simp
  have "inj_on (ToLower (\<lambda>s. s)) (set (go_keys (s_clients (a_state agent_a))))"
    unfolding gm.set_keys by (auto simp: ss.clients_update last_with_def inj_on_def split: if_splits)
  from online_snapshot_protocols [where env = "sim_env state_a" and a = agent_a, OF _ _ _ _ run] this c low sorts_sort_key
  have "\<forall>u\<in>set (op_Users ?p). ou_Proto u = c_Proto client_a" by (auto simp: sim_env_def)
  with run show ?thesis by (auto simp: client_a_def)
qed

text \<open>
  The core-update loop reports a result exactly when it differs from the last one it reported
  (and the first one always), remembers what it reported, and publishes the installed version to
  the heartbeat unless it is empty; a failed check changes nothing.
\<close>

theorem core_round_reports_changes:
  "case checkCoreUpdateOnce env a w of
     (Inl err, w1) \<Rightarrow> coreRound env l a w = (Some CheckFailed, l, a, w1)
   | (Inr None, w1) \<Rightarrow> coreRound env l a w = (None, l, a, w1)
   | (Inr (Some res), w1) \<Rightarrow>
       (\<exists>lg a'. coreRound env l a w = (lg, \<lparr>cl_lastInstalled = ck_InstalledVersion res, cl_lastLatest = ck_LatestVersion res,
            cl_lastUpdateAvailable = ck_UpdateAvailable res, cl_hasLastResult = True\<rparr>, a', w1)
         \<and> (lg = None \<longleftrightarrow> l = \<lparr>cl_lastInstalled = ck_InstalledVersion res, cl_lastLatest = ck_LatestVersion res,
              cl_lastUpdateAvailable = ck_UpdateAvailable res, cl_hasLastResult = True\<rparr>)
         \<and> a' = a\<lparr>a_ctrl := a_ctrl a'\<rparr>
         \<and> cc_xrayCoreVersion (a_ctrl a') =
             (if ck_InstalledVersion res = [] then cc_xrayCoreVersion (a_ctrl a)
              else normalizeTaggedVersion (ck_InstalledVersion res)))"
  by (cases l) (auto simp: coreRound_def Let_def SetXrayCoreVersion_def split: prod.split sum.split option.split)

end
