(* ===== verification/Agent_Commands.thy ===== *)
theory Agent_Commands
  imports Agent_Core
begin

text \<open>
  The command loop of \<^verbatim>\<open>internal/agent/command_loop.go\<close>: fetching the next command of the control
  panel, carrying it out (restart or update of the core or of the agent) and acknowledging it.
  Running a program, the two updaters and waiting are the fields of \<open>hooks\<close>. The source keeps the
  functions it calls in variables that only its tests replace; the model calls the functions that
  these variables hold.
\<close>

section \<open>Hooks\<close>

text \<open>
  \<open>k_exec\<close> runs a program and gives its combined output and error; \<open>k_agentUpdater\<close> takes the current
  version, the target version and the token; \<open>k_wait\<close> is the wait of one second, with the context's
  error if the context ends first.
\<close>

record 'w hooks =
  k_exec :: "string list \<Rightarrow> 'w \<Rightarrow> (string \<times> go_error option) \<times> 'w"
  k_agentUpdater :: "string \<Rightarrow> string \<Rightarrow> string \<Rightarrow> 'w \<Rightarrow> InstallResult go_result \<times> 'w"
  k_coreUpdater :: "string \<Rightarrow> string \<Rightarrow> 'w \<Rightarrow> InstallResult go_result \<times> 'w"
  k_wait :: "'w \<Rightarrow> go_error option \<times> 'w"

definition runSystemctl :: "'w hooks \<Rightarrow> string list \<Rightarrow> 'w \<Rightarrow> go_error option \<times> 'w" where
  "runSystemctl k args w =
     (case k_exec k (''systemctl'' # args) w of
        ((output, None), w1) \<Rightarrow> (None, w1)
      | ((output, Some err), w1) \<Rightarrow>
          (let message = TrimSpace output in
           if message \<noteq> [] then (Some (ErrText (''systemctl '' @ Join args '' '' @ '' failed: '' @ message)), w1)
           else (Some (ErrWrap (''systemctl '' @ Join args '' '') err), w1)))"

definition agentRestartDelay :: string where "agentRestartDelay = ''2s''"

definition restartArgs :: "time \<Rightarrow> string list" where
  "restartArgs now =
     [''systemd-run'', ''--quiet'', ''--collect'', ''--on-active='' @ agentRestartDelay,
      ''--unit='' @ ''xray-agent-restart-'' @ intText now, ''systemctl'', ''restart'', ''xray-agent'']"

definition scheduleAgentRestart :: "('w, 'c, 'm) agent_env \<Rightarrow> 'w hooks \<Rightarrow> 'w \<Rightarrow> go_error option \<times> 'w" where
  "scheduleAgentRestart env k w =
     (case p_Now (e_host env) w of
        (now, w0) \<Rightarrow>
          (case k_exec k (restartArgs now) w0 of
             ((output, None), w1) \<Rightarrow> (None, w1)
           | ((output, Some err), w1) \<Rightarrow>
               (let message = TrimSpace output in
                if message \<noteq> [] then (Some (ErrText (''schedule agent restart failed: '' @ message)), w1)
                else (Some (ErrWrap ''schedule agent restart'' err), w1))))"

section \<open>Helpers\<close>

definition normalizeTargetVersion :: "(string, json) gomap \<Rightarrow> string" where
  "normalizeTargetVersion payload =
     (if go_len payload = 0 then []
      else let target = TrimSpace (case go_get payload ''target_version'' of Some (JStr s) \<Rightarrow> s | _ \<Rightarrow> []) in
           if target = [] then [] else if HasPrefix target ''v'' then target else ''v'' @ target)"

definition resolveUpdatedCoreVersion :: "InstallResult option \<Rightarrow> string \<Rightarrow> string" where
  "resolveUpdatedCoreVersion result targetVersion =
     (case result of
        None \<Rightarrow> targetVersion
      | Some r \<Rightarrow> if TrimSpace (ir_ToVersion r) \<noteq> [] then ir_ToVersion r else targetVersion)"

definition refreshCoreVersionHeartbeat :: "('w, 'c, 'm) agent_env \<Rightarrow> Agent \<Rightarrow> 'w \<Rightarrow> go_error option \<times> 'w" where
  "refreshCoreVersionHeartbeat env a w = Heartbeat (e_http env) (a_ctrl a) w"

definition coreRestartSyncRetries :: nat where "coreRestartSyncRetries = 6"

text \<open>The retries that remain; the source's counter runs from 1 to the number of retries.\<close>

fun syncRetry ::
  "('w, 'c, 'm) agent_env \<Rightarrow> ('w \<Rightarrow> go_error option \<times> 'w) \<Rightarrow> nat \<Rightarrow> Agent \<Rightarrow> 'w \<Rightarrow> go_error option \<times> Agent \<times> 'w" where
  "syncRetry env wait 0 a w = (Some (ErrText ''immediate state sync failed''), a, w)"
| "syncRetry env wait (Suc n) a w =
     (case syncStateAfterRuntimeReset env a w of
        (None, a1, w1) \<Rightarrow> (None, a1, w1)
      | (Some err, a1, w1) \<Rightarrow>
          if n = 0 then (Some err, a1, w1)
          else (case wait w1 of
                  (Some ctxErr, w2) \<Rightarrow> (Some ctxErr, a1, w2)
                | (None, w2) \<Rightarrow> syncRetry env wait n a1 w2))"

definition syncStateAfterCoreRestart ::
  "('w, 'c, 'm) agent_env \<Rightarrow> ('w \<Rightarrow> go_error option \<times> 'w) \<Rightarrow> Agent \<Rightarrow> 'w \<Rightarrow> go_error option \<times> Agent \<times> 'w" where
  "syncStateAfterCoreRestart env wait a w = syncRetry env wait coreRestartSyncRetries a w"

text \<open>Waiting in the background context, which never ends.\<close>

definition backgroundWait :: "'w hooks \<Rightarrow> 'w \<Rightarrow> go_error option \<times> 'w" where
  "backgroundWait k w = (None, snd (k_wait k w))"

definition executeAgentCommand ::
  "('w, 'c, 'm) agent_env \<Rightarrow> 'w hooks \<Rightarrow> string \<Rightarrow> Agent \<Rightarrow> 'w \<Rightarrow> go_error option \<times> Agent \<times> 'w" where
  "executeAgentCommand env k commandType a w =
     (if commandType = AgentCommandTypeRestartCore then
        (case runSystemctl k [''restart'', ''xray''] w of
           (Some err, w1) \<Rightarrow> (Some err, a, w1)
         | (None, w1) \<Rightarrow>
             (case syncStateAfterCoreRestart env (k_wait k) a w1 of
                (Some err, a1, w2) \<Rightarrow>
                  (Some (ErrWrap ''restart core completed but immediate state sync failed'' err), a1, w2)
              | (None, a1, w2) \<Rightarrow> (None, a1, w2)))
      else (Some (ErrText (''unsupported command type: '' @ commandType)), a, w))"

section \<open>Acknowledged commands\<close>

definition ackOf :: "time \<Rightarrow> string \<Rightarrow> AgentCommandAck" where
  "ackOf startedAt commandType =
     \<lparr>ak_Status = AgentCommandAckSucceeded, ak_ErrorMessage = [],
      ak_Result = go_set ''type'' (JStr commandType) (go_set ''executed_at'' (JStr (formatRFC3339 startedAt)) [])\<rparr>"

definition setResult :: "string \<Rightarrow> json \<Rightarrow> AgentCommandAck \<Rightarrow> AgentCommandAck" where
  "setResult key v ack = ack\<lparr>ak_Result := go_set key v (ak_Result ack)\<rparr>"

definition failAck :: "string \<Rightarrow> AgentCommandAck \<Rightarrow> AgentCommandAck" where
  "failAck msg ack = ack\<lparr>ak_Status := AgentCommandAckFailed, ak_ErrorMessage := msg\<rparr>"

definition postCommandAck ::
  "('w, 'c, 'm) agent_env \<Rightarrow> Agent \<Rightarrow> string \<Rightarrow> AgentCommandAck \<Rightarrow> 'w \<Rightarrow> go_error option \<times> Agent \<times> 'w" where
  "postCommandAck env a commandID ack w =
     (case AckCommand (e_http env) (a_ctrl a) commandID (Some ack) w of
        (Some err, w1) \<Rightarrow> (Some (ErrWrap (''ack command '' @ commandID) err), a, w1)
      | (None, w1) \<Rightarrow> (None, a, w1))"

definition restartAgentAndAck ::
  "('w, 'c, 'm) agent_env \<Rightarrow> 'w hooks \<Rightarrow> string \<Rightarrow> time \<Rightarrow> Agent \<Rightarrow> 'w \<Rightarrow> go_error option \<times> Agent \<times> 'w" where
  "restartAgentAndAck env k commandID startedAt a w =
     (let ack = setResult ''mode'' (JStr ''restart_scheduled'') (ackOf startedAt AgentCommandTypeRestartAgent) in
      case scheduleAgentRestart env k w of
        (Some err, w1) \<Rightarrow>
          postCommandAck env a commandID
            (setResult ''mode'' (JStr ''restart_schedule_failed'') (failAck (errText err) ack)) w1
      | (None, w1) \<Rightarrow> postCommandAck env a commandID ack w1)"

definition updateAgentAndAck ::
  "('w, 'c, 'm) agent_env \<Rightarrow> 'w hooks \<Rightarrow> string \<Rightarrow> time \<Rightarrow> (string, json) gomap \<Rightarrow> Agent \<Rightarrow> 'w
   \<Rightarrow> go_error option \<times> Agent \<times> 'w" where
  "updateAgentAndAck env k commandID startedAt payload a w =
     (let targetVersion = normalizeTargetVersion payload;
          ack0 = setResult ''mode'' (JStr ''update_pending'') (ackOf startedAt AgentCommandTypeUpdateAgent) in
      if targetVersion = [] then
        postCommandAck env a commandID
          (setResult ''mode'' (JStr ''invalid_payload'') (failAck ''target_version is required for agent update'' ack0)) w
      else
        (let ack1 = setResult ''target_version'' (JStr targetVersion) ack0 in
         case k_agentUpdater k (AgentVersion (a_ctrl a)) targetVersion (GitHubToken (a_cfg a)) w of
           (Inl err, w1) \<Rightarrow>
             postCommandAck env a commandID
               (setResult ''mode'' (JStr ''update_failed'') (failAck (errText err) ack1)) w1
         | (Inr res, w1) \<Rightarrow>
             (let ack2 = setResult ''updated'' (JBool (ir_Updated res))
                    (setResult ''to_version'' (JStr (ir_ToVersion res))
                      (setResult ''from_version'' (JStr (ir_FromVersion res)) ack1)) in
              if \<not> ir_Updated res then
                postCommandAck env a commandID (setResult ''mode'' (JStr ''already_current'') ack2) w1
              else case scheduleAgentRestart env k w1 of
                (Some err, w2) \<Rightarrow>
                  postCommandAck env a commandID
                    (setResult ''mode'' (JStr ''update_installed_restart_schedule_failed'') (failAck (errText err) ack2)) w2
              | (None, w2) \<Rightarrow>
                  postCommandAck env a commandID
                    (setResult ''mode'' (JStr ''update_installed_restart_scheduled'') ack2) w2)))"

definition updateCoreAndAck ::
  "('w, 'c, 'm) agent_env \<Rightarrow> 'w hooks \<Rightarrow> string \<Rightarrow> time \<Rightarrow> (string, json) gomap \<Rightarrow> Agent \<Rightarrow> 'w
   \<Rightarrow> go_error option \<times> Agent \<times> 'w" where
  "updateCoreAndAck env k commandID startedAt payload a w =
     (let targetVersion = normalizeTargetVersion payload;
          ack0 = setResult ''mode'' (JStr ''update_pending'') (ackOf startedAt AgentCommandTypeUpdateCore) in
      if targetVersion = [] then
        postCommandAck env a commandID
          (setResult ''mode'' (JStr ''invalid_payload'') (failAck ''target_version is required for core update'' ack0)) w
      else
        (let ack1 = setResult ''target_version'' (JStr targetVersion) ack0 in
         case k_coreUpdater k targetVersion (GitHubToken (a_cfg a)) w of
           (Inl err, w1) \<Rightarrow>
             postCommandAck env a commandID
               (setResult ''mode'' (JStr ''update_failed'') (failAck (errText err) ack1)) w1
         | (Inr res, w1) \<Rightarrow>
             (let ack2 = setResult ''updated'' (JBool (ir_Updated res))
                    (setResult ''to_version'' (JStr (ir_ToVersion res))
                      (setResult ''from_version'' (JStr (ir_FromVersion res)) ack1));
                  a1 = a\<lparr>a_ctrl := SetXrayCoreVersion (resolveUpdatedCoreVersion (Some res) targetVersion) (a_ctrl a)\<rparr> in
              if \<not> ir_Updated res then
                (case refreshCoreVersionHeartbeat env a1 w1 of
                   (_, w2) \<Rightarrow> postCommandAck env a1 commandID (setResult ''mode'' (JStr ''already_current'') ack2) w2)
              else case runSystemctl k [''restart'', ''xray''] w1 of
                (Some err, w2) \<Rightarrow>
                  postCommandAck env a1 commandID
                    (setResult ''mode'' (JStr ''update_installed_restart_failed'') (failAck (errText err) ack2)) w2
              | (None, w2) \<Rightarrow>
                  (case syncStateAfterCoreRestart env (backgroundWait k) a1 w2 of
                     (Some err, a2, w3) \<Rightarrow>
                       postCommandAck env a2 commandID
                         (setResult ''mode'' (JStr ''update_installed_restart_sync_failed'') (failAck (errText err) ack2)) w3
                   | (None, a2, w3) \<Rightarrow>
                       (case refreshCoreVersionHeartbeat env a2 w3 of
                          (_, w4) \<Rightarrow>
                            postCommandAck env a2 commandID
                              (setResult ''mode'' (JStr ''update_installed_restart_completed'') ack2) w4)))))"

definition executeNextCommand ::
  "('w, 'c, 'm) agent_env \<Rightarrow> 'w hooks \<Rightarrow> Agent \<Rightarrow> 'w \<Rightarrow> go_error option \<times> Agent \<times> 'w" where
  "executeNextCommand env k a w =
     (case GetNextCommand (e_http env) (a_ctrl a) w of
        (Inl err, w1) \<Rightarrow> (Some err, a, w1)
      | (Inr None, w1) \<Rightarrow> (None, a, w1)
      | (Inr (Some command), w1) \<Rightarrow>
          (case p_Now (e_host env) w1 of
             (startedAt, w2) \<Rightarrow>
               if ac_Type command = AgentCommandTypeRestartAgent
               then restartAgentAndAck env k (ac_ID command) startedAt a w2
               else if ac_Type command = AgentCommandTypeUpdateAgent
               then updateAgentAndAck env k (ac_ID command) startedAt (ac_Payload command) a w2
               else if ac_Type command = AgentCommandTypeUpdateCore
               then updateCoreAndAck env k (ac_ID command) startedAt (ac_Payload command) a w2
               else
                 (case executeAgentCommand env k (ac_Type command) a w2 of
                    (execErr, a1, w3) \<Rightarrow>
                      (let ack = ackOf startedAt (ac_Type command);
                           ack' = (case execErr of Some err \<Rightarrow> failAck (errText err) ack | None \<Rightarrow> ack) in
                       case AckCommand (e_http env) (a_ctrl a1) (ac_ID command) (Some ack') w3 of
                         (Some ackErr, w4) \<Rightarrow> (Some (ErrWrap (''ack command '' @ ac_ID command) ackErr), a1, w4)
                       | (None, w4) \<Rightarrow> (None, a1, w4)))))"

text \<open>The body of the command loop.\<close>

definition commandRound :: "('w, 'c, 'm) agent_env \<Rightarrow> 'w hooks \<Rightarrow> Agent \<Rightarrow> 'w \<Rightarrow> Agent \<times> 'w" where
  "commandRound env k a w = snd (executeNextCommand env k a w)"

end
