(* ===== verification/Command_Properties.thy ===== *)
theory Command_Properties
  imports Agent_Commands Agent_Sync
begin

text \<open>
  What the command loop guarantees: every command is acknowledged exactly once, with the status of
  the work; a restart or update of the core that is acknowledged as successful has restored every
  client and route of the panel; the retries after a restart are exactly six; and the agent is
  restarted only for an update that was installed.
\<close>

section \<open>Versions in payloads\<close>

interpretation tt: version_tagger "\<lambda>s. normalizeTargetVersion [(''target_version'', JStr s)]" "\<lambda>s. TrimPrefix (TrimSpace s) ''v''"
  by unfold_locales (simp_all add: normalizeTargetVersion_def go_len_def go_get_def)

section \<open>Counting acknowledgements\<close>

definition is_ack :: "http_request \<Rightarrow> bool" where
  "is_ack req \<longleftrightarrow> rq_Method req = ''POST'' \<and> HasSuffix (rq_URL req) ''/ack''"

text \<open>
  A count of the acknowledgements that were sent: a request to an acknowledgement URL adds one,
  every other request and everything else the agent calls leaves it alone.
\<close>

definition counts_acks :: "('w, 'c, 'm) agent_env \<Rightarrow> 'w hooks \<Rightarrow> ('w \<Rightarrow> nat) \<Rightarrow> bool" where
  "counts_acks env k cnt \<longleftrightarrow>
     (\<forall>req w. cnt (snd (h_Do (e_http env) req w)) = cnt w + (if is_ack req then 1 else 0))
     \<and> (\<forall>t w. cnt (snd (x_NewClient (e_xray env) t w)) = cnt w)
     \<and> (\<forall>d tag op w. cnt (snd (x_AlterInbound (e_xray env) d tag op w)) = cnt w)
     \<and> (\<forall>d t w. cnt (snd (x_RemoveRule (e_xray env) d t w)) = cnt w)
     \<and> (\<forall>d m b w. cnt (snd (x_AddRule (e_xray env) d m b w)) = cnt w)
     \<and> (\<forall>w. cnt (snd (p_Now (e_host env) w)) = cnt w)
     \<and> (\<forall>args w. cnt (snd (k_exec k args w)) = cnt w)
     \<and> (\<forall>c v t w. cnt (snd (k_agentUpdater k c v t w)) = cnt w)
     \<and> (\<forall>v t w. cnt (snd (k_coreUpdater k v t w)) = cnt w)
     \<and> (\<forall>w. cnt (snd (k_wait k w)) = cnt w)"

lemma counts_acksD:
  assumes "counts_acks env k cnt"
  shows "cnt (snd (h_Do (e_http env) req w)) = cnt w + (if is_ack req then 1 else 0)"
    and "cnt (snd (p_Now (e_host env) w)) = cnt w" and "cnt (snd (k_exec k args w)) = cnt w"
    and "cnt (snd (k_agentUpdater k c v t w)) = cnt w" and "cnt (snd (k_coreUpdater k v t w)) = cnt w"
    and "cnt (snd (k_wait k w)) = cnt w"
    and "cnt (snd (x_NewClient (e_xray env) s w)) = cnt w"
    and "cnt (snd (x_AlterInbound (e_xray env) d tag op w)) = cnt w"
    and "cnt (snd (x_RemoveRule (e_xray env) d s w)) = cnt w"
    and "cnt (snd (x_AddRule (e_xray env) d m b w)) = cnt w"
  using assms by (simp_all add: counts_acks_def)

text \<open>An operation with a result, an agent and a world that sends no acknowledgement.\<close>

lemma cnt_get: "counts_acks env k cnt \<Longrightarrow> cnt (snd (exchange (e_http env) what (getRequest c url) w)) = cnt w"
  by (simp add: exchange_snd counts_acksD(1) is_ack_def)

lemma cnt_GetState: "counts_acks env k cnt \<Longrightarrow> cnt (snd (GetState (e_http env) c w)) = cnt w"
  using cnt_get [of env k cnt "''state''" c "agentURL c ''/state''" w]
  by (auto simp: GetState_def Let_def split: option.split sum.split prod.split)

lemma cnt_GetNextCommand: "counts_acks env k cnt \<Longrightarrow> cnt (snd (GetNextCommand (e_http env) c w)) = cnt w"
  using cnt_get [of env k cnt "''next command''" c "agentURL c ''/commands/next''" w]
  by (auto simp: GetNextCommand_def Let_def split: option.split sum.split prod.split)

lemma agentURL_suffix: "HasSuffix (agentURL c (p @ s)) s"
  by (simp add: agentURL_def go_simps suffix_def)

lemma heartbeat_not_ack: "\<not> HasSuffix (agentURL c ''/heartbeat'') ''/ack''"
proof
  assume "HasSuffix (agentURL c ''/heartbeat'') ''/ack''"
  then obtain zs where "agentURL c ''/heartbeat'' = zs @ ''/ack''" by (auto simp: go_simps suffix_def)
  from arg_cong [OF this, of last] show False by (simp add: agentURL_def)
qed

lemma cnt_Heartbeat: "counts_acks env k cnt \<Longrightarrow> cnt (snd (Heartbeat (e_http env) c w)) = cnt w"
  using heartbeat_not_ack [of c]
  by (auto simp: Heartbeat_def postJSON_def exchange_def is_ack_def split: option.split sum.split prod.split
      dest!: counts_acksD(1) [where req = "postRequest c (agentURL c ''/heartbeat'') (encodeHeartbeatPush (heartbeatPayload c))" and w = w])

lemma cnt_Manager_State:
  assumes "counts_acks env k cnt"
  shows "cnt (snd (snd (Manager_State cfg (e_xray env) ord cur cs curR rs w))) = cnt w"
  using applyViaHandler_frame_rules [of cnt "e_xray env" cfg ord cur cs w]
    applyRoutes_frame_users [of cnt "e_xray env" cfg ord curR rs] counts_acksD(7-10) [OF assms]
  by (auto simp: Manager_State_def split: prod.split option.split) (metis snd_conv)+

lemma cnt_syncState:
  assumes "counts_acks env k cnt"
  shows "cnt (snd (snd (syncState env force a w))) = cnt w"
proof -
  obtain r w1 where g: "GetState (e_http env) (a_ctrl a) w = (r, w1)" by fastforce
  with cnt_GetState [OF assms, of "a_ctrl a" w] have "cnt w1 = cnt w" by simp
  with g cnt_Manager_State [OF assms] show ?thesis
    by (auto simp: syncState_def Let_def split: sum.split prod.split option.split) (metis snd_conv)+
qed

lemma cnt_syncRetry:
  assumes "counts_acks env k cnt" and "\<And>w. cnt (snd (wait w)) = cnt w"
  shows "cnt (snd (snd (syncRetry env wait n a w))) = cnt w"
proof (induction n arbitrary: a w)
  case (Suc n)
  obtain r a1 w1 where s: "syncStateAfterRuntimeReset env a w = (r, a1, w1)"
    by (cases "syncStateAfterRuntimeReset env a w")
  have "cnt w1 = cnt w" using cnt_syncState [OF assms(1), of True a w] s by (simp add: syncStateAfterRuntimeReset_def)
  moreover obtain e w2 where wt: "wait w1 = (e, w2)" by fastforce
  moreover from assms(2) [of w1] wt have "cnt w2 = cnt w1" by simp
  ultimately show ?case using Suc.IH [of a1 w2] s by (simp split: option.split)
qed simp

lemma cnt_runSystemctl: "counts_acks env k cnt \<Longrightarrow> cnt (snd (runSystemctl k args w)) = cnt w"
  using counts_acksD(3) [of env k cnt "''systemctl'' # args" w]
  by (auto simp: runSystemctl_def Let_def split: prod.split option.split)

lemma cnt_scheduleAgentRestart:
  assumes "counts_acks env k cnt"
  shows "cnt (snd (scheduleAgentRestart env k w)) = cnt w"
proof -
  obtain now w0 where n: "p_Now (e_host env) w = (now, w0)" by fastforce
  obtain out e w1 where x: "k_exec k (restartArgs now) w0 = ((out, e), w1)" by (metis surj_pair)
  have "cnt w0 = cnt w" using counts_acksD(2) [OF assms, of w] n by simp
  moreover have "cnt w1 = cnt w0" using counts_acksD(3) [OF assms, of "restartArgs now" w0] x by simp
  ultimately show ?thesis by (simp add: scheduleAgentRestart_def n x Let_def split: option.split)
qed

lemma cnt_postCommandAck:
  assumes "counts_acks env k cnt" and url: "\<And>u. h_NewRequest (e_http env) ''POST'' u = None"
  shows "cnt (snd (snd (postCommandAck env a i ack w))) = cnt w + (if i = [] then 0 else 1)"
proof (cases "i = []")
  case False
  let ?req = "postRequest (a_ctrl a) (agentURL (a_ctrl a) (''/commands/'' @ i @ ''/ack'')) (encodeAgentCommandAck ack)"
  have "is_ack ?req" using agentURL_suffix [of "a_ctrl a" "''/commands/'' @ i" "''/ack''"] by (simp add: is_ack_def)
  with counts_acksD(1) [OF assms(1), of ?req w] False url show ?thesis
    by (auto simp: postCommandAck_def AckCommand_def postJSON_def exchange_def split: prod.split sum.split)
qed (simp add: postCommandAck_def AckCommand_def)

lemmas cnt_simps = cnt_postCommandAck cnt_scheduleAgentRestart cnt_runSystemctl cnt_Heartbeat counts_acksD(2-6)

lemma cnt_restartAgentAndAck:
  assumes "counts_acks env k cnt" and "\<And>u. h_NewRequest (e_http env) ''POST'' u = None"
  shows "cnt (snd (snd (restartAgentAndAck env k i t a w))) = cnt w + (if i = [] then 0 else 1)"
  using cnt_scheduleAgentRestart [OF assms(1), of w]
  by (auto simp: restartAgentAndAck_def Let_def cnt_postCommandAck [OF assms] split: prod.split option.split)

lemma cnt_updateAgentAndAck:
  assumes "counts_acks env k cnt" and "\<And>u. h_NewRequest (e_http env) ''POST'' u = None"
  shows "cnt (snd (snd (updateAgentAndAck env k i t p a w))) = cnt w + (if i = [] then 0 else 1)"
proof -
  obtain r w1 where u: "k_agentUpdater k (AgentVersion (a_ctrl a)) (normalizeTargetVersion p) (GitHubToken (a_cfg a)) w = (r, w1)"
    by fastforce
  have "cnt w1 = cnt w"
    using counts_acksD(4) [OF assms(1), of "AgentVersion (a_ctrl a)" "normalizeTargetVersion p" "GitHubToken (a_cfg a)" w] u
    by simp
  moreover obtain e w2 where s: "scheduleAgentRestart env k w1 = (e, w2)" by fastforce
  moreover from cnt_scheduleAgentRestart [OF assms(1), of w1] s have "cnt w2 = cnt w1" by simp
  ultimately show ?thesis
    by (auto simp: updateAgentAndAck_def Let_def u cnt_postCommandAck [OF assms] split: sum.split option.split)
qed

lemma cnt_updateCoreAndAck:
  assumes con: "counts_acks env k cnt" and "\<And>u. h_NewRequest (e_http env) ''POST'' u = None"
  shows "cnt (snd (snd (updateCoreAndAck env k i t p a w))) = cnt w + (if i = [] then 0 else 1)"
proof -
  note post = cnt_postCommandAck [OF assms]
  obtain r w1 where u: "k_coreUpdater k (normalizeTargetVersion p) (GitHubToken (a_cfg a)) w = (r, w1)" by fastforce
  have 1: "cnt w1 = cnt w" using counts_acksD(5) [OF con, of "normalizeTargetVersion p" "GitHubToken (a_cfg a)" w] u by simp
  show ?thesis
  proof (cases r)
    case (Inl e)
    with u 1 show ?thesis by (simp add: updateCoreAndAck_def Let_def post)
  next
    case (Inr res)
    let ?a = "a\<lparr>a_ctrl := SetXrayCoreVersion (resolveUpdatedCoreVersion (Some res) (normalizeTargetVersion p)) (a_ctrl a)\<rparr>"
    obtain e w2 where s: "runSystemctl k [''restart'', ''xray''] w1 = (e, w2)" by fastforce
    have 2: "cnt w2 = cnt w1" using cnt_runSystemctl [OF con, of "[''restart'', ''xray'']" w1] s by simp
    obtain e2 a2 w3 where y: "syncStateAfterCoreRestart env (backgroundWait k) ?a w2 = (e2, a2, w3)"
      by (cases "syncStateAfterCoreRestart env (backgroundWait k) ?a w2")
    have "cnt (snd (backgroundWait k v)) = cnt v" for v by (simp add: backgroundWait_def counts_acksD(6) [OF con])
    with cnt_syncRetry [OF con, of "backgroundWait k" coreRestartSyncRetries ?a w2] y have 3: "cnt w3 = cnt w2"
      by (simp add: syncStateAfterCoreRestart_def)
    obtain h1 v1 where h1: "refreshCoreVersionHeartbeat env ?a w1 = (h1, v1)" by fastforce
    obtain h2 v2 where h2: "refreshCoreVersionHeartbeat env a2 w3 = (h2, v2)" by fastforce
    have 4: "cnt v1 = cnt w1" "cnt v2 = cnt w3"
      using cnt_Heartbeat [OF con, of "a_ctrl ?a" w1] cnt_Heartbeat [OF con, of "a_ctrl a2" w3] h1 h2
      by (simp_all add: refreshCoreVersionHeartbeat_def)
    from u Inr s y h1 h2 1 2 3 4 show ?thesis
      by (simp add: updateCoreAndAck_def Let_def post split: option.split)
  qed
qed

lemma cnt_executeAgentCommand:
  assumes con: "counts_acks env k cnt"
  shows "cnt (snd (snd (executeAgentCommand env k ty a w))) = cnt w"
proof -
  obtain e w1 where s: "runSystemctl k [''restart'', ''xray''] w = (e, w1)" by fastforce
  have 1: "cnt w1 = cnt w" using cnt_runSystemctl [OF con, of "[''restart'', ''xray'']" w] s by simp
  obtain e2 a2 w2 where y: "syncStateAfterCoreRestart env (k_wait k) a w1 = (e2, a2, w2)"
    by (cases "syncStateAfterCoreRestart env (k_wait k) a w1")
  from cnt_syncRetry [OF con counts_acksD(6) [OF con], of coreRestartSyncRetries a w1] y have "cnt w2 = cnt w1"
    by (simp add: syncStateAfterCoreRestart_def)
  with s y 1 show ?thesis by (simp add: executeAgentCommand_def split: option.split)
qed

lemma executeNextCommand_other:
  assumes "GetNextCommand (e_http env) (a_ctrl a) w = (Inr (Some c), w1)" and "p_Now (e_host env) w1 = (t, w2)"
    and "ac_Type c \<noteq> AgentCommandTypeRestartAgent" "ac_Type c \<noteq> AgentCommandTypeUpdateAgent"
      "ac_Type c \<noteq> AgentCommandTypeUpdateCore"
    and "executeAgentCommand env k (ac_Type c) a w2 = (r, a1, w3)"
  shows "executeNextCommand env k a w = postCommandAck env a1 (ac_ID c)
    (case r of Some err \<Rightarrow> failAck (errText err) (ackOf t (ac_Type c)) | None \<Rightarrow> ackOf t (ac_Type c)) w3"
  using assms by (simp add: executeNextCommand_def postCommandAck_def Let_def)

section \<open>Retries\<close>

text \<open>A failed forced synchronisation leaves the agent, so only the world moves from attempt to attempt.\<close>

lemma forced_failure: "syncStateAfterRuntimeReset env a w = (Some e, a1, w1) \<Longrightarrow> a1 = a"
  by (auto simp: syncStateAfterRuntimeReset_def syncState_def Let_def split: prod.splits sum.splits option.splits if_splits)

text \<open>The world before attempt \<open>i\<close>, if all attempts before it failed and no wait was cut short.\<close>

primrec attemptWorld :: "('w, 'c, 'm) agent_env \<Rightarrow> ('w \<Rightarrow> go_error option \<times> 'w) \<Rightarrow> Agent \<Rightarrow> 'w \<Rightarrow> nat \<Rightarrow> 'w option" where
  "attemptWorld env wait a w 0 = Some w"
| "attemptWorld env wait a w (Suc i) =
     (case attemptWorld env wait a w i of
        None \<Rightarrow> None
      | Some v \<Rightarrow>
          (case syncStateAfterRuntimeReset env a v of
             (None, _, _) \<Rightarrow> None
           | (Some e, _, v1) \<Rightarrow> (case wait v1 of (Some e, v2) \<Rightarrow> None | (None, v2) \<Rightarrow> Some v2)))"

lemma attemptWorld_shift:
  assumes "syncStateAfterRuntimeReset env a w = (Some e, a, w1)" and "wait w1 = (None, w2)"
  shows "attemptWorld env wait a w (Suc i) = attemptWorld env wait a w2 i"
  by (induction i) (simp_all add: assms)

lemma attemptWorld_stops:
  "attemptWorld env wait a w (Suc 0) = None \<Longrightarrow> attemptWorld env wait a w (Suc i) = None"
  by (induction i) simp_all

lemma syncRetry_success:
  "syncRetry env wait n a w = (None, a', w') \<longleftrightarrow>
     (\<exists>i<n. \<exists>v. attemptWorld env wait a w i = Some v \<and> syncStateAfterRuntimeReset env a v = (None, a', w'))"
proof (induction n arbitrary: w)
  case (Suc n)
  obtain r a1 w1 where s: "syncStateAfterRuntimeReset env a w = (r, a1, w1)"
    by (cases "syncStateAfterRuntimeReset env a w")
  have split: "(\<exists>i<Suc n. \<exists>v. attemptWorld env wait a w i = Some v \<and> syncStateAfterRuntimeReset env a v = (None, a', w'))
      \<longleftrightarrow> syncStateAfterRuntimeReset env a w = (None, a', w')
        \<or> (\<exists>i<n. \<exists>v. attemptWorld env wait a w (Suc i) = Some v \<and> syncStateAfterRuntimeReset env a v = (None, a', w'))"
    by (simp only: Ex_less_Suc2) simp
  show ?case
  proof (cases r)
    case None
    have "attemptWorld env wait a w (Suc i) = None" for i
      by (rule attemptWorld_stops) (simp add: s None)
    then show ?thesis unfolding split by (simp add: s None)
  next
    case (Some e)
    then have a1: "a1 = a" using s forced_failure by metis
    obtain e2 w2 where wt: "wait w1 = (e2, w2)" by fastforce
    show ?thesis
    proof (cases e2)
      case None
      have "attemptWorld env wait a w (Suc i) = attemptWorld env wait a w2 i" for i
        using attemptWorld_shift s Some a1 wt None by metis
      then show ?thesis unfolding split using Suc.IH [of w2] by (simp add: s Some a1 wt None)
    next
      case (Some e3)
      have "attemptWorld env wait a w (Suc i) = None" for i
        by (rule attemptWorld_stops) (simp add: s \<open>r = Some e\<close> wt Some)
      then show ?thesis unfolding split by (simp add: s \<open>r = Some e\<close> wt Some)
    qed
  qed
qed simp

section \<open>What a forced synchronisation serves\<close>

definition serves ::
  "('w, 'c, 'm) agent_env \<Rightarrow> Config \<Rightarrow> (string \<Rightarrow> string) \<Rightarrow> 'w users_view \<Rightarrow> ('w, 'm) rules_view \<Rightarrow> State \<Rightarrow> 'w \<Rightarrow> bool" where
  "serves env cfg nrm users rules ds w \<longleftrightarrow>
     (\<forall>c\<in>set (st_Clients ds). accountOf c \<noteq> None \<and> users w (userKey cfg nrm c) = accountOf c)
     \<and> (\<forall>r\<in>set (fst (NormalizeRouteRules (st_Routes ds))). \<exists>m\<in>set (rules w). buildRoutingConfig (e_xray env) r = Inr m)"

text \<open>The panel never names a user twice.\<close>

definition panel_distinct :: "('w, 'c, 'm) agent_env \<Rightarrow> (string \<Rightarrow> string) \<Rightarrow> CtrlClient \<Rightarrow> bool" where
  "panel_distinct env nrm ctrl \<longleftrightarrow>
     (\<forall>w ds w1. GetState (e_http env) ctrl w = (Inr ds, w1) \<longrightarrow> distinct (map (\<lambda>c. nrm (c_Email c)) (st_Clients ds)))"

lemma panel_distinctD:
  "panel_distinct env nrm ctrl \<Longrightarrow> GetState (e_http env) ctrl w = (Inr ds, w1) \<Longrightarrow> distinct (map (\<lambda>c. nrm (c_Email c)) (st_Clients ds))"
  unfolding panel_distinct_def by blast

lemma forced_sync_serves:
  assumes con: "runtime_contract env nrm users tagOf rules"
    and run: "syncStateAfterRuntimeReset env a w = (None, a', w')"
    and dist: "panel_distinct env nrm (a_ctrl a)"
  shows "\<exists>ds w1. GetState (e_http env) (a_ctrl a) w = (Inr ds, w1) \<and> serves env (a_cfg a) nrm users rules ds w'
    \<and> a_state a' = Update (a_state a) (st_ConfigVersion ds) (st_Clients ds) (fst (NormalizeRouteRules (st_Routes ds)))"
proof -
  from run have "syncState env True a w = (None, a', w')" by (simp add: syncStateAfterRuntimeReset_def)
  then obtain ds w1 changed where got: "GetState (e_http env) (a_ctrl a) w = (Inr ds, w1)"
    and m: "Manager_State (a_cfg a) (e_xray env) (e_ord env) [] (st_Clients ds) [] (fst (NormalizeRouteRules (st_Routes ds))) w1
      = (changed, None, w')"
    and a': "a' = a\<lparr>a_state := Update (a_state a) (st_ConfigVersion ds) (st_Clients ds) (fst (NormalizeRouteRules (st_Routes ds)))\<rparr>"
    by (rule syncState_cases) auto
  let ?R = "fst (NormalizeRouteRules (st_Routes ds))"
  have hc: "handler_contract (e_xray env) nrm users" and rc: "routing_contract (e_xray env) tagOf rules"
    using con by (simp_all add: runtime_contract_def)
  from m obtain ch w2 ch2 where h: "applyViaHandler (a_cfg a) (e_xray env) (e_ord env) [] (st_Clients ds) w1 = (ch, None, w2)"
    and r: "applyRoutes (a_cfg a) (e_xray env) (e_ord env) [] ?R w2 = (ch2, None, w')"
    by (auto simp: Manager_State_def split: prod.splits option.splits)
  have adds: "fst (diffClients (e_ord env) [] (st_Clients ds)) = st_Clients ds"
    using dc.adds_filter [of "[]" "e_ord env" "st_Clients ds"] by simp
  have u: "users w' = users w2"
    using applyRoutes_frame_users [of users "e_xray env" "a_cfg a" "e_ord env" "[]" ?R w2] con r
    by (auto simp: runtime_contract_def handler_contract_def)
  have "inj_on (userKey (a_cfg a) nrm) (set (st_Clients ds))"
    using panel_distinctD [OF dist got] by (intro inj_on_userKey) (simp add: distinct_map)
  then have "distinct (map (userKey (a_cfg a) nrm) (st_Clients ds))"
    using panel_distinctD [OF dist got] by (auto simp: distinct_map)
  then have "users w' (userKey (a_cfg a) nrm c) = accountOf c \<and> accountOf c \<noteq> None" if "c \<in> set (st_Clients ds)" for c
    using applyViaHandler_effect [OF hc h] that unfolding adds u by (simp add: last_with_distinct)
  moreover have "\<exists>m\<in>set (rules w'). buildRoutingConfig (e_xray env) x = Inr m" if "x \<in> set ?R" for x
  proof -
    have "fst (diffRoutes (e_ord env) [] ?R) = ?R"
      using dr.adds_filter [of "[]" "e_ord env" ?R] by (simp add: keep_last_distinct distinct_keep_last)
    then obtain ms where ms: "list_all2 (\<lambda>r m. buildRoutingConfig (e_xray env) r = Inr m) ?R ms" "set ms \<subseteq> set (rules w')"
      using applyRoutes_effect [OF rc _ r] by auto
    have "buildRoutingConfig (e_xray env) x \<in> Inr ` set ms" using list_all2_build(1) [OF rc ms(1)] that by blast
    with ms(2) show ?thesis by auto
  qed
  ultimately show ?thesis using got a' by (auto simp: serves_def)
qed

lemma restart_serves:
  assumes con: "runtime_contract env nrm users tagOf rules"
    and dist: "panel_distinct env nrm (a_ctrl a)"
    and run: "syncStateAfterCoreRestart env wait a w = (None, a', w')"
  shows "\<exists>v ds w1. GetState (e_http env) (a_ctrl a) v = (Inr ds, w1) \<and> serves env (a_cfg a) nrm users rules ds w'
    \<and> a_state a' = Update (a_state a) (st_ConfigVersion ds) (st_Clients ds) (fst (NormalizeRouteRules (st_Routes ds)))"
proof -
  from run obtain v where "syncStateAfterRuntimeReset env a v = (None, a', w')"
    unfolding syncStateAfterCoreRestart_def syncRetry_success by blast
  from forced_sync_serves [OF con this dist] show ?thesis by blast
qed

section \<open>Acknowledgements\<close>

lemma ack_simps [simp]:
  "ak_Status (setResult x v ack) = ak_Status ack" "ak_ErrorMessage (setResult x v ack) = ak_ErrorMessage ack"
  "go_get (ak_Result (setResult x v ack)) y = (if y = x then Some v else go_get (ak_Result ack) y)"
  "ak_Status (failAck m ack) = AgentCommandAckFailed" "ak_ErrorMessage (failAck m ack) = m"
  "ak_Result (failAck m ack) = ak_Result ack" "ak_Status (ackOf t ty) = AgentCommandAckSucceeded"
  by (simp_all add: setResult_def failAck_def ackOf_def)

lemma ack_status_neq [simp]: "AgentCommandAckSucceeded \<noteq> AgentCommandAckFailed" "AgentCommandAckFailed \<noteq> AgentCommandAckSucceeded"
  by (simp_all add: AgentCommandAckFailed_def AgentCommandAckSucceeded_def)

lemma GetState_core_version [simp]: "GetState env (SetXrayCoreVersion v c) w = GetState env c w"
proof -
  have "agentURL (SetXrayCoreVersion v c) = agentURL c" "getRequest (SetXrayCoreVersion v c) = getRequest c"
    by (auto simp: fun_eq_iff getRequest_def auth_def agentURL_def SetXrayCoreVersion_def)
  then show ?thesis by (simp only: GetState_def)
qed

lemma panel_distinct_core_version [simp]: "panel_distinct env nrm (SetXrayCoreVersion v c) = panel_distinct env nrm c"
  by (simp add: panel_distinct_def)

lemma Heartbeat_frame:
  assumes "\<And>req w. V (snd (h_Do env req w)) = V w"
  shows "V (snd (Heartbeat env c w)) = V w"
proof (cases "h_NewRequest env ''POST'' (agentURL c ''/heartbeat'')")
  case None
  with hb.sends(1) [of c "''/heartbeat''" "encodeHeartbeatPush (heartbeatPayload c)" env w] assms show ?thesis
    by (simp add: heartbeatContent_def)
qed (simp add: Heartbeat_def postJSON_def)

lemma serves_heartbeat:
  assumes "runtime_contract env nrm users tagOf rules" and "serves env cfg nrm users rules ds w"
  shows "serves env cfg nrm users rules ds (snd (refreshCoreVersionHeartbeat env a w))"
  using assms Heartbeat_frame [of users "e_http env" "a_ctrl a" w] Heartbeat_frame [of rules "e_http env" "a_ctrl a" w]
  by (simp add: serves_def refreshCoreVersionHeartbeat_def runtime_contract_def)

lemma heartbeat_version: "hb_XrayCoreVersion (heartbeatPayload c) = cc_xrayCoreVersion c"
  by (simp add: heartbeatPayload_def Let_def)

lemma syncState_agent: "fst (snd (syncState env force a w)) = a\<lparr>a_state := a_state (fst (snd (syncState env force a w)))\<rparr>"
  by (simp add: syncState_def Let_def split: prod.split sum.split option.split)

lemma syncRetry_ctrl: "a_ctrl (fst (snd (syncRetry env wait n a w))) = a_ctrl a"
proof (induction n arbitrary: a w)
  case (Suc n)
  obtain r a1 w1 where s: "syncStateAfterRuntimeReset env a w = (r, a1, w1)"
    by (cases "syncStateAfterRuntimeReset env a w")
  have "a_ctrl a1 = a_ctrl a"
    using arg_cong [OF syncState_agent [of env True a w], of a_ctrl] s by (simp add: syncStateAfterRuntimeReset_def)
  with Suc.IH [of a1] s show ?case by (simp split: option.split prod.split)
qed simp

text \<open>The two ways in which an update command ends.\<close>

lemma acked_failed:
  assumes "run = postCommandAck env a' i (setResult ''mode'' (JStr m) (failAck msg ack)) w'"
    and "m \<noteq> ''already_current''" "m \<noteq> ''update_installed_restart_completed''"
  shows "\<exists>ack a' w'. run = postCommandAck env a' i ack w'
    \<and> (ak_Status ack = AgentCommandAckSucceeded \<or> ak_Status ack = AgentCommandAckFailed)
    \<and> (ak_Status ack = AgentCommandAckSucceeded \<longleftrightarrow>
        go_get (ak_Result ack) ''mode'' \<in> {Some (JStr ''already_current''), Some (JStr ''update_installed_restart_completed'')})
    \<and> (go_get (ak_Result ack) ''mode'' = Some (JStr ''update_installed_restart_completed'') \<longrightarrow> Q a' w')"
  by (rule exI [of _ "setResult ''mode'' (JStr m) (failAck msg ack)"], rule exI [of _ a'], rule exI [of _ w'])
    (use assms in simp)

lemma acked_succeeded:
  assumes "run = postCommandAck env a' i (setResult ''mode'' (JStr m) ack) w'" and "ak_Status ack = AgentCommandAckSucceeded"
    and "m = ''already_current'' \<or> m = ''update_installed_restart_completed'' \<and> Q a' w'"
  shows "\<exists>ack a' w'. run = postCommandAck env a' i ack w'
    \<and> (ak_Status ack = AgentCommandAckSucceeded \<or> ak_Status ack = AgentCommandAckFailed)
    \<and> (ak_Status ack = AgentCommandAckSucceeded \<longleftrightarrow>
        go_get (ak_Result ack) ''mode'' \<in> {Some (JStr ''already_current''), Some (JStr ''update_installed_restart_completed'')})
    \<and> (go_get (ak_Result ack) ''mode'' = Some (JStr ''update_installed_restart_completed'') \<longrightarrow> Q a' w')"
  by (rule exI [of _ "setResult ''mode'' (JStr m) ack"], rule exI [of _ a'], rule exI [of _ w']) (use assms in auto)

section \<open>Properties\<close>


text \<open>
  C18: a command to restart the core is acknowledged as succeeded only if everything was restored.
  If the acknowledgement says \<^verbatim>\<open>SUCCEEDED\<close>, the restart succeeded, and at the moment it is sent
  every client the panel wants has its account in its inbound and every normalised route has its
  rule, whatever state the restart left Xray in; the store records that state. Otherwise the
  acknowledgement says \<^verbatim>\<open>FAILED\<close> and carries the text of the error.
\<close>

theorem restart_core_restores_state:
  assumes "runtime_contract env nrm users tagOf rules"
    and "panel_distinct env nrm (a_ctrl a)"
    and "GetNextCommand (e_http env) (a_ctrl a) w = (Inr (Some c), w1)" and "p_Now (e_host env) w1 = (t, w2)"
    and "ac_Type c = AgentCommandTypeRestartCore"
  shows "\<exists>ack a' w'. executeNextCommand env k a w = postCommandAck env a' (ac_ID c) ack w'
    \<and> (ak_Status ack = AgentCommandAckSucceeded \<longrightarrow>
        fst (runSystemctl k [''restart'', ''xray''] w2) = None
        \<and> (\<exists>v ds v1. GetState (e_http env) (a_ctrl a) v = (Inr ds, v1) \<and> serves env (a_cfg a) nrm users rules ds w'
             \<and> a_state a' = Update (a_state a) (st_ConfigVersion ds) (st_Clients ds) (fst (NormalizeRouteRules (st_Routes ds)))))
    \<and> (ak_Status ack \<noteq> AgentCommandAckSucceeded \<longrightarrow>
        ak_Status ack = AgentCommandAckFailed
        \<and> (\<exists>err. fst (executeAgentCommand env k (ac_Type c) a w2) = Some err \<and> ak_ErrorMessage ack = errText err))"
proof -
  obtain e a1 w3 where x: "executeAgentCommand env k (ac_Type c) a w2 = (e, a1, w3)"
    by (cases "executeAgentCommand env k (ac_Type c) a w2")
  have ty: "ac_Type c \<noteq> AgentCommandTypeRestartAgent" "ac_Type c \<noteq> AgentCommandTypeUpdateAgent"
    "ac_Type c \<noteq> AgentCommandTypeUpdateCore" using assms(5) by (simp_all add: go_simps)
  note run = executeNextCommand_other [OF assms(3,4) ty x]
  show ?thesis
  proof (cases e)
    case (Some err)
    show ?thesis
      by (rule exI [of _ "failAck (errText err) (ackOf t (ac_Type c))"], rule exI [of _ a1], rule exI [of _ w3])
        (simp add: run Some x failAck_def AgentCommandAckFailed_def AgentCommandAckSucceeded_def)
  next
    case None
    with x assms(5) obtain v where "fst (runSystemctl k [''restart'', ''xray''] w2) = None"
      and "syncStateAfterCoreRestart env (k_wait k) a v = (None, a1, w3)"
      by (auto simp: executeAgentCommand_def split: prod.splits option.splits)
    with restart_serves [OF assms(1,2), where wait = "k_wait k" and w = v] show ?thesis
      by (intro exI [of _ "ackOf t (ac_Type c)"] exI [of _ a1] exI [of _ w3]) (simp add: run None ackOf_def)
  qed
qed

text \<open>
  C24: after a restart of the core the agent tries at most six times, one second apart, and
  succeeds exactly if one of the six forced synchronisations succeeds before a wait is cut short;
  the attempts that failed before it have not changed the agent.
\<close>

theorem core_restart_sync_retries:
  "syncStateAfterCoreRestart env wait a w = (None, a', w') \<longleftrightarrow>
     (\<exists>i<6. \<exists>v. attemptWorld env wait a w i = Some v \<and> syncStateAfterRuntimeReset env a v = (None, a', w'))"
  by (simp add: syncStateAfterCoreRestart_def coreRestartSyncRetries_def syncRetry_success)

text \<open>The part of a core update after the installation.\<close>

lemma updateCore_installed:
  assumes "runtime_contract env nrm users tagOf rules" and "panel_distinct env nrm (a_ctrl a)"
    and tv: "normalizeTargetVersion payload \<noteq> []"
    and u: "k_coreUpdater k (normalizeTargetVersion payload) (GitHubToken (a_cfg a)) w = (Inr res, w1)" and upd: "ir_Updated res"
  shows "\<exists>ack a' w'. updateCoreAndAck env k i t payload a w = postCommandAck env a' i ack w'
    \<and> (ak_Status ack = AgentCommandAckSucceeded \<or> ak_Status ack = AgentCommandAckFailed)
    \<and> (ak_Status ack = AgentCommandAckSucceeded \<longleftrightarrow>
        go_get (ak_Result ack) ''mode'' \<in> {Some (JStr ''already_current''), Some (JStr ''update_installed_restart_completed'')})
    \<and> (go_get (ak_Result ack) ''mode'' = Some (JStr ''update_installed_restart_completed'') \<longrightarrow>
        (\<exists>w2 v ds v1. runSystemctl k [''restart'', ''xray''] w1 = (None, w2)
           \<and> GetState (e_http env) (a_ctrl a) v = (Inr ds, v1)
           \<and> serves env (a_cfg a) nrm users rules ds w'
           \<and> hb_XrayCoreVersion (heartbeatPayload (a_ctrl a')) =
               normalizeTaggedVersion (resolveUpdatedCoreVersion (Some res) (normalizeTargetVersion payload))))"
proof -
  let ?tv = "normalizeTargetVersion payload"
  let ?a = "a\<lparr>a_ctrl := SetXrayCoreVersion (resolveUpdatedCoreVersion (Some res) ?tv) (a_ctrl a)\<rparr>"
  obtain e w2 where s: "runSystemctl k [''restart'', ''xray''] w1 = (e, w2)" by fastforce
  obtain e2 a2 w3 where y: "syncStateAfterCoreRestart env (backgroundWait k) ?a w2 = (e2, a2, w3)"
    by (cases "syncStateAfterCoreRestart env (backgroundWait k) ?a w2")
  obtain h w4 where h: "refreshCoreVersionHeartbeat env a2 w3 = (h, w4)" by fastforce
  have ctrl: "a_ctrl a2 = a_ctrl ?a"
    using syncRetry_ctrl [of env "backgroundWait k" coreRestartSyncRetries ?a w2] y
    by (simp add: syncStateAfterCoreRestart_def)
  consider err where "e = Some err" | err where "e = None" "e2 = Some err" | "e = None" "e2 = None" by fastforce
  then show ?thesis
  proof cases
    case 3
    from restart_serves [OF assms(1), where a = ?a and w = w2] y 3 assms(2)
    obtain v ds v1 where "GetState (e_http env) (a_ctrl a) v = (Inr ds, v1)" "serves env (a_cfg a) nrm users rules ds w3"
      by fastforce
    with serves_heartbeat [OF assms(1), of "a_cfg a" ds w3 a2] h
    have ex: "\<exists>v ds v1. GetState (e_http env) (a_ctrl a) v = (Inr ds, v1) \<and> serves env (a_cfg a) nrm users rules ds w4" by auto
    have "hb_XrayCoreVersion (heartbeatPayload (a_ctrl a2)) = normalizeTaggedVersion (resolveUpdatedCoreVersion (Some res) ?tv)"
      by (simp add: ctrl heartbeat_version SetXrayCoreVersion_def)
    with ex 3 tv upd u s y h show ?thesis
      by (intro acked_succeeded [where m = "''update_installed_restart_completed''"])
        (simp add: updateCoreAndAck_def Let_def, simp, auto)
  next
    case (1 err)
    with tv upd u s show ?thesis
      by (intro acked_failed [where m = "''update_installed_restart_failed''"]) (simp add: updateCoreAndAck_def Let_def, simp_all)
  next
    case (2 err)
    with tv upd u s y show ?thesis
      by (intro acked_failed [where m = "''update_installed_restart_sync_failed''"]) (simp add: updateCoreAndAck_def Let_def, simp_all)
  qed
qed

text \<open>
  C19: an update of the core that is acknowledged with the mode \<^verbatim>\<open>update_installed_restart_completed\<close>
  went through all its steps in order: the new version was installed, Xray was restarted, every
  client and route of the panel was restored, and the heartbeat reports the new version. The
  acknowledgement says \<^verbatim>\<open>SUCCEEDED\<close> exactly in this case and when the version was already current.
\<close>

theorem update_core_completed:
  assumes "runtime_contract env nrm users tagOf rules" and "panel_distinct env nrm (a_ctrl a)"
  shows "\<exists>ack a' w'. updateCoreAndAck env k i t payload a w = postCommandAck env a' i ack w'
    \<and> (ak_Status ack = AgentCommandAckSucceeded \<or> ak_Status ack = AgentCommandAckFailed)
    \<and> (ak_Status ack = AgentCommandAckSucceeded \<longleftrightarrow>
        go_get (ak_Result ack) ''mode'' \<in> {Some (JStr ''already_current''), Some (JStr ''update_installed_restart_completed'')})
    \<and> (go_get (ak_Result ack) ''mode'' = Some (JStr ''update_installed_restart_completed'') \<longrightarrow>
        (\<exists>res w1 w2 v ds v1. k_coreUpdater k (normalizeTargetVersion payload) (GitHubToken (a_cfg a)) w = (Inr res, w1)
           \<and> ir_Updated res \<and> runSystemctl k [''restart'', ''xray''] w1 = (None, w2)
           \<and> GetState (e_http env) (a_ctrl a) v = (Inr ds, v1)
           \<and> serves env (a_cfg a) nrm users rules ds w'
           \<and> hb_XrayCoreVersion (heartbeatPayload (a_ctrl a')) =
               normalizeTaggedVersion (resolveUpdatedCoreVersion (Some res) (normalizeTargetVersion payload))))"
    (is "\<exists>ack a' w'. ?P ack a' w'")
proof -
  let ?tv = "normalizeTargetVersion payload"
  obtain r w1 where u: "k_coreUpdater k ?tv (GitHubToken (a_cfg a)) w = (r, w1)" by fastforce
  consider "?tv = []" | e where "?tv \<noteq> []" "r = Inl e" | res where "?tv \<noteq> []" "r = Inr res" "\<not> ir_Updated res"
    | res where "?tv \<noteq> []" "r = Inr res" "ir_Updated res" by (cases r) auto
  then show ?thesis
  proof cases
    case (4 res)
    show ?thesis using updateCore_installed [OF assms 4(1) u [unfolded 4(2)] 4(3), of i t] u 4(2,3) by auto
  next
    case 1
    with u show ?thesis
      by (intro acked_failed [where m = "''invalid_payload''"]) (simp add: updateCoreAndAck_def Let_def, simp_all)
  next
    case (2 e)
    with u show ?thesis
      by (intro acked_failed [where m = "''update_failed''"]) (simp add: updateCoreAndAck_def Let_def, simp_all)
  next
    case (3 res)
    with u show ?thesis
      by (intro acked_succeeded [where m = "''already_current''"])
        (simp add: updateCoreAndAck_def Let_def case_prod_beta, simp_all)
  qed
qed

text \<open>
  C25: the agent is restarted only after a new binary was installed. The restart is scheduled
  exactly when the updater reports an update; if the payload names no version, the update fails or
  the version is current, the world is only that of the updater and the acknowledgement; and the
  acknowledgement reports a failure exactly if one of the steps failed.
\<close>

theorem update_agent_restarts_after_install:
  "\<exists>ack w'. updateAgentAndAck env k i t payload a w = postCommandAck env a i ack w'
    \<and> (if normalizeTargetVersion payload = []
        then ak_Status ack = AgentCommandAckFailed \<and> w' = w
        else case k_agentUpdater k (AgentVersion (a_ctrl a)) (normalizeTargetVersion payload) (GitHubToken (a_cfg a)) w of
          (Inl err, w1) \<Rightarrow> ak_Status ack = AgentCommandAckFailed \<and> ak_ErrorMessage ack = errText err \<and> w' = w1
        | (Inr res, w1) \<Rightarrow>
            if ir_Updated res
            then w' = snd (scheduleAgentRestart env k w1)
              \<and> (ak_Status ack = AgentCommandAckSucceeded \<longleftrightarrow> fst (scheduleAgentRestart env k w1) = None)
            else w' = w1 \<and> ak_Status ack = AgentCommandAckSucceeded)"
proof -
  let ?tv = "normalizeTargetVersion payload"
  obtain r w1 where u: "k_agentUpdater k (AgentVersion (a_ctrl a)) ?tv (GitHubToken (a_cfg a)) w = (r, w1)" by fastforce
  obtain e w2 where s: "scheduleAgentRestart env k w1 = (e, w2)" by fastforce
  show ?thesis
    by (auto simp: updateAgentAndAck_def Let_def u s split: sum.split option.split intro!: exI)
qed

section \<open>Witnesses\<close>

text \<open>
  A panel that hands out a command and a state, counts the acknowledgements it receives, and a
  simulated Xray whose restart clears its users and rules.
\<close>

record CSim = Sim +
  cs_acks :: nat

definition commandJSON :: "string \<Rightarrow> json" where
  "commandJSON ty = JObj [(''command'', JObj [(''id'', JStr ''c1''), (''type'', JStr ty)])]"

definition csim_env :: "string \<Rightarrow> State \<Rightarrow> (CSim, json, json) agent_env" where
  "csim_env ty ds =
     \<lparr>e_http = \<lparr>h_NewRequest = (\<lambda>_ _. None),
                h_Do = (\<lambda>req w. (Inr \<lparr>rs_StatusCode = 200, rs_Body = (if HasSuffix (rq_URL req) ''/state'' then ''s'' else ''c'')\<rparr>,
                                 if is_ack req then w\<lparr>cs_acks := Suc (cs_acks w)\<rparr> else w)),
                h_scan = (\<lambda>b. if b = ''s'' then Inr (encodeState ds) else Inr (commandJSON ty))\<rparr>,
      e_xray = sim_api,
      e_stats = \<lparr>q_NewClient = (\<lambda>_ w. (None, w)), q_QueryStats = (\<lambda>_ _ w. (Inr [], w)),
                 q_GetAllOnlineUsers = (\<lambda>w. (Inr [], w)), q_GetStatsOnlineIpList = (\<lambda>_ w. (Inr [], w)),
                 q_GetSysStats = (\<lambda>w. (Inl (ErrExt 4 ''unimplemented''), w))\<rparr>,
      e_host = \<lparr>p_CPU = (\<lambda>w. (Inr [], w)), p_Mem = (\<lambda>w. (Inr None, w)), p_Net = (\<lambda>w. (Inr [], w)),
                p_Now = (\<lambda>w. (0, w))\<rparr>,
      e_coreCheck = (\<lambda>_ w. (Inr None, w)), e_ord = rev, e_unicode = (\<lambda>s. s),
      e_srt = (\<lambda>key xs. sort_key key xs)\<rparr>"

definition csim_hooks :: "CSim hooks" where
  "csim_hooks =
     \<lparr>k_exec = (\<lambda>args w. (([], None), if args = [''systemctl'', ''restart'', ''xray'']
                                     then w\<lparr>sim_users := (\<lambda>_. None), sim_rules := []\<rparr> else w)),
      k_agentUpdater = (\<lambda>c v t w. (Inr \<lparr>ir_FromVersion = c, ir_ToVersion = v, ir_Updated = True\<rparr>, w)),
      k_coreUpdater = (\<lambda>v t w. (Inr \<lparr>ir_FromVersion = [], ir_ToVersion = v, ir_Updated = True\<rparr>, w)),
      k_wait = (\<lambda>w. (None, w))\<rparr>"

definition csim0 :: CSim where
  "csim0 = \<lparr>sim_users = (\<lambda>_. None), sim_rules = [], cs_acks = 0\<rparr>"

lemma csim_counts: "counts_acks (csim_env ty ds) csim_hooks cs_acks"
  by (auto simp: counts_acks_def csim_env_def csim_hooks_def sim_alter_def split: inbound_op.split)

lemma csim_runtime: "runtime_contract (csim_env ty ds) (\<lambda>e. e) sim_users sim_tag sim_rules"
  using sim_handler [where ?'a = "\<lparr>cs_acks :: nat\<rparr>"] sim_routing [where ?'a = "\<lparr>cs_acks :: nat\<rparr>"]
  by (auto simp: runtime_contract_def csim_env_def sim_alter_def split: inbound_op.splits)

lemma csim_GetState:
  assumes "go_wf (st_Meta ds)"
  shows "GetState (e_http (csim_env ty ds)) c w = (Inr ds, w)"
  using agentURL_suffix [of c "[]" "''/state''"] assms
  by (simp add: GetState_def exchange_def csim_env_def decodeState_encodeState is_ack_def)

lemma csim_distinct:
  assumes "go_wf (st_Meta ds)" and "distinct (map c_Email (st_Clients ds))"
  shows "panel_distinct (csim_env ty ds) (\<lambda>e. e) c"
  unfolding panel_distinct_def csim_GetState [OF assms(1)] using assms(2) by simp

definition cmd1 :: "string \<Rightarrow> AgentCommand" where
  "cmd1 ty = zeroCommand\<lparr>ac_ID := ''c1'', ac_Type := ty\<rparr>"

lemma csim_command: "GetNextCommand (e_http (csim_env ty ds)) c w = (Inr (Some (cmd1 ty)), w)"
proof -
  have "\<not> HasSuffix (agentURL c ''/commands/next'') ''/state''"
  proof
    assume "HasSuffix (agentURL c ''/commands/next'') ''/state''"
    then obtain zs where "agentURL c ''/commands/next'' = zs @ ''/state''" by (auto simp: go_simps suffix_def)
    from arg_cong [OF this, of last] show False by (simp add: agentURL_def)
  qed
  moreover have "decodeCommandEnvelope (commandJSON ty) = Inr (Some (cmd1 ty))"
    by (simp add: decodeCommandEnvelope_def commandJSON_def decStruct_def decMember_def findField_def field_def
        decCommandPtr_def decodeAgentCommand_def decString_def cmd1_def)
  ultimately show ?thesis
    by (simp add: GetNextCommand_def exchange_def csim_env_def is_ack_def)
qed


theorem restart_core_restores_state_witness:
  "\<exists>ack a' w'. executeNextCommand (csim_env ''RESTART_CORE'' state_a) csim_hooks agent_a csim0
      = postCommandAck (csim_env ''RESTART_CORE'' state_a) a' ''c1'' ack w'"
proof -
  have "\<exists>t. p_Now (e_host (csim_env ''RESTART_CORE'' state_a)) csim0 = (t, csim0)" by (simp add: csim_env_def)
  then obtain t where t: "p_Now (e_host (csim_env ''RESTART_CORE'' state_a)) csim0 = (t, csim0)" ..
  have d: "panel_distinct (csim_env ''RESTART_CORE'' state_a) (\<lambda>e. e) (a_ctrl agent_a)"
    by (rule csim_distinct) simp_all
  have "ac_Type (cmd1 ''RESTART_CORE'') = AgentCommandTypeRestartCore" "ac_ID (cmd1 ''RESTART_CORE'') = ''c1''"
    by (simp_all add: cmd1_def AgentCommandTypeRestartCore_def)
  with restart_core_restores_state [OF csim_runtime d csim_command t, where k = csim_hooks] show ?thesis
    by metis
qed

theorem update_core_completed_witness:
  "\<exists>ack a' w'. updateCoreAndAck (csim_env ''UPDATE_CORE'' state_a) csim_hooks ''c1'' 0
      [(''target_version'', JStr ''25.1'')] agent_a csim0 = postCommandAck (csim_env ''UPDATE_CORE'' state_a) a' ''c1'' ack w'
    \<and> (ak_Status ack = AgentCommandAckSucceeded \<or> ak_Status ack = AgentCommandAckFailed)"
proof -
  have "panel_distinct (csim_env ''UPDATE_CORE'' state_a) (\<lambda>e. e) (a_ctrl agent_a)"
    by (rule csim_distinct) simp_all
  from update_core_completed [OF csim_runtime this, of csim_hooks "''c1''" 0 "[(''target_version'', JStr ''25.1'')]" csim0]
  show ?thesis by blast
qed

end
