(* ===== verification/Agent_Machine.thy ===== *)
theory Agent_Machine
  imports Agent_Reports Command_Properties
begin

text \<open>
  The running agent as a state machine: \<^verbatim>\<open>Start\<close> (\<^verbatim>\<open>internal/agent/agent.go\<close>) launches seven loops,
  which take their rounds in any order; between two rounds the world outside may change in any way.
  The configuration, the identity of the agent, the shape of the store and of the core version are
  invariants of every reachable state.
\<close>

section \<open>Steps\<close>

type_synonym 'w machine = "Agent \<times> CoreLoop \<times> 'w"

inductive agent_step :: "('w, 'c, 'm) agent_env \<Rightarrow> 'w hooks \<Rightarrow> 'w machine \<Rightarrow> 'w machine \<Rightarrow> bool"
  for env k where
  state_step: "stateRound env a w = (a', w') \<Longrightarrow> agent_step env k (a, l, w) (a', l, w')"
| online_step: "onlineRound env a w = (a', w') \<Longrightarrow> agent_step env k (a, l, w) (a', l, w')"
| stats_step: "statsRound env a w = (a', w') \<Longrightarrow> agent_step env k (a, l, w) (a', l, w')"
| metrics_step: "metricsRound env a w = (a', w') \<Longrightarrow> agent_step env k (a, l, w) (a', l, w')"
| heartbeat_step: "heartbeatRound env a w = (a', w') \<Longrightarrow> agent_step env k (a, l, w) (a', l, w')"
| command_step: "commandRound env k a w = (a', w') \<Longrightarrow> agent_step env k (a, l, w) (a', l, w')"
| core_step: "coreRound env l a w = (lg, l', a', w') \<Longrightarrow> agent_step env k (a, l, w) (a', l', w')"
| world_step: "agent_step env k (a, l, w) (a, l, w')"

inductive_cases agent_stepE: "agent_step env k (a, l, w) (a', l', w')"

inductive reachable :: "('w, 'c, 'm) agent_env \<Rightarrow> 'w hooks \<Rightarrow> 'w machine \<Rightarrow> 'w machine \<Rightarrow> bool"
  for env k s0 where
  start: "reachable env k s0 s0"
| step: "reachable env k s0 s \<Longrightarrow> agent_step env k s s' \<Longrightarrow> reachable env k s0 s'"

section \<open>The invariant\<close>

definition agent_inv :: "Config \<Rightarrow> string \<Rightarrow> Agent \<Rightarrow> bool" where
  "agent_inv cfg version a \<longleftrightarrow>
     a_cfg a = cfg \<and> cc_cfg (a_ctrl a) = cfg \<and> AgentVersion (a_ctrl a) = version
     \<and> normalizeTaggedVersion (cc_xrayCoreVersion (a_ctrl a)) = cc_xrayCoreVersion (a_ctrl a)
     \<and> store_wf (a_state a)"

lemma inv_New: "agent_inv cfg version (New_Agent cfg (NewClient cfg version core) hs ms)"
  by (simp add: agent_inv_def New_Agent_def NewClient_def AgentVersion_def tv.tag_idem)

lemma inv_store: "agent_inv cfg v a \<Longrightarrow> store_wf s \<Longrightarrow> agent_inv cfg v (a\<lparr>a_state := s\<rparr>)"
  by (simp add: agent_inv_def)

lemma inv_snapshot: "agent_inv cfg v (a\<lparr>a_statsSnapshot := s\<rparr>) \<longleftrightarrow> agent_inv cfg v a"
  and inv_metrics: "agent_inv cfg v (a\<lparr>a_metrics := m\<rparr>) \<longleftrightarrow> agent_inv cfg v a"
  by (simp_all add: agent_inv_def)

lemma inv_version: "agent_inv cfg v a \<Longrightarrow> agent_inv cfg v (a\<lparr>a_ctrl := SetXrayCoreVersion x (a_ctrl a)\<rparr>)"
  by (simp add: agent_inv_def SetXrayCoreVersion_def AgentVersion_def tv.tag_idem)

lemma inv_syncState: "agent_inv cfg v a \<Longrightarrow> agent_inv cfg v (fst (snd (syncState env force a w)))"
  by (auto simp: syncState_def Let_def inv_store split: prod.split sum.split option.split)

lemma inv_syncRetry: "agent_inv cfg v a \<Longrightarrow> agent_inv cfg v (fst (snd (syncRetry env wait n a w)))"
proof (induction n arbitrary: a w)
  case (Suc n)
  obtain r a1 w1 where s: "syncStateAfterRuntimeReset env a w = (r, a1, w1)"
    by (cases "syncStateAfterRuntimeReset env a w")
  have "agent_inv cfg v a1"
    using inv_syncState [OF Suc.prems, of env True w] s by (simp add: syncStateAfterRuntimeReset_def)
  with Suc.IH s show ?case by (simp split: option.split prod.split)
qed simp

lemma postCommandAck_agent [simp]: "fst (snd (postCommandAck env a i ack w)) = a"
  by (simp add: postCommandAck_def split: prod.split option.split)

lemma inv_afterRestart:
  "agent_inv cfg v a \<Longrightarrow> syncStateAfterCoreRestart env wait a w = (r, a', w') \<Longrightarrow> agent_inv cfg v a'"
  using inv_syncRetry [of cfg v a env wait coreRestartSyncRetries w] by (simp add: syncStateAfterCoreRestart_def)

lemma inv_restartAgent: "agent_inv cfg v a \<Longrightarrow> agent_inv cfg v (fst (snd (restartAgentAndAck env k i t a w)))"
  by (simp add: restartAgentAndAck_def Let_def split: prod.split option.split)

lemma inv_updateAgent: "agent_inv cfg v a \<Longrightarrow> agent_inv cfg v (fst (snd (updateAgentAndAck env k i t p a w)))"
  by (simp add: updateAgentAndAck_def Let_def split: prod.split option.split sum.split)

lemma inv_updateCore:
  assumes "agent_inv cfg v a"
  shows "agent_inv cfg v (fst (snd (updateCoreAndAck env k i t p a w)))"
  using assms inv_version [OF assms]
  by (auto simp: updateCoreAndAck_def Let_def intro: inv_afterRestart split: prod.split option.split sum.split)

lemma inv_executeAgentCommand:
  "agent_inv cfg v a \<Longrightarrow> executeAgentCommand env k ty a w = (r, a', w') \<Longrightarrow> agent_inv cfg v a'"
  by (auto simp: executeAgentCommand_def intro: inv_afterRestart split: prod.splits option.splits if_splits)

lemma inv_command: "agent_inv cfg v a \<Longrightarrow> agent_inv cfg v (fst (commandRound env k a w))"
  by (auto simp: commandRound_def executeNextCommand_def Let_def inv_restartAgent inv_updateAgent inv_updateCore
      intro: inv_executeAgentCommand split: prod.split option.split sum.split)

lemma inv_stats: "agent_inv cfg v a \<Longrightarrow> agent_inv cfg v (fst (statsRound env a w))"
  by (simp add: statsRound_eq inv_snapshot split: prod.split sum.split)

lemma inv_online: "fst (onlineRound env a w) = a"
  by (simp add: onlineRound_def split: prod.split sum.split)

lemma inv_metricsRound: "agent_inv cfg v a \<Longrightarrow> agent_inv cfg v (fst (metricsRound env a w))"
  by (auto simp: metricsRound_def collectMetricsSample_def Let_def inv_metrics split: prod.split option.split)

lemma inv_core: "agent_inv cfg v a \<Longrightarrow> coreRound env l a w = (lg, l', a', w') \<Longrightarrow> agent_inv cfg v a'"
  by (auto simp: coreRound_def Let_def inv_version split: prod.splits option.splits sum.splits if_splits)

lemma inv_step:
  assumes "agent_step env k (a, l, w) (a', l', w')" and "agent_inv cfg v a"
  shows "agent_inv cfg v a'"
proof -
  have state: "agent_inv cfg v (fst (stateRound env a w))"
    using inv_syncState [OF assms(2), of env False w] by (simp add: stateRound_def syncStateOnce_def)
  have heartbeat: "agent_inv cfg v (fst (heartbeatRound env a w))" using assms(2) by (simp add: heartbeatRound_def)
  have online: "agent_inv cfg v (fst (onlineRound env a w))" using assms(2) by (simp add: inv_online)
  note others = inv_stats [OF assms(2), of env w] inv_metricsRound [OF assms(2), of env w] inv_command [OF assms(2), of env k w]
  show ?thesis
    using assms(1) by (rule agent_stepE) (use state heartbeat online others assms(2) inv_core in auto)
qed

text \<open>The invariant holds in every reachable state.\<close>

lemma inv_reachable:
  assumes "reachable env k s0 s" and "agent_inv cfg v (fst s0)"
  shows "agent_inv cfg v (fst s)"
  using assms
proof (induction rule: reachable.induct)
  case (step s s')
  then show ?case using inv_step by (cases s, cases s') auto
qed simp

section \<open>Properties\<close>

text \<open>
  C6: in every state the running agent can reach, whatever the order of its rounds, the commands it
  is given and what happens outside, it has the configuration and version it was started with, its
  store is well formed (every client under its email, every route under its tag), the core version
  it reports is blank or a trimmed tag that starts with \<^verbatim>\<open>v\<close>, and every request it would send
  is authenticated with the configured token.
\<close>

theorem reachable_agent_invariant:
  assumes "reachable env k (New_Agent cfg (NewClient cfg version core) hs ms, New_CoreLoop, w0) (a, l, w)"
  shows "a_cfg a = cfg \<and> AgentVersion (a_ctrl a) = version \<and> store_wf (a_state a)
    \<and> (cc_xrayCoreVersion (a_ctrl a) = [] \<or> HasPrefix (cc_xrayCoreVersion (a_ctrl a)) ''v'')
    \<and> TrimSpace (cc_xrayCoreVersion (a_ctrl a)) = cc_xrayCoreVersion (a_ctrl a)
    \<and> (case requestOf (a_ctrl a) call of
         Inl _ \<Rightarrow> True
       | Inr req \<Rightarrow> go_get (rq_Header req) ''Authorization'' = Some (''Bearer '' @ Token (Control cfg)))"
proof -
  have inv: "agent_inv cfg version a" using inv_reachable [OF assms] inv_New by simp
  let ?v = "cc_xrayCoreVersion (a_ctrl a)"
  have "normalizeTaggedVersion ?v = ?v" using inv by (simp add: agent_inv_def)
  with tv.tag_v [of ?v] tv.tag_trimmed [of ?v] inv requestOf_authenticated [of "a_ctrl a" call] show ?thesis
    by (auto simp: agent_inv_def authenticated_def split: sum.split)
qed

theorem reachable_agent_invariant_witness:
  "\<exists>a l w. reachable (sim_env state_a) undefined (New_Agent sample_config (NewClient sample_config ''1.0'' []) True None, New_CoreLoop, sim0)
     (a, l, w) \<and> go_get (s_clients (a_state a)) ''a'' = Some client_a \<and> store_wf (a_state a)"
proof -
  let ?s0 = "(New_Agent sample_config (NewClient sample_config ''1.0'' []) True None, New_CoreLoop, sim0)"
  have "agent_step (sim_env state_a) undefined (agent0, New_CoreLoop, sim0) (agent_a, New_CoreLoop, sim_a)"
    by (rule state_step) (simp add: stateRound_def syncStateOnce_def sim_sync)
  then have r: "reachable (sim_env state_a) undefined ?s0 (agent_a, New_CoreLoop, sim_a)"
    unfolding agent0_def [symmetric] by (rule step [OF start])
  have "go_get (s_clients (a_state agent_a)) ''a'' = Some client_a"
    by (simp add: ss.clients_update last_with_def client_a_def)
  with r reachable_agent_invariant [OF r] show ?thesis by blast
qed

end
