(* ===== verification/Logger.thy ===== *)
theory Logger
  imports Go_Prelude
begin

text \<open>
  The logger of \<^verbatim>\<open>internal/logger/logger.go\<close>: the level that the configuration names, which messages pass,
  and the attribute filter that turns time stamps to UTC. A message is kept as its level, text and
  attributes; its printed form belongs to package \<^verbatim>\<open>slog\<close>.
\<close>

definition LevelDebug :: int where "LevelDebug = -4"
definition LevelInfo :: int where "LevelInfo = 0"
definition LevelWarn :: int where "LevelWarn = 4"
definition LevelError :: int where "LevelError = 8"

lemmas slog_levels = LevelDebug_def LevelInfo_def LevelWarn_def LevelError_def

text \<open>A time with the name of its location, and the values of attributes.\<close>

record located_time =
  lt_instant :: time
  lt_location :: string

datatype attr_value = TimeAttr located_time | OtherAttr string

record log_attr =
  la_Key :: string
  la_Value :: attr_value

record slog_logger =
  sl_Level :: int
  sl_ReplaceAttr :: "string list \<Rightarrow> log_attr \<Rightarrow> log_attr"

definition levelOf :: "string \<Rightarrow> int" where
  "levelOf level =
     (if level = ''debug'' then LevelDebug
      else if level = ''warn'' then LevelWarn
      else if level = ''error'' then LevelError
      else LevelInfo)"

definition inUTC :: "string list \<Rightarrow> log_attr \<Rightarrow> log_attr" where
  "inUTC groups attr =
     (if la_Key attr = ''time''
      then (case la_Value attr of
              TimeAttr t \<Rightarrow> attr\<lparr>la_Value := TimeAttr (t\<lparr>lt_location := ''UTC''\<rparr>)\<rparr>
            | OtherAttr _ \<Rightarrow> attr)
      else attr)"

definition New_Logger :: "string \<Rightarrow> slog_logger" where
  "New_Logger level = \<lparr>sl_Level = levelOf level, sl_ReplaceAttr = inUTC\<rparr>"

text \<open>A message passes when its level is at least that of the logger.\<close>

definition Enabled :: "slog_logger \<Rightarrow> int \<Rightarrow> bool" where
  "Enabled lg level \<longleftrightarrow> sl_Level lg \<le> level"

text \<open>A stricter level passes fewer messages; warnings and errors always pass unless only errors do.\<close>

lemma Enabled_levels:
  "Enabled (New_Logger level) LevelError"
  "Enabled (New_Logger level) LevelWarn \<longleftrightarrow> level \<noteq> ''error''"
  "Enabled (New_Logger level) LevelInfo \<longleftrightarrow> level \<noteq> ''error'' \<and> level \<noteq> ''warn''"
  "Enabled (New_Logger level) LevelDebug \<longleftrightarrow> level = ''debug''"
  by (simp_all add: Enabled_def New_Logger_def levelOf_def slog_levels)

text \<open>The filter keeps the instant and everything but the location of a time stamp.\<close>

lemma inUTC_instant:
  "la_Key (inUTC gs a) = la_Key a"
  "la_Value a = TimeAttr t \<Longrightarrow> \<exists>t'. la_Value (inUTC gs a) = TimeAttr t' \<and> lt_instant t' = lt_instant t"
  "inUTC gs (inUTC gs a) = inUTC gs a"
  by (auto simp: inUTC_def split: attr_value.split)

end
