(* ===== verification/Go_Flag.thy ===== *)
theory Go_Flag
  imports Go_Prelude "HOL-Library.AList"
begin

text \<open>
  Package \<^verbatim>\<open>flag\<close> as the command line uses it: string and boolean flags, \<^verbatim>\<open>-name value\<close>, \<^verbatim>\<open>--name=value\<close>,
  the end of the flags at \<^verbatim>\<open>--\<close> or at the first other argument, and the errors. The arguments that are
  left over are not used by the program.
\<close>

datatype flag_value = StrFlag string | BoolFlag bool

type_synonym flags = "(string \<times> flag_value) list"

datatype flag_error =
    ErrHelp
  | BadSyntax string
  | NotDefined string
  | NeedsArgument string
  | BadBool string string

definition ParseBool :: "string \<Rightarrow> bool option" where
  "ParseBool s =
     (if s \<in> set [''1'', ''t'', ''T'', ''true'', ''TRUE'', ''True''] then Some True
      else if s \<in> set [''0'', ''f'', ''F'', ''false'', ''FALSE'', ''False''] then Some False
      else None)"

text \<open>The name and the value of \<^verbatim>\<open>name=value\<close>; the sign is looked for after the first character.\<close>

definition splitFlag :: "string \<Rightarrow> string \<times> string option" where
  "splitFlag s =
     (case s of
        [] \<Rightarrow> ([], None)
      | c # cs \<Rightarrow>
          (c # takeWhile (\<lambda>x. x \<noteq> CHR ''='') cs,
           case dropWhile (\<lambda>x. x \<noteq> CHR ''='') cs of [] \<Rightarrow> None | _ # v \<Rightarrow> Some v))"

fun parseFlags :: "flags \<Rightarrow> string list \<Rightarrow> flag_error + flags" where
  "parseFlags fs [] = Inr fs"
| "parseFlags fs (s # args) =
     (if length s < 2 \<or> hd s \<noteq> CHR ''-'' then Inr fs
      else if s = ''--'' then Inr fs
      else let name0 = (if s ! 1 = CHR ''-'' then drop 2 s else drop 1 s) in
        if name0 = [] \<or> hd name0 = CHR ''-'' \<or> hd name0 = CHR ''='' then Inl (BadSyntax s)
        else case splitFlag name0 of
          (name, value) \<Rightarrow>
            (case map_of fs name of
               None \<Rightarrow> Inl (if name = ''help'' \<or> name = ''h'' then ErrHelp else NotDefined name)
             | Some (BoolFlag _) \<Rightarrow>
                 (case value of
                    None \<Rightarrow> parseFlags (AList.update name (BoolFlag True) fs) args
                  | Some v \<Rightarrow>
                      (case ParseBool v of
                         None \<Rightarrow> Inl (BadBool v name)
                       | Some b \<Rightarrow> parseFlags (AList.update name (BoolFlag b) fs) args))
             | Some (StrFlag _) \<Rightarrow>
                 (case value of
                    Some v \<Rightarrow> parseFlags (AList.update name (StrFlag v) fs) args
                  | None \<Rightarrow>
                      (case args of
                         [] \<Rightarrow> Inl (NeedsArgument name)
                       | v # rest \<Rightarrow> parseFlags (AList.update name (StrFlag v) fs) rest))))"

declare parseFlags.simps(2) [simp del]

definition strFlag :: "string \<Rightarrow> flags \<Rightarrow> string" where
  "strFlag name fs = (case map_of fs name of Some (StrFlag s) \<Rightarrow> s | _ \<Rightarrow> [])"

definition boolFlag :: "string \<Rightarrow> flags \<Rightarrow> bool" where
  "boolFlag name fs = (case map_of fs name of Some (BoolFlag b) \<Rightarrow> b | _ \<Rightarrow> False)"

section \<open>Flags as they are written\<close>

text \<open>A name that can be written on the command line.\<close>

definition flagName :: "string \<Rightarrow> bool" where
  "flagName n \<longleftrightarrow> n \<noteq> [] \<and> hd n \<noteq> CHR ''-'' \<and> CHR ''='' \<notin> set n"

lemma takeWhile_neq: "c \<notin> set xs \<Longrightarrow> takeWhile (\<lambda>x. x \<noteq> c) xs = xs" "c \<notin> set xs \<Longrightarrow> dropWhile (\<lambda>x. x \<noteq> c) xs = []"
  by (induction xs) auto

lemma splitFlag_name: "flagName n \<Longrightarrow> splitFlag n = (n, None)"
  by (cases n) (auto simp: splitFlag_def flagName_def takeWhile_neq)

lemma splitFlag_value: "flagName n \<Longrightarrow> splitFlag (n @ ''='' @ v) = (n, Some v)"
  by (cases n) (auto simp: splitFlag_def flagName_def takeWhile_append dropWhile_append takeWhile_neq)

lemma parse_value:
  assumes "flagName n" "map_of fs n = Some (StrFlag x)"
  shows "parseFlags fs ((''--'' @ n) # v # args) = parseFlags (AList.update n (StrFlag v) fs) args"
    "parseFlags fs ((''--'' @ n @ ''='' @ v) # args) = parseFlags (AList.update n (StrFlag v) fs) args"
proof -
  have "n \<noteq> []" "hd n \<noteq> CHR ''-''" "hd n \<noteq> CHR ''=''" using assms(1) by (auto simp: flagName_def) (metis hd_in_set)
  then show "parseFlags fs ((''--'' @ n) # v # args) = parseFlags (AList.update n (StrFlag v) fs) args"
    "parseFlags fs ((''--'' @ n @ ''='' @ v) # args) = parseFlags (AList.update n (StrFlag v) fs) args"
    using assms(2) splitFlag_name [OF assms(1)] splitFlag_value [OF assms(1), of v]
    by (simp_all add: parseFlags.simps(2) Let_def)
qed

text \<open>Every assignment of string flags that is written as \<^verbatim>\<open>--name value\<close> is read, the last one counts.\<close>

lemma parse_assignments:
  assumes "\<forall>(n, v)\<in>set as. flagName n \<and> (\<exists>x. map_of fs n = Some (StrFlag x))"
  shows "parseFlags fs (concat (map (\<lambda>(n, v). [''--'' @ n, v]) as) @ rest)
    = parseFlags (fold (\<lambda>(n, v). AList.update n (StrFlag v)) as fs) rest"
  using assms
proof (induction as arbitrary: fs)
  case (Cons a as)
  obtain n v where a: "a = (n, v)" by fastforce
  have "\<forall>(n', v')\<in>set as. flagName n' \<and> (\<exists>x. map_of (AList.update n (StrFlag v) fs) n' = Some (StrFlag x))"
    using Cons.prems by (auto simp: AList.update_conv)
  from Cons.IH [OF this] show ?case using parse_value(1) [of n fs _ v] Cons.prems a by auto
qed simp

lemma strFlag_update: "strFlag m (AList.update n (StrFlag v) fs) = (if m = n then v else strFlag m fs)"
  by (simp add: strFlag_def AList.update_conv)

lemma boolFlag_update: "m \<noteq> n \<Longrightarrow> boolFlag m (AList.update n x fs) = boolFlag m fs"
  by (simp add: boolFlag_def AList.update_conv)

lemma strFlag_fold:
  "strFlag m (fold (\<lambda>(n, v). AList.update n (StrFlag v)) as fs)
   = (case map_of (rev as) m of None \<Rightarrow> strFlag m fs | Some v \<Rightarrow> v)"
  by (induction as arbitrary: fs) (auto simp: strFlag_update map_add_def split: option.split)

lemma boolFlag_fold:
  "m \<notin> fst ` set as \<Longrightarrow> boolFlag m (fold (\<lambda>(n, v). AList.update n (StrFlag v)) as fs) = boolFlag m fs"
  by (induction as arbitrary: fs) (auto simp: boolFlag_update)

end
