(* ===== verification/Main_CLI.thy ===== *)
theory Main_CLI
  imports Setup_Properties Core_Update Agent_Machine Logger Go_Flag
begin

text \<open>
  The command line, \<^verbatim>\<open>main.go\<close>: the subcommands, their flags, and how the agent is put together. A
  command gives what it prints, how it ends and the new world; \<open>Running\<close> is an agent whose loops run
  until a signal ends the program. The lines that the packages below log on their own are not included.
\<close>

section \<open>Environment and outcomes\<close>

text \<open>
  \<open>cl_settings\<close> is the result of \<^verbatim>\<open>debug.ReadBuildInfo\<close>; \<open>cl_lower\<close> is the Unicode case table of
  \<^verbatim>\<open>strings.ToLower\<close> and \<open>cl_quote\<close> the verb \<^verbatim>\<open>%q\<close>.
\<close>

record 'x cli_env =
  cl_setup :: "'x setup_env"
  cl_core :: "'x core_env"
  cl_embeddedVersion :: string
  cl_settings :: "(string \<times> string) list option"
  cl_lower :: "string \<Rightarrow> string"
  cl_quote :: "string \<Rightarrow> string"

datatype emission =
    Stdout string
  | Stderr string
  | Usage string flag_error
  | Log int string "(string \<times> string) list"

datatype exit_state = Returned | Exit nat | Running Agent

type_synonym 'x command = "emission list \<times> exit_state \<times> 'x world"

definition defaultConfigPath :: string where "defaultConfigPath = ''/etc/xray-agent/config.yaml''"

definition logAt :: "slog_logger \<Rightarrow> int \<Rightarrow> string \<Rightarrow> (string \<times> string) list \<Rightarrow> emission list" where
  "logAt lg level msg attrs = (if Enabled lg level then [Log level msg attrs] else [])"

definition boolText :: "bool \<Rightarrow> string" where
  "boolText b = (if b then ''true'' else ''false'')"

section \<open>Helpers\<close>

definition parseBool :: "(string \<Rightarrow> string) \<Rightarrow> string \<Rightarrow> string \<Rightarrow> bool option go_result" where
  "parseBool lower value fieldName =
     (if value = [] then Inr None
      else let v = ToLower lower value in
        if v = ''true'' \<or> v = ''1'' \<or> v = ''yes'' then Inr (Some True)
        else if v = ''false'' \<or> v = ''0'' \<or> v = ''no'' then Inr (Some False)
        else Inl (ErrText (''invalid '' @ fieldName @ '' value: '' @ value @ '' (use true/false)'')))"

definition sameVersion :: "string \<Rightarrow> string \<Rightarrow> bool" where
  "sameVersion a b \<longleftrightarrow> TrimPrefix (TrimSpace a) ''v'' = TrimPrefix (TrimSpace b) ''v''"

definition resolveGitHubToken :: "string \<Rightarrow> string \<Rightarrow> 'x world \<Rightarrow> string" where
  "resolveGitHubToken flagVal cfgVal w =
     (if flagVal \<noteq> [] then flagVal else if cfgVal \<noteq> [] then cfgVal else os_Getenv ''GITHUB_TOKEN'' w)"

definition loadConfigIfExists :: "'x cli_env \<Rightarrow> string \<Rightarrow> 'x world \<Rightarrow> Config option go_result \<times> 'x world" where
  "loadConfigIfExists env path w =
     (if path = [] then (Inr None, w)
      else case os_Stat path w of
        (Inl err, w1) \<Rightarrow> if IsNotExist err then (Inr None, w1) else (Inl err, w1)
      | (Inr _, w1) \<Rightarrow>
          (case LoadFile (cl_setup env) path w1 of
             (Inl err, w2) \<Rightarrow> (Inl err, w2)
           | (Inr cfg, w2) \<Rightarrow> (Inr (Some cfg), w2)))"

fun buildCommit :: "(string \<times> string) list \<Rightarrow> string" where
  "buildCommit [] = ''unknown''"
| "buildCommit ((k, v) # settings) = (if k = ''vcs.revision'' \<and> v \<noteq> [] then v else buildCommit settings)"

definition printVersion :: "'x cli_env \<Rightarrow> emission list" where
  "printVersion env =
     [Stdout (''xray-agent '' @ TrimSpace (cl_embeddedVersion env) @ '' (commit ''
        @ (case cl_settings env of None \<Rightarrow> ''unknown'' | Some settings \<Rightarrow> buildCommit settings) @ '')''),
      Stdout [],
      Stdout ''Copyright (C) 2026 Ahmad Thoriq Najahi <me@najahi.dev>.'',
      Stdout ''License GPLv3+: GNU GPL version 3 or later <http://gnu.org/licenses/gpl.html>'']"

definition printHelp :: "'x cli_env \<Rightarrow> emission list" where
  "printHelp env =
     map Stdout
       [''Usage: xray-agent <subcommand> [options]'', [],
        ''Subcommands:'',
        ''  run            Start the agent (default config path /etc/xray-agent/config.yaml)'',
        ''  setup          Install config/binary/systemd unit'',
        ''  update-config  Update control/github config and restart agent'',
        ''  core           Manage xray-core (check/install)'',
        ''  version        Show agent version and commit'', [],
        ''Examples:'',
        ''  xray-agent run --config /etc/xray-agent/config.yaml'',
        ''  xray-agent setup --control-base-url https://panel --control-token TOKEN --control-server-slug slug --github-token ghp_xxx'',
        ''  xray-agent update-config --control-base-url https://panel --control-token TOKEN --control-server-slug slug'',
        ''  xray-agent core --action install --version v25.10.15'', []]
     @ printVersion env"

section \<open>The core\<close>

definition coreOptions :: "string \<Rightarrow> string \<Rightarrow> Xray_Core.Options" where
  "coreOptions version token =
     \<lparr>xc_Repo = [], xc_Arch = [], xc_Version = version, xc_Token = token, xc_BinDir = [], xc_ConfigPath = [],
      xc_ServicePath = [], xc_ShareDir = []\<rparr>"

definition ensureCore ::
  "'x cli_env \<Rightarrow> slog_logger \<Rightarrow> string \<Rightarrow> string \<Rightarrow> 'x world \<Rightarrow> emission list \<times> go_error option \<times> 'x world" where
  "ensureCore env lg version0 ghToken w =
     (let version = (if version0 = [] then DefaultXrayVersion else version0) in
      case InstalledVersion (cl_core env) w of
        (v, w1) \<Rightarrow>
          (let installed = TrimSpace v in
           if installed \<noteq> [] then
             (if sameVersion installed version
              then (logAt lg LevelDebug ''xray-core up-to-date'' [(''version'', installed)], None, w1)
              else (logAt lg LevelWarn ''xray-core version differs from target''
                      [(''installed'', installed), (''target'', version)], None, w1))
           else
             (let out = logAt lg LevelInfo ''installing xray-core'' [(''target'', version)] in
              case Xray_Core.InstallOrUpdate (cl_core env) (coreOptions version ghToken) w1 of
                (Inl err, w2) \<Rightarrow> (out, Some err, w2)
              | (Inr _, w2) \<Rightarrow> (out, None, w2))))"

definition coreFlags :: flags where
  "coreFlags = [(''action'', StrFlag ''check''), (''version'', StrFlag []), (''github-token'', StrFlag []),
     (''config'', StrFlag defaultConfigPath)]"

fun flagText :: "(string \<Rightarrow> string) \<Rightarrow> flag_error \<Rightarrow> string" where
  "flagText quote ErrHelp = ''flag: help requested''"
| "flagText quote (BadSyntax s) = ''bad flag syntax: '' @ s"
| "flagText quote (NotDefined n) = ''flag provided but not defined: -'' @ n"
| "flagText quote (NeedsArgument n) = ''flag needs an argument: -'' @ n"
| "flagText quote (BadBool v n) = ''invalid boolean value '' @ quote v @ '' for -'' @ n @ '': parse error''"

definition runCoreAction ::
  "'x cli_env \<Rightarrow> string \<Rightarrow> Xray_Core.Options \<Rightarrow> 'x world \<Rightarrow> emission list \<times> go_error option \<times> 'x world" where
  "runCoreAction env action opts w =
     (let lg = New_Logger ''info'' in
      if action = ''check'' then
        (case Check (cl_core env) opts w of
           (Inl err, w1) \<Rightarrow> ([], Some (ErrWrap ''xray-core check'' err), w1)
         | (Inr res, w1) \<Rightarrow>
             (logAt lg LevelInfo ''xray-core check''
                [(''installed'', ck_InstalledVersion res), (''latest'', ck_LatestVersion res),
                 (''update_available'', boolText (ck_UpdateAvailable res))], None, w1))
      else if action = ''install'' \<or> action = ''update'' then
        (case Xray_Core.InstallOrUpdate (cl_core env) opts w of
           (Inl err, w1) \<Rightarrow> ([], Some (ErrWrap ''xray-core install'' err), w1)
         | (Inr res, w1) \<Rightarrow>
             (logAt lg LevelInfo ''xray-core install''
                [(''from'', ir_FromVersion res), (''to'', ir_ToVersion res), (''updated'', boolText (ir_Updated res))],
              None, w1))
      else ([], Some (ErrText (''unknown core action: '' @ action)), w))"

definition runCoreCommand :: "'x cli_env \<Rightarrow> string list \<Rightarrow> 'x world \<Rightarrow> emission list \<times> go_error option \<times> 'x world" where
  "runCoreCommand env args w =
     (case parseFlags coreFlags args of
        Inl e \<Rightarrow> ([], Some (ErrText (flagText (cl_quote env) e)), w)
      | Inr fs \<Rightarrow>
          (case loadConfigIfExists env (strFlag ''config'' fs) w of
             (Inl err, w1) \<Rightarrow> ([], Some (ErrWrap ''load config'' err), w1)
           | (Inr cfgFromFile, w1) \<Rightarrow>
               (let version = strFlag ''version'' fs;
                    targetVersion =
                      (if version = [] then
                         (case cfgFromFile of
                            Some cfg \<Rightarrow> if Version (Xray cfg) \<noteq> [] then Version (Xray cfg) else DefaultXrayVersion
                          | None \<Rightarrow> DefaultXrayVersion)
                       else version);
                    cfgToken = (case cfgFromFile of Some cfg \<Rightarrow> GitHubToken cfg | None \<Rightarrow> []);
                    targetToken = resolveGitHubToken (strFlag ''github-token'' fs) cfgToken w1
                in runCoreAction env (strFlag ''action'' fs) (coreOptions targetVersion targetToken) w1)))"

definition coreCommand :: "'x cli_env \<Rightarrow> string list \<Rightarrow> 'x world \<Rightarrow> 'x command" where
  "coreCommand env args w =
     (case runCoreCommand env args w of
        (out, Some err, w1) \<Rightarrow> (out @ [Stderr (errText err)], Exit 1, w1)
      | (out, None, w1) \<Rightarrow> (out, Returned, w1))"

section \<open>Setup and configuration\<close>

text \<open>A flag set that ends the program on errors: status 0 after the help text, 2 otherwise.\<close>

definition exitOnError :: "string \<Rightarrow> flags \<Rightarrow> string list \<Rightarrow> (flags \<Rightarrow> 'x world \<Rightarrow> 'x command) \<Rightarrow> 'x world \<Rightarrow> 'x command" where
  "exitOnError name fs0 args k w =
     (case parseFlags fs0 args of
        Inl e \<Rightarrow> ([Usage name e], Exit (if e = ErrHelp then 0 else 2), w)
      | Inr fs \<Rightarrow> k fs w)"

definition setupFlags :: flags where
  "setupFlags = [(''config'', StrFlag []), (''service'', StrFlag []), (''bin'', StrFlag []), (''github-token'', StrFlag []),
     (''control-base-url'', StrFlag []), (''control-token'', StrFlag []), (''control-server-slug'', StrFlag []),
     (''control-tls-insecure'', StrFlag [])]"

definition setupCommand :: "'x cli_env \<Rightarrow> string list \<Rightarrow> 'x world \<Rightarrow> 'x command" where
  "setupCommand env args =
     exitOnError ''setup'' setupFlags args (\<lambda>fs w.
       case parseBool (cl_lower env) (strFlag ''control-tls-insecure'' fs) ''control-tls-insecure'' of
         Inl err \<Rightarrow> ([Stderr (errText err)], Exit 1, w)
       | Inr tlsPtr \<Rightarrow>
           (case Install (cl_setup env)
                  \<lparr>as_ConfigPath = strFlag ''config'' fs, as_ServicePath = strFlag ''service'' fs, as_BinPath = strFlag ''bin'' fs,
                   as_GitHubToken = strFlag ''github-token'' fs, as_BaseURL = strFlag ''control-base-url'' fs,
                   as_Token = strFlag ''control-token'' fs, as_ServerSlug = strFlag ''control-server-slug'' fs,
                   as_TLSInsecure = tlsPtr\<rparr> w of
              (Some err, w1) \<Rightarrow> ([Stderr (''agent setup failed: '' @ errText err)], Exit 1, w1)
            | (None, w1) \<Rightarrow> ([], Returned, w1)))"

definition updateConfigFlags :: flags where
  "updateConfigFlags = [(''config'', StrFlag defaultConfigPath), (''control-base-url'', StrFlag []), (''control-token'', StrFlag []),
     (''control-server-slug'', StrFlag []), (''control-tls-insecure'', StrFlag []), (''github-token'', StrFlag []),
     (''restart'', BoolFlag True)]"

definition updateConfigCommand :: "'x cli_env \<Rightarrow> string list \<Rightarrow> 'x world \<Rightarrow> 'x command" where
  "updateConfigCommand env args =
     exitOnError ''update-config'' updateConfigFlags args (\<lambda>fs w.
       case parseBool (cl_lower env) (strFlag ''control-tls-insecure'' fs) ''control-tls-insecure'' of
         Inl err \<Rightarrow> ([Stderr (errText err)], Exit 1, w)
       | Inr tlsPtr \<Rightarrow>
           (case UpdateControl (cl_setup env)
                  \<lparr>uc_ConfigPath = strFlag ''config'' fs, uc_BaseURL = strFlag ''control-base-url'' fs,
                   uc_Token = strFlag ''control-token'' fs, uc_ServerSlug = strFlag ''control-server-slug'' fs,
                   uc_TLSInsecure = tlsPtr, uc_GitHubToken = strFlag ''github-token'' fs,
                   uc_Restart = boolFlag ''restart'' fs\<rparr> w of
              (Some err, w1) \<Rightarrow> ([Stderr (''update config failed: '' @ errText err)], Exit 1, w1)
            | (None, w1) \<Rightarrow> ([], Returned, w1)))"

section \<open>The agent\<close>

definition runFlags :: flags where
  "runFlags = [(''config'', StrFlag defaultConfigPath), (''core-version'', StrFlag []), (''github-token'', StrFlag [])]"

definition runAgentArgs :: "'x cli_env \<Rightarrow> string list \<Rightarrow> 'x world \<Rightarrow> 'x command" where
  "runAgentArgs env args =
     exitOnError ''run'' runFlags args (\<lambda>fs w.
       case LoadFile (cl_setup env) (strFlag ''config'' fs) w of
         (Inl err, w1) \<Rightarrow> ([Stderr (''load config: '' @ errText err)], Exit 1, w1)
       | (Inr cfg, w1) \<Rightarrow>
           (let lg = New_Logger (LoggingLevel cfg);
                coreVersion = strFlag ''core-version'' fs;
                targetCoreVersion =
                  (if coreVersion = []
                   then (if Version (Xray cfg) = [] then DefaultXrayVersion else Version (Xray cfg))
                   else coreVersion);
                targetGitHubToken = resolveGitHubToken (strFlag ''github-token'' fs) (GitHubToken cfg) w1 in
            case ensureCore env lg targetCoreVersion targetGitHubToken w1 of
              (out, Some err, w2) \<Rightarrow> (out @ [Stderr (''ensure xray-core: '' @ errText err)], Exit 1, w2)
            | (out, None, w2) \<Rightarrow>
                (case InstalledVersion (cl_core env) w2 of
                   (v, w3) \<Rightarrow>
                     (let ctrl = NewClient cfg (TrimSpace (cl_embeddedVersion env)) (TrimSpace v) in
                      (out, Running (New_Agent cfg ctrl True (Some New_Metrics)), w3)))))"

definition runAgent :: "'x cli_env \<Rightarrow> string list \<Rightarrow> 'x world \<Rightarrow> 'x command" where
  "runAgent env args w = runAgentArgs env args w"

definition main :: "'x cli_env \<Rightarrow> string list \<Rightarrow> 'x world \<Rightarrow> 'x command" where
  "main env args w =
     (case args of
        [] \<Rightarrow> (printHelp env, Returned, w)
      | cmd # rest \<Rightarrow>
          if cmd = ''core'' then coreCommand env rest w
          else if cmd = ''setup'' then setupCommand env rest w
          else if cmd = ''update-config'' then updateConfigCommand env rest w
          else if cmd = ''run'' then runAgent env rest w
          else if cmd = ''version'' \<or> cmd = ''-v'' \<or> cmd = ''--version'' then (printVersion env, Returned, w)
          else (printHelp env, Returned, w))"

end
