(* ===== verification/Poll_Loops.thy ===== *)
theory Poll_Loops
  imports Go_Prelude
begin

text \<open>
  Goroutines of the shape that all loops of the agent have: decide whether to run at all, create a ticker
  (\<^verbatim>\<open>time.NewTicker\<close> panics on an interval that is not positive), then repeat the body and wait for the
  ticker or for the end of the context. Several of them share a state and take their bodies in any
  order; a signal ends the context once. The interface \<open>poll_loops\<close> states what the bodies have to keep;
  that no loop panics, that the invariant holds throughout and that the loops can always be brought to
  an end follow from it.
\<close>

section \<open>Loops\<close>

text \<open>The interval of the ticker, or \<open>None\<close> if the loop returns at once; and the body.\<close>

record 's poll_loop =
  pl_interval :: "'s \<Rightarrow> int64 option"
  pl_body :: "'s \<Rightarrow> 's"

datatype phase = Starting | Waiting | Stopped | Panicked

record 's process =
  ps_phases :: "phase list"
  ps_done :: bool
  ps_state :: 's

definition startLoops :: "'s poll_loop list \<Rightarrow> 's \<Rightarrow> 's process" where
  "startLoops loops s = \<lparr>ps_phases = map (\<lambda>_. Starting) loops, ps_done = False, ps_state = s\<rparr>"

definition setPhase :: "nat \<Rightarrow> phase \<Rightarrow> 's process \<Rightarrow> 's process" where
  "setPhase i ph p = p\<lparr>ps_phases := (ps_phases p)[i := ph]\<rparr>"

inductive loop_step :: "'s poll_loop list \<Rightarrow> ('s \<Rightarrow> 's \<Rightarrow> bool) \<Rightarrow> 's process \<Rightarrow> 's process \<Rightarrow> bool"
  for loops ext where
  give_up: "i < length loops \<Longrightarrow> ps_phases p ! i = Starting \<Longrightarrow> pl_interval (loops ! i) (ps_state p) = None \<Longrightarrow>
    loop_step loops ext p (setPhase i Stopped p)"
| panic: "i < length loops \<Longrightarrow> ps_phases p ! i = Starting \<Longrightarrow> pl_interval (loops ! i) (ps_state p) = Some d \<Longrightarrow>
    d \<le>s 0 \<Longrightarrow> loop_step loops ext p (setPhase i Panicked p)"
| first: "i < length loops \<Longrightarrow> ps_phases p ! i = Starting \<Longrightarrow> pl_interval (loops ! i) (ps_state p) = Some d \<Longrightarrow>
    0 <s d \<Longrightarrow> loop_step loops ext p (setPhase i Waiting (p\<lparr>ps_state := pl_body (loops ! i) (ps_state p)\<rparr>))"
| tick: "i < length loops \<Longrightarrow> ps_phases p ! i = Waiting \<Longrightarrow>
    loop_step loops ext p (p\<lparr>ps_state := pl_body (loops ! i) (ps_state p)\<rparr>)"
| finish: "i < length loops \<Longrightarrow> ps_phases p ! i = Waiting \<Longrightarrow> ps_done p \<Longrightarrow> loop_step loops ext p (setPhase i Stopped p)"
| signal: "loop_step loops ext p (p\<lparr>ps_done := True\<rparr>)"
| outside: "ext (ps_state p) s \<Longrightarrow> loop_step loops ext p (p\<lparr>ps_state := s\<rparr>)"

inductive_cases loop_stepE: "loop_step loops ext p p'"

inductive loop_run :: "'s poll_loop list \<Rightarrow> ('s \<Rightarrow> 's \<Rightarrow> bool) \<Rightarrow> 's process \<Rightarrow> 's process \<Rightarrow> bool"
  for loops ext where
  here: "loop_run loops ext p p"
| more: "loop_run loops ext p q \<Longrightarrow> loop_step loops ext q r \<Longrightarrow> loop_run loops ext p r"

lemma loop_run_trans: "loop_run loops ext q r \<Longrightarrow> loop_run loops ext p q \<Longrightarrow> loop_run loops ext p r"
  by (induction rule: loop_run.induct) (auto intro: loop_run.intros)

lemma setPhase_simps [simp]:
  "ps_done (setPhase i ph p) = ps_done p" "ps_state (setPhase i ph p) = ps_state p"
  "length (ps_phases (setPhase i ph p)) = length (ps_phases p)"
  "ps_phases (setPhase i ph p) = (ps_phases p)[i := ph]"
  by (simp_all add: setPhase_def)

text \<open>A loop that has ended does nothing any more.\<close>

lemma nth_update_other: "xs ! i \<noteq> xs ! j \<Longrightarrow> xs[j := x] ! i = xs ! i"
  by (metis nth_list_update_neq)

lemma ended_stays:
  assumes "loop_step loops ext p p'" and "i < length (ps_phases p)" and "ps_phases p ! i = Stopped \<or> ps_phases p ! i = Panicked"
  shows "ps_phases p' ! i = ps_phases p ! i"
  using assms by (auto elim!: loop_stepE simp: nth_update_other)

lemma phases_length: "loop_step loops ext p p' \<Longrightarrow> length (ps_phases p') = length (ps_phases p)"
  by (induction rule: loop_step.induct) simp_all

lemma stopped_stays:
  assumes "loop_run loops ext p p'" and "i < length (ps_phases p)" and "ps_phases p ! i = Stopped"
  shows "i < length (ps_phases p') \<and> ps_phases p' ! i = Stopped"
  using assms
proof (induction rule: loop_run.induct)
  case (more p q r)
  then show ?case using ended_stays [OF more(2), of i] phases_length [OF more(2)] by simp
qed simp

section \<open>Invariants\<close>

definition sane :: "'s poll_loop list \<Rightarrow> ('s \<Rightarrow> bool) \<Rightarrow> 's process \<Rightarrow> bool" where
  "sane loops good p \<longleftrightarrow> good (ps_state p) \<and> length (ps_phases p) = length loops \<and> Panicked \<notin> set (ps_phases p)"

locale poll_loops =
  fixes loops :: "'s poll_loop list"
    and ext :: "'s \<Rightarrow> 's \<Rightarrow> bool"
    and good :: "'s \<Rightarrow> bool"
  assumes body_inv: "l \<in> set loops \<Longrightarrow> good s \<Longrightarrow> good (pl_body l s)"
    and ext_inv: "good s \<Longrightarrow> ext s s' \<Longrightarrow> good s'"
    and interval_pos: "l \<in> set loops \<Longrightarrow> good s \<Longrightarrow> pl_interval l s = Some d \<Longrightarrow> 0 <s d"
begin

lemma sane_start: "good s \<Longrightarrow> sane loops good (startLoops loops s)"
  by (auto simp: sane_def startLoops_def)

lemma sane_step: "loop_step loops ext p p' \<Longrightarrow> sane loops good p \<Longrightarrow> sane loops good p'"
proof (induction rule: loop_step.induct)
  case (panic i p d)
  then have "0 <s d" using interval_pos [of "loops ! i" "ps_state p" d] by (simp add: sane_def)
  with panic(4) show ?case by (simp add: word_sless_alt word_sle_eq)
qed (auto simp: sane_def body_inv ext_inv dest!: set_update_subset_insert [THEN subsetD])

lemma sane_run: "loop_run loops ext p p' \<Longrightarrow> sane loops good p \<Longrightarrow> sane loops good p'"
  by (induction rule: loop_run.induct) (auto intro: sane_step)

text \<open>After the signal every loop can be brought to its end, the others staying as they are or further.\<close>

lemma stop_one:
  assumes "sane loops good p" and "ps_done p" and "i < length loops"
  shows "\<exists>p'. loop_run loops ext p p' \<and> ps_done p' \<and> ps_phases p' = (ps_phases p)[i := Stopped]"
proof -
  have i: "i < length (ps_phases p)" and l: "loops ! i \<in> set loops" using assms by (simp_all add: sane_def)
  have "ps_phases p ! i \<noteq> Panicked" using assms(1) i by (metis nth_mem sane_def)
  then consider "ps_phases p ! i = Stopped" | "ps_phases p ! i = Waiting"
    | "ps_phases p ! i = Starting" "pl_interval (loops ! i) (ps_state p) = None"
    | d where "ps_phases p ! i = Starting" "pl_interval (loops ! i) (ps_state p) = Some d"
    by (metis phase.exhaust option.exhaust)
  then show ?thesis
  proof cases
    case 1
    then have "ps_phases p = (ps_phases p)[i := Stopped]" by (metis list_update_id)
    then show ?thesis using here [of loops ext p] assms(2) by auto
  next
    case 2
    from more [OF here finish [OF assms(3) 2 assms(2)]] show ?thesis
      using assms(2) by (intro exI [of _ "setPhase i Stopped p"]) simp
  next
    case 3
    from more [OF here give_up [OF assms(3) 3]] show ?thesis
      using assms(2) by (intro exI [of _ "setPhase i Stopped p"]) simp
  next
    case (4 d)
    let ?q = "setPhase i Waiting (p\<lparr>ps_state := pl_body (loops ! i) (ps_state p)\<rparr>)"
    have "0 <s d" using interval_pos [OF l _ 4(2)] assms(1) by (simp add: sane_def)
    then have "loop_step loops ext p ?q" by (rule first [OF assms(3) 4])
    then have q: "loop_run loops ext p ?q" by (rule more [OF here])
    have w: "ps_phases ?q ! i = Waiting" using i by simp
    from more [OF q finish [OF assms(3) w]] show ?thesis
      using assms(2) by (intro exI [of _ "setPhase i Stopped ?q"]) simp
  qed
qed

lemma stop_first:
  assumes "sane loops good p" and "ps_done p" and "n \<le> length loops"
  shows "\<exists>p'. loop_run loops ext p p' \<and> ps_done p' \<and> (\<forall>i<n. ps_phases p' ! i = Stopped)"
  using assms(3)
proof (induction n)
  case 0
  then show ?case using here [of loops ext p] assms(2) by auto
next
  case (Suc n)
  then obtain q where q: "loop_run loops ext p q" "ps_done q" "\<forall>i<n. ps_phases q ! i = Stopped" by auto
  have s: "sane loops good q" by (rule sane_run [OF q(1) assms(1)])
  obtain r where r: "loop_run loops ext q r" "ps_done r" "ps_phases r = (ps_phases q)[n := Stopped]"
    using stop_one [OF s q(2), of n] Suc.prems by auto
  have "n < length (ps_phases q)" using s Suc.prems by (simp add: sane_def)
  then have "\<forall>i<Suc n. ps_phases r ! i = Stopped" using q(3) r(3) by (auto simp: nth_list_update less_Suc_eq)
  then show ?case using loop_run_trans [OF r(1) q(1)] r(2) by blast
qed

lemma shutdown:
  assumes "sane loops good p" and "ps_done p"
  shows "\<exists>p'. loop_run loops ext p p' \<and> (\<forall>ph\<in>set (ps_phases p'). ph = Stopped)"
proof -
  obtain p' where p': "loop_run loops ext p p'" "\<forall>i<length loops. ps_phases p' ! i = Stopped"
    using stop_first [OF assms, of "length loops"] by auto
  have "length (ps_phases p') = length loops" using sane_run [OF p'(1) assms(1)] by (simp add: sane_def)
  then show ?thesis using p' by (metis in_set_conv_nth)
qed

end

end
