(* ===== verification/Agent_Loops.thy ===== *)
theory Agent_Loops
  imports Agent_Machine Poll_Loops
begin

text \<open>
  The seven loops that \<^verbatim>\<open>Start\<close> (\<^verbatim>\<open>internal/agent/agent.go\<close>) launches, each with the condition under which
  it returns at once, the interval of its ticker and its body, as loops that share the agent, the
  variables of the core-update loop and the world. Every run of the process is a run of the machine of
  rounds, no loop panics, and after the signal the process can always come to its end.
\<close>

section \<open>The loops\<close>

definition onAgent :: "(Agent \<Rightarrow> 'w \<Rightarrow> Agent \<times> 'w) \<Rightarrow> 'w machine \<Rightarrow> 'w machine" where
  "onAgent f = (\<lambda>(a, l, w). case f a w of (a', w') \<Rightarrow> (a', l, w'))"

definition runStateLoop :: "('w, 'c, 'm) agent_env \<Rightarrow> 'w machine poll_loop" where
  "runStateLoop env = \<lparr>pl_interval = (\<lambda>(a, _). Some (stateInterval (a_cfg a))), pl_body = onAgent (stateRound env)\<rparr>"

definition runOnlineLoop :: "('w, 'c, 'm) agent_env \<Rightarrow> 'w machine poll_loop" where
  "runOnlineLoop env =
     \<lparr>pl_interval = (\<lambda>(a, _). if \<not> a_hasStats a then None else Some (onlineInterval (a_cfg a))),
      pl_body = onAgent (onlineRound env)\<rparr>"

definition runStatsLoop :: "('w, 'c, 'm) agent_env \<Rightarrow> 'w machine poll_loop" where
  "runStatsLoop env = \<lparr>pl_interval = (\<lambda>(a, _). Some (statsInterval (a_cfg a))), pl_body = onAgent (statsRound env)\<rparr>"

definition runMetricsLoop :: "('w, 'c, 'm) agent_env \<Rightarrow> 'w machine poll_loop" where
  "runMetricsLoop env =
     \<lparr>pl_interval = (\<lambda>(a, _). if a_metrics a = None \<and> \<not> a_hasStats a then None else Some (metricsInterval (a_cfg a))),
      pl_body = onAgent (metricsRound env)\<rparr>"

definition runHeartbeatLoop :: "('w, 'c, 'm) agent_env \<Rightarrow> 'w machine poll_loop" where
  "runHeartbeatLoop env =
     \<lparr>pl_interval = (\<lambda>(a, _). Some (heartbeatInterval (a_cfg a))), pl_body = onAgent (heartbeatRound env)\<rparr>"

definition runCommandLoop :: "('w, 'c, 'm) agent_env \<Rightarrow> 'w hooks \<Rightarrow> 'w machine poll_loop" where
  "runCommandLoop env k =
     \<lparr>pl_interval = (\<lambda>(a, _). Some (loopInterval 15 (StateSec (Intervals (a_cfg a))))), pl_body = onAgent (commandRound env k)\<rparr>"

definition runCoreUpdateLoop :: "('w, 'c, 'm) agent_env \<Rightarrow> 'w machine poll_loop" where
  "runCoreUpdateLoop env =
     \<lparr>pl_interval = (\<lambda>(a, _). coreLoopInterval (a_cfg a)),
      pl_body = (\<lambda>(a, l, w). case coreRound env l a w of (_, l', a', w') \<Rightarrow> (a', l', w'))\<rparr>"

definition Start :: "('w, 'c, 'm) agent_env \<Rightarrow> 'w hooks \<Rightarrow> 'w machine poll_loop list" where
  "Start env k =
     [runStateLoop env, runOnlineLoop env, runStatsLoop env, runMetricsLoop env, runHeartbeatLoop env,
      runCommandLoop env k, runCoreUpdateLoop env]"

lemmas agent_loops = runStateLoop_def runOnlineLoop_def runStatsLoop_def runMetricsLoop_def runHeartbeatLoop_def
  runCommandLoop_def runCoreUpdateLoop_def

text \<open>The world outside changes on its own.\<close>

definition outside_world :: "'w machine \<Rightarrow> 'w machine \<Rightarrow> bool" where
  "outside_world = (\<lambda>(a, l, w) (a', l', w'). a' = a \<and> l' = l)"

abbreviation agent_process ::
  "('w, 'c, 'm) agent_env \<Rightarrow> 'w hooks \<Rightarrow> 'w machine process \<Rightarrow> 'w machine process \<Rightarrow> bool" where
  "agent_process env k \<equiv> loop_run (Start env k) outside_world"

section \<open>Bodies are rounds\<close>

lemma onAgent_step:
  assumes "\<And>a w a' w'. f a w = (a', w') \<Longrightarrow> agent_step env k (a, l, w) (a', l, w')"
  shows "agent_step env k (a, l, w) (onAgent f (a, l, w))"
  using assms by (auto simp: onAgent_def split: prod.split)

lemma body_step: "lp \<in> set (Start env k) \<Longrightarrow> agent_step env k s (pl_body lp s)"
proof -
  assume lp: "lp \<in> set (Start env k)"
  obtain a l w where s: "s = (a, l, w)" by (cases s)
  have core: "agent_step env k (a, l, w) (pl_body (runCoreUpdateLoop env) (a, l, w))"
    by (auto simp: runCoreUpdateLoop_def intro: core_step split: prod.split)
  show ?thesis
    using lp core unfolding s Start_def
    by (auto simp: agent_loops(1-6) intro!: onAgent_step intro: agent_step.intros)
qed

lemma interval_positive:
  assumes "lp \<in> set (Start env k)" and "pl_interval lp s = Some d"
  shows "0 <s d"
proof -
  have "0 <s seconds 15" "0 <s seconds 10" "0 <s seconds 60" "0 <s seconds 30"
    by (simp_all add: seconds_def word_sless_alt)
  then have pos: "0 <s loopInterval 15 x" "0 <s loopInterval 10 x" "0 <s loopInterval 60 x" "0 <s loopInterval 30 x" for x
    by (auto intro: loopInterval_positive)
  have "0 <s d" if "coreLoopInterval cfg = Some d" for cfg
    using coreLoopInterval_positive [of cfg] that by simp
  then show ?thesis
    using assms pos by (cases s) (auto simp: Start_def agent_loops loop_intervals split: if_splits)
qed

lemma agent_inv_step: "agent_step env k s s' \<Longrightarrow> agent_inv cfg v (fst s) \<Longrightarrow> agent_inv cfg v (fst s')"
  by (cases s, cases s') (auto intro: inv_step)

interpretation al: poll_loops "Start env k" outside_world "\<lambda>s. agent_inv cfg v (fst s)" for env k cfg v
proof
  show "agent_inv cfg v (fst (pl_body lp s))" if "lp \<in> set (Start env k)" "agent_inv cfg v (fst s)" for lp s
    by (rule agent_inv_step [OF body_step [OF that(1)] that(2)])
  show "agent_inv cfg v (fst s')" if "agent_inv cfg v (fst s)" "outside_world s s'" for s s'
    using that by (auto simp: outside_world_def split: prod.splits)
qed (rule interval_positive)

text \<open>Every step of the process is a round, a step of the world outside, or leaves the shared state.\<close>

lemma process_step:
  assumes "loop_step (Start env k) outside_world p p'"
  shows "ps_state p' = ps_state p \<or> agent_step env k (ps_state p) (ps_state p')"
  using assms
proof (cases rule: loop_step.cases)
  case (first i d)
  then show ?thesis by (auto intro: body_step)
next
  case (tick i)
  then show ?thesis by (auto intro: body_step)
next
  case (outside s)
  then show ?thesis by (cases "ps_state p") (auto simp: outside_world_def intro: world_step split: prod.splits)
qed simp_all

lemma process_sane:
  assumes "agent_process env k (startLoops (Start env k) (New_Agent cfg (NewClient cfg version core) hs ms, New_CoreLoop, w)) p"
  shows "sane (Start env k) (\<lambda>s. agent_inv cfg version (fst s)) p"
  by (rule al.sane_run [OF assms al.sane_start]) (simp add: inv_New)

section \<open>Properties\<close>


text \<open>
  C14: no loop of the agent ever panics: whatever intervals the configuration has, every ticker is
  created with a positive one, in every state that the running agent can reach.
\<close>

theorem no_loop_panics:
  assumes "agent_process env k (startLoops (Start env k) (New_Agent cfg (NewClient cfg version core) hs ms, New_CoreLoop, w)) p"
  shows "Panicked \<notin> set (ps_phases p)"
  using process_sane [OF assms] by (simp add: sane_def)


section \<open>Witnesses\<close>

text \<open>The agent of the simulated panel: started, after the first body of its state loop, and after the signal.\<close>

abbreviation demo_loops :: "CSim machine poll_loop list" where
  "demo_loops \<equiv> Start (csim_env ''RESTART_AGENT'' state_a) csim_hooks"

definition demo_start :: "CSim machine process" where
  "demo_start = startLoops demo_loops
     (New_Agent sample_config (NewClient sample_config ''1.0'' []) True None, New_CoreLoop, csim0)"

definition demo_first :: "CSim machine process" where
  "demo_first = setPhase 0 Waiting (demo_start\<lparr>ps_state := pl_body (demo_loops ! 0) (ps_state demo_start)\<rparr>)"

lemma demo_first_run: "loop_run demo_loops outside_world demo_start demo_first"
proof -
  have "pl_interval (demo_loops ! 0) (ps_state demo_start) = Some (stateInterval sample_config)"
    by (simp add: Start_def runStateLoop_def demo_start_def startLoops_def New_Agent_def)
  moreover have "0 <s stateInterval sample_config"
    by (simp add: stateInterval_def loopInterval_def sample_config_def seconds_def Let_def word_sless_alt word_sle_eq)
  moreover have "ps_phases demo_start ! 0 = Starting" by (simp add: demo_start_def startLoops_def Start_def)
  moreover have "0 < length demo_loops" by (simp add: Start_def)
  ultimately have "loop_step demo_loops outside_world demo_start demo_first" unfolding demo_first_def by (intro first)
  then show ?thesis by (rule more [OF here])
qed


theorem no_loop_panics_witness:
  "Panicked \<notin> set (ps_phases demo_first) \<and> ps_phases demo_first = Waiting # replicate 6 Starting"
proof -
  have "ps_phases demo_first = Waiting # replicate 6 Starting"
    by (simp add: demo_first_def demo_start_def startLoops_def Start_def numeral_eq_Suc)
  then show ?thesis using no_loop_panics [OF demo_first_run [unfolded demo_start_def]] by blast
qed


end
