(* ===== verification/CLI_Properties.thy ===== *)
theory CLI_Properties
  imports Main_CLI Agent_Loops
begin

text \<open>
  What a user of the command line can rely on: which exit status goes with which output, that the flags
  of \<^verbatim>\<open>update-config\<close> reach the file, and what is known of an agent that \<^verbatim>\<open>run\<close> has started. The proofs put
  together the lemmas on flags, on the setup and on the loops.
\<close>

section \<open>Flags\<close>

definition flagArgs :: "(string \<times> string) list \<Rightarrow> string list" where
  "flagArgs as = concat (map (\<lambda>(n, v). [''--'' @ n, v]) as)"

text \<open>The value a flag is given, the last one if it is written more than once; blank if it is not written.\<close>

definition given :: "(string \<times> string) list \<Rightarrow> string \<Rightarrow> string" where
  "given as n = (case map_of (rev as) n of None \<Rightarrow> [] | Some v \<Rightarrow> v)"

definition controlFlags :: "string list" where
  "controlFlags = [''config'', ''control-base-url'', ''control-token'', ''control-server-slug'', ''control-tls-insecure'', ''github-token'']"

lemma parse_controlFlags:
  assumes "fst ` set as \<subseteq> set controlFlags"
  obtains fs where "parseFlags updateConfigFlags (flagArgs as) = Inr fs" "boolFlag ''restart'' fs"
    "strFlag ''config'' fs = (if ''config'' \<in> fst ` set as then given as ''config'' else defaultConfigPath)"
    "\<And>n. n \<in> set controlFlags \<Longrightarrow> n \<noteq> ''config'' \<Longrightarrow> strFlag n fs = given as n"
proof -
  let ?fs = "fold (\<lambda>(n, v). AList.update n (StrFlag v)) as updateConfigFlags"
  have known: "\<forall>n\<in>set controlFlags. flagName n \<and> (\<exists>x. map_of updateConfigFlags n = Some (StrFlag x))"
    by (simp add: controlFlags_def updateConfigFlags_def flagName_def)
  have "\<forall>(n, v)\<in>set as. flagName n \<and> (\<exists>x. map_of updateConfigFlags n = Some (StrFlag x))"
    using assms known by (auto simp: image_subset_iff)
  from parse_assignments [OF this, of "[]"] have p: "parseFlags updateConfigFlags (flagArgs as) = Inr ?fs"
    by (simp add: flagArgs_def)
  have "''restart'' \<notin> fst ` set as" using assms by (auto simp: controlFlags_def)
  then have r: "boolFlag ''restart'' ?fs" by (simp add: boolFlag_fold) (simp add: boolFlag_def updateConfigFlags_def)
  have "strFlag ''config'' updateConfigFlags = defaultConfigPath" by (simp add: strFlag_def updateConfigFlags_def)
  moreover have "''config'' \<in> fst ` set as \<longleftrightarrow> map_of (rev as) ''config'' \<noteq> None" by (simp add: map_of_eq_None_iff)
  ultimately have c: "strFlag ''config'' ?fs = (if ''config'' \<in> fst ` set as then given as ''config'' else defaultConfigPath)"
    by (auto simp: strFlag_fold given_def split: option.splits)
  have "strFlag n updateConfigFlags = []" if "n \<in> set controlFlags" "n \<noteq> ''config''" for n
    using that by (auto simp: controlFlags_def strFlag_def updateConfigFlags_def)
  then have "strFlag n ?fs = given as n" if "n \<in> set controlFlags" "n \<noteq> ''config''" for n
    using that by (simp add: strFlag_fold given_def split: option.split)
  with p r c show thesis by (rule that)
qed

section \<open>The commands\<close>

lemma parseBool_cases: "parseBool lower v n = Inl e \<Longrightarrow> v \<noteq> []"
  by (auto simp: parseBool_def)

text \<open>A flag set that ends the program changes nothing.\<close>

lemma exitOnError_cases:
  assumes "exitOnError name fs0 args k w = (out, st, w')"
  obtains (usage) e where "out = [Usage name e]" "st = Exit (if e = ErrHelp then 0 else 2)" "w' = w"
  | (parsed) fs where "parseFlags fs0 args = Inr fs" "k fs w = (out, st, w')"
  using assms by (auto simp: exitOnError_def split: sum.splits)

text \<open>Output without a message on standard error.\<close>

definition quiet_output :: "emission list \<Rightarrow> bool" where
  "quiet_output out \<longleftrightarrow> list_all (\<lambda>x. case x of Stdout _ \<Rightarrow> True | Log _ _ _ \<Rightarrow> True | _ \<Rightarrow> False) out"

lemma quiet_simps [simp]: "quiet_output []" "quiet_output (map Stdout ts)" "quiet_output (xs @ ys) \<longleftrightarrow> quiet_output xs \<and> quiet_output ys"
  "quiet_output (Stdout t # out) \<longleftrightarrow> quiet_output out" "quiet_output out \<Longrightarrow> Stderr t \<notin> set out"
  by (auto simp: quiet_output_def list_all_iff)

text \<open>The outcome of a command: the exit status tells what was printed.\<close>

definition outcome_ok :: "'x world \<Rightarrow> emission list \<Rightarrow> exit_state \<Rightarrow> 'x world \<Rightarrow> bool" where
  "outcome_ok w out st w' \<longleftrightarrow>
     (case st of
        Exit n \<Rightarrow> n = 1 \<and> (\<exists>t. last out = Stderr t \<and> out \<noteq> [])
                \<or> w' = w \<and> (\<exists>name e. out = [Usage name e] \<and> n = (if e = ErrHelp then 0 else 2))
      | _ \<Rightarrow> quiet_output out)"

lemma outcome_exitOnError:
  assumes "\<And>fs. parseFlags fs0 args = Inr fs \<Longrightarrow> k fs w = (out, st, w') \<Longrightarrow> outcome_ok w out st w'"
    and "exitOnError name fs0 args k w = (out, st, w')"
  shows "outcome_ok w out st w'"
  using assms(2) by (rule exitOnError_cases) (use assms(1) in \<open>auto simp: outcome_ok_def\<close>)

lemma quiet_log: "quiet_output (logAt lg lv msg attrs)"
  by (simp add: logAt_def quiet_output_def)

lemma quiet_coreAction:
  "runCoreAction env action opts w = (out, r, w') \<Longrightarrow> quiet_output out"
  using quiet_log by (auto simp: runCoreAction_def Let_def split: prod.splits sum.splits if_splits)

lemma quiet_core:
  "runCoreCommand env args w = (out, r, w') \<Longrightarrow> quiet_output out"
  by (auto simp: runCoreCommand_def Let_def dest: quiet_coreAction split: prod.splits sum.splits)

lemma quiet_ensure:
  "ensureCore env lg v tok w = (out, r, w') \<Longrightarrow> quiet_output out"
  using quiet_log by (auto simp: ensureCore_def Let_def split: prod.splits sum.splits if_splits)

lemma outcome_core: "coreCommand env args w = (out, st, w') \<Longrightarrow> outcome_ok w out st w'"
  by (auto simp: coreCommand_def outcome_ok_def dest: quiet_core split: prod.splits option.splits)

lemma outcome_setup: "setupCommand env args w = (out, st, w') \<Longrightarrow> outcome_ok w out st w'"
  unfolding setupCommand_def
  by (erule outcome_exitOnError [rotated]) (auto simp: outcome_ok_def split: prod.splits sum.splits option.splits)

lemma outcome_update: "updateConfigCommand env args w = (out, st, w') \<Longrightarrow> outcome_ok w out st w'"
  unfolding updateConfigCommand_def
  by (erule outcome_exitOnError [rotated]) (auto simp: outcome_ok_def split: prod.splits sum.splits option.splits)

lemma outcome_run: "runAgent env args w = (out, st, w') \<Longrightarrow> outcome_ok w out st w'"
  unfolding runAgent_def runAgentArgs_def
  by (erule outcome_exitOnError [rotated])
    (auto simp: outcome_ok_def Let_def dest: quiet_ensure split: prod.splits sum.splits option.splits)

lemma outcome_print: "outcome_ok w (printVersion env) Returned w" "outcome_ok w (printHelp env) Returned w"
  by (simp_all add: outcome_ok_def printVersion_def printHelp_def del: list.map)

lemma main_cases:
  "main env args w \<in> {coreCommand env (tl args) w, setupCommand env (tl args) w, updateConfigCommand env (tl args) w,
     runAgent env (tl args) w, (printVersion env, Returned, w), (printHelp env, Returned, w)}"
  unfolding main_def by (cases args) (simp_all only: list.case list.sel insert_iff if_split, simp_all)

lemma outcome_main: "main env args w = (out, st, w') \<Longrightarrow> outcome_ok w out st w'"
  using main_cases [of env args w] outcome_core [of env "tl args" w out st w'] outcome_setup [of env "tl args" w out st w']
    outcome_update [of env "tl args" w out st w'] outcome_run [of env "tl args" w out st w'] outcome_print [of w env]
  by (metis (no_types, lifting) Pair_inject empty_iff insert_iff)

text \<open>Only \<^verbatim>\<open>run\<close> starts an agent.\<close>

lemma only_run_runs: "main env args w = (out, Running a, w') \<Longrightarrow> \<exists>rest. args = ''run'' # rest \<and> runAgent env rest w = (out, Running a, w')"
  by (auto simp: main_def coreCommand_def setupCommand_def updateConfigCommand_def exitOnError_def
      split: list.splits if_splits prod.splits sum.splits option.splits)

section \<open>A started agent\<close>

text \<open>The core that \<open>run\<close> asks for, and the token it would download it with.\<close>

definition runTarget :: "flags \<Rightarrow> Config \<Rightarrow> string" where
  "runTarget fs cfg = orKeep (strFlag ''core-version'' fs) (orKeep (Version (Xray cfg)) DefaultXrayVersion)"

lemma ensureCore_ok:
  assumes "ensureCore env lg target token w = (out, None, w')" and "target \<noteq> []"
  obtains v w1 where "InstalledVersion (cl_core env) w = (v, w1)"
    "TrimSpace v \<noteq> [] \<and> w' = w1
     \<or> (\<exists>res. Xray_Core.InstallOrUpdate (cl_core env) (coreOptions target token) w1 = (Inr res, w'))"
proof -
  obtain v w1 where v: "InstalledVersion (cl_core env) w = (v, w1)" by fastforce
  show thesis
    by (rule that [OF v]) (use assms in \<open>auto simp: ensureCore_def Let_def v split: prod.splits sum.splits if_splits\<close>)
qed

lemma runAgent_ok:
  assumes "runAgent env args w = (out, Running a, w')"
  obtains fs cfg w1 v w2 where "parseFlags runFlags args = Inr fs" "LoadFile (cl_setup env) (strFlag ''config'' fs) w = (Inr cfg, w1)"
    "ensureCore env (New_Logger (LoggingLevel cfg)) (runTarget fs cfg) (resolveGitHubToken (strFlag ''github-token'' fs) (GitHubToken cfg) w1) w1
      = (out, None, w2)"
    "InstalledVersion (cl_core env) w2 = (v, w')"
    "a = New_Agent cfg (NewClient cfg (TrimSpace (cl_embeddedVersion env)) (TrimSpace v)) True (Some New_Metrics)"
  using assms unfolding runAgent_def runAgentArgs_def
proof (rule exitOnError_cases, goal_cases)
  case (2 fs)
  have target: "runTarget fs cfg = (if strFlag ''core-version'' fs = []
      then (if Version (Xray cfg) = [] then DefaultXrayVersion else Version (Xray cfg)) else strFlag ''core-version'' fs)" for cfg
    by (simp add: runTarget_def orKeep_def)
  show ?case
    using 2(3) by (auto simp: Let_def target [symmetric] intro: 2(1) [OF 2(2)] split: prod.splits sum.splits option.splits)
qed auto

lemma runTarget_nonempty: "runTarget fs cfg \<noteq> []"
  by (simp add: runTarget_def orKeep_def DefaultXrayVersion_def)

section \<open>Properties\<close>


text \<open>
  C8: the flags of \<^verbatim>\<open>update-config\<close> reach the configuration. When the command, with any of its text flags
  written as \<^verbatim>\<open>--name value\<close> in any order, returns without an error, the file named by \<^verbatim>\<open>--config\<close>
  (\<^verbatim>\<open>/etc/xray-agent/config.yaml\<close> otherwise) loads as before with exactly the fields replaced that
  were given a value, the last one if a flag is repeated, and keeps its mode.
\<close>

theorem update_config_takes_effect:
  assumes flags: "fst ` set as \<subseteq> set controlFlags"
    and path: "path = orKeep (given as ''config'') defaultConfigPath" "filePath path"
    and there: "w_fs w (fileKey w path) = Some (RegFile d m)"
    and yaml: "\<forall>c text. se_Marshal (cl_setup env) c = Inr text \<longrightarrow> se_Unmarshal (cl_setup env) text = Inr c"
    and quiet: "leaves (cl_setup env) (fileKey w path)"
    and run: "main env (''update-config'' # flagArgs as) w = (out, Returned, w')"
  shows "\<exists>cfg cfg' d' tls. Load (\<lambda>_. Inr d) (se_Unmarshal (cl_setup env)) path = Inr cfg
    \<and> w_fs w' (fileKey w path) = Some (RegFile d' m)
    \<and> Load (\<lambda>_. Inr d') (se_Unmarshal (cl_setup env)) path = Inr cfg'
    \<and> parseBool (cl_lower env) (given as ''control-tls-insecure'') ''control-tls-insecure'' = Inr tls
    \<and> cfg' = cfg\<lparr>Control := \<lparr>BaseURL = orKeep (given as ''control-base-url'') (BaseURL (Control cfg)),
                             Token = orKeep (given as ''control-token'') (Token (Control cfg)),
                             ServerSlug = orKeep (given as ''control-server-slug'') (ServerSlug (Control cfg)),
                             TLSInsecure = (case tls of None \<Rightarrow> TLSInsecure (Control cfg) | Some b \<Rightarrow> b)\<rparr>,
                 GitHubToken := orKeep (given as ''github-token'') (GitHubToken cfg)\<rparr>"
proof -
  obtain fs where fs: "parseFlags updateConfigFlags (flagArgs as) = Inr fs" "boolFlag ''restart'' fs"
    "strFlag ''config'' fs = (if ''config'' \<in> fst ` set as then given as ''config'' else defaultConfigPath)"
    and g: "\<And>n. n \<in> set controlFlags \<Longrightarrow> n \<noteq> ''config'' \<Longrightarrow> strFlag n fs = given as n"
    using parse_controlFlags [OF flags] by blast
  have g': "strFlag ''control-base-url'' fs = given as ''control-base-url''" "strFlag ''control-token'' fs = given as ''control-token''"
    "strFlag ''control-server-slug'' fs = given as ''control-server-slug''" "strFlag ''github-token'' fs = given as ''github-token''"
    "strFlag ''control-tls-insecure'' fs = given as ''control-tls-insecure''"
    by (simp_all add: g controlFlags_def)
  obtain tls opts where tls: "parseBool (cl_lower env) (given as ''control-tls-insecure'') ''control-tls-insecure'' = Inr tls"
    and opts: "opts = \<lparr>uc_ConfigPath = strFlag ''config'' fs, uc_BaseURL = given as ''control-base-url'', uc_Token = given as ''control-token'',
        uc_ServerSlug = given as ''control-server-slug'', uc_TLSInsecure = tls, uc_GitHubToken = given as ''github-token'', uc_Restart = True\<rparr>"
    and upd: "UpdateControl (cl_setup env) opts w = (None, w')"
    using run by (auto simp: main_def updateConfigCommand_def exitOnError_def fs(1,2) g' split: prod.splits sum.splits option.splits)
  have "given as ''config'' = []" if "''config'' \<notin> fst ` set as"
    using that by (simp add: given_def map_of_eq_None_iff split: option.split) (metis image_eqI map_of_SomeD fst_conv set_rev)
  then have p: "controlPath opts = path"
    by (auto simp: controlPath_def path(1) opts fs(3) orKeep_def defaultConfigPath_def Agent_Setup.defaultConfigPath_def)
  obtain cfg d' where "Load (\<lambda>_. Inr d) (se_Unmarshal (cl_setup env)) path = Inr cfg" "w_fs w' (fileKey w path) = Some (RegFile d' m)"
    "Load (\<lambda>_. Inr d') (se_Unmarshal (cl_setup env)) path = Inr (setControlFields opts cfg)"
    using UpdateControl_effect [of opts w d m "cl_setup env" w'] path(2) there yaml quiet upd p by auto
  then show ?thesis using tls by (auto simp: sc.edit_fields opts)
qed

text \<open>
  C7: an agent that \<^verbatim>\<open>run\<close> has started works with a complete configuration. The configuration was loaded
  from the file named on the command line and names the panel, the token and the server; a core was
  already installed, or \<^verbatim>\<open>InstallOrUpdate\<close> has installed the wanted version; and in every state that the
  seven loops can reach, whatever the panel, Xray and the network do, the agent still has this
  configuration and the embedded version, its store is well formed and no loop has panicked.
\<close>

theorem run_starts_configured_agent:
  assumes run: "main env args w = (out, Running a, w')"
    and loops: "agent_process aenv k (startLoops (Start aenv k) (a, New_CoreLoop, w')) p" and "ps_state p = (a', l', v')"
  shows "\<exists>rest fs d m cfg w1 v w2. args = ''run'' # rest \<and> parseFlags runFlags rest = Inr fs
    \<and> w_fs w (fileKey w (strFlag ''config'' fs)) = Some (RegFile d m)
    \<and> Load (\<lambda>_. Inr d) (se_Unmarshal (cl_setup env)) (strFlag ''config'' fs) = Inr cfg
    \<and> BaseURL (Control cfg) \<noteq> [] \<and> Token (Control cfg) \<noteq> [] \<and> ServerSlug (Control cfg) \<noteq> []
    \<and> LoadFile (cl_setup env) (strFlag ''config'' fs) w = (Inr cfg, w1) \<and> InstalledVersion (cl_core env) w1 = (v, w2)
    \<and> (TrimSpace v \<noteq> []
       \<or> (\<exists>token res w3. Xray_Core.InstallOrUpdate (cl_core env) (coreOptions (runTarget fs cfg) token) w2 = (Inr res, w3)))
    \<and> a_cfg a' = cfg \<and> AgentVersion (a_ctrl a') = TrimSpace (cl_embeddedVersion env) \<and> store_wf (a_state a')
    \<and> Panicked \<notin> set (ps_phases p)"
proof -
  obtain rest where rest: "args = ''run'' # rest" "runAgent env rest w = (out, Running a, w')"
    using only_run_runs [OF run] by blast
  obtain fs cfg w1 core w2 where fs: "parseFlags runFlags rest = Inr fs"
    and load: "LoadFile (cl_setup env) (strFlag ''config'' fs) w = (Inr cfg, w1)"
    and ens: "ensureCore env (New_Logger (LoggingLevel cfg)) (runTarget fs cfg)
        (resolveGitHubToken (strFlag ''github-token'' fs) (GitHubToken cfg) w1) w1 = (out, None, w2)"
    and a: "a = New_Agent cfg (NewClient cfg (TrimSpace (cl_embeddedVersion env)) (TrimSpace core)) True (Some New_Metrics)"
    using runAgent_ok [OF rest(2)] by metis
  obtain d m where d: "w_fs w (fileKey w (strFlag ''config'' fs)) = Some (RegFile d m)"
    "Load (\<lambda>_. Inr d) (se_Unmarshal (cl_setup env)) (strFlag ''config'' fs) = Inr cfg" by (rule LoadFile_ok [OF load])
  then obtain raw where "cfg = fillDefaults raw" "requiredFields raw = None" by (auto simp: Load_Inr)
  then have "requiredFields cfg = None" using fillDefaults_complete(1) [of raw] by simp
  then have req: "BaseURL (Control cfg) \<noteq> []" "Token (Control cfg) \<noteq> []" "ServerSlug (Control cfg) \<noteq> []"
    by (simp_all add: requiredFields_None)
  obtain v w3 where v: "InstalledVersion (cl_core env) w1 = (v, w3)"
    "TrimSpace v \<noteq> [] \<or> (\<exists>token res w4. Xray_Core.InstallOrUpdate (cl_core env) (coreOptions (runTarget fs cfg) token) w3 = (Inr res, w4))"
    using ensureCore_ok [OF ens runTarget_nonempty] by metis
  have sane: "sane (Start aenv k) (\<lambda>s. agent_inv cfg (TrimSpace (cl_embeddedVersion env)) (fst s)) p"
    by (rule process_sane [OF loops [unfolded a]])
  then have inv: "agent_inv cfg (TrimSpace (cl_embeddedVersion env)) a'" "Panicked \<notin> set (ps_phases p)"
    using assms(3) by (simp_all add: sane_def)
  show ?thesis using rest(1) fs d req load v inv unfolding agent_inv_def by blast
qed

end
