(* ===== verification/Self_Update.thy ===== *)
theory Self_Update
  imports Healthy_Run Sha256
begin

text \<open>
  The self-updater, \<^verbatim>\<open>internal/selfupdate/selfupdate.go\<close>: the release of the wanted version is looked
  up, the binary and the checksum file are downloaded into a temporary directory, the SHA-256 digest
  is compared and the binary replaces the running one. Every failure of the network and of the file
  system is covered by the world.
\<close>

section \<open>Options\<close>

definition defaultRepo :: string where "defaultRepo = ''najahiiii/xray-agent''"
definition checksumsAsset :: string where "checksumsAsset = ''checksums.txt''"

record Options =
  su_Repo :: string
  su_Version :: string
  su_Token :: string
  su_BinaryPath :: string
  su_GOOS :: string
  su_GOARCH :: string

definition withDefaults :: "platform \<Rightarrow> 'x world \<Rightarrow> Options \<Rightarrow> Options go_result" where
  "withDefaults plat w opts0 =
     (let o1 = (if su_Repo opts0 = [] then opts0\<lparr>su_Repo := defaultRepo\<rparr> else opts0);
          o2 = (if su_GOOS o1 = [] then o1\<lparr>su_GOOS := GOOS plat\<rparr> else o1);
          o3 = (if su_GOARCH o2 = [] then o2\<lparr>su_GOARCH := GOARCH plat\<rparr> else o2)
      in if su_BinaryPath o3 = [] then
           (case w_exe w of
              Inl err \<Rightarrow> Inl (ErrWrap ''resolve executable path'' err)
            | Inr binaryPath \<Rightarrow> Inr (o3\<lparr>su_BinaryPath := binaryPath\<rparr>))
         else Inr o3)"

section \<open>Versions and assets\<close>

definition ensureTagPrefix :: "string \<Rightarrow> string" where
  "ensureTagPrefix value0 =
     (let value = TrimSpace value0 in
      if value = [] then value else if HasPrefix value ''v'' then value else ''v'' @ value)"

definition normalizeVersion :: "string \<Rightarrow> string" where
  "normalizeVersion value = TrimPrefix (TrimSpace value) ''v''"

definition assetNameFor :: "string \<Rightarrow> string \<Rightarrow> string go_result" where
  "assetNameFor goos0 goarch0 =
     (let goos = TrimSpace goos0; goarch = TrimSpace goarch0 in
      if goos = [] \<or> goarch = [] then Inl (ErrText ''goos and goarch required'')
      else if goos \<noteq> ''linux'' then Inl (ErrText (''unsupported agent update platform: '' @ goos @ ''/'' @ goarch))
      else if goarch \<noteq> ''amd64'' \<and> goarch \<noteq> ''arm64''
      then Inl (ErrText (''unsupported agent update architecture: '' @ goos @ ''/'' @ goarch))
      else Inr (''xray-agent_'' @ goos @ ''_'' @ goarch))"

definition fetchRelease :: "'x http_env \<Rightarrow> Options \<Rightarrow> 'x world \<Rightarrow> (releaseInfo \<times> string) go_result \<times> 'x world" where
  "fetchRelease env opts = getRelease env ensureTagPrefix (su_Repo opts) (su_Version opts) (su_Token opts)"

text \<open>The loop over the assets; a later asset of the same name wins.\<close>

fun scanAssets :: "string \<Rightarrow> releaseAsset list \<Rightarrow> string \<times> string \<Rightarrow> string \<times> string" where
  "scanAssets assetName [] urls = urls"
| "scanAssets assetName (asset # assets) (binaryURL, checksumURL) =
     scanAssets assetName assets
       (if ra_Name asset = assetName then (ra_BrowserDownloadURL asset, checksumURL)
        else if ra_Name asset = checksumsAsset then (binaryURL, ra_BrowserDownloadURL asset)
        else (binaryURL, checksumURL))"

definition pickAssetURLs :: "releaseInfo \<Rightarrow> string \<Rightarrow> (string \<times> string) go_result" where
  "pickAssetURLs rel assetName =
     (case scanAssets assetName (ri_Assets rel) ([], []) of
        (binaryURL, checksumURL) \<Rightarrow>
          if binaryURL = [] \<or> checksumURL = []
          then Inl (ErrText (''release assets not found for '' @ assetName))
          else Inr (binaryURL, checksumURL))"

definition download :: "'x http_env \<Rightarrow> string \<Rightarrow> string \<Rightarrow> string \<Rightarrow> 'x world \<Rightarrow> go_error option \<times> 'x world" where
  "download = downloadFile"

section \<open>The checksum\<close>

definition checksumLine :: "string \<Rightarrow> string \<Rightarrow> string option" where
  "checksumLine assetName line =
     (let fields = Fields (TrimSpace line) in
      if 2 \<le> length fields \<and> last fields = assetName then Some (hd fields)
      else let text = TrimSpace line; pre = ''SHA256 ('' @ assetName @ '') = '' in
           if HasPrefix text pre then Some (TrimSpace (TrimPrefix text pre)) else None)"

fun firstChecksum :: "string \<Rightarrow> string list \<Rightarrow> string" where
  "firstChecksum assetName [] = []"
| "firstChecksum assetName (line # lines) =
     (case checksumLine assetName line of Some v \<Rightarrow> v | None \<Rightarrow> firstChecksum assetName lines)"

definition parseChecksum :: "string \<Rightarrow> string \<Rightarrow> string" where
  "parseChecksum data assetName = firstChecksum assetName (splitOn (CHR 0x0A) data)"

definition verifyChecksum :: "string \<Rightarrow> string \<Rightarrow> string \<Rightarrow> 'x world \<Rightarrow> go_error option \<times> 'x world" where
  "verifyChecksum binaryPath checksumsPath assetName w =
     (case os_ReadFile checksumsPath w of
        (Inl err, w1) \<Rightarrow> (Some err, w1)
      | (Inr checksums, w1) \<Rightarrow>
          (let want = parseChecksum checksums assetName in
           if want = [] then (Some (ErrText (''checksum for '' @ assetName @ '' not found'')), w1)
           else case os_Open binaryPath w1 of
             (Inl err, w2) \<Rightarrow> (Some err, w2)
           | (Inr _, w2) \<Rightarrow>
               (case os_ReadAll binaryPath w2 of
                  (Inl err, w3) \<Rightarrow> (Some err, w3)
                | (Inr content, w3) \<Rightarrow>
                    (let got = sha256Hex content in
                     if \<not> EqualFold got want
                     then (Some (ErrText (''sha256 mismatch for '' @ assetName @ '': want '' @ want @ '' got '' @ got)), w3)
                     else (None, w3)))))"

section \<open>Installation\<close>

definition installBinary :: "string \<Rightarrow> string \<Rightarrow> 'x world \<Rightarrow> go_error option \<times> 'x world" where
  "installBinary downloadedBinaryPath targetBinaryPath w =
     (case os_MkdirAll (pathDir targetBinaryPath) w of
        (Some err, w1) \<Rightarrow> (Some err, w1)
      | (None, w1) \<Rightarrow>
          (case os_Open downloadedBinaryPath w1 of
             (Inl err, w2) \<Rightarrow> (Some err, w2)
           | (Inr _, w2) \<Rightarrow>
               replaceVia ''.new-*'' (mode 7 5 5) targetBinaryPath (readNode downloadedBinaryPath) w2))"

text \<open>The part of \<^verbatim>\<open>InstallOrUpdate\<close> that works in the temporary directory.\<close>

definition fetchAndInstall ::
  "'x http_env \<Rightarrow> Options \<Rightarrow> string \<Rightarrow> string \<Rightarrow> string \<Rightarrow> string \<Rightarrow> 'x world \<Rightarrow> go_error option \<times> 'x world" where
  "fetchAndInstall env opts assetName binaryURL checksumURL tmpDir w =
     (let binaryPath = pathJoin [tmpDir, assetName]; checksumsPath = pathJoin [tmpDir, checksumsAsset] in
      case download env binaryURL binaryPath (su_Token opts) w of
        (Some err, w1) \<Rightarrow> (Some (ErrWrap ''download agent binary'' err), w1)
      | (None, w1) \<Rightarrow>
          (case download env checksumURL checksumsPath (su_Token opts) w1 of
             (Some err, w2) \<Rightarrow> (Some (ErrWrap ''download checksums'' err), w2)
           | (None, w2) \<Rightarrow>
               (case verifyChecksum binaryPath checksumsPath assetName w2 of
                  (Some err, w3) \<Rightarrow> (Some err, w3)
                | (None, w3) \<Rightarrow> installBinary binaryPath (su_BinaryPath opts) w3)))"

definition InstallOrUpdate ::
  "'x http_env \<Rightarrow> platform \<Rightarrow> string \<Rightarrow> Options \<Rightarrow> 'x world \<Rightarrow> InstallResult go_result \<times> 'x world" where
  "InstallOrUpdate env plat currentVersion opts0 w =
     (case withDefaults plat w opts0 of
        Inl err \<Rightarrow> (Inl err, w)
      | Inr opts \<Rightarrow>
          (case fetchRelease env opts w of
             (Inl err, w1) \<Rightarrow> (Inl err, w1)
           | (Inr (release, targetVersion), w1) \<Rightarrow>
               if normalizeVersion currentVersion = normalizeVersion targetVersion
               then (Inr \<lparr>ir_FromVersion = currentVersion, ir_ToVersion = targetVersion, ir_Updated = False\<rparr>, w1)
               else case assetNameFor (su_GOOS opts) (su_GOARCH opts) of
                 Inl err \<Rightarrow> (Inl err, w1)
               | Inr assetName \<Rightarrow>
                   (case pickAssetURLs release assetName of
                      Inl err \<Rightarrow> (Inl err, w1)
                    | Inr (binaryURL, checksumURL) \<Rightarrow>
                        (case os_MkdirTemp [] ''xray-agent-selfupdate-*'' w1 of
                           (Inl err, w2) \<Rightarrow> (Inl err, w2)
                         | (Inr tmpDir, w2) \<Rightarrow>
                             (case fetchAndInstall env opts assetName binaryURL checksumURL tmpDir w2 of
                                (Some err, w3) \<Rightarrow> (Inl err, snd (os_RemoveAll tmpDir w3))
                              | (None, w3) \<Rightarrow>
                                  (Inr \<lparr>ir_FromVersion = currentVersion, ir_ToVersion = targetVersion, ir_Updated = True\<rparr>,
                                   snd (os_RemoveAll tmpDir w3)))))))"

interpretation sv: version_tagger ensureTagPrefix normalizeVersion
  by unfold_locales (simp_all add: ensureTagPrefix_def normalizeVersion_def Let_def)

section \<open>The installation is atomic\<close>

lemma installBinary_replaces:
  assumes "filePath dest"
  shows "replaces (mode 7 5 5) dest (readNode src) w (installBinary src dest w)"
proof (cases "os_MkdirAll (pathDir dest) w")
  case (Pair r w1)
  have p1: "prepared w dest w1" using prepared_mkdir [OF assms, of w] Pair by simp
  show ?thesis
  proof (cases r)
    case None
    show ?thesis
    proof (cases "os_Open src w1")
      case open2: (Pair c w2)
      have p2: "prepared w dest w2" using prepared_trans [OF p1 prepared_open [of w1 dest src]] open2 by simp
      show ?thesis
      proof (cases c)
        case (Inl e)
        then show ?thesis using p2 None Pair open2 by (simp add: installBinary_def replaces_error)
      next
        case (Inr u)
        have "readNode src w2 = readNode src w1"
          using only_nothing(2) [OF reading_only(2), of src src w1] open2 by simp
        then have "readNode src w2 = Inr d \<Longrightarrow> readNode src w = Inr d" for d
          using mkdir_readNode [of src "pathDir dest" w d] Pair by simp
        from replaces_replaceVia [OF assms temp_suffixes(1) p2 stable_open this] open2 Inr
        show ?thesis using None Pair by (simp add: installBinary_def)
      qed
    qed
  qed (use p1 Pair in \<open>simp add: installBinary_def replaces_error\<close>)
qed

interpretation ib: atomic_writer installBinary "\<lambda>src dest w. case readNode src w of Inl _ \<Rightarrow> None | Inr d \<Rightarrow> Some (d, mode 7 5 5)"
  by (rule atomic_writerI [of "\<lambda>_. mode 7 5 5" readNode installBinary]) (rule installBinary_replaces)

section \<open>What an update does\<close>

lemma verifyChecksum_only: "only_changes {} w (snd (verifyChecksum b c a w))"
proof -
  note t = only_trans [where K = "{}"]
  obtain r1 w1 where 1: "os_ReadFile c w = (r1, w1)" by fastforce
  obtain r2 w2 where 2: "os_Open b w1 = (r2, w2)" by fastforce
  obtain r3 w3 where 3: "os_ReadAll b w2 = (r3, w3)" by fastforce
  have o1: "only_changes {} w w1" using ReadFile_only [of "{}" w c] 1 by simp
  have o2: "only_changes {} w w2" using t [OF o1] reading_only(2) [of "{}" w1 b] 2 by simp
  have o3: "only_changes {} w w3" using t [OF o2] reading_only(3) [of "{}" w2 b] 3 by simp
  show ?thesis using o1 o2 o3 by (simp add: verifyChecksum_def 1 2 3 Let_def split: sum.split)
qed

text \<open>The check passes only for a file whose digest is the one that the checksum file names.\<close>

lemma verifyChecksum_ok:
  assumes "verifyChecksum b c a w = (None, w')"
  obtains csums content where "readNode c w = Inr csums" "readNode b w = Inr content"
    "parseChecksum csums a \<noteq> []" "EqualFold (sha256Hex content) (parseChecksum csums a)"
proof -
  obtain csums w1 u w2 content w3 where 1: "os_ReadFile c w = (Inr csums, w1)" and 2: "os_Open b w1 = (Inr u, w2)"
    and 3: "os_ReadAll b w2 = (Inr content, w3)"
    and ok: "parseChecksum csums a \<noteq> []" "EqualFold (sha256Hex content) (parseChecksum csums a)"
    using assms by (auto simp: verifyChecksum_def Let_def split: prod.splits sum.splits if_splits)
  have "readNode b w2 = readNode b w1" using only_nothing(2) [OF reading_only(2), of b b w1] 2 by simp
  moreover have "readNode b w1 = readNode b w" using only_nothing(2) [OF ReadFile_only, of b c w] 1 by simp
  ultimately have "readNode b w = Inr content" using os_ReadAll_ok [OF 3] by simp
  then show thesis by (rule that [OF os_ReadFile_ok [OF 1] _ ok])
qed

lemma assetNameFor_plain:
  assumes "assetNameFor goos goarch = Inr a"
  shows "plain a" "a \<noteq> checksumsAsset"
proof -
  have "a = ''xray-agent_linux_amd64'' \<or> a = ''xray-agent_linux_arm64''"
    using assms by (auto simp: assetNameFor_def Let_def split: if_splits)
  then show "plain a" "a \<noteq> checksumsAsset" by (auto simp: plain_def slash_def checksumsAsset_def)
qed

lemma plain_checksumsAsset: "plain checksumsAsset"
  by (simp add: plain_def slash_def checksumsAsset_def)

text \<open>
  The evidence for an installed binary: the release that was found names an asset and a checksum file,
  the server gave these bytes for them, and the digest of the bytes is the one in the checksum file.
\<close>

definition verified_asset :: "'x http_env \<Rightarrow> Options \<Rightarrow> releaseInfo \<Rightarrow> string \<Rightarrow> bool" where
  "verified_asset env opts rel data \<longleftrightarrow>
     (\<exists>assetName binaryURL checksumURL csums.
        assetNameFor (su_GOOS opts) (su_GOARCH opts) = Inr assetName
        \<and> pickAssetURLs rel assetName = Inr (binaryURL, checksumURL)
        \<and> served env (su_Token opts) binaryURL data \<and> served env (su_Token opts) checksumURL csums
        \<and> parseChecksum csums assetName \<noteq> [] \<and> EqualFold (sha256Hex data) (parseChecksum csums assetName))"

text \<open>Either the downloads or the check fail, or the installation starts from a verified file.\<close>

lemma fetchAndInstall_cases:
  assumes dir: "tmpDir \<noteq> []" and asset: "plain a" "a \<noteq> checksumsAsset"
    and run: "fetchAndInstall env opts a burl curl tmpDir w = (r, w')"
  obtains (stop) "r \<noteq> None" "only_changes {q. prefix (fileKey w tmpDir) q} w w'"
  | (go) v data csums where "only_changes {q. prefix (fileKey w tmpDir) q} w v"
      "installBinary (pathJoin [tmpDir, a]) (su_BinaryPath opts) v = (r, w')"
      "readNode (pathJoin [tmpDir, a]) v = Inr data"
      "served env (su_Token opts) burl data" "served env (su_Token opts) curl csums"
      "parseChecksum csums a \<noteq> []" "EqualFold (sha256Hex data) (parseChecksum csums a)"
proof -
  let ?B = "pathJoin [tmpDir, a]" and ?C = "pathJoin [tmpDir, checksumsAsset]"
  let ?K = "{q. prefix (fileKey w tmpDir) q}"
  have kB: "fileKey w ?B = fileKey w tmpDir @ [a]" and kC: "fileKey w ?C = fileKey w tmpDir @ [checksumsAsset]"
    using resolve_pathJoin [OF dir] asset(1) plain_checksumsAsset by (simp_all add: fileKey_def)
  obtain r1 w1 where 1: "downloadFile env burl ?B (su_Token opts) w = (r1, w1)" by fastforce
  obtain r2 w2 where 2: "downloadFile env curl ?C (su_Token opts) w1 = (r2, w2)" by fastforce
  obtain r3 w3 where 3: "verifyChecksum ?B ?C a w2 = (r3, w3)" by fastforce
  have o1: "only_changes {fileKey w ?B} w w1" using downloadFile_only [of w ?B env burl "su_Token opts"] 1 by simp
  note k1 = only_key [OF o1]
  have o2: "only_changes {fileKey w ?C} w1 w2" using downloadFile_only [of w1 ?C env curl "su_Token opts"] 2 k1 by simp
  have o1': "only_changes ?K w w1" and o2': "only_changes ?K w w2"
    using only_mono [OF o1, of ?K] only_mono [OF o2, of ?K] only_trans kB kC by auto
  have o3: "only_changes {} w2 w3" using verifyChecksum_only [of w2 ?B ?C a] 3 by simp
  have o3': "only_changes ?K w w3" using only_trans [OF o2' only_mono [OF o3]] by simp
  note k2 = only_key [OF o2']
  consider "w' = w1 \<or> w' = w2 \<or> w' = w3" "r \<noteq> None"
    | "r1 = None" "r2 = None" "r3 = None" "installBinary ?B (su_BinaryPath opts) w3 = (r, w')"
    using run 1 2 3 by (auto simp: fetchAndInstall_def Let_def download_def split: option.splits)
  then show thesis
  proof cases
    case 1
    then show thesis using stop o1' o2' o3' by auto
  next
    case ok: 2
    obtain data m where data: "served env (su_Token opts) burl data" "w_fs w1 (fileKey w ?B) = Some (RegFile data m)"
      using downloadFile_ok \<open>downloadFile env burl ?B (su_Token opts) w = (r1, w1)\<close> ok(1) by blast
    obtain csums m' where csums: "served env (su_Token opts) curl csums" "w_fs w2 (fileKey w ?C) = Some (RegFile csums m')"
      using downloadFile_ok [of env curl ?C _ w1 w2] 2 ok(2) k1 by metis
    have "w_fs w2 (fileKey w ?B) = Some (RegFile data m)"
      using only_at [OF o2, of "fileKey w ?B"] data(2) kB kC asset(2) by simp
    then have rd: "readNode ?B w2 = Inr data" "readNode ?C w2 = Inr csums"
      using readNode_at [of ?B w2] readNode_at [of ?C w2] csums(2) k2 dir by simp_all
    then have "parseChecksum csums a \<noteq> []" "EqualFold (sha256Hex data) (parseChecksum csums a)"
      using verifyChecksum_ok [of ?B ?C a w2 w3] 3 ok(3) by fastforce+
    then show thesis using go [OF o3' ok(4) _ data(1) csums(1)] only_nothing(2) [OF o3, of ?B] rd by simp
  qed
qed

lemma fetchAndInstall_spec:
  assumes dir: "tmpDir \<noteq> []" and asset: "plain a" "a \<noteq> checksumsAsset" and bin: "filePath (su_BinaryPath opts)"
    and out: "\<not> prefix (fileKey w tmpDir) (fileKey w (su_BinaryPath opts))"
    and run: "fetchAndInstall env opts a burl curl tmpDir w = (r, w')"
  shows "same_setup w w'"
    and "\<not> prefix (fileKey w tmpDir) q \<Longrightarrow> w_fs w q \<noteq> None \<Longrightarrow> q \<noteq> fileKey w (su_BinaryPath opts) \<Longrightarrow> w_fs w' q = w_fs w q"
    and "case r of
      Some e \<Rightarrow> w_fs w' (fileKey w (su_BinaryPath opts)) = w_fs w (fileKey w (su_BinaryPath opts))
    | None \<Rightarrow> \<exists>data csums. served env (su_Token opts) burl data \<and> served env (su_Token opts) curl csums
        \<and> parseChecksum csums a \<noteq> [] \<and> EqualFold (sha256Hex data) (parseChecksum csums a)
        \<and> w_fs w' (fileKey w (su_BinaryPath opts)) = Some (RegFile data (mode 7 5 5))"
proof (atomize (full), rule fetchAndInstall_cases [OF dir asset run], goal_cases)
  case 1
  then show ?case using only_setup [OF 1(2)] only_at [OF 1(2)] out by auto
next
  case (2 v data csums)
  let ?B = "pathJoin [tmpDir, a]" and ?bin = "su_BinaryPath opts"
  note k = only_key [OF 2(1)]
  have binv: "w_fs v (fileKey w ?bin) = w_fs w (fileKey w ?bin)" using only_at [OF 2(1)] out by simp
  have "same_setup w w'"
    using ib.put_setup [OF bin, of v ?B] only_setup [OF 2(1)] same_setup_trans 2(2) by fastforce
  moreover have "w_fs w' q = w_fs w q"
    if "\<not> prefix (fileKey w tmpDir) q" "w_fs w q \<noteq> None" "q \<noteq> fileKey w ?bin"
    using ib.put_frame [OF bin, of v q ?B] only_at [OF 2(1), of q] that k 2(2) by simp
  moreover have "w_fs w' (fileKey w ?bin) = w_fs w (fileKey w ?bin)" if "r = Some e" for e
    using ib.put_err [OF bin, of ?B v e w'] 2(2) that k binv by simp
  moreover have "w_fs w' (fileKey w ?bin) = Some (RegFile data (mode 7 5 5))" if "r = None"
    using ib.put_ok [OF bin, of ?B v w'] 2(2,3) that k by simp
  ultimately show ?case using 2(4-7) by (auto split: option.split)
qed

lemma InstallOrUpdate_work:
  assumes bin: "filePath (su_BinaryPath opts)"
    and out: "\<not> prefix (fileKey w (os_TempDir w)) (fileKey w (su_BinaryPath opts))"
    and rel: "only_changes {} w w1" and asset: "assetNameFor goos goarch = Inr a"
    and dir: "os_MkdirTemp [] ''xray-agent-selfupdate-*'' w1 = (Inr tmpDir, w2)"
    and run: "fetchAndInstall env opts a burl curl tmpDir w2 = (r, w3)" and w': "w' = snd (os_RemoveAll tmpDir w3)"
  shows "w_fs w' (fileKey w (su_BinaryPath opts)) = w_fs w3 (fileKey w (su_BinaryPath opts))"
    and "w_fs w2 (fileKey w (su_BinaryPath opts)) = w_fs w (fileKey w (su_BinaryPath opts))"
    and "\<not> prefix (fileKey w2 tmpDir) (fileKey w2 (su_BinaryPath opts))" and "tmpDir \<noteq> []" and "fileKey w2 = fileKey w"
    and "tree (w_fs w) \<Longrightarrow> w_fs w q \<noteq> None \<Longrightarrow> q \<noteq> fileKey w (su_BinaryPath opts) \<Longrightarrow> w_fs w' q = w_fs w q"
proof -
  let ?bin = "su_BinaryPath opts" and ?T = "fileKey w tmpDir"
  have k1: "fileKey w1 = fileKey w" using only_key [OF rel] by (simp add: fun_eq_iff)
  have tmp1: "os_TempDir w1 = os_TempDir w"
    using only_setup [OF rel] by (simp add: os_TempDir_def os_Getenv_def same_setup_def)
  have dir': "os_MkdirTemp [] (''xray-agent-selfupdate-'' @ ''*'') w1 = (Inr tmpDir, w2)" using dir by simp
  have T: "tmpDir \<noteq> []" "strict_prefix (fileKey w (os_TempDir w)) ?T" "w_fs w ?T = None" "only_changes {?T} w1 w2"
    using os_MkdirTemp_ok [OF dir'] k1 tmp1 only_nothing(1) [OF rel] by (simp_all add: slash_def)
  then have o2: "only_changes {?T} w w2" using only_trans [OF only_mono [OF rel]] by simp
  show k2: "fileKey w2 = fileKey w" using only_key [OF o2] by (simp add: fun_eq_iff)
  have outT: "\<not> prefix ?T (fileKey w ?bin)"
    using out T(2) by (meson prefix_order.order_trans prefix_order.less_imp_le)
  then show "\<not> prefix (fileKey w2 tmpDir) (fileKey w2 ?bin)" by (simp add: k2)
  show "w_fs w2 (fileKey w ?bin) = w_fs w (fileKey w ?bin)" using only_at [OF o2] outT by auto
  show "tmpDir \<noteq> []" by fact
  note spec = fetchAndInstall_spec [OF T(1) assetNameFor_plain [OF asset] bin _ run, unfolded k2, OF outT]
  have k3: "fileKey w3 tmpDir = ?T" using same_setup_key [OF spec(1)] k2 by simp
  note rm = only_at [OF os_RemoveAll_only [of w3 tmpDir, unfolded k3], folded w']
  show "w_fs w' (fileKey w ?bin) = w_fs w3 (fileKey w ?bin)" using rm outT by simp
  show "w_fs w' q = w_fs w q" if t: "tree (w_fs w)" and q: "w_fs w q \<noteq> None" "q \<noteq> fileKey w ?bin"
  proof -
    have "\<not> prefix ?T q" using t q(1) T(3) unfolding tree_def by blast
    moreover from this have "w_fs w2 q = w_fs w q" using only_at [OF o2] by auto
    ultimately show ?thesis using rm spec(2) q by simp
  qed
qed

text \<open>Either nothing is changed, or the work in the temporary directory was started.\<close>

lemma InstallOrUpdate_cases:
  assumes opts: "withDefaults plat w opts0 = Inr opts" and run: "InstallOrUpdate env plat current opts0 w = (r, w')"
  obtains (still) "w_fs w' = w_fs w"
      "case r of Inl _ \<Rightarrow> True
       | Inr res \<Rightarrow> \<not> ir_Updated res \<and> normalizeVersion current = normalizeVersion (ir_ToVersion res)
           \<and> (\<exists>rel w1. fetchRelease env opts w = (Inr (rel, ir_ToVersion res), w1))"
  | (work) rel v w1 a burl curl tmpDir w2 r3 w3 where "fetchRelease env opts w = (Inr (rel, v), w1)"
      "normalizeVersion current \<noteq> normalizeVersion v" "only_changes {} w w1"
      "assetNameFor (su_GOOS opts) (su_GOARCH opts) = Inr a" "pickAssetURLs rel a = Inr (burl, curl)"
      "os_MkdirTemp [] ''xray-agent-selfupdate-*'' w1 = (Inr tmpDir, w2)"
      "fetchAndInstall env opts a burl curl tmpDir w2 = (r3, w3)" "w' = snd (os_RemoveAll tmpDir w3)"
      "r = (case r3 of Some e \<Rightarrow> Inl e
            | None \<Rightarrow> Inr \<lparr>ir_FromVersion = current, ir_ToVersion = v, ir_Updated = True\<rparr>)"
proof -
  obtain fr w1 where fr: "fetchRelease env opts w = (fr, w1)" by fastforce
  have o1: "only_changes {} w w1" using getRelease_only fr by (auto simp: fetchRelease_def)
  show thesis
  proof (cases "\<exists>rel v a burl curl tmpDir w2. fr = Inr (rel, v) \<and> normalizeVersion current \<noteq> normalizeVersion v
      \<and> assetNameFor (su_GOOS opts) (su_GOARCH opts) = Inr a \<and> pickAssetURLs rel a = Inr (burl, curl)
      \<and> os_MkdirTemp [] ''xray-agent-selfupdate-*'' w1 = (Inr tmpDir, w2)")
    case True
    then obtain rel v a burl curl tmpDir w2 where fr': "fr = Inr (rel, v)" "normalizeVersion current \<noteq> normalizeVersion v"
      and a: "assetNameFor (su_GOOS opts) (su_GOARCH opts) = Inr a" "pickAssetURLs rel a = Inr (burl, curl)"
      and d: "os_MkdirTemp [] ''xray-agent-selfupdate-*'' w1 = (Inr tmpDir, w2)" by blast
    obtain r3 w3 where 3: "fetchAndInstall env opts a burl curl tmpDir w2 = (r3, w3)" by fastforce
    show thesis
      using work [OF _ fr'(2) o1 a d 3] fr fr' opts run a d 3 by (auto simp: InstallOrUpdate_def split: option.splits)
  next
    case False
    have keep: "w_fs w1 = w_fs w" by (rule only_nothing(1) [OF o1])
    have tmp: "w_fs w2 = w_fs w" if "os_MkdirTemp [] ''xray-agent-selfupdate-*'' w1 = (Inl e, w2)" for e w2
      using only_nothing(1) createFresh_error that keep unfolding os_MkdirTemp_def by metis
    show thesis using still opts run fr False keep tmp
      by (auto simp: InstallOrUpdate_def split: sum.splits prod.splits if_splits)
  qed
qed

text \<open>The versions that are reported, and what became of the binary.\<close>

lemma InstallOrUpdate_versions:
  assumes "withDefaults plat w opts0 = Inr opts" and "InstallOrUpdate env plat current opts0 w = (Inr res, w')"
  shows "(\<exists>rel w1. fetchRelease env opts w = (Inr (rel, ir_ToVersion res), w1))
    \<and> (ir_Updated res \<longleftrightarrow> normalizeVersion current \<noteq> normalizeVersion (ir_ToVersion res))"
  by (rule InstallOrUpdate_cases [OF assms]) (auto split: option.splits)

lemma InstallOrUpdate_binary:
  assumes "withDefaults plat w opts0 = Inr opts" and "filePath (su_BinaryPath opts)"
    and "\<not> prefix (fileKey w (os_TempDir w)) (fileKey w (su_BinaryPath opts))"
    and "InstallOrUpdate env plat current opts0 w = (r, w')"
  shows "case r of
      Inl err \<Rightarrow> w_fs w' (fileKey w (su_BinaryPath opts)) = w_fs w (fileKey w (su_BinaryPath opts))
    | Inr res \<Rightarrow>
        if ir_Updated res
        then \<exists>rel w1 data. fetchRelease env opts w = (Inr (rel, ir_ToVersion res), w1) \<and> verified_asset env opts rel data
          \<and> w_fs w' (fileKey w (su_BinaryPath opts)) = Some (RegFile data (mode 7 5 5))
        else w_fs w' (fileKey w (su_BinaryPath opts)) = w_fs w (fileKey w (su_BinaryPath opts))"
proof (rule InstallOrUpdate_cases [OF assms(1,4)], goal_cases)
  case 1
  then show ?case by (auto split: sum.splits)
next
  case (2 rel v w1 a burl curl tmpDir w2 r3 w3)
  let ?bin = "su_BinaryPath opts"
  note work = InstallOrUpdate_work [OF assms(2,3) 2(3,4,6,7,8)]
  note spec = fetchAndInstall_spec(3) [OF work(4) assetNameFor_plain [OF 2(4)] assms(2) work(3) 2(7), unfolded work(5)]
  show ?case
  proof (cases r3)
    case (Some e)
    then show ?thesis using 2 spec work(1,2) by simp
  next
    case None
    then obtain data csums where "served env (su_Token opts) burl data" "served env (su_Token opts) curl csums"
      "parseChecksum csums a \<noteq> []" "EqualFold (sha256Hex data) (parseChecksum csums a)"
      and new: "w_fs w3 (fileKey w ?bin) = Some (RegFile data (mode 7 5 5))"
      using spec by auto
    then have "verified_asset env opts rel data" using 2(4,5) unfolding verified_asset_def by blast
    then show ?thesis using 2 None work(1) new by auto
  qed
qed

text \<open>
  C1: the binary of the agent is never left in between. Whatever fails in the network or in the file
  system, and wherever the process stops, the file at the target path is either untouched or holds,
  executable, all bytes of the asset that the release names for this platform, and their SHA-256 digest
  is the one that the release's checksum file gives for that asset. The function reports an update
  exactly in the second case, and leaves the file when the version is the current one.
\<close>

theorem self_update_all_or_nothing:
  assumes "withDefaults plat w opts0 = Inr opts" and "filePath (su_BinaryPath opts)"
    and "\<not> prefix (fileKey w (os_TempDir w)) (fileKey w (su_BinaryPath opts))"
    and "InstallOrUpdate env plat current opts0 w = (r, w')"
  shows "case r of
      Inl err \<Rightarrow> w_fs w' (fileKey w (su_BinaryPath opts)) = w_fs w (fileKey w (su_BinaryPath opts))
    | Inr res \<Rightarrow> \<exists>rel w1. fetchRelease env opts w = (Inr (rel, ir_ToVersion res), w1) \<and>
        (if ir_Updated res
         then normalizeVersion current \<noteq> normalizeVersion (ir_ToVersion res)
           \<and> (\<exists>data. verified_asset env opts rel data
                \<and> w_fs w' (fileKey w (su_BinaryPath opts)) = Some (RegFile data (mode 7 5 5)))
         else normalizeVersion current = normalizeVersion (ir_ToVersion res)
           \<and> w_fs w' (fileKey w (su_BinaryPath opts)) = w_fs w (fileKey w (su_BinaryPath opts)))"
proof (cases r)
  case (Inr res)
  obtain rel w1 where rel: "fetchRelease env opts w = (Inr (rel, ir_ToVersion res), w1)"
    and ver: "ir_Updated res \<longleftrightarrow> normalizeVersion current \<noteq> normalizeVersion (ir_ToVersion res)"
    using InstallOrUpdate_versions [OF assms(1)] assms(4) Inr by blast
  then show ?thesis using InstallOrUpdate_binary [OF assms] Inr by (cases "ir_Updated res") auto
qed (use InstallOrUpdate_binary [OF assms] in simp)

text \<open>
  C17: an update, successful or not, changes no other file that existed: the downloads live in a new
  temporary directory and the installation writes nothing but the target.
\<close>

theorem self_update_changes_only_binary:
  assumes "withDefaults plat w opts0 = Inr opts" and "filePath (su_BinaryPath opts)"
    and "\<not> prefix (fileKey w (os_TempDir w)) (fileKey w (su_BinaryPath opts))" and "tree (w_fs w)"
    and "w_fs w q \<noteq> None" and "q \<noteq> fileKey w (su_BinaryPath opts)"
  shows "w_fs (snd (InstallOrUpdate env plat current opts0 w)) q = w_fs w q"
proof (cases "InstallOrUpdate env plat current opts0 w")
  case (Pair r w')
  show ?thesis
  proof (rule InstallOrUpdate_cases [OF assms(1) Pair], goal_cases)
    case 1
    then show ?case using Pair by simp
  next
    case (2 rel v w1 a burl curl tmpDir w2 r3 w3)
    then show ?case using InstallOrUpdate_work(6) [OF assms(2,3) 2(3,4,6,7,8) assms(4-6)] Pair by simp
  qed
qed

section \<open>An update completes\<close>

lemma installBinary_succeeds:
  assumes bin: "filePath dest" and w: "healthy w" "readNode src w = Inr d"
    and name: "name_ready w (w_draws w) (pathDir dest) (pathBase dest @ ''.new-*'')"
    and target: "w_fs w (fileKey w dest) \<noteq> Some Directory" "dir_exists w (pathDir dest)"
  shows "\<exists>w'. installBinary src dest w = (None, w') \<and> same_setup w w' \<and> healthy w'
    \<and> w_fs w' = (w_fs w)(fileKey w dest := Some (RegFile d (mode 7 5 5)))"
proof -
  have src: "node_at w src \<noteq> None" using w(2) by (auto simp: readNode_Inr)
  have dir: "w_fs w (fileKey w (pathDir dest)) = Some Directory" using target(2) by (simp add: dir_exists_def)
  have inst: "installBinary src dest w = replaceVia ''.new-*'' (mode 7 5 5) dest (readNode src) w"
    by (simp add: installBinary_def mkdir_succeeds [OF w(1) target(2)] open_succeeds [OF w(1) src])
  obtain w' where ok: "replaceVia ''.new-*'' (mode 7 5 5) dest (readNode src) w = (None, w')" "healthy w'"
    using replaceVia_succeeds [OF bin temp_suffixes(1) w stable_readNode [OF src] name target(1) dir] by blast
  from replaceVia_ok [OF bin temp_suffixes(1) stable_readNode [OF src] ok(1)] w(2) inst ok show ?thesis
    by (metis sum.inject(2))
qed

text \<open>A server that answers every request for the URL with these bytes.\<close>

definition answers :: "'x http_env \<Rightarrow> string \<Rightarrow> string \<Rightarrow> string \<Rightarrow> bool" where
  "answers env token url body \<longleftrightarrow> h_NewRequest env ''GET'' url = None \<and>
     (\<forall>x. \<exists>resp x'. h_Do env (getFor url (withToken token [])) x = (Inr resp, x')
        \<and> rs_StatusCode resp div 100 = 2 \<and> rs_Body resp = body)"

lemma download_answers:
  assumes "answers env token url body" "healthy w" "dest \<noteq> []" "w_fs w (fileKey w dest) = None"
    "w_fs w (butlast (fileKey w dest)) = Some Directory"
  obtains w' m where "downloadFile env url dest token w = (None, w')" "healthy w'" "w_draws w' = w_draws w"
    "w_fs w' (fileKey w dest) = Some (RegFile body m)" "only_changes {fileKey w dest} w w'"
proof -
  obtain resp x where "h_Do env (getFor url (withToken token [])) (w_ext w) = (Inr resp, x)"
    "rs_StatusCode resp div 100 = 2" "rs_Body resp = body" "h_NewRequest env ''GET'' url = None"
    using assms(1) unfolding answers_def by blast
  from downloadFile_succeeds [OF assms(2-5) this(4,1,2)] this(3)
  show thesis using that downloadFile_only [of w dest env url token] by (metis snd_conv)
qed

lemma verifyChecksum_succeeds:
  "healthy w \<Longrightarrow> readNode c w = Inr csums \<Longrightarrow> readNode b w = Inr d \<Longrightarrow> parseChecksum csums a \<noteq> [] \<Longrightarrow>
   EqualFold (sha256Hex d) (parseChecksum csums a) \<Longrightarrow> verifyChecksum b c a w = (None, w)"
  by (auto simp: verifyChecksum_def readFile_succeeds read_succeeds open_succeeds readNode_Inr Let_def)

text \<open>The work in a new temporary directory, when nothing fails.\<close>

lemma fetchAndInstall_succeeds:
  assumes dir: "tmpDir \<noteq> []" "w_fs w (fileKey w tmpDir) = Some Directory" "\<And>q. strict_prefix (fileKey w tmpDir) q \<Longrightarrow> w_fs w q = None"
    and a: "plain a" "a \<noteq> checksumsAsset" and h: "healthy w"
    and srv: "answers env (su_Token opts) burl data" "answers env (su_Token opts) curl csums"
    and sum: "parseChecksum csums a \<noteq> []" "EqualFold (sha256Hex data) (parseChecksum csums a)"
    and bin: "filePath (su_BinaryPath opts)" "w_fs w (fileKey w (su_BinaryPath opts)) \<noteq> Some Directory"
      "dir_exists w (pathDir (su_BinaryPath opts))" "\<not> prefix (fileKey w tmpDir) (fileKey w (su_BinaryPath opts))"
    and name: "name_ready w (w_draws w) (pathDir (su_BinaryPath opts)) (pathBase (su_BinaryPath opts) @ ''.new-*'')"
  shows "\<exists>w'. fetchAndInstall env opts a burl curl tmpDir w = (None, w') \<and> same_setup w w' \<and> healthy w'
    \<and> (\<forall>q. \<not> prefix (fileKey w tmpDir) q \<longrightarrow>
         w_fs w' q = ((w_fs w)(fileKey w (su_BinaryPath opts) := Some (RegFile data (mode 7 5 5)))) q)"
proof -
  let ?B = "pathJoin [tmpDir, a]" and ?C = "pathJoin [tmpDir, checksumsAsset]" and ?bin = "su_BinaryPath opts"
  let ?K = "{q. prefix (fileKey w tmpDir) q}"
  have kB: "fileKey w ?B = fileKey w tmpDir @ [a]" and kC: "fileKey w ?C = fileKey w tmpDir @ [checksumsAsset]"
    using resolve_pathJoin [OF dir(1)] a(1) plain_checksumsAsset by (simp_all add: fileKey_def)
  have freeB: "w_fs w (fileKey w ?B) = None" and freeC: "w_fs w (fileKey w ?C) = None"
    using dir(3) kB kC by (simp_all add: strict_prefix_def)
  obtain w1 m1 where 1: "downloadFile env burl ?B (su_Token opts) w = (None, w1)" "healthy w1" "w_draws w1 = w_draws w"
    "w_fs w1 (fileKey w ?B) = Some (RegFile data m1)" "only_changes {fileKey w ?B} w w1"
    by (rule download_answers [OF srv(1) h _ freeB]) (use dir(1,2) kB in simp_all)
  note k1 = only_key [OF 1(5)]
  have "w_fs w1 (fileKey w1 ?C) = None" "w_fs w1 (butlast (fileKey w1 ?C)) = Some Directory"
    using only_at [OF 1(5)] freeC dir(2) kB kC k1 a(2) by auto
  then obtain w2 m2 where 2: "downloadFile env curl ?C (su_Token opts) w1 = (None, w2)" "healthy w2" "w_draws w2 = w_draws w1"
    "w_fs w2 (fileKey w ?C) = Some (RegFile csums m2)" "only_changes {fileKey w ?C} w1 w2"
    using download_answers [OF srv(2) 1(2), of ?C] dir(1) k1 by (metis pathJoin_nonempty)
  have o2: "only_changes ?K w w2"
    using only_trans [OF only_mono [OF 1(5), of ?K] only_mono [OF 2(5), of ?K]] kB kC by auto
  note k2 = only_key [OF o2]
  have rd: "readNode ?B w2 = Inr data" "readNode ?C w2 = Inr csums"
    using readNode_at [of ?B w2] readNode_at [of ?C w2] 1(4) 2(4) only_at [OF 2(5), of "fileKey w ?B"] kB kC k2 a(2) dir(1)
    by simp_all
  have outside: "w_fs w2 q = w_fs w q" if "\<not> prefix (fileKey w tmpDir) q" for q using only_at [OF o2] that by simp
  have kbin: "fileKey w ?bin = fileKey w (pathDir ?bin) @ [lastName ?bin]" using resolve_filePath [OF bin(1)] by (simp add: fileKey_def)
  have up: "\<not> prefix (fileKey w tmpDir) q" if "prefix q (fileKey w (pathDir ?bin))" for q
    using bin(4) that kbin by (metis prefix_order.order_trans prefixI)
  have "dir_exists w2 (pathDir ?bin)" using bin(3) outside up k2 by (simp add: dir_exists_def)
  moreover have "name_ready w2 (w_draws w2) (pathDir ?bin) (pathBase ?bin @ ''.new-*'')"
  proof -
    let ?t = "fileKey w (tempName (pathDir ?bin) (pathBase ?bin @ ''.new-*'') (w_rand w (w_draws w)))"
    obtain x where x: "?t = fileKey w (pathDir ?bin) @ [x]" using temp_beside [OF bin(1) temp_suffixes(1)] by blast
    have "w_fs w ?t = None" using name by (simp add: name_ready_def)
    then have "?t \<noteq> fileKey w tmpDir" using dir(2) by auto
    then have "\<not> prefix (fileKey w tmpDir) ?t" using up [of "fileKey w tmpDir"] x by (auto simp: prefix_snoc)
    then show ?thesis using name_ready_only [OF name o2] up [of "fileKey w (pathDir ?bin)"] x 1(3) 2(3) by simp
  qed
  moreover have "w_fs w2 (fileKey w2 ?bin) \<noteq> Some Directory" using bin(2,4) outside k2 by simp
  ultimately obtain w' where w': "installBinary ?B ?bin w2 = (None, w')" "same_setup w2 w'" "healthy w'"
    "w_fs w' = (w_fs w2)(fileKey w ?bin := Some (RegFile data (mode 7 5 5)))"
    using installBinary_succeeds [OF bin(1) 2(2) rd(1)] k2 by auto
  have "fetchAndInstall env opts a burl curl tmpDir w = (None, w')"
    by (simp add: fetchAndInstall_def download_def Let_def 1(1) 2(1) verifyChecksum_succeeds [OF 2(2) rd(2,1) sum] w'(1))
  moreover have "same_setup w w'" using same_setup_trans [OF only_setup [OF o2] w'(2)] .
  ultimately show ?thesis using w'(3,4) outside by auto
qed

text \<open>A new directory for temporary files takes nothing away from the place of the binary.\<close>

lemma tempDir_ready:
  assumes bin: "filePath bin" "\<not> prefix (fileKey w (os_TempDir w)) (fileKey w bin)" "dir_exists w (pathDir bin)"
    and t: "tree (w_fs w)" and new: "os_MkdirTemp [] ''xray-agent-selfupdate-*'' w = (Inr tmpDir, w2)"
    and name: "name_ready w n (pathDir bin) (pathBase bin @ ''.new-*'')"
  shows "\<forall>q. prefix (fileKey w tmpDir) q \<longrightarrow> w_fs w q = None" and "\<forall>q. q \<noteq> fileKey w tmpDir \<longrightarrow> w_fs w2 q = w_fs w q"
    and "w_fs w2 (fileKey w tmpDir) = Some Directory"
    and "dir_exists w2 (pathDir bin)" and "name_ready w2 n (pathDir bin) (pathBase bin @ ''.new-*'')"
proof -
  let ?T = "fileKey w tmpDir"
  have dir: "strict_prefix (fileKey w (os_TempDir w)) ?T" "w_fs w ?T = None" "w_fs w2 ?T = Some Directory" "only_changes {?T} w w2"
    using os_MkdirTemp_ok [of "''xray-agent-selfupdate-''" w tmpDir w2] new by (simp_all add: slash_def)
  show "w_fs w2 ?T = Some Directory" by fact
  show "\<forall>q. prefix ?T q \<longrightarrow> w_fs w q = None" using t dir(2) unfolding tree_def by blast
  show at2: "\<forall>q. q \<noteq> ?T \<longrightarrow> w_fs w2 q = w_fs w q" using only_at [OF dir(4)] by simp
  have kdir: "w_fs w q = Some Directory" if "prefix q (fileKey w (pathDir bin))" for q
    using bin(3) that by (simp add: dir_exists_def)
  have "w_fs w2 q = Some Directory" if "prefix q (fileKey w (pathDir bin))" for q
    using kdir [OF that] at2 dir(2) by (cases "q = ?T") auto
  then show "dir_exists w2 (pathDir bin)" using bin(3) only_key [OF dir(4)] by (simp add: dir_exists_def)
  let ?t = "fileKey w (tempName (pathDir bin) (pathBase bin @ ''.new-*'') (w_rand w n))"
  obtain x where x: "?t = fileKey w (pathDir bin) @ [x]" using temp_beside [OF bin(1) temp_suffixes(1)] by blast
  have kbin: "fileKey w bin = fileKey w (pathDir bin) @ [lastName bin]" using resolve_filePath [OF bin(1)] by (simp add: fileKey_def)
  have "?t \<noteq> ?T"
  proof
    assume "?t = ?T"
    then have "strict_prefix (fileKey w (os_TempDir w)) (fileKey w (pathDir bin) @ [x])" using dir(1) x by simp
    then have "prefix (fileKey w (os_TempDir w)) (fileKey w (pathDir bin))" by (auto simp: strict_prefix_def prefix_snoc)
    then show False using bin(2) kbin by (metis prefix_order.order_trans prefixI)
  qed
  moreover have "fileKey w (pathDir bin) \<noteq> ?T" using kdir [of "fileKey w (pathDir bin)"] dir(2) by (intro notI) simp
  ultimately show "name_ready w2 n (pathDir bin) (pathBase bin @ ''.new-*'')"
    using name_ready_only [OF name dir(4)] x by simp
qed

text \<open>
  C16: in a system where no call fails, the server answers with an asset whose digest is the one in the
  checksum file, and the directory of the binary exists, an update to another version completes: it
  reports the new version, the binary holds the new bytes with the executable mode, and no other file
  differs from before: nothing is left of the temporary directory and of the temporary file.
\<close>

theorem self_update_completes:
  assumes "withDefaults plat w opts0 = Inr opts" and "filePath (su_BinaryPath opts)"
    and "\<not> prefix (fileKey w (os_TempDir w)) (fileKey w (su_BinaryPath opts))" and "tree (w_fs w)" and "healthy w"
    and "fetchRelease env opts w = (Inr (rel, v), w1)" and "normalizeVersion current \<noteq> normalizeVersion v"
    and "assetNameFor (su_GOOS opts) (su_GOARCH opts) = Inr a" and "pickAssetURLs rel a = Inr (burl, curl)"
    and "answers env (su_Token opts) burl data" and "answers env (su_Token opts) curl csums"
    and "parseChecksum csums a \<noteq> []" and "EqualFold (sha256Hex data) (parseChecksum csums a)"
    and "w_fs w (fileKey w (su_BinaryPath opts)) \<noteq> Some Directory" and "dir_exists w (pathDir (su_BinaryPath opts))"
    and "name_ready w (w_draws w) (os_TempDir w) ''xray-agent-selfupdate-*''"
    and "name_ready w (Suc (w_draws w)) (pathDir (su_BinaryPath opts)) (pathBase (su_BinaryPath opts) @ ''.new-*'')"
  shows "fst (InstallOrUpdate env plat current opts0 w)
      = Inr \<lparr>ir_FromVersion = current, ir_ToVersion = v, ir_Updated = True\<rparr>
    \<and> w_fs (snd (InstallOrUpdate env plat current opts0 w))
      = (w_fs w)(fileKey w (su_BinaryPath opts) := Some (RegFile data (mode 7 5 5)))"
proof -
  let ?bin = "su_BinaryPath opts" and ?pat = "''xray-agent-selfupdate-*''"
  let ?new = "(w_fs w)(fileKey w ?bin := Some (RegFile data (mode 7 5 5)))"
  have o1: "only_changes {} w w1" and "steady w w1"
    using getRelease_only getRelease_steady assms(6) by (auto simp: fetchRelease_def)
  then have h1: "healthy w1" "w_draws w1 = w_draws w" "os_TempDir w1 = os_TempDir w" "w_rand w1 = w_rand w"
    using assms(5) only_setup [OF o1] by (simp_all add: steady_def os_TempDir_def os_Getenv_def same_setup_def)
  have k1: "fileKey w1 = fileKey w" and fs1: "w_fs w1 = w_fs w" using only_key [OF o1] only_nothing(1) [OF o1] by (simp_all add: fun_eq_iff)
  obtain tmpDir w2 where 2: "os_MkdirTemp [] ?pat w1 = (Inr tmpDir, w2)" "healthy w2" "w_draws w2 = Suc (w_draws w)"
    using createFresh_succeeds [OF h1(1), of "os_TempDir w" ?pat Directory] name_ready_only [OF assms(16) o1] h1
    by (auto simp: os_MkdirTemp_def)
  obtain r3 w3 where 3: "fetchAndInstall env opts a burl curl tmpDir w2 = (r3, w3)" by fastforce
  note work = InstallOrUpdate_work [OF assms(2,3) o1 assms(8) 2(1) 3 refl]
  let ?T = "fileKey w tmpDir"
  have "name_ready w1 (Suc (w_draws w)) (pathDir ?bin) (pathBase ?bin @ ''.new-*'')"
    by (rule name_ready_only [OF assms(17) o1]) simp_all
  note ready = tempDir_ready [OF assms(2) _ _ _ 2(1) this, unfolded k1 fs1 h1(3), OF assms(3)]
  have dirs: "dir_exists w1 (pathDir ?bin)" using assms(15) by (simp add: dir_exists_def k1 fs1)
  note ready = ready [OF dirs assms(4)]
  have free: "w_fs w2 q = None" if "strict_prefix ?T q" for q
    using ready(1,2) that by (auto simp: strict_prefix_def)
  have "\<exists>w'. (r3, w3) = (None, w') \<and> same_setup w2 w' \<and> healthy w' \<and> (\<forall>q. \<not> prefix ?T q \<longrightarrow>
      w_fs w' q = ((w_fs w2)(fileKey w ?bin := Some (RegFile data (mode 7 5 5)))) q)"
    using fetchAndInstall_succeeds [OF work(4) _ _ assetNameFor_plain [OF assms(8)] 2(2) assms(10-13,2), unfolded work(5)]
      3 ready(3-5) free work(2,3) assms(14) 2(3) work(5) by auto
  then have r3: "r3 = None" and s3: "same_setup w2 w3" "healthy w3"
    and new: "\<not> prefix ?T q \<Longrightarrow> w_fs w3 q = ?new q" for q using ready(2) by (auto split: if_splits)
  have "w_fs (snd (os_RemoveAll tmpDir w3)) = dropTree 0 ?T (w_fs w3)"
    using s3 same_setup_key [OF s3(1), of tmpDir] work(5) by (simp add: os_RemoveAll_def healthy_fault)
  also have "\<dots> = ?new"
  proof
    fix q
    show "dropTree 0 ?T (w_fs w3) q = ?new q"
      using new [of q] ready(1) work(3) work(5) prefix_length_le [of ?T q] by (cases "prefix ?T q") (auto simp: dropTree_def)
  qed
  finally show ?thesis using assms(1,6-9) 2(1) 3 r3 by (simp add: InstallOrUpdate_def)
qed

end
