(* ===== verification/Agent_Hooks.thy ===== *)
theory Agent_Hooks
  imports Command_Properties Core_Update Self_Update
begin

text \<open>
  The command loop with the functions that its variables hold outside of the tests: programs are run by
  the operating system, the agent is updated by the self-updater and the core by the core installer, on
  one world with one file system. This connects the acknowledgements that the panel receives with the
  files on the machine.
\<close>

section \<open>The hooks\<close>

definition agentUpdater :: "'x core_env \<Rightarrow> string \<Rightarrow> string \<Rightarrow> string \<Rightarrow> 'x world \<Rightarrow> InstallResult go_result \<times> 'x world" where
  "agentUpdater cenv current targetVersion token =
     Self_Update.InstallOrUpdate (ce_http cenv) (ce_plat cenv) current
       \<lparr>su_Repo = [], su_Version = targetVersion, su_Token = token, su_BinaryPath = [], su_GOOS = [], su_GOARCH = []\<rparr>"

definition coreUpdater :: "'x core_env \<Rightarrow> string \<Rightarrow> string \<Rightarrow> 'x world \<Rightarrow> InstallResult go_result \<times> 'x world" where
  "coreUpdater cenv targetVersion token =
     Xray_Core.InstallOrUpdate cenv
       \<lparr>xc_Repo = [], xc_Arch = [], xc_Version = targetVersion, xc_Token = token, xc_BinDir = [], xc_ConfigPath = [],
        xc_ServicePath = [], xc_ShareDir = []\<rparr>"

text \<open>The checker that the core-update loop calls; it never gives an absent result without an error.\<close>

definition xrayCoreChecker :: "'x core_env \<Rightarrow> string \<Rightarrow> 'x world \<Rightarrow> CheckResult option go_result \<times> 'x world" where
  "xrayCoreChecker cenv token w =
     (case Check cenv
             \<lparr>xc_Repo = [], xc_Arch = [], xc_Version = [], xc_Token = token, xc_BinDir = [], xc_ConfigPath = [],
              xc_ServicePath = [], xc_ShareDir = []\<rparr> w of
        (Inl err, w1) \<Rightarrow> (Inl err, w1)
      | (Inr res, w1) \<Rightarrow> (Inr (Some res), w1))"

text \<open>The wait of one second stays a parameter: what the world does in the meantime.\<close>

definition commandHooks :: "'x core_env \<Rightarrow> ('x world \<Rightarrow> go_error option \<times> 'x world) \<Rightarrow> 'x world hooks" where
  "commandHooks cenv wait =
     \<lparr>k_exec = ce_run cenv, k_agentUpdater = agentUpdater cenv, k_coreUpdater = coreUpdater cenv, k_wait = wait\<rparr>"

section \<open>Acknowledged updates\<close>

text \<open>What the source's default options come to.\<close>

definition agentOptions :: "'x core_env \<Rightarrow> string \<Rightarrow> string \<Rightarrow> string \<Rightarrow> Self_Update.Options" where
  "agentOptions cenv exe targetVersion token =
     \<lparr>su_Repo = Self_Update.defaultRepo, su_Version = targetVersion, su_Token = token, su_BinaryPath = exe,
      su_GOOS = GOOS (ce_plat cenv), su_GOARCH = GOARCH (ce_plat cenv)\<rparr>"

lemma agentUpdater_binary:
  assumes exe: "w_exe w = Inr exe" "filePath exe" "\<not> prefix (fileKey w (os_TempDir w)) (fileKey w exe)"
    and run: "agentUpdater cenv current v tok w = (r, w')"
  shows "case r of
      Inl err \<Rightarrow> w_fs w' (fileKey w exe) = w_fs w (fileKey w exe)
    | Inr res \<Rightarrow>
        if ir_Updated res
        then \<exists>rel w1 data. Self_Update.fetchRelease (ce_http cenv) (agentOptions cenv exe v tok) w = (Inr (rel, ir_ToVersion res), w1)
          \<and> verified_asset (ce_http cenv) (agentOptions cenv exe v tok) rel data
          \<and> w_fs w' (fileKey w exe) = Some (RegFile data (mode 7 5 5))
        else w_fs w' (fileKey w exe) = w_fs w (fileKey w exe)"
proof -
  have "Self_Update.withDefaults (ce_plat cenv) w
      \<lparr>su_Repo = [], su_Version = v, su_Token = tok, su_BinaryPath = [], su_GOOS = [], su_GOARCH = []\<rparr>
    = Inr (agentOptions cenv exe v tok)"
    using exe(1) by (simp add: Self_Update.withDefaults_def agentOptions_def)
  moreover have path: "su_BinaryPath (agentOptions cenv exe v tok) = exe" by (simp add: agentOptions_def)
  ultimately show ?thesis
    using InstallOrUpdate_binary [OF _ _ _ run [unfolded agentUpdater_def], of "agentOptions cenv exe v tok"] exe(2,3)
    unfolding path by blast
qed

text \<open>Scheduling the restart runs the clock and one program.\<close>

lemma keeps_file_schedule:
  assumes "spares cenv k" and "\<forall>v. keeps_file k v (snd (p_Now (e_host env) v))"
  shows "keeps_file k w (snd (scheduleAgentRestart env (commandHooks cenv wait) w))"
proof -
  obtain now w0 where now: "p_Now (e_host env) w = (now, w0)" by fastforce
  have "keeps_file k w w0" using assms(2) now by (metis snd_conv)
  moreover have "keeps_file k w0 (snd (ce_run cenv (restartArgs now) w0))" using assms(1) by (simp add: spares_def)
  ultimately have "keeps_file k w (snd (ce_run cenv (restartArgs now) w0))" by (rule keeps_file_trans)
  then show ?thesis
    by (auto simp: scheduleAgentRestart_def commandHooks_def now Let_def split: prod.splits option.splits)
qed

section \<open>Properties\<close>

text \<open>
  C3: what the panel is told about an agent update is what happened on the disk. An acknowledgement with
  \<^verbatim>\<open>updated\<close> set means that the executable of the agent now is, complete and executable, the asset of the
  release that \<^verbatim>\<open>to_version\<close> names, with the digest that the release states; any other acknowledgement
  (bad payload, failed update, already current) means that the executable is the one that was there.
  Scheduling the restart, even if it fails, changes nothing of this. The programs that are run and the
  clock do not write the executable.
\<close>

theorem acknowledged_update_installed:
  assumes exe: "w_exe w = Inr exe" "filePath exe" "\<not> prefix (fileKey w (os_TempDir w)) (fileKey w exe)"
    and quiet: "spares cenv (fileKey w exe)" "\<forall>v. keeps_file (fileKey w exe) v (snd (p_Now (e_host env) v))"
    and opts: "opts = agentOptions cenv exe (normalizeTargetVersion payload) (GitHubToken (a_cfg a))"
  shows "\<exists>ack w'. updateAgentAndAck env (commandHooks cenv wait) i t payload a w = postCommandAck env a i ack w'
    \<and> (if go_get (ak_Result ack) ''updated'' = Some (JBool True)
       then \<exists>rel v w1 data. Self_Update.fetchRelease (ce_http cenv) opts w = (Inr (rel, v), w1)
         \<and> go_get (ak_Result ack) ''to_version'' = Some (JStr v) \<and> verified_asset (ce_http cenv) opts rel data
         \<and> w_fs w' (fileKey w exe) = Some (RegFile data (mode 7 5 5))
       else w_fs w' (fileKey w exe) = w_fs w (fileKey w exe))"
proof -
  let ?k = "commandHooks cenv wait" and ?v = "normalizeTargetVersion payload" and ?f = "fileKey w exe"
  obtain r w1 where u: "agentUpdater cenv (AgentVersion (a_ctrl a)) ?v (GitHubToken (a_cfg a)) w = (r, w1)" by fastforce
  obtain e w2 where s: "scheduleAgentRestart env ?k w1 = (e, w2)" by fastforce
  have hook: "k_agentUpdater ?k = agentUpdater cenv" by (simp add: commandHooks_def)
  have none: "go_get (ak_Result (ackOf t ty)) ''updated'' = None" for ty by (simp add: ackOf_def)
  note bin = agentUpdater_binary [OF exe u, folded opts]
  have kept: "keeps_file ?f w1 w2" using keeps_file_schedule [OF quiet, of w1 wait] s by simp
  show ?thesis
  proof (cases r)
    case (Inl err)
    then show ?thesis
      using bin by (auto simp: updateAgentAndAck_def Let_def hook u none intro!: exI)
  next
    case (Inr res)
    show ?thesis
    proof (cases "ir_Updated res")
      case False
      then show ?thesis
        using bin Inr by (auto simp: updateAgentAndAck_def Let_def hook u none intro!: exI)
    next
      case True
      then obtain rel w3 data where new: "Self_Update.fetchRelease (ce_http cenv) opts w = (Inr (rel, ir_ToVersion res), w3)"
        "verified_asset (ce_http cenv) opts rel data" "w_fs w1 ?f = Some (RegFile data (mode 7 5 5))"
        using bin Inr by auto
      then have "w_fs w2 ?f = Some (RegFile data (mode 7 5 5))" using kept by (simp add: keeps_file_def)
      then show ?thesis
        using new(1,2) True Inr
        by (cases "?v = []"; cases e) (auto simp: updateAgentAndAck_def Let_def hook u s none intro!: exI)
    qed
  qed
qed

end
