(* ===== verification/File_Tree.thy ===== *)
theory File_Tree
  imports Main_CLI Self_Update
begin

text \<open>
  The shape of the file system: everything that has an entry lies in directories. Every operation of
  the system keeps this shape, and so does everything the program does, whatever calls fail. The
  collection \<open>keeps\<close> has one rule per operation, in the order in which the code composes them.
\<close>

named_theorems keeps \<open>the file system keeps its shape\<close>
named_theorems runs \<open>the same, if the programs that are run keep it\<close>

definition dir_tree :: "files \<Rightarrow> bool" where
  "dir_tree fs \<longleftrightarrow> (\<forall>p q. strict_prefix p q \<longrightarrow> fs q \<noteq> None \<longrightarrow> fs p = Some Directory)"

abbreviation tree_ok :: "'x world \<Rightarrow> bool" where
  "tree_ok w \<equiv> dir_tree (w_fs w)"

section \<open>Changing one entry\<close>

lemma dir_tree_file:
  assumes "dir_tree fs" and "fs k \<noteq> Some Directory" and "k = [] \<or> fs k \<noteq> None \<or> fs (butlast k) = Some Directory"
  shows "dir_tree (fs(k := Some n))"
  unfolding dir_tree_def
proof (intro allI impI)
  fix p q assume pq: "strict_prefix p q" and q: "(fs(k := Some n)) q \<noteq> None"
  have "p \<noteq> k"
  proof
    assume "p = k"
    then have "q \<noteq> k" "fs q \<noteq> None" using pq q by (auto simp: strict_prefix_def)
    then show False using assms(1,2) pq \<open>p = k\<close> unfolding dir_tree_def by blast
  qed
  moreover have "fs p = Some Directory"
  proof (cases "q = k \<and> fs k = None")
    case True
    then have k: "k \<noteq> []" "fs (butlast k) = Some Directory" using assms(3) pq by auto
    then have "prefix p (butlast k)"
      using pq True by (metis append_butlast_last_id prefix_snoc strict_prefix_def)
    then show ?thesis using assms(1) k(2) unfolding dir_tree_def
      by (cases "p = butlast k") (auto simp: strict_prefix_def)
  qed (use assms(1) pq q in \<open>auto simp: dir_tree_def split: if_splits\<close>)
  ultimately show "(fs(k := Some n)) p = Some Directory" by simp
qed

lemma dir_tree_remove: "dir_tree fs \<Longrightarrow> fs k \<noteq> Some Directory \<Longrightarrow> dir_tree (fs(k := None))"
  by (auto simp: dir_tree_def) (metis not_Some_eq)

lemma tree_setNode:
  assumes "tree_ok w" and "w_fs w (fileKey w p) \<noteq> Some Directory"
  shows "tree_ok (setNode p None w)"
    and "w_fs w (fileKey w p) \<noteq> None \<or> w_fs w (butlast (fileKey w p)) = Some Directory \<Longrightarrow> tree_ok (setNode p (Some n) w)"
  using assms by (auto simp: setNode_def intro: dir_tree_file dir_tree_remove)

section \<open>The operations of the system\<close>

lemma keeps_nextFault [keeps]: "nextFault w = (f, w1) \<Longrightarrow> tree_ok w \<Longrightarrow> tree_ok w1"
  by (drule nextFault_fs) simp

lemma keeps_same [keeps]:
  "os_Stat p w = (r1, w1) \<Longrightarrow> tree_ok w \<Longrightarrow> tree_ok w1" "os_Open p w = (r2, w1) \<Longrightarrow> tree_ok w \<Longrightarrow> tree_ok w1"
  "os_ReadAll p w = (r3, w1) \<Longrightarrow> tree_ok w \<Longrightarrow> tree_ok w1" "os_ReadFile p w = (r3, w1) \<Longrightarrow> tree_ok w \<Longrightarrow> tree_ok w1"
  "f_Sync p w = (r4, w1) \<Longrightarrow> tree_ok w \<Longrightarrow> tree_ok w1" "f_Close p w = (r4, w1) \<Longrightarrow> tree_ok w \<Longrightarrow> tree_ok w1"
  "httpDo env req w = (r5, w1) \<Longrightarrow> tree_ok w \<Longrightarrow> tree_ok w1"
  using only_nothing(1) [OF reading_only(1), of p w] only_nothing(1) [OF reading_only(2), of p w]
    only_nothing(1) [OF reading_only(3), of p w] only_nothing(1) [OF ReadFile_only, of p w]
    f_Sync_ok [of p w r4 w1] f_Close_ok [of p w r4 w1] httpDo_only [of env req w r5 w1]
  by simp_all

lemma keeps_OpenFile [keeps]: "os_OpenFile p perm w = (r, w1) \<Longrightarrow> tree_ok w \<Longrightarrow> tree_ok w1"
  by (auto simp: os_OpenFile_def effect_def node_at_def intro!: tree_setNode dest: keeps
      split: prod.splits option.splits node.splits if_splits)

lemma keeps_Create [keeps]: "os_Create p w = (r, w1) \<Longrightarrow> tree_ok w \<Longrightarrow> tree_ok w1"
  by (simp add: os_Create_def keeps_OpenFile)

lemma keeps_appendData: "tree_ok w \<Longrightarrow> tree_ok (appendData p d w)"
  by (auto simp: appendData_def node_at_def intro!: tree_setNode split: option.splits node.splits if_splits)

lemma keeps_Write [keeps]: "f_Write p d w = (r, w1) \<Longrightarrow> tree_ok w \<Longrightarrow> tree_ok w1"
  by (auto simp: f_Write_def keeps_appendData split: prod.splits option.splits)

lemma keeps_Copy [keeps]: "io_Copy p rd w = (r, w1) \<Longrightarrow> tree_ok w \<Longrightarrow> tree_ok w1"
  by (auto simp: io_Copy_def dest: keeps split: sum.splits)

lemma keeps_Chmod [keeps]: "f_Chmod p perm w = (r, w1) \<Longrightarrow> tree_ok w \<Longrightarrow> tree_ok w1"
  by (auto simp: f_Chmod_def effect_def node_at_def intro!: tree_setNode dest: keeps
      split: prod.splits option.splits node.splits if_splits)

lemma keeps_WriteFile [keeps]: "os_WriteFile p d perm w = (r, w1) \<Longrightarrow> tree_ok w \<Longrightarrow> tree_ok w1"
  by (auto simp: os_WriteFile_def dest: keeps split: prod.splits option.splits)
     (metis keeps_same(6) keeps_OpenFile keeps_Write prod.collapse)+

lemma keeps_Remove [keeps]: "os_Remove p w = (r, w1) \<Longrightarrow> tree_ok w \<Longrightarrow> tree_ok w1"
  by (auto simp: os_Remove_def effect_def node_at_def intro!: tree_setNode dest: keeps
      split: prod.splits option.splits node.splits if_splits)

text \<open>A regular file that is moved; nothing can lie below it.\<close>

lemma keeps_Rename:
  assumes "os_Rename p q w = (r, w1)" and "tree_ok w" and "w_fs w (fileKey w p) \<noteq> Some Directory"
  shows "tree_ok w1"
proof -
  obtain f v where v: "nextFault w = (f, v)" by fastforce
  have t: "tree_ok v" using keeps_nextFault [OF v assms(2)] .
  have same: "w_fs v = w_fs w" "fileKey v = fileKey w" using v by simp_all
  have "tree_ok (setNode q (Some n) (setNode p None v))"
    if "node_at v p = Some n" "node_at v q \<noteq> Some Directory" "q \<noteq> []" "w_fs v (butlast (fileKey v q)) = Some Directory" for n
  proof -
    have p: "w_fs v (fileKey v p) \<noteq> Some Directory" using assms(3) same by simp
    have t1: "tree_ok (setNode p None v)" by (rule tree_setNode(1) [OF t p])
    show ?thesis
      using that p by (intro tree_setNode(2) [OF t1]) (auto simp: node_at_def split: if_splits)
  qed
  then show ?thesis
    using assms(1) t by (auto simp: os_Rename_def effect_def v split: option.splits if_splits)
qed

lemma dir_tree_makeDirs:
  assumes "dir_tree fs" and "\<not> blocked fs k" and "\<not> isRegFile (fs k)"
  shows "dir_tree (makeDirs n k fs)"
proof -
  have free: "fs p = None \<or> fs p = Some Directory" if "prefix p k" for p
  proof (cases "p = k")
    case True
    then show ?thesis using assms(3) by (cases "fs k") (auto simp: isRegFile_def split: node.splits)
  next
    case False
    then have "p = take (length p) k" "length p < length k"
      using that by (auto simp: prefix_def)
    then have "\<not> isRegFile (fs p)" using assms(2) by (metis atLeastLessThan_iff blocked_def le0 list_ex_iff set_upt)
    then show ?thesis by (cases "fs p") (auto simp: isRegFile_def split: node.splits)
  qed
  show ?thesis unfolding dir_tree_def
  proof (intro allI impI)
    fix p q assume pq: "strict_prefix p q" and q: "makeDirs n k fs q \<noteq> None"
    show "makeDirs n k fs p = Some Directory"
    proof (cases "fs q = None")
      case True
      then have "prefix q k" "length q \<le> n" using q by (auto simp: makeDirs_def split: if_splits)
      then have "prefix p k" "length p \<le> n"
        using pq prefix_length_le [of p q] by (auto simp: strict_prefix_def)
      then show ?thesis using free [of p] by (auto simp: makeDirs_def)
    qed (use assms(1) pq in \<open>auto simp: dir_tree_def makeDirs_def\<close>)
  qed
qed

lemma keeps_MkdirAll [keeps]: "os_MkdirAll p w = (r, w1) \<Longrightarrow> tree_ok w \<Longrightarrow> tree_ok w1"
  by (auto simp: os_MkdirAll_def Let_def intro!: dir_tree_makeDirs dest: keeps split: prod.splits option.splits if_splits)

lemma dir_tree_dropTree: "dir_tree fs \<Longrightarrow> dir_tree (dropTree n k fs)"
  unfolding dir_tree_def
proof (intro allI impI)
  fix p q assume t: "\<forall>p q. strict_prefix p q \<longrightarrow> fs q \<noteq> None \<longrightarrow> fs p = Some Directory"
    and pq: "strict_prefix p q" and q: "dropTree n k fs q \<noteq> None"
  have "\<not> (prefix k p \<and> length k + n \<le> length p)"
  proof
    assume "prefix k p \<and> length k + n \<le> length p"
    moreover have "prefix p q" "length p \<le> length q" using pq by (auto simp: strict_prefix_def prefix_length_le)
    ultimately have "prefix k q \<and> length k + n \<le> length q" using prefix_order.trans by fastforce
    then show False using q by (simp add: dropTree_def)
  qed
  moreover have "fs q \<noteq> None" using q by (auto simp: dropTree_def split: if_splits)
  ultimately show "dropTree n k fs p = Some Directory" using t pq by (auto simp: dropTree_def)
qed

lemma keeps_RemoveAll [keeps]: "os_RemoveAll p w = (r, w1) \<Longrightarrow> tree_ok w \<Longrightarrow> tree_ok w1"
  by (auto simp: os_RemoveAll_def intro!: dir_tree_dropTree dest: keeps split: prod.splits option.splits)

lemma keeps_createFresh [keeps]:
  assumes "createFresh nd dir pat w = (r, w1)" and "tree_ok w"
  shows "tree_ok w1"
proof (cases r)
  case (Inl e)
  then show ?thesis using only_nothing(1) [OF createFresh_error] assms by metis
next
  case (Inr name)
  obtain v where v: "freshName 10000 (tempName dir pat) w = (Some name, v)"
    and w1: "w1 = setNode name (Some nd) (snd (nextFault v))"
    and par: "w_fs (snd (nextFault v)) (butlast (fileKey (snd (nextFault v)) name)) = Some Directory"
    using assms(1) Inr by (auto simp: createFresh_def guarded_def split: option.splits prod.splits if_splits)
  let ?v = "snd (nextFault v)"
  have o: "only_changes {} w ?v" using only_trans freshName_spec [OF v] nextFault_only_snd by blast
  have "w_fs w (fileKey w name) = None" using freshName_spec [OF v] by simp
  then show ?thesis
    using par assms(2) only_nothing(1) [OF o] only_key [OF o] unfolding w1 by (intro tree_setNode(2)) simp_all
qed

lemma keeps_fresh [keeps]:
  "os_CreateTemp dir pat w = (r, w1) \<Longrightarrow> tree_ok w \<Longrightarrow> tree_ok w1"
  "os_MkdirTemp dir pat w = (r, w1) \<Longrightarrow> tree_ok w \<Longrightarrow> tree_ok w1"
  by (auto simp: os_CreateTemp_def os_MkdirTemp_def dest: keeps)

text \<open>The calls whose result is ignored.\<close>

lemma keeps_snd [simp, intro]:
  "tree_ok w \<Longrightarrow> tree_ok (snd (os_Remove p w))" "tree_ok w \<Longrightarrow> tree_ok (snd (os_RemoveAll p w))"
  "tree_ok w \<Longrightarrow> tree_ok (snd (f_Close p w))"
  using keeps prod.collapse by metis+

lemma keeps_closeAndRemove [simp]: "tree_ok w \<Longrightarrow> tree_ok (closeAndRemove p w)"
  by (simp add: closeAndRemove_def)

section \<open>Replacing a file\<close>

text \<open>Filling a file makes no directories.\<close>

lemma filling_no_dir:
  assumes "w_fs w q \<noteq> Some Directory"
  shows "io_Copy p rd w = (r1, w1) \<Longrightarrow> w_fs w1 q \<noteq> Some Directory \<and> fileKey w1 = fileKey w"
    and "f_Chmod p perm w = (r2, w1) \<Longrightarrow> w_fs w1 q \<noteq> Some Directory \<and> fileKey w1 = fileKey w"
    and "f_Sync p w = (r3, w1) \<Longrightarrow> w_fs w1 q \<noteq> Some Directory \<and> fileKey w1 = fileKey w"
    and "f_Close p w = (r4, w1) \<Longrightarrow> w_fs w1 q \<noteq> Some Directory \<and> fileKey w1 = fileKey w"
proof -
  have key: "fileKey w1 = fileKey w" if "only_changes UNIV w w1" using only_key [OF that] by (simp add: fun_eq_iff)
  show "io_Copy p rd w = (r1, w1) \<Longrightarrow> w_fs w1 q \<noteq> Some Directory \<and> fileKey w1 = fileKey w"
    using io_Copy_only [of w p UNIV rd] key assms
    by (auto simp: io_Copy_def f_Write_def appendData_def split: sum.splits prod.splits option.splits node.splits if_splits)
  show "f_Chmod p perm w = (r2, w1) \<Longrightarrow> w_fs w1 q \<noteq> Some Directory \<and> fileKey w1 = fileKey w"
    using writing_only(4) [of w p UNIV perm] key assms
    by (auto simp: f_Chmod_def effect_def split: prod.splits option.splits node.splits if_splits)
  show "f_Sync p w = (r3, w1) \<Longrightarrow> w_fs w1 q \<noteq> Some Directory \<and> fileKey w1 = fileKey w"
    using syncing_only(1) [of UNIV w p] key assms f_Sync_ok [of p w r3 w1] by auto
  show "f_Close p w = (r4, w1) \<Longrightarrow> w_fs w1 q \<noteq> Some Directory \<and> fileKey w1 = fileKey w"
    using syncing_only(2) [of UNIV w p] key assms f_Close_ok [of p w r4 w1] by auto
qed

lemma keeps_replaceVia [keeps]:
  assumes "replaceVia suf perm dest rd w = (r, w')" and "tree_ok w"
  shows "tree_ok w'"
proof (cases "os_CreateTemp (pathDir dest) (pathBase dest @ suf) w")
  case (Pair c w1)
  have t1: "tree_ok w1" using keeps_fresh(1) [OF Pair assms(2)] .
  show ?thesis
  proof (cases c)
    case (Inr tmp)
    let ?k = "fileKey w tmp"
    have n1: "w_fs w1 ?k \<noteq> Some Directory" "fileKey w1 = fileKey w"
      using createFresh_ok [of "RegFile [] (mode 6 0 0)" "pathDir dest" "pathBase dest @ suf" w tmp w1] Pair Inr only_key
      by (auto simp: os_CreateTemp_def fun_eq_iff)
    obtain r2 w2 where 2: "io_Copy tmp rd w1 = (r2, w2)" by fastforce
    obtain r3 w3 where 3: "f_Chmod tmp perm w2 = (r3, w3)" by fastforce
    obtain r4 w4 where 4: "f_Sync tmp w3 = (r4, w4)" by fastforce
    obtain r5 w5 where 5: "f_Close tmp w4 = (r5, w5)" by fastforce
    obtain r6 w6 where 6: "os_Rename tmp dest w5 = (r6, w6)" by fastforce
    have n5: "w_fs w5 ?k \<noteq> Some Directory \<and> fileKey w5 = fileKey w"
      using filling_no_dir [of w1 ?k] filling_no_dir [of w2 ?k] filling_no_dir [of w3 ?k] filling_no_dir [of w4 ?k] n1 2 3 4 5
      by metis
    have t: "tree_ok w2" "tree_ok w3" "tree_ok w4" "tree_ok w5" using t1 2 3 4 5 by (auto dest: keeps)
    have "tree_ok w6" using keeps_Rename [OF 6 t(4)] n5 by simp
    then show ?thesis
      using assms(1) t Pair Inr 2 3 4 5 6 by (auto simp: replaceVia_def split: option.splits)
  qed (use assms(1) t1 Pair in \<open>simp add: replaceVia_def\<close>)
qed

section \<open>The updaters\<close>

lemma keeps_getRelease [keeps]: "getRelease env tagOf repo ver tok w = (r, w1) \<Longrightarrow> tree_ok w \<Longrightarrow> tree_ok w1"
  using getRelease_only [of env tagOf repo ver tok w r w1 "{}"] only_nothing(1) [of w w1] by simp

lemma keeps_downloadFile [keeps]: "downloadFile env url dest tok w = (r, w1) \<Longrightarrow> tree_ok w \<Longrightarrow> tree_ok w1"
  by (auto simp: downloadFile_def dest!: keeps split: prod.splits sum.splits option.splits if_splits)

lemma keeps_verifyChecksum [keeps]: "verifyChecksum b c a w = (r, w1) \<Longrightarrow> tree_ok w \<Longrightarrow> tree_ok w1"
  using verifyChecksum_only [of w b c a] only_nothing(1) [of w w1] by simp

lemma keeps_selfInstall [keeps]: "Self_Update.installBinary src dest w = (r, w1) \<Longrightarrow> tree_ok w \<Longrightarrow> tree_ok w1"
  by (auto simp: Self_Update.installBinary_def dest!: keeps split: prod.splits sum.splits option.splits)

lemma keeps_fetchAndInstall [keeps]: "fetchAndInstall env opts a b c d w = (r, w1) \<Longrightarrow> tree_ok w \<Longrightarrow> tree_ok w1"
  by (auto simp: fetchAndInstall_def Self_Update.download_def Let_def dest!: keeps split: prod.splits option.splits)

lemma keeps_selfUpdate [keeps]: "Self_Update.InstallOrUpdate env plat cur opts w = (r, w1) \<Longrightarrow> tree_ok w \<Longrightarrow> tree_ok w1"
  by (auto simp: Self_Update.InstallOrUpdate_def Self_Update.fetchRelease_def dest!: keeps
      split: prod.splits sum.splits option.splits if_splits)

text \<open>The programs that the core installer and the setup run keep the shape, too.\<close>

definition calm_core :: "'x core_env \<Rightarrow> bool" where
  "calm_core env \<longleftrightarrow> (\<forall>args w. tree_ok w \<longrightarrow> tree_ok (snd (ce_run env args w)))"

definition calm_setup :: "'x setup_env \<Rightarrow> bool" where
  "calm_setup env \<longleftrightarrow> (\<forall>args w. tree_ok w \<longrightarrow> tree_ok (snd (se_run env args w)))"

lemma keeps_forEach:
  assumes "forEach f xs w = (r, w1)" and "tree_ok w" and "\<And>x v r v'. f x v = (r, v') \<Longrightarrow> tree_ok v \<Longrightarrow> tree_ok v'"
  shows "tree_ok w1"
  using forEach_invariant [of xs "\<lambda>w. tree_ok w" f w] assms by (metis prod.collapse snd_conv)

lemma keeps_coreRun [runs]:
  "ce_run env args w = (r, w1) \<Longrightarrow> tree_ok w \<Longrightarrow> calm_core env \<Longrightarrow> tree_ok w1"
  "Xray_Core.runCmd env args w = (r2, w1) \<Longrightarrow> tree_ok w \<Longrightarrow> calm_core env \<Longrightarrow> tree_ok w1"
  "installedVersion env w = (v, w1) \<Longrightarrow> tree_ok w \<Longrightarrow> calm_core env \<Longrightarrow> tree_ok w1"
  "InstalledVersion env w = (v, w1) \<Longrightarrow> tree_ok w \<Longrightarrow> calm_core env \<Longrightarrow> tree_ok w1"
  by (auto simp: calm_core_def Xray_Core.runCmd_def installedVersion_def InstalledVersion_def
      split: prod.splits option.splits) (metis snd_conv)+

lemma keeps_verifySHA256 [keeps]: "verifySHA256 z d w = (r, w1) \<Longrightarrow> tree_ok w \<Longrightarrow> tree_ok w1"
  using verifySHA256_only [of w z d] only_nothing(1) [of w w1] by simp

lemma keeps_copyMember [keeps]: "copyMember f p w = (r, w1) \<Longrightarrow> tree_ok w \<Longrightarrow> tree_ok w1"
  by (auto simp: copyMember_def dest!: keeps split: prod.splits sum.splits option.splits if_splits)

lemma keeps_extractFile [keeps]: "extractFile dir f w = (r, w1) \<Longrightarrow> tree_ok w \<Longrightarrow> tree_ok w1"
  by (auto simp: extractFile_def Let_def dest!: keeps split: prod.splits sum.splits option.splits if_splits)

lemma keeps_unzip [keeps]: "unzip env z dir w = (r, w1) \<Longrightarrow> tree_ok w \<Longrightarrow> tree_ok w1"
  by (auto simp: unzip_def dest: keeps elim!: keeps_forEach split: prod.splits sum.splits option.splits if_splits)

lemma keeps_writeStream [keeps]: "writeStream dest rd perm w = (r, w1) \<Longrightarrow> tree_ok w \<Longrightarrow> tree_ok w1"
  by (auto simp: writeStream_def dest!: keeps split: prod.splits option.splits)

lemma keeps_writeBytes [keeps]: "writeBytes dest d perm w = (r, w1) \<Longrightarrow> tree_ok w \<Longrightarrow> tree_ok w1"
  by (simp add: writeBytes_def keeps_writeStream)

lemma keeps_copyFile [keeps]: "copyFile src dest perm w = (r, w1) \<Longrightarrow> tree_ok w \<Longrightarrow> tree_ok w1"
  by (auto simp: copyFile_def dest!: keeps split: prod.splits sum.splits)

lemma keeps_copyData [keeps]: "copyData u opts n w = (r, w1) \<Longrightarrow> tree_ok w \<Longrightarrow> tree_ok w1"
  by (auto simp: copyData_def Let_def dest!: keeps split: prod.splits sum.splits)

lemma keeps_createWorkDirs [keeps]: "createWorkDirs opts w = (r, w1) \<Longrightarrow> tree_ok w \<Longrightarrow> tree_ok w1"
  unfolding createWorkDirs_def by (erule keeps_forEach) (auto dest: keeps)

lemma keeps_installBinaryAndData [keeps]: "installBinaryAndData u opts w = (r, w1) \<Longrightarrow> tree_ok w \<Longrightarrow> tree_ok w1"
  by (auto simp: installBinaryAndData_def simp del: forEach.simps dest: keeps elim!: keeps_forEach split: prod.splits option.splits)

lemma keeps_copySampleConfig [keeps]: "copySampleConfig env opts w = (r, w1) \<Longrightarrow> tree_ok w \<Longrightarrow> tree_ok w1"
  by (auto simp: copySampleConfig_def dest!: keeps split: prod.splits sum.splits)

lemma keeps_installSystemdService [runs]:
  "installSystemdService env opts w = (r, w1) \<Longrightarrow> tree_ok w \<Longrightarrow> calm_core env \<Longrightarrow> tree_ok w1"
  by (auto simp: installSystemdService_def dest: keeps runs split: prod.splits option.splits)

lemma keeps_fetchCore [keeps]: "fetchCore env opts z d t w = (r, w1) \<Longrightarrow> tree_ok w \<Longrightarrow> tree_ok w1"
  by (auto simp: fetchCore_def Xray_Core.download_def Let_def dest!: keeps split: prod.splits option.splits)

lemma keeps_installCore [runs]:
  assumes "installCore env opts u w = (r, w1)" and "tree_ok w" and c: "calm_core env"
  shows "tree_ok w1"
  using assms(1,2)
  by (auto simp: installCore_def testConfig_def dest!: keeps runs [OF _ _ c] split: prod.splits option.splits)

lemma keeps_coreInstall [runs]:
  assumes "Xray_Core.InstallOrUpdate env opts w = (r, w1)" and "tree_ok w" and c: "calm_core env"
  shows "tree_ok w1"
  using assms(1,2)
  by (auto simp: Xray_Core.InstallOrUpdate_def Xray_Core.fetchRelease_def Let_def dest!: keeps runs [OF _ _ c]
      split: prod.splits sum.splits option.splits if_splits)

lemma keeps_Check [runs]:
  assumes "Check env opts w = (r, w1)" and "tree_ok w" and c: "calm_core env"
  shows "tree_ok w1"
  using assms(1,2)
  by (auto simp: Check_def fetchLatestVersion_def Xray_Core.fetchRelease_def Let_def dest!: keeps runs [OF _ _ c]
      split: prod.splits sum.splits if_splits)

section \<open>Setup and the command line\<close>

lemma keeps_LoadFile [keeps]: "LoadFile env p w = (r, w1) \<Longrightarrow> tree_ok w \<Longrightarrow> tree_ok w1"
  using LoadFile_only [of w env p] only_nothing(1) [of w w1] by simp

lemma keeps_setupWrite [keeps]: "writeFile p d perm w = (r, w1) \<Longrightarrow> tree_ok w \<Longrightarrow> tree_ok w1"
  by (auto simp: writeFile_def dest!: keeps split: prod.splits option.splits)

lemma keeps_setupBinary [keeps]: "Agent_Setup.installBinary opts w = (r, w1) \<Longrightarrow> tree_ok w \<Longrightarrow> tree_ok w1"
  by (auto simp: Agent_Setup.installBinary_def dest!: keeps split: prod.splits sum.splits option.splits)

lemma keeps_ensureConfig [keeps]: "ensureConfig env opts w = (r, w1) \<Longrightarrow> tree_ok w \<Longrightarrow> tree_ok w1"
  by (auto simp: ensureConfig_def updateConfigFields_def dest!: keeps split: prod.splits sum.splits if_splits)

lemma keeps_loadConfig [keeps]: "loadConfig env p w = (r, w1) \<Longrightarrow> tree_ok w \<Longrightarrow> tree_ok w1"
  by (auto simp: loadConfig_def Let_def dest!: keeps split: prod.splits sum.splits option.splits if_splits)

lemma keeps_loadConfigIfExists [keeps]: "loadConfigIfExists env p w = (r, w1) \<Longrightarrow> tree_ok w \<Longrightarrow> tree_ok w1"
  by (auto simp: loadConfigIfExists_def dest!: keeps split: prod.splits sum.splits if_splits)

lemma keeps_setupRun:
  "Agent_Setup.runCmd env args w = (r, w1) \<Longrightarrow> tree_ok w \<Longrightarrow> calm_setup env \<Longrightarrow> tree_ok w1"
  by (auto simp: calm_setup_def Agent_Setup.runCmd_def split: prod.splits) (metis snd_conv)

lemma keeps_Install:
  assumes "Install env opts w = (r, w1)" and "tree_ok w" and c: "calm_setup env"
  shows "tree_ok w1"
  using assms(1,2)
  by (auto simp: Install_def Let_def dest!: keeps keeps_setupRun [OF _ _ c] split: prod.splits option.splits)

lemma keeps_UpdateControl:
  assumes "UpdateControl env opts w = (r, w1)" and "tree_ok w" and c: "calm_setup env"
  shows "tree_ok w1"
  using assms(1,2)
  by (auto simp: UpdateControl_def Let_def dest!: keeps keeps_setupRun [OF _ _ c]
      split: prod.splits sum.splits option.splits if_splits)


end
