(* ===== verification/Checksum_Lines.thy ===== *)
theory Checksum_Lines
  imports Self_Update
begin

text \<open>
  Reading back a checksum file: \<open>parseChecksum\<close> on a file written in the format of \<^verbatim>\<open>sha256sum\<close>, in the
  BSD format, or with lines of both, gives the digest of the first line for the asset.
\<close>

section \<open>Words\<close>

text \<open>A text of visible ASCII characters.\<close>

definition visible :: "char \<Rightarrow> bool" where
  "visible c \<longleftrightarrow> 33 \<le> (of_char c :: nat) \<and> (of_char c :: nat) \<le> 126"

definition word_text :: "string \<Rightarrow> bool" where
  "word_text s \<longleftrightarrow> s \<noteq> [] \<and> list_all visible s"

lemma space_heads: "q \<in> set space_seqs \<Longrightarrow> \<not> visible (hd q) \<and> \<not> visible (last q)"
  by (auto simp: space_seqs_def visible_def)

lemma leadSeq_visible: "visible c \<Longrightarrow> leadSeq space_seqs (c # cs) = None"
  unfolding leadSeq_None by (fastforce simp: prefix_Cons dest: space_heads)

lemma leadSeq_rev_visible: "visible c \<Longrightarrow> leadSeq (map rev space_seqs) (c # cs) = None"
proof (unfold leadSeq_None, intro ballI impI notI)
  fix q
  assume c: "visible c" and q: "q \<in> set (map rev space_seqs)" "q \<noteq> []" "prefix q (c # cs)"
  then obtain p where p: "p \<in> set space_seqs" "q = rev p" by auto
  have "hd q = c" using q(2,3) by (cases q) auto
  then have "last p = c" using p q(2) by (simp add: hd_rev)
  then show False using space_heads [OF p(1)] c by simp
qed

lemma TrimSpace_visible: "visible c \<Longrightarrow> visible d \<Longrightarrow> TrimSpace (c # s @ [d]) = c # s @ [d]"
  by (rule TrimSpace_id) (simp_all add: leadSeq_visible leadSeq_rev_visible)

lemma TrimSpace_ends:
  assumes "word_text a" "word_text b"
  shows "TrimSpace (a @ s @ b) = a @ s @ b"
proof -
  obtain c a' where a: "a = c # a'" "visible c" using assms(1) by (cases a) (auto simp: word_text_def)
  obtain d b' where b: "b = b' @ [d]" "visible d" using assms(2) by (cases b rule: rev_cases) (auto simp: word_text_def)
  show ?thesis using TrimSpace_visible [OF a(2) b(2), of "a' @ s @ b'"] a b by simp
qed

lemma TrimSpace_word: "word_text a \<Longrightarrow> TrimSpace a = a"
proof (cases a rule: rev_cases)
  case (snoc s d)
  assume w: "word_text a"
  then have "leadSeq space_seqs a = None" by (cases a) (auto simp: word_text_def leadSeq_visible)
  moreover have "leadSeq (map rev space_seqs) (rev a) = None" using w snoc by (auto simp: word_text_def leadSeq_rev_visible)
  ultimately show ?thesis by (rule TrimSpace_id)
qed (simp add: word_text_def)

lemma leadSeq_blank: "leadSeq space_seqs (CHR '' '' # s) = Some '' ''"
  by (simp add: leadSeq_def space_seqs_def)

lemma fieldsFrom_visible: "list_all visible s \<Longrightarrow> fieldsFrom cur (s @ t) = fieldsFrom (cur @ s) t"
proof (induction s arbitrary: cur)
  case (Cons c s)
  then have "fieldsFrom cur (c # s @ t) = fieldsFrom (cur @ [c]) (s @ t)"
    by (simp add: fieldsFrom.simps [of cur "c # s @ t"] leadSeq_visible)
  then show ?case using Cons by simp
qed simp

lemma fieldsFrom_blank: "fieldsFrom cur (CHR '' '' # t) = (if cur = [] then [] else [cur]) @ fieldsFrom [] t"
  by (simp add: fieldsFrom.simps [of cur "CHR '' '' # t"] leadSeq_blank)

lemma fieldsFrom_end: "fieldsFrom cur [] = (if cur = [] then [] else [cur])"
  by (simp add: fieldsFrom.simps)

text \<open>Fields of words separated by blanks.\<close>

lemma fieldsFrom_word: "word_text s \<Longrightarrow> fieldsFrom [] (s @ CHR '' '' # t) = s # fieldsFrom [] t"
  by (simp add: fieldsFrom_visible fieldsFrom_blank word_text_def)

lemma fieldsFrom_last_word: "word_text s \<Longrightarrow> fieldsFrom [] s = [s]"
  using fieldsFrom_visible [of s "[]" "[]"] by (simp add: fieldsFrom_end word_text_def)

lemma word_no_blank: "word_text s \<Longrightarrow> CHR '' '' \<notin> set s" "word_text s \<Longrightarrow> CHR 0x0A \<notin> set s"
  by (auto simp: word_text_def list_all_iff visible_def)

section \<open>Lines\<close>

text \<open>A line of the checksum file: the format of \<^verbatim>\<open>sha256sum\<close>, or the BSD format.\<close>

definition sumLine :: "bool \<Rightarrow> string \<Rightarrow> string \<Rightarrow> string" where
  "sumLine bsd digest name =
     (if bsd then ''SHA256 ('' @ name @ '') = '' @ digest else digest @ ''  '' @ name)"

lemma word_texts [simp]: "word_text ''SHA256''" "word_text ''=''"
  by (simp_all add: word_text_def visible_def)

lemma prefix_blank_eq:
  assumes "CHR '' '' \<notin> set a" "CHR '' '' \<notin> set n" "prefix (a @ CHR '' '' # s) (n @ CHR '' '' # t)"
  shows "a = n"
proof -
  from assms(3) obtain z where z: "n @ CHR '' '' # t = a @ CHR '' '' # s @ z" by (auto simp: prefix_def)
  have t1: "takeWhile (\<lambda>c. c \<noteq> CHR '' '') (n @ CHR '' '' # t) = n" using assms(2) by (simp add: takeWhile_append)
  have t2: "takeWhile (\<lambda>c. c \<noteq> CHR '' '') (a @ CHR '' '' # s @ z) = a" using assms(1) by (simp add: takeWhile_append)
  show ?thesis using t1 t2 z by simp
qed

lemma sha256sum_line:
  assumes "word_text d" "word_text n" "word_text a"
  shows "checksumLine a (d @ ''  '' @ n) = (if n = a then Some d else None)"
proof -
  have trim: "TrimSpace (d @ ''  '' @ n) = d @ ''  '' @ n" by (rule TrimSpace_ends [OF assms(1,2)])
  have fields: "Fields (d @ ''  '' @ n) = [d, n]"
    using assms by (simp add: Fields_def fieldsFrom_word fieldsFrom_blank fieldsFrom_last_word)
  have "\<not> HasPrefix (d @ ''  '' @ n) (''SHA256 ('' @ a @ '') = '')"
  proof
    assume p: "HasPrefix (d @ ''  '' @ n) (''SHA256 ('' @ a @ '') = '')"
    have "''SHA256'' = d"
      using prefix_blank_eq [of "''SHA256''" d "''('' @ a @ '') = ''" "'' '' @ n"] p word_no_blank(1) assms(1)
      by (simp add: go_simps)
    then show False using p by (auto simp: go_simps)
  qed
  then show ?thesis by (simp add: checksumLine_def Let_def trim [simplified] fields [simplified])
qed

lemma bsd_line:
  assumes "word_text d" "word_text n" "word_text a" "d \<noteq> a"
  shows "checksumLine a (''SHA256 ('' @ n @ '') = '' @ d) = (if n = a then Some d else None)"
proof -
  let ?l = "''SHA256 ('' @ n @ '') = '' @ d"
  have trim: "TrimSpace ?l = ?l"
    using TrimSpace_ends [OF word_texts(1) assms(1), of "'' ('' @ n @ '') = ''"] by simp
  have paren: "word_text (''('' @ n @ '')'')" using assms(2) by (simp add: word_text_def visible_def)
  have "Fields ?l = [''SHA256'', ''('' @ n @ '')'', ''='', d]"
    using fieldsFrom_word [OF word_texts(1), of "''('' @ n @ '') = '' @ d"] fieldsFrom_word [OF paren, of "''= '' @ d"]
      fieldsFrom_word [OF word_texts(2), of d] fieldsFrom_last_word [OF assms(1)]
    by (simp add: Fields_def)
  then have skip: "\<not> (2 \<le> length (Fields ?l) \<and> last (Fields ?l) = a)" using assms(4) by simp
  have "HasPrefix ?l (''SHA256 ('' @ a @ '') = '') \<longleftrightarrow> n = a"
  proof
    assume "HasPrefix ?l (''SHA256 ('' @ a @ '') = '')"
    then have "prefix ((a @ '')'') @ CHR '' '' # ''= '') ((n @ '')'') @ CHR '' '' # ''= '' @ d)" by (simp add: go_simps)
    then have "a @ '')'' = n @ '')''"
      by (rule prefix_blank_eq [rotated 2]) (use word_no_blank(1) assms(2,3) in auto)
    then show "n = a" by simp
  qed (simp add: go_simps)
  moreover have "TrimPrefix ?l (''SHA256 ('' @ n @ '') = '') = d"
    using TrimPrefix_append [of "''SHA256 ('' @ n @ '') = ''" d] by simp
  moreover have "checksumLine a ?l =
      (if HasPrefix ?l (''SHA256 ('' @ a @ '') = '')
       then Some (TrimSpace (TrimPrefix ?l (''SHA256 ('' @ a @ '') = ''))) else None)"
    unfolding checksumLine_def Let_def trim by (rule if_not_P [OF skip])
  ultimately show ?thesis using TrimSpace_word [OF assms(1)] by (cases "n = a") simp_all
qed

lemma checksumLine_sumLine:
  assumes "word_text d" "word_text n" "word_text a" "d \<noteq> a"
  shows "checksumLine a (sumLine bsd d n) = (if n = a then Some d else None)"
  unfolding sumLine_def using sha256sum_line [OF assms(1-3)] bsd_line [OF assms] by (cases bsd) simp_all

section \<open>The whole file\<close>

type_synonym sum_entry = "bool \<times> string \<times> string"

definition sumFile :: "sum_entry list \<Rightarrow> string" where
  "sumFile es = concat (map (\<lambda>(bsd, d, n). sumLine bsd d n @ [CHR 0x0A]) es)"

lemma sumLine_no_newline: "word_text d \<Longrightarrow> word_text n \<Longrightarrow> CHR 0x0A \<notin> set (sumLine bsd d n)"
  using word_no_blank(2) by (auto simp: sumLine_def)

lemma splitOn_sumFile:
  assumes "\<forall>(bsd, d, n)\<in>set es. word_text d \<and> word_text n"
  shows "splitOn (CHR 0x0A) (sumFile es) = map (\<lambda>(bsd, d, n). sumLine bsd d n) es @ [[]]"
  using assms
proof (induction es)
  case (Cons e es)
  obtain bsd d n where e: "e = (bsd, d, n)" by (cases e)
  then have "CHR 0x0A \<notin> set (sumLine bsd d n)" using Cons.prems sumLine_no_newline by auto
  then show ?case using Cons e by (simp add: sumFile_def splitOn_append_sep)
qed (simp add: sumFile_def)

lemma checksumLine_empty: "checksumLine a [] = None"
  by (simp add: checksumLine_def Let_def Fields_def fieldsFrom_end go_simps TrimSpace_def stripSeqs_id)

text \<open>
  C33: the digest that \<open>parseChecksum\<close> finds in a checksum file of words is the digest of the first line
  for the asset, in either of the two formats, and it finds none exactly when there is no such line.
\<close>

theorem checksum_file_read_back:
  assumes "\<forall>(bsd, d, n)\<in>set es. word_text d \<and> word_text n \<and> d \<noteq> a" and "word_text a"
  shows "parseChecksum (sumFile es) a =
    (case List.find (\<lambda>(bsd, d, n). n = a) es of Some (bsd, d, n) \<Rightarrow> d | None \<Rightarrow> [])"
proof -
  have "firstChecksum a (map (\<lambda>(bsd, d, n). sumLine bsd d n) es @ [[]]) =
    (case List.find (\<lambda>(bsd, d, n). n = a) es of Some (bsd, d, n) \<Rightarrow> d | None \<Rightarrow> [])"
    using assms(1)
  proof (induction es)
    case (Cons e es)
    obtain bsd d n where e: "e = (bsd, d, n)" by (cases e)
    then have "checksumLine a (sumLine bsd d n) = (if n = a then Some d else None)"
      using Cons.prems checksumLine_sumLine assms(2) by auto
    then show ?case using Cons e by simp
  qed (simp add: checksumLine_empty)
  moreover have "\<forall>(bsd, d, n)\<in>set es. word_text d \<and> word_text n" using assms(1) by auto
  ultimately show ?thesis by (simp add: parseChecksum_def splitOn_sumFile)
qed

text \<open>A file with lines of both formats.\<close>

theorem checksum_file_read_back_witness:
  "parseChecksum (sumFile [(False, ''0a1b'', ''other''), (True, ''2c3d'', ''xray-agent_linux_arm64''),
      (False, ''4e5f'', ''xray-agent_linux_amd64'')]) ''xray-agent_linux_amd64'' = ''4e5f''"
  using checksum_file_read_back [of "[(False, ''0a1b'', ''other''), (True, ''2c3d'', ''xray-agent_linux_arm64''),
      (False, ''4e5f'', ''xray-agent_linux_amd64'')]" "''xray-agent_linux_amd64''"]
  by (simp add: word_text_def visible_def)

end
