(* ===== verification/Sha256_Vector.thy ===== *)
theory Sha256_Vector
  imports Sha256
begin

text \<open>
  The digest of the message of three bytes in the standard, computed with the definitions of
  \<^verbatim>\<open>Sha256\<close>: the message schedule and the rounds are evaluated eight words at a time.
\<close>

section \<open>Evaluating in steps\<close>

lemma schedule_add: "schedule (n + m) ws = schedule n ws @ schedule m ((nextWindow ^^ n) ws)"
  by (induction n arbitrary: ws) (simp_all add: funpow_swap1)

lemma schedule_take: "n \<le> length ws \<Longrightarrow> schedule n ws = take n ws"
proof (induction n arbitrary: ws)
  case (Suc n)
  then obtain x xs where "ws = x # xs" by (cases ws) auto
  then show ?case using Suc by (simp add: nextWindow_def)
qed simp

lemma schedule_eight:
  assumes "(nextWindow ^^ 8) ws = ws'" and "length ws = 16"
  shows "schedule (8 + n) ws = take 8 ws @ schedule n ws'"
  using assms by (simp add: schedule_add schedule_take)

lemma funpow_eight: "(f ^^ 8) x = f (f (f (f (f (f (f (f x)))))))"
  by (simp add: eval_nat_numeral)

lemmas window_simps = funpow_eight nextWindow_def sigma0_def sigma1_def rotr_def

section \<open>The schedule\<close>

lemma abc_window1:
  "(nextWindow ^^ 8)
     [1633837952, 0, 0, 0, 0, 0, 0, 0,
      0, 0, 0, 0, 0, 0, 0, 24]
   = [0, 0, 0, 0, 0, 0, 0, 24,
      1633837952, 983040, 2108187653, 1610613702, 1050508152, 25426944, 316456923, 3806512014]"
  by (simp add: window_simps)

lemma abc_window2:
  "(nextWindow ^^ 8)
     [0, 0, 0, 0, 0, 0, 0, 24,
      1633837952, 983040, 2108187653, 1610613702, 1050508152, 25426944, 316456923, 3806512014]
   = [1633837952, 983040, 2108187653, 1610613702, 1050508152, 25426944, 316456923, 3806512014,
      3357629466, 3073800610, 3854317833, 845560923, 2636160359, 3968280267, 1881225380, 3552024379]"
  by (simp add: window_simps)

lemma abc_window3:
  "(nextWindow ^^ 8)
     [1633837952, 983040, 2108187653, 1610613702, 1050508152, 25426944, 316456923, 3806512014,
      3357629466, 3073800610, 3854317833, 845560923, 2636160359, 3968280267, 1881225380, 3552024379]
   = [3357629466, 3073800610, 3854317833, 845560923, 2636160359, 3968280267, 1881225380, 3552024379,
      2482346367, 996719219, 2952069057, 4043988066, 176896406, 1924104970, 2483675966, 610538786]"
  by (simp add: window_simps)

lemma abc_window4:
  "(nextWindow ^^ 8)
     [3357629466, 3073800610, 3854317833, 845560923, 2636160359, 3968280267, 1881225380, 3552024379,
      2482346367, 996719219, 2952069057, 4043988066, 176896406, 1924104970, 2483675966, 610538786]
   = [2482346367, 996719219, 2952069057, 4043988066, 176896406, 1924104970, 2483675966, 610538786,
      2672279444, 4037431130, 1042573945, 657669027, 206005234, 2215296807, 2049510749, 106709978]"
  by (simp add: window_simps)

lemma abc_window5:
  "(nextWindow ^^ 8)
     [2482346367, 996719219, 2952069057, 4043988066, 176896406, 1924104970, 2483675966, 610538786,
      2672279444, 4037431130, 1042573945, 657669027, 206005234, 2215296807, 2049510749, 106709978]
   = [2672279444, 4037431130, 1042573945, 657669027, 206005234, 2215296807, 2049510749, 106709978,
      4215179723, 3430291419, 3118885940, 2845390439, 2226839261, 3256115900, 344409900, 2987358873]"
  by (simp add: window_simps)

lemma abc_window6:
  "(nextWindow ^^ 8)
     [2672279444, 4037431130, 1042573945, 657669027, 206005234, 2215296807, 2049510749, 106709978,
      4215179723, 3430291419, 3118885940, 2845390439, 2226839261, 3256115900, 344409900, 2987358873]
   = [4215179723, 3430291419, 3118885940, 2845390439, 2226839261, 3256115900, 344409900, 2987358873,
      4015503821, 3957764664, 2682456414, 2025622859, 2755645205, 1720397816, 4004225740, 313650667]"
  by (simp add: window_simps)

lemma abc_window7:
  "(nextWindow ^^ 8)
     [4215179723, 3430291419, 3118885940, 2845390439, 2226839261, 3256115900, 344409900, 2987358873,
      4015503821, 3957764664, 2682456414, 2025622859, 2755645205, 1720397816, 4004225740, 313650667]
   = [4015503821, 3957764664, 2682456414, 2025622859, 2755645205, 1720397816, 4004225740, 313650667,
      3087686196, 484939733, 823116247, 2736351438, 2106384450, 3582536839, 250799243, 2252827306]"
  by (simp add: window_simps)

lemma abc_schedule:
  "schedule 64
     [1633837952, 0, 0, 0, 0, 0, 0, 0,
      0, 0, 0, 0, 0, 0, 0, 24]
   = [1633837952, 0, 0, 0, 0, 0, 0, 0,
      0, 0, 0, 0, 0, 0, 0, 24,
      1633837952, 983040, 2108187653, 1610613702, 1050508152, 25426944, 316456923, 3806512014,
      3357629466, 3073800610, 3854317833, 845560923, 2636160359, 3968280267, 1881225380, 3552024379,
      2482346367, 996719219, 2952069057, 4043988066, 176896406, 1924104970, 2483675966, 610538786,
      2672279444, 4037431130, 1042573945, 657669027, 206005234, 2215296807, 2049510749, 106709978,
      4215179723, 3430291419, 3118885940, 2845390439, 2226839261, 3256115900, 344409900, 2987358873,
      4015503821, 3957764664, 2682456414, 2025622859, 2755645205, 1720397816, 4004225740, 313650667]"
proof -
  have 7: "schedule 8
     [4015503821, 3957764664, 2682456414, 2025622859, 2755645205, 1720397816, 4004225740, 313650667,
      3087686196, 484939733, 823116247, 2736351438, 2106384450, 3582536839, 250799243, 2252827306]
   = [4015503821, 3957764664, 2682456414, 2025622859, 2755645205, 1720397816, 4004225740, 313650667]"
    by (simp add: schedule_take)
  have 6: "schedule 16
     [4215179723, 3430291419, 3118885940, 2845390439, 2226839261, 3256115900, 344409900, 2987358873,
      4015503821, 3957764664, 2682456414, 2025622859, 2755645205, 1720397816, 4004225740, 313650667]
   = [4215179723, 3430291419, 3118885940, 2845390439, 2226839261, 3256115900, 344409900, 2987358873,
      4015503821, 3957764664, 2682456414, 2025622859, 2755645205, 1720397816, 4004225740, 313650667]"
    using schedule_eight [OF abc_window7, of 8] 7 by simp
  have 5: "schedule 24
     [2672279444, 4037431130, 1042573945, 657669027, 206005234, 2215296807, 2049510749, 106709978,
      4215179723, 3430291419, 3118885940, 2845390439, 2226839261, 3256115900, 344409900, 2987358873]
   = [2672279444, 4037431130, 1042573945, 657669027, 206005234, 2215296807, 2049510749, 106709978,
      4215179723, 3430291419, 3118885940, 2845390439, 2226839261, 3256115900, 344409900, 2987358873,
      4015503821, 3957764664, 2682456414, 2025622859, 2755645205, 1720397816, 4004225740, 313650667]"
    using schedule_eight [OF abc_window6, of 16] 6 by simp
  have 4: "schedule 32
     [2482346367, 996719219, 2952069057, 4043988066, 176896406, 1924104970, 2483675966, 610538786,
      2672279444, 4037431130, 1042573945, 657669027, 206005234, 2215296807, 2049510749, 106709978]
   = [2482346367, 996719219, 2952069057, 4043988066, 176896406, 1924104970, 2483675966, 610538786,
      2672279444, 4037431130, 1042573945, 657669027, 206005234, 2215296807, 2049510749, 106709978,
      4215179723, 3430291419, 3118885940, 2845390439, 2226839261, 3256115900, 344409900, 2987358873,
      4015503821, 3957764664, 2682456414, 2025622859, 2755645205, 1720397816, 4004225740, 313650667]"
    using schedule_eight [OF abc_window5, of 24] 5 by simp
  have 3: "schedule 40
     [3357629466, 3073800610, 3854317833, 845560923, 2636160359, 3968280267, 1881225380, 3552024379,
      2482346367, 996719219, 2952069057, 4043988066, 176896406, 1924104970, 2483675966, 610538786]
   = [3357629466, 3073800610, 3854317833, 845560923, 2636160359, 3968280267, 1881225380, 3552024379,
      2482346367, 996719219, 2952069057, 4043988066, 176896406, 1924104970, 2483675966, 610538786,
      2672279444, 4037431130, 1042573945, 657669027, 206005234, 2215296807, 2049510749, 106709978,
      4215179723, 3430291419, 3118885940, 2845390439, 2226839261, 3256115900, 344409900, 2987358873,
      4015503821, 3957764664, 2682456414, 2025622859, 2755645205, 1720397816, 4004225740, 313650667]"
    using schedule_eight [OF abc_window4, of 32] 4 by simp
  have 2: "schedule 48
     [1633837952, 983040, 2108187653, 1610613702, 1050508152, 25426944, 316456923, 3806512014,
      3357629466, 3073800610, 3854317833, 845560923, 2636160359, 3968280267, 1881225380, 3552024379]
   = [1633837952, 983040, 2108187653, 1610613702, 1050508152, 25426944, 316456923, 3806512014,
      3357629466, 3073800610, 3854317833, 845560923, 2636160359, 3968280267, 1881225380, 3552024379,
      2482346367, 996719219, 2952069057, 4043988066, 176896406, 1924104970, 2483675966, 610538786,
      2672279444, 4037431130, 1042573945, 657669027, 206005234, 2215296807, 2049510749, 106709978,
      4215179723, 3430291419, 3118885940, 2845390439, 2226839261, 3256115900, 344409900, 2987358873,
      4015503821, 3957764664, 2682456414, 2025622859, 2755645205, 1720397816, 4004225740, 313650667]"
    using schedule_eight [OF abc_window3, of 40] 3 by simp
  have 1: "schedule 56
     [0, 0, 0, 0, 0, 0, 0, 24,
      1633837952, 983040, 2108187653, 1610613702, 1050508152, 25426944, 316456923, 3806512014]
   = [0, 0, 0, 0, 0, 0, 0, 24,
      1633837952, 983040, 2108187653, 1610613702, 1050508152, 25426944, 316456923, 3806512014,
      3357629466, 3073800610, 3854317833, 845560923, 2636160359, 3968280267, 1881225380, 3552024379,
      2482346367, 996719219, 2952069057, 4043988066, 176896406, 1924104970, 2483675966, 610538786,
      2672279444, 4037431130, 1042573945, 657669027, 206005234, 2215296807, 2049510749, 106709978,
      4215179723, 3430291419, 3118885940, 2845390439, 2226839261, 3256115900, 344409900, 2987358873,
      4015503821, 3957764664, 2682456414, 2025622859, 2755645205, 1720397816, 4004225740, 313650667]"
    using schedule_eight [OF abc_window2, of 48] 2 by simp
  have 0: "schedule 64
     [1633837952, 0, 0, 0, 0, 0, 0, 0,
      0, 0, 0, 0, 0, 0, 0, 24]
   = [1633837952, 0, 0, 0, 0, 0, 0, 0,
      0, 0, 0, 0, 0, 0, 0, 24,
      1633837952, 983040, 2108187653, 1610613702, 1050508152, 25426944, 316456923, 3806512014,
      3357629466, 3073800610, 3854317833, 845560923, 2636160359, 3968280267, 1881225380, 3552024379,
      2482346367, 996719219, 2952069057, 4043988066, 176896406, 1924104970, 2483675966, 610538786,
      2672279444, 4037431130, 1042573945, 657669027, 206005234, 2215296807, 2049510749, 106709978,
      4215179723, 3430291419, 3118885940, 2845390439, 2226839261, 3256115900, 344409900, 2987358873,
      4015503821, 3957764664, 2682456414, 2025622859, 2755645205, 1720397816, 4004225740, 313650667]"
    using schedule_eight [OF abc_window1, of 56] 1 by simp
  from 0 show ?thesis .
qed

section \<open>The rounds\<close>

lemma abc_rounds1:
  "foldl sha256_round
     (1779033703, 3144134277, 1013904242, 2773480762, 1359893119, 2600822924, 528734635, 1541459225)
     [(1116352408, 1633837952), (1899447441, 0), (3049323471, 0), (3921009573, 0),
      (961987163, 0), (1508970993, 0), (2453635748, 0), (2870763221, 0)]
   = (2241887071, 3842179968, 725748213, 71342698, 207977081, 2603066369, 1900175533, 1135452741)"
  by (simp add: Let_def rotr_def)

lemma abc_rounds2:
  "foldl sha256_round
     (2241887071, 3842179968, 725748213, 71342698, 207977081, 2603066369, 1900175533, 1135452741)
     [(3624381080, 0), (310598401, 0), (607225278, 0), (1426881987, 0),
      (1925078388, 0), (2162078206, 0), (2614888103, 0), (3248222580, 24)]
   = (2969183118, 3227803614, 3643992854, 2274437520, 123276749, 194179596, 1952073950, 509051416)"
  by (simp add: Let_def rotr_def)

lemma abc_rounds3:
  "foldl sha256_round
     (2969183118, 3227803614, 3643992854, 2274437520, 123276749, 194179596, 1952073950, 509051416)
     [(3835390401, 1633837952), (4022224774, 983040), (264347078, 2108187653), (604807628, 1610613702),
      (770255983, 1050508152), (1249150122, 25426944), (1555081692, 316456923), (1996064986, 3806512014)]
   = (3319086477, 2812502591, 3261099373, 2647034723, 2856829767, 1240797514, 3777329520, 2329577776)"
  by (simp add: Let_def rotr_def)

lemma abc_rounds4:
  "foldl sha256_round
     (3319086477, 2812502591, 3261099373, 2647034723, 2856829767, 1240797514, 3777329520, 2329577776)
     [(2554220882, 3357629466), (2821834349, 3073800610), (2952996808, 3854317833), (3210313671, 845560923),
      (3336571891, 2636160359), (3584528711, 3968280267), (113926993, 1881225380), (338241895, 3552024379)]
   = (1941126133, 3935906338, 2684750640, 909411017, 3126399250, 17410874, 2917635127, 1628611511)"
  by (simp add: Let_def rotr_def)

lemma abc_rounds5:
  "foldl sha256_round
     (1941126133, 3935906338, 2684750640, 909411017, 3126399250, 17410874, 2917635127, 1628611511)
     [(666307205, 2482346367), (773529912, 996719219), (1294757372, 2952069057), (1396182291, 4043988066),
      (1695183700, 176896406), (1986661051, 1924104970), (2177026350, 2483675966), (2456956037, 610538786)]
   = (2045405306, 1841658506, 887035396, 1101421745, 519815328, 4034403272, 2768741693, 124953195)"
  by (simp add: Let_def rotr_def)

lemma abc_rounds6:
  "foldl sha256_round
     (2045405306, 1841658506, 887035396, 1101421745, 519815328, 4034403272, 2768741693, 124953195)
     [(2730485921, 2672279444), (2820302411, 4037431130), (3259730800, 1042573945), (3345764771, 657669027),
      (3516065817, 206005234), (3600352804, 2215296807), (4094571909, 2049510749), (275423344, 106709978)]
   = (1098003085, 2706117808, 1923828625, 643991573, 4274981830, 3581645993, 3077922209, 2819559920)"
  by (simp add: Let_def rotr_def)

lemma abc_rounds7:
  "foldl sha256_round
     (1098003085, 2706117808, 1923828625, 643991573, 4274981830, 3581645993, 3077922209, 2819559920)
     [(430227734, 4215179723), (506948616, 3430291419), (659060556, 3118885940), (883997877, 2845390439),
      (958139571, 2226839261), (1322822218, 3256115900), (1537002063, 344409900), (1747873779, 2987358873)]
   = (952932627, 1053056219, 4117770203, 270520975, 1422599787, 3842906959, 2672265155, 1386118400)"
  by (simp add: Let_def rotr_def)

lemma abc_rounds8:
  "foldl sha256_round
     (952932627, 1053056219, 4117770203, 270520975, 1422599787, 3842906959, 2672265155, 1386118400)
     [(1955562222, 4015503821), (2024104815, 3957764664), (2227730452, 2682456414), (2361852424, 2025622859),
      (2428436474, 2755645205), (2756734187, 1720397816), (3204031479, 4004225740), (3329325298, 313650667)]
   = (1349398616, 3550093669, 80891244, 3093179625, 1593118500, 4212265488, 2492278198, 2518632596)"
  by (simp add: Let_def rotr_def)

lemma abc_zip:
  "zip sha256_K
     [1633837952, 0, 0, 0, 0, 0, 0, 0,
      0, 0, 0, 0, 0, 0, 0, 24,
      1633837952, 983040, 2108187653, 1610613702, 1050508152, 25426944, 316456923, 3806512014,
      3357629466, 3073800610, 3854317833, 845560923, 2636160359, 3968280267, 1881225380, 3552024379,
      2482346367, 996719219, 2952069057, 4043988066, 176896406, 1924104970, 2483675966, 610538786,
      2672279444, 4037431130, 1042573945, 657669027, 206005234, 2215296807, 2049510749, 106709978,
      4215179723, 3430291419, 3118885940, 2845390439, 2226839261, 3256115900, 344409900, 2987358873,
      4015503821, 3957764664, 2682456414, 2025622859, 2755645205, 1720397816, 4004225740, 313650667]
   = [(1116352408, 1633837952), (1899447441, 0), (3049323471, 0), (3921009573, 0),
      (961987163, 0), (1508970993, 0), (2453635748, 0), (2870763221, 0)]
   @ [(3624381080, 0), (310598401, 0), (607225278, 0), (1426881987, 0),
      (1925078388, 0), (2162078206, 0), (2614888103, 0), (3248222580, 24)]
   @ [(3835390401, 1633837952), (4022224774, 983040), (264347078, 2108187653), (604807628, 1610613702),
      (770255983, 1050508152), (1249150122, 25426944), (1555081692, 316456923), (1996064986, 3806512014)]
   @ [(2554220882, 3357629466), (2821834349, 3073800610), (2952996808, 3854317833), (3210313671, 845560923),
      (3336571891, 2636160359), (3584528711, 3968280267), (113926993, 1881225380), (338241895, 3552024379)]
   @ [(666307205, 2482346367), (773529912, 996719219), (1294757372, 2952069057), (1396182291, 4043988066),
      (1695183700, 176896406), (1986661051, 1924104970), (2177026350, 2483675966), (2456956037, 610538786)]
   @ [(2730485921, 2672279444), (2820302411, 4037431130), (3259730800, 1042573945), (3345764771, 657669027),
      (3516065817, 206005234), (3600352804, 2215296807), (4094571909, 2049510749), (275423344, 106709978)]
   @ [(430227734, 4215179723), (506948616, 3430291419), (659060556, 3118885940), (883997877, 2845390439),
      (958139571, 2226839261), (1322822218, 3256115900), (1537002063, 344409900), (1747873779, 2987358873)]
   @ [(1955562222, 4015503821), (2024104815, 3957764664), (2227730452, 2682456414), (2361852424, 2025622859),
      (2428436474, 2755645205), (2756734187, 1720397816), (3204031479, 4004225740), (3329325298, 313650667)]"
  by (simp add: sha256_K_def)

lemma abc_compress:
  "compress sha256_init
     [1633837952, 0, 0, 0, 0, 0, 0, 0,
      0, 0, 0, 0, 0, 0, 0, 24]
   = (3128432319, 2399260650, 1094795486, 1571693091, 2953011619, 2518121116, 3021012833, 4060091821)"
proof -
  have "foldl sha256_round sha256_init (zip sha256_K (schedule 64
     [1633837952, 0, 0, 0, 0, 0, 0, 0,
      0, 0, 0, 0, 0, 0, 0, 24]))
   = (1349398616, 3550093669, 80891244, 3093179625, 1593118500, 4212265488, 2492278198, 2518632596)"
    unfolding abc_schedule abc_zip foldl_append sha256_init_def
      abc_rounds1 abc_rounds2 abc_rounds3 abc_rounds4 abc_rounds5 abc_rounds6 abc_rounds7 abc_rounds8 ..
  then show ?thesis by (simp add: compress_def sha256_init_def)
qed

lemma sha256_abc: "sha256Hex ''abc'' = ''ba7816bf8f01cfea414140de5dae2223b00361a396177a9cb410ff61f20015ad''"
proof -
  have "wordsOf (padded ''abc'') =
     [1633837952, 0, 0, 0, 0, 0, 0, 0,
      0, 0, 0, 0, 0, 0, 0, 24]"
    by code_simp
  moreover have "blocks
     [1633837952, 0, 0, 0, 0, 0, 0, 0,
      0, 0, 0, 0, 0, 0, 0, 24]
   = [[1633837952, 0, 0, 0, 0, 0, 0, 0,
      0, 0, 0, 0, 0, 0, 0, 24]]"
    by code_simp
  ultimately have "foldl compress sha256_init (blocks (wordsOf (padded ''abc'')))
   = (3128432319, 2399260650, 1094795486, 1571693091, 2953011619, 2518121116, 3021012833, 4060091821)"
    by (simp add: abc_compress)
  moreover have "concat (map hexWord [3128432319, 2399260650, 1094795486, 1571693091, 2953011619, 2518121116, 3021012833, 4060091821])
   = ''ba7816bf8f01cfea414140de5dae2223b00361a396177a9cb410ff61f20015ad''"
    by code_simp
  ultimately show ?thesis by (simp add: sha256Hex_def)
qed

end
