(* ===== verification/Update_Sim.thy ===== *)
theory Update_Sim
  imports Checksum_Lines Sha256_Vector
begin

text \<open>
  A small machine and a release server on which the theorems about updates are applied: the agent is
  installed in \<^verbatim>\<open>/usr/local/bin\<close>, the release has the tag \<^verbatim>\<open>v1.1.0\<close>, and its binary is the three bytes
  whose digest the standard gives.
\<close>

lemma tree_map_of:
  assumes "list_all (\<lambda>q. list_all (\<lambda>p. p \<in> set (map fst xs)) (prefixes q)) (map fst xs)"
  shows "tree (map_of xs)"
  unfolding tree_def
proof (intro allI impI)
  fix p q assume p: "prefix p q" and q: "map_of xs q \<noteq> None"
  then have "q \<in> set (map fst xs)" by (auto simp: map_of_eq_None_iff)
  then have "p \<in> set (map fst xs)" using assms p by (auto simp: list_all_iff)
  then show "map_of xs p \<noteq> None" by (auto simp: map_of_eq_None_iff)
qed

definition demo_nodes :: "(string list \<times> node) list" where
  "demo_nodes =
     [([], Directory), ([''tmp''], Directory), ([''etc''], Directory), ([''usr''], Directory),
      ([''usr'', ''local''], Directory), ([''usr'', ''local'', ''bin''], Directory),
      ([''etc'', ''hostname''], RegFile ''node1'' (mode 6 4 4)),
      ([''usr'', ''local'', ''bin'', ''xray-agent''], RegFile ''old'' (mode 7 5 5))]"

definition demo_world :: "fault option list \<Rightarrow> unit world" where
  "demo_world faults =
     \<lparr>w_fs = map_of demo_nodes, w_cwd = [], w_umask = mode 0 2 2, w_vars = [],
      w_exe = Inr ''/usr/local/bin/xray-agent'', w_rand = (\<lambda>n. of_nat (n + 7)), w_draws = 0,
      w_faults = faults, w_ext = ()\<rparr>"

lemma demo_tree: "tree (w_fs (demo_world faults))"
  unfolding demo_world_def by (simp, rule tree_map_of) code_simp

definition demo_asset :: string where "demo_asset = ''xray-agent_linux_amd64''"

definition demo_release :: json where
  "demo_release = JObj
     [(''tag_name'', JStr ''v1.1.0''),
      (''assets'', JArr
         [JObj [(''name'', JStr ''checksums.txt''), (''browser_download_url'', JStr ''https://h/sums'')],
          JObj [(''name'', JStr demo_asset), (''browser_download_url'', JStr ''https://h/bin'')]])]"

definition abc_digest :: string where
  "abc_digest = ''ba7816bf8f01cfea414140de5dae2223b00361a396177a9cb410ff61f20015ad''"

definition demo_env :: "unit http_env" where
  "demo_env =
     \<lparr>h_NewRequest = (\<lambda>_ _. None),
      h_Do = (\<lambda>req x.
        (Inr \<lparr>rs_StatusCode = 200,
              rs_Body = (if rq_URL req = ''https://h/bin'' then ''abc''
                         else if rq_URL req = ''https://h/sums'' then sumFile [(False, abc_digest, demo_asset)]
                         else ''release'')\<rparr>, x)),
      h_scan = (\<lambda>_. Inr demo_release)\<rparr>"

definition demo_plat :: platform where "demo_plat = \<lparr>GOOS = ''linux'', GOARCH = ''amd64''\<rparr>"

definition demo_opts0 :: Options where
  "demo_opts0 = \<lparr>su_Repo = [], su_Version = ''1.1.0'', su_Token = [], su_BinaryPath = [], su_GOOS = [], su_GOARCH = []\<rparr>"

definition demo_opts :: Options where
  "demo_opts = \<lparr>su_Repo = defaultRepo, su_Version = ''1.1.0'', su_Token = [],
     su_BinaryPath = ''/usr/local/bin/xray-agent'', su_GOOS = ''linux'', su_GOARCH = ''amd64''\<rparr>"

lemma demo_defaults: "withDefaults demo_plat (demo_world faults) demo_opts0 = Inr demo_opts"
  by (simp add: withDefaults_def demo_world_def demo_opts0_def demo_opts_def demo_plat_def)

lemma demo_path: "filePath (su_BinaryPath demo_opts)"
  "\<not> prefix (fileKey (demo_world faults) (os_TempDir (demo_world faults))) (fileKey (demo_world faults) (su_BinaryPath demo_opts))"
  "fileKey (demo_world faults) (su_BinaryPath demo_opts) = [''usr'', ''local'', ''bin'', ''xray-agent'']"
proof -
  show "filePath (su_BinaryPath demo_opts)" by code_simp
  have tmp: "fileKey (demo_world faults) (os_TempDir (demo_world faults)) = [''tmp'']"
    unfolding fileKey_def os_TempDir_def os_Getenv_def demo_world_def by simp code_simp
  show bin: "fileKey (demo_world faults) (su_BinaryPath demo_opts) = [''usr'', ''local'', ''bin'', ''xray-agent'']"
    unfolding fileKey_def demo_world_def demo_opts_def by simp code_simp
  show "\<not> prefix (fileKey (demo_world faults) (os_TempDir (demo_world faults))) (fileKey (demo_world faults) (su_BinaryPath demo_opts))"
    by (simp add: tmp bin)
qed

lemma demo_answers:
  "answers demo_env (su_Token demo_opts) ''https://h/bin'' ''abc''"
  "answers demo_env (su_Token demo_opts) ''https://h/sums'' (sumFile [(False, abc_digest, demo_asset)])"
  by (simp_all add: answers_def demo_env_def getFor_def)

lemma demo_fetch:
  obtains w1 where "fetchRelease demo_env demo_opts (demo_world faults)
    = (Inr (\<lparr>ri_TagName = ''v1.1.0'',
             ri_Assets = [\<lparr>ra_Name = ''checksums.txt'', ra_BrowserDownloadURL = ''https://h/sums''\<rparr>,
                          \<lparr>ra_Name = demo_asset, ra_BrowserDownloadURL = ''https://h/bin''\<rparr>]\<rparr>, ''v1.1.0''), w1)"
proof -
  have "decodeRelease demo_release \<lparr>ri_TagName = [], ri_Assets = []\<rparr>
    = Inr \<lparr>ri_TagName = ''v1.1.0'',
           ri_Assets = [\<lparr>ra_Name = ''checksums.txt'', ra_BrowserDownloadURL = ''https://h/sums''\<rparr>,
                        \<lparr>ra_Name = demo_asset, ra_BrowserDownloadURL = ''https://h/bin''\<rparr>]\<rparr>"
    by code_simp
  moreover have "ensureTagPrefix ''1.1.0'' = ''v1.1.0''" by code_simp
  ultimately show thesis using that
    by (simp add: fetchRelease_def getRelease_def httpDo_def demo_env_def demo_opts_def Let_def)
qed

lemma demo_digest: "parseChecksum (sumFile [(False, abc_digest, demo_asset)]) demo_asset = abc_digest"
  by code_simp

lemma dir_exists_prefixes:
  "dir_exists w p \<longleftrightarrow> p \<noteq> [] \<and> list_all (\<lambda>q. w_fs w q = Some Directory) (prefixes (fileKey w p))"
  by (auto simp: dir_exists_def list_all_iff)

text \<open>A failure of the third system call: the download of the binary stops after one byte.\<close>

definition demo_faults :: "fault option list" where
  "demo_faults = [None, None, Some \<lparr>f_errno = 28, f_text = ''no space left on device'', f_done = 1\<rparr>]"

theorem self_update_all_or_nothing_witness:
  "case fst (InstallOrUpdate demo_env demo_plat ''v1.0.0'' demo_opts0 (demo_world demo_faults)) of
     Inl err \<Rightarrow>
       w_fs (snd (InstallOrUpdate demo_env demo_plat ''v1.0.0'' demo_opts0 (demo_world demo_faults)))
         [''usr'', ''local'', ''bin'', ''xray-agent''] = Some (RegFile ''old'' (mode 7 5 5))
   | Inr res \<Rightarrow> \<exists>data.
       w_fs (snd (InstallOrUpdate demo_env demo_plat ''v1.0.0'' demo_opts0 (demo_world demo_faults)))
         [''usr'', ''local'', ''bin'', ''xray-agent''] = Some (RegFile data (mode 7 5 5))"
proof -
  have "w_fs (demo_world demo_faults) [''usr'', ''local'', ''bin'', ''xray-agent''] = Some (RegFile ''old'' (mode 7 5 5))"
    by (simp add: demo_world_def demo_nodes_def)
  then show ?thesis
    using self_update_all_or_nothing [OF demo_defaults demo_path(1,2) prod.collapse [symmetric],
        of demo_env "''v1.0.0''" demo_faults]
    unfolding demo_path(3) by (auto split: sum.splits if_splits)
qed

theorem self_update_changes_only_binary_witness:
  "w_fs (snd (InstallOrUpdate demo_env demo_plat ''v1.0.0'' demo_opts0 (demo_world demo_faults))) [''etc'', ''hostname'']
   = Some (RegFile ''node1'' (mode 6 4 4))"
proof -
  have "w_fs (demo_world demo_faults) [''etc'', ''hostname''] = Some (RegFile ''node1'' (mode 6 4 4))"
    by (simp add: demo_world_def demo_nodes_def)
  then show ?thesis
    using self_update_changes_only_binary [OF demo_defaults demo_path(1,2) demo_tree,
        of demo_faults "[''etc'', ''hostname'']" demo_env "''v1.0.0''"]
    by (simp add: demo_path(3))
qed

theorem self_update_completes_witness:
  "fst (InstallOrUpdate demo_env demo_plat ''v1.0.0'' demo_opts0 (demo_world []))
     = Inr \<lparr>ir_FromVersion = ''v1.0.0'', ir_ToVersion = ''v1.1.0'', ir_Updated = True\<rparr>
   \<and> w_fs (snd (InstallOrUpdate demo_env demo_plat ''v1.0.0'' demo_opts0 (demo_world [])))
     = (map_of demo_nodes)([''usr'', ''local'', ''bin'', ''xray-agent''] := Some (RegFile ''abc'' (mode 7 5 5)))"
proof -
  obtain w1 where f: "fetchRelease demo_env demo_opts (demo_world [])
    = (Inr (\<lparr>ri_TagName = ''v1.1.0'',
             ri_Assets = [\<lparr>ra_Name = ''checksums.txt'', ra_BrowserDownloadURL = ''https://h/sums''\<rparr>,
                          \<lparr>ra_Name = demo_asset, ra_BrowserDownloadURL = ''https://h/bin''\<rparr>]\<rparr>, ''v1.1.0''), w1)"
    by (rule demo_fetch)
  have fs: "w_fs (demo_world []) = map_of demo_nodes" by (simp add: demo_world_def)
  have v: "normalizeVersion ''v1.0.0'' \<noteq> normalizeVersion ''v1.1.0''" by code_simp
  have a: "assetNameFor (su_GOOS demo_opts) (su_GOARCH demo_opts) = Inr demo_asset" by code_simp
  have u: "pickAssetURLs \<lparr>ri_TagName = ''v1.1.0'',
             ri_Assets = [\<lparr>ra_Name = ''checksums.txt'', ra_BrowserDownloadURL = ''https://h/sums''\<rparr>,
                          \<lparr>ra_Name = demo_asset, ra_BrowserDownloadURL = ''https://h/bin''\<rparr>]\<rparr> demo_asset
    = Inr (''https://h/bin'', ''https://h/sums'')" by code_simp
  have d: "parseChecksum (sumFile [(False, abc_digest, demo_asset)]) demo_asset \<noteq> []"
    "EqualFold (sha256Hex ''abc'') (parseChecksum (sumFile [(False, abc_digest, demo_asset)]) demo_asset)"
    unfolding demo_digest sha256_abc by (simp_all add: abc_digest_def)
  have t: "w_fs (demo_world []) (fileKey (demo_world []) (su_BinaryPath demo_opts)) \<noteq> Some Directory"
    "dir_exists (demo_world []) (pathDir (su_BinaryPath demo_opts))"
    by code_simp (unfold dir_exists_prefixes, code_simp)
  have n: "name_ready (demo_world []) (w_draws (demo_world [])) (os_TempDir (demo_world [])) ''xray-agent-selfupdate-*''"
    "name_ready (demo_world []) (Suc (w_draws (demo_world []))) (pathDir (su_BinaryPath demo_opts))
       (pathBase (su_BinaryPath demo_opts) @ ''.new-*'')"
    by code_simp+
  show ?thesis
    using self_update_completes [OF demo_defaults demo_path(1,2) demo_tree _ f v a u demo_answers d t n]
    by (simp add: healthy_def demo_path(3) fs) (simp add: demo_world_def)
qed

end
