(* ===== verification/Setup_Sim.thy ===== *)
theory Setup_Sim
  imports Setup_Properties Update_Sim
begin

text \<open>
  A machine with a configuration on which the theorems about the setup are applied. The YAML codec of the
  example knows three configurations, written \<^verbatim>\<open>old\<close>, \<^verbatim>\<open>new\<close> and \<^verbatim>\<open>bad\<close>; the last has no token.
\<close>

definition new_token :: UpdateControlOptions where
  "new_token = \<lparr>uc_ConfigPath = [], uc_BaseURL = [], uc_Token = ''t2'', uc_ServerSlug = [], uc_TLSInsecure = Some True,
     uc_GitHubToken = [], uc_Restart = True\<rparr>"

definition setup_opts :: Agent_Setup.Options where
  "setup_opts = \<lparr>as_ConfigPath = [], as_ServicePath = [], as_BinPath = [], as_GitHubToken = [], as_BaseURL = [],
     as_Token = ''t2'', as_ServerSlug = [], as_TLSInsecure = Some True\<rparr>"

definition old_config :: Config where "old_config = fillDefaults sample_config"
definition new_config :: Config where "new_config = setControlFields new_token old_config"
definition bad_config :: Config where "bad_config = old_config\<lparr>Control := (Control old_config)\<lparr>Token := []\<rparr>\<rparr>"

definition setup_sim :: "unit setup_env" where
  "setup_sim =
     \<lparr>se_run = (\<lambda>args w. (([], None), w)),
      se_Unmarshal = (\<lambda>s. if s = ''old'' then Inr old_config else if s = ''new'' then Inr new_config
                         else if s = ''bad'' then Inr bad_config else Inl (ErrExt 1 ''yaml'')),
      se_Marshal = (\<lambda>c. if c = old_config then Inr ''old'' else if c = new_config then Inr ''new''
                       else Inl (ErrExt 1 ''yaml'')),
      se_embeddedConfig = ''old'', se_embeddedService = ''unit''\<rparr>"

definition setup_nodes :: "string \<Rightarrow> (string list \<times> node) list" where
  "setup_nodes cfg =
     ([''etc'', ''xray-agent''], Directory) # ([''etc'', ''xray-agent'', ''config.yaml''], RegFile cfg (mode 6 4 4)) # demo_nodes"

definition setup_world :: "string \<Rightarrow> fault option list \<Rightarrow> unit world" where
  "setup_world cfg faults = (demo_world faults)\<lparr>w_fs := map_of (setup_nodes cfg)\<rparr>"

lemma setup_sim_leaves: "leaves setup_sim k"
  by (simp add: leaves_def setup_sim_def)

lemma setup_sim_yaml: "\<forall>c out. se_Marshal setup_sim c = Inr out \<longrightarrow> se_Unmarshal setup_sim out = Inr c"
  by (auto simp: setup_sim_def split: if_splits)

lemma setup_path: "filePath (controlPath new_token)"
  "fileKey (setup_world c fs) (controlPath new_token) = [''etc'', ''xray-agent'', ''config.yaml'']"
proof -
  show "filePath (controlPath new_token)" by code_simp
  show "fileKey (setup_world c fs) (controlPath new_token) = [''etc'', ''xray-agent'', ''config.yaml'']"
    unfolding fileKey_def setup_world_def demo_world_def by simp code_simp
qed

lemma setup_file: "w_fs (setup_world c fs) [''etc'', ''xray-agent'', ''config.yaml''] = Some (RegFile c (mode 6 4 4))"
  by (simp add: setup_world_def setup_nodes_def)

text \<open>The disk is full when the new configuration is written: the configuration is empty afterwards.\<close>

definition full_disk :: "fault option list" where
  "full_disk = [None, None, None, None, None, Some \<lparr>f_errno = 28, f_text = ''no space left on device'', f_done = 0\<rparr>]"

theorem update_control_may_truncate_witness:
  "w_fs (setup_world ''old'' full_disk) [''etc'', ''xray-agent'', ''config.yaml''] = Some (RegFile ''old'' (mode 6 4 4))
   \<and> w_fs (snd (UpdateControl setup_sim new_token (setup_world ''old'' full_disk))) [''etc'', ''xray-agent'', ''config.yaml'']
      = Some (RegFile [] (mode 6 4 4))
   \<and> w_fs (snd (UpdateControl setup_sim new_token (setup_world ''old'' full_disk))) [''etc'', ''hostname'']
      = Some (RegFile ''node1'' (mode 6 4 4))"
proof -
  let ?w = "setup_world ''old'' full_disk"
  have t: "fileKey ?w (embeddedTemp ?w) = [''tmp'', ''xray-agent-embedded-config.yaml'']" by code_simp
  have h: "w_fs ?w [''etc'', ''hostname''] = Some (RegFile ''node1'' (mode 6 4 4))" by code_simp
  have "w_fs (snd (UpdateControl setup_sim new_token ?w)) [''etc'', ''xray-agent'', ''config.yaml'']
      = Some (RegFile [] (mode 6 4 4))" by code_simp
  then show ?thesis
    using update_control_may_truncate [OF setup_path(1) _ setup_sim_leaves setup_sim_leaves,
        where w = ?w and q = "[''etc'', ''hostname'']"] setup_file [of "''old''" full_disk]
    unfolding setup_path(2) t h by simp
qed

theorem setup_installs_witness:
  "w_fs (snd (Install setup_sim setup_opts (setup_world ''old'' []))) [''usr'', ''local'', ''bin'', ''xray-agent'']
     = Some (RegFile ''old'' (mode 7 5 5))"
proof -
  let ?w = "setup_world ''old'' []" and ?o = "Agent_Setup.withDefaults setup_opts"
  have ok: "Install setup_sim setup_opts ?w = (None, snd (Install setup_sim setup_opts ?w))"
  proof (rule prod_eqI)
    show "fst (Install setup_sim setup_opts ?w) = fst (None, snd (Install setup_sim setup_opts ?w))"
      unfolding fst_conv by code_simp
  qed simp
  have p: "filePath (as_ConfigPath ?o)" "filePath (as_BinPath ?o)" "filePath (as_ServicePath ?o)" by code_simp+
  have d: "distinct [fileKey ?w (as_ConfigPath ?o), fileKey ?w (as_BinPath ?o), fileKey ?w (as_ServicePath ?o)]" by code_simp
  have e: "w_exe ?w = Inr ''/usr/local/bin/xray-agent''" by (simp add: setup_world_def demo_world_def)
  have s: "fileKey ?w ''/usr/local/bin/xray-agent'' \<noteq> fileKey ?w (as_ConfigPath ?o)" by code_simp
  have r: "readNode ''/usr/local/bin/xray-agent'' ?w = Inr ''old''" by code_simp
  have k: "fileKey ?w (as_BinPath ?o) = [''usr'', ''local'', ''bin'', ''xray-agent'']" by code_simp
  have m: "keptMode (mode 7 5 5) (as_BinPath ?o) ?w = mode 7 5 5" by code_simp
  have "\<forall>k. leaves setup_sim k" by (simp add: setup_sim_leaves)
  from setup_installs [OF refl p d e s this ok] show ?thesis unfolding r k m by auto
qed

theorem refused_config_cannot_be_completed_witness:
  "fst (UpdateControl setup_sim new_token (setup_world ''bad'' [])) \<noteq> None
   \<and> fst (Install setup_sim setup_opts (setup_world ''bad'' [])) \<noteq> None"
proof -
  have l: "Load (\<lambda>_. Inr ''bad'') (se_Unmarshal setup_sim) (controlPath new_token)
      = Inl (ErrText ''control.base_url/token/server_slug required'')" by code_simp
  have p: "controlPath new_token \<noteq> []" by code_simp
  have o: "as_ConfigPath (Agent_Setup.withDefaults setup_opts) = controlPath new_token" by code_simp
  have f: "w_fs (setup_world ''bad'' []) (fileKey (setup_world ''bad'' []) (controlPath new_token)) = Some (RegFile ''bad'' (mode 6 4 4))"
    unfolding setup_path(2) by (rule setup_file)
  from refused_config_cannot_be_completed [OF f p l refl o] show ?thesis by simp
qed

end
