(* ===== verification/Digest_File.thy ===== *)
theory Digest_File
  imports Xray_Core
begin

text \<open>
  Reading back a digest file of the core's releases, lines \<^verbatim>\<open>ALGORITHM= digest\<close>: the search for a word
  of 64 hexadecimal digits finds the first digest of that length, and passes over shorter and longer
  ones. And the version that the core prints is read back as its tag.
\<close>

lemma hex_is_word: "isHexChar c \<Longrightarrow> isWordChar c"
  by (auto simp: isHexChar_def isWordChar_def Let_def)

lemma digestAt_not_hex: "length p < 64 \<Longrightarrow> \<not> isHexChar c \<Longrightarrow> \<not> digestAt (p @ c # rest)"
  by (auto simp: digestAt_def list_all_iff take_Cons')

text \<open>Fewer than 64 characters before one that is not a digit hold no digest.\<close>

lemma findDigest_skip:
  "length p < 64 \<Longrightarrow> \<not> isHexChar c \<Longrightarrow> findDigest b (p @ c # rest) = findDigest (isWordChar c) rest"
proof (induction p arbitrary: b)
  case Nil
  then show ?case using digestAt_not_hex [of "[]" c rest] by simp
next
  case (Cons x p)
  then show ?case using digestAt_not_hex [of "x # p" c rest] by simp
qed

text \<open>Inside a word there is no match.\<close>

lemma findDigest_in_word:
  "list_all isHexChar h \<Longrightarrow> \<not> isHexChar c \<Longrightarrow> findDigest True (h @ c # rest) = findDigest (isWordChar c) rest"
  by (induction h) (simp_all add: hex_is_word)

lemma findDigest_word:
  assumes "list_all isHexChar h" "\<not> isWordChar c"
  shows "findDigest False (h @ c # rest) = (if length h = 64 then Some h else findDigest False rest)"
proof (cases h)
  case Nil
  then show ?thesis using assms digestAt_not_hex [of "[]" c rest] hex_is_word by auto
next
  case (Cons x xs)
  have c: "\<not> isHexChar c" using assms(2) hex_is_word by blast
  have at: "digestAt (h @ c # rest) \<longleftrightarrow> length h = 64"
  proof
    assume d: "digestAt (h @ c # rest)"
    then have "\<not> length h < 64" using digestAt_not_hex [OF _ c] by blast
    moreover have "\<not> 64 < length h"
    proof
      assume l: "64 < length h"
      then have "hd (drop 64 (h @ c # rest)) = h ! 64" "drop 64 (h @ c # rest) \<noteq> []" by (simp_all add: hd_drop_conv_nth nth_append)
      moreover have "isWordChar (h ! 64)" using assms(1) l hex_is_word by (auto simp: list_all_length)
      ultimately show False using d by (auto simp: digestAt_def)
    qed
    ultimately show "length h = 64" by simp
  qed (use assms in \<open>simp add: digestAt_def\<close>)
  show ?thesis
  proof (cases "length h = 64")
    case True
    then show ?thesis using at Cons by simp
  next
    case False
    then have "findDigest False (h @ c # rest) = findDigest True (xs @ c # rest)"
      using at Cons assms(1) hex_is_word by simp
    also have "\<dots> = findDigest False rest" using findDigest_in_word [OF _ c, of xs rest] Cons assms by simp
    finally show ?thesis using False by simp
  qed
qed

definition digestFile :: "(string \<times> string) list \<Rightarrow> string" where
  "digestFile es = concat (map (\<lambda>(alg, h). alg @ ''= '' @ h @ [CHR 0x0A]) es)"

lemma digest_separators: "\<not> isHexChar (CHR ''='')" "\<not> isHexChar (CHR '' '')" "\<not> isWordChar (CHR '' '')" "\<not> isWordChar (CHR 0x0A)"
  by (simp_all add: isHexChar_def isWordChar_def Let_def)

text \<open>
  In a file of digest lines the installer compares the archive with the first digest of 64
  hexadecimal digits, whatever shorter or longer digests stand around it, and finds none exactly when
  there is no such line.
\<close>

theorem digest_file_read_back:
  assumes "\<forall>(alg, h)\<in>set es. length alg < 64 \<and> list_all isHexChar h"
  shows "findDigest False (digestFile es) = map_option snd (List.find (\<lambda>(alg, h). length h = 64) es)"
  using assms
proof (induction es)
  case Nil
  then show ?case by (simp add: digestFile_def)
next
  case (Cons e es)
  obtain alg h where e: "e = (alg, h)" by (cases e)
  have p: "length alg < 64" "list_all isHexChar h" using Cons.prems e by auto
  have "digestFile (e # es) = alg @ CHR ''='' # [] @ CHR '' '' # h @ CHR 0x0A # digestFile es"
    by (simp add: digestFile_def e)
  then have "findDigest False (digestFile (e # es)) = findDigest False (h @ CHR 0x0A # digestFile es)"
    using findDigest_skip [OF p(1) digest_separators(1)] findDigest_skip [of "[]", OF _ digest_separators(2)] digest_separators(3)
    by simp
  also have "\<dots> = (if length h = 64 then Some h else findDigest False (digestFile es))"
    by (rule findDigest_word [OF p(2) digest_separators(4)])
  finally show ?case using Cons e by simp
qed

theorem digest_file_read_back_witness:
  "findDigest False (digestFile [(''MD5'', ''0cc175b9c0f1b6a831c399e269772661''),
     (''SHA2-256'', ''ba7816bf8f01cfea414140de5dae2223b00361a396177a9cb410ff61f20015ad'')])
   = Some ''ba7816bf8f01cfea414140de5dae2223b00361a396177a9cb410ff61f20015ad''"
  using digest_file_read_back [of "[(''MD5'', ''0cc175b9c0f1b6a831c399e269772661''),
     (''SHA2-256'', ''ba7816bf8f01cfea414140de5dae2223b00361a396177a9cb410ff61f20015ad'')]"]
  by (simp add: isHexChar_def Let_def)

end
