(* ===== verification/Core_Sim.thy ===== *)
theory Core_Sim
  imports Core_Update Digest_File Update_Sim
begin

text \<open>
  A machine with an installed core and a user's configuration, and a release server for the core, on
  which the theorems of \<^verbatim>\<open>Core_Update\<close> are applied; and two runs that show what the installer does with a
  member name that leads out of the directory and with a configuration that cannot be examined.
\<close>

definition core_nodes :: "(string list \<times> node) list" where
  "core_nodes = demo_nodes @
     [([''usr'', ''local'', ''bin'', ''xray''], RegFile ''old-core'' (mode 7 5 5)),
      ([''etc'', ''xray''], Directory), ([''etc'', ''xray'', ''config.json''], RegFile ''user'' (mode 6 4 4)),
      ([''tmp'', ''z''], RegFile ''archive'' (mode 6 4 4))]"

definition core_world :: "fault option list \<Rightarrow> unit world" where
  "core_world faults = (demo_world faults)\<lparr>w_fs := map_of core_nodes\<rparr>"

definition core_release :: json where
  "core_release = JObj
     [(''tag_name'', JStr ''v25.10.15''),
      (''assets'', JArr
         [JObj [(''name'', JStr ''Xray-linux-64.zip''), (''browser_download_url'', JStr ''https://h/zip'')],
          JObj [(''name'', JStr ''Xray-linux-64.zip.dgst''), (''browser_download_url'', JStr ''https://h/dgst'')]])]"

definition member :: "string \<Rightarrow> string \<Rightarrow> zip_file" where
  "member n d = \<lparr>zf_Name = n, zf_IsDir = False, zf_Mode = mode 7 5 5, zf_Open = None, zf_Data = d, zf_ReadErr = None\<rparr>"

definition core_sim :: "zip_file list \<Rightarrow> unit core_env" where
  "core_sim files =
     \<lparr>ce_http =
        \<lparr>h_NewRequest = (\<lambda>_ _. None),
         h_Do = (\<lambda>req x.
           (Inr \<lparr>rs_StatusCode = 200,
                 rs_Body = (if rq_URL req = ''https://h/zip'' then ''abc''
                            else if rq_URL req = ''https://h/dgst'' then digestFile [(''SHA2-256'', abc_digest)]
                            else ''release'')\<rparr>, x)),
         h_scan = (\<lambda>_. Inr core_release)\<rparr>,
      ce_run = (\<lambda>args w. ((''Xray 1.8.24 (Xray, Penetrates Everything.)'', None), w)),
      ce_zip = (\<lambda>_. Inr files), ce_plat = demo_plat,
      ce_sampleConfig = ''sample'', ce_serviceUnit = ''unit''\<rparr>"

definition core_opts :: Xray_Core.Options where
  "core_opts = \<lparr>xc_Repo = [], xc_Arch = [], xc_Version = [], xc_Token = [], xc_BinDir = [], xc_ConfigPath = [],
     xc_ServicePath = [], xc_ShareDir = []\<rparr>"

definition good_files :: "zip_file list" where
  "good_files = [member ''geoip.dat'' ''ip'', member ''xray'' ''new-core'']"

lemma core_sim_spares: "spares (core_sim files) k"
  by (simp add: spares_def core_sim_def)

lemma core_sim_setting: "core_setting (core_sim good_files) core_opts (core_world faults)"
proof -
  have t: "tree (w_fs (core_world faults))"
    unfolding core_world_def by (simp, rule tree_map_of) code_simp
  have c: "corePath (core_sim good_files) core_opts = ''/usr/local/bin/xray''" by code_simp
  have k: "fileKey (core_world faults) p = fileKey (core_world []) p" for p
    by (simp add: fileKey_def core_world_def demo_world_def)
  have tmp: "os_TempDir (core_world faults) = os_TempDir (core_world [])"
    by (simp add: os_TempDir_def os_Getenv_def core_world_def demo_world_def)
  have "filePath ''/usr/local/bin/xray''" by code_simp
  moreover have "apart (Xray_Core.withDefaults (ce_plat (core_sim good_files)) core_opts)
      (fileKey (core_world []) ''/usr/local/bin/xray'') (core_world [])" by code_simp
  then have "apart (Xray_Core.withDefaults (ce_plat (core_sim good_files)) core_opts)
      (fileKey (core_world faults) ''/usr/local/bin/xray'') (core_world faults)" by (simp add: apart_def k)
  moreover have "\<not> prefix (fileKey (core_world []) (os_TempDir (core_world []))) (fileKey (core_world []) ''/usr/local/bin/xray'')"
    by code_simp
  moreover have "list_all safe_member good_files" by code_simp
  ultimately show ?thesis using t
    by (simp add: core_setting_def c k tmp core_sim_spares safe_archive_def) (simp add: core_sim_def)
qed

text \<open>The configuration test fails after the binary was replaced, or the disk is full before.\<close>

theorem core_binary_all_or_nothing_witness:
  "w_fs (snd (Xray_Core.InstallOrUpdate (core_sim good_files) core_opts (core_world demo_faults)))
     [''usr'', ''local'', ''bin'', ''xray''] = Some (RegFile ''old-core'' (mode 7 5 5))
   \<or> (\<exists>rel d. verified_core (core_sim good_files) (Xray_Core.withDefaults demo_plat core_opts) rel d
        \<and> w_fs (snd (Xray_Core.InstallOrUpdate (core_sim good_files) core_opts (core_world demo_faults)))
            [''usr'', ''local'', ''bin'', ''xray''] = Some (RegFile d (mode 7 5 5)))"
proof -
  have k: "fileKey (core_world demo_faults) (corePath (core_sim good_files) core_opts) = [''usr'', ''local'', ''bin'', ''xray'']"
    by code_simp
  have p: "ce_plat (core_sim good_files) = demo_plat" by (simp add: core_sim_def)
  have "w_fs (core_world demo_faults) [''usr'', ''local'', ''bin'', ''xray''] = Some (RegFile ''old-core'' (mode 7 5 5))"
    by (simp add: core_world_def core_nodes_def demo_nodes_def)
  then show ?thesis
    using core_binary_all_or_nothing [OF core_sim_setting [of demo_faults] prod.collapse [symmetric]]
    unfolding k p by (auto simp: keeps_file_def)
qed

text \<open>The user's configuration is replaced by the sample when the examination of the file fails.\<close>

definition stat_fault :: "fault option list" where
  "stat_fault = [Some \<lparr>f_errno = 5, f_text = ''stat /etc/xray/config.json: input/output error'', f_done = 0\<rparr>]"

theorem sample_config_written_on_stat_error_witness:
  "w_fs (core_world stat_fault) [''etc'', ''xray'', ''config.json''] = Some (RegFile ''user'' (mode 6 4 4))
   \<and> w_fs (snd (copySampleConfig (core_sim good_files) (Xray_Core.withDefaults demo_plat core_opts) (core_world stat_fault)))
       [''etc'', ''xray'', ''config.json''] = Some (RegFile ''sample'' (mode 6 4 4))"
proof -
  let ?o = "Xray_Core.withDefaults demo_plat core_opts" and ?w = "core_world stat_fault"
  have f: "filePath (xc_ConfigPath ?o)" by code_simp
  have e: "fst (os_Stat (xc_ConfigPath ?o) ?w) = Inl (ErrExt 105 ''stat /etc/xray/config.json: input/output error'')" by code_simp
  have r: "fst (copySampleConfig (core_sim good_files) ?o ?w) = None" by code_simp
  have k: "fileKey ?w (xc_ConfigPath ?o) = [''etc'', ''xray'', ''config.json'']" by code_simp
  show ?thesis
    using sample_config_written_on_stat_error [OF f, of "core_sim good_files" ?w] unfolding e k
    by (simp add: r) (simp add: core_sim_def core_world_def core_nodes_def demo_nodes_def)
qed

text \<open>A member name with \<^verbatim>\<open>..\<close> is unpacked outside the target directory.\<close>

lemma unzip_escapes_directory:
  "w_fs (core_world []) [''etc'', ''profile''] = None \<and>
   fst (unzip (core_sim [member ''../../etc/profile'' ''payload'']) ''/tmp/z'' ''/tmp/unzipped'' (core_world [])) = None \<and>
   w_fs (snd (unzip (core_sim [member ''../../etc/profile'' ''payload'']) ''/tmp/z'' ''/tmp/unzipped'' (core_world [])))
     [''etc'', ''profile''] = Some (RegFile ''payload'' (mode 7 5 5))"
  by code_simp

end
