(* ===== verification/CLI_Sim.thy ===== *)
theory CLI_Sim
  imports CLI_Properties Agent_Hooks File_Tree Setup_Sim Core_Sim
begin

text \<open>
  The whole program on the example machine: the command line with the codec of three configurations, the
  core and its release server, and an agent whose services are out of reach.
\<close>

section \<open>The machine\<close>

definition cli_sim :: "unit cli_env" where
  "cli_sim =
     \<lparr>cl_setup = setup_sim, cl_core = core_sim good_files, cl_embeddedVersion = ''v1.0.0'', cl_settings = None,
      cl_lower = (\<lambda>s. s), cl_quote = (\<lambda>s. s)\<rparr>"

lemma cli_sim_simps [simp]: "cl_setup cli_sim = setup_sim" "cl_core cli_sim = core_sim good_files" "cl_lower cli_sim = (\<lambda>s. s)"
  "cl_embeddedVersion cli_sim = ''v1.0.0''"
  by (simp_all add: cli_sim_def)

lemma dir_tree_map_of:
  assumes "list_all (\<lambda>q. list_all (\<lambda>p. p = q \<or> map_of xs p = Some Directory) (prefixes q)) (map fst xs)"
  shows "dir_tree (map_of xs)"
  unfolding dir_tree_def
proof (intro allI impI)
  fix p q assume p: "strict_prefix p q" and q: "map_of xs q \<noteq> None"
  then have "q \<in> set (map fst xs)" by (auto simp: map_of_eq_None_iff)
  then show "map_of xs p = Some Directory" using assms p by (fastforce simp: list_all_iff strict_prefix_def)
qed

lemma setup_tree: "tree_ok (setup_world ''old'' faults)"
  unfolding setup_world_def by (simp, rule dir_tree_map_of) code_simp

text \<open>An agent that can reach neither its panel nor Xray.\<close>

definition cut_off :: go_error where "cut_off = ErrExt 14 ''unavailable''"

definition offline_env :: "(unit world, json, json) agent_env" where
  "offline_env =
     \<lparr>e_http = \<lparr>h_NewRequest = (\<lambda>_ _. None), h_Do = (\<lambda>_ w. (Inl cut_off, w)), h_scan = (\<lambda>_. Inl cut_off)\<rparr>,
      e_xray = \<lparr>x_NewClient = (\<lambda>_ w. (Some cut_off, w)), x_AlterInbound = (\<lambda>_ _ _ w. (Some cut_off, w)),
                x_RemoveRule = (\<lambda>_ _ w. (Some cut_off, w)), x_AddRule = (\<lambda>_ _ _ w. (Some cut_off, w)),
                x_Build = (\<lambda>_. Inl cut_off), x_ToTypedMessage = Some, x_FromError = (\<lambda>_. None), x_unicode = (\<lambda>s. s)\<rparr>,
      e_stats = \<lparr>q_NewClient = (\<lambda>_ w. (Some cut_off, w)), q_QueryStats = (\<lambda>_ _ w. (Inl cut_off, w)),
                 q_GetAllOnlineUsers = (\<lambda>w. (Inl cut_off, w)), q_GetStatsOnlineIpList = (\<lambda>_ w. (Inl cut_off, w)),
                 q_GetSysStats = (\<lambda>w. (Inl cut_off, w))\<rparr>,
      e_host = \<lparr>p_CPU = (\<lambda>w. (Inr [], w)), p_Mem = (\<lambda>w. (Inr None, w)), p_Net = (\<lambda>w. (Inr [], w)), p_Now = (\<lambda>w. (0, w))\<rparr>,
      e_coreCheck = xrayCoreChecker (core_sim good_files), e_ord = rev, e_unicode = (\<lambda>s. s),
      e_srt = (\<lambda>key xs. sort_key key xs)\<rparr>"

definition offline_hooks :: "unit world hooks" where
  "offline_hooks = commandHooks ((core_sim good_files)\<lparr>ce_http := demo_env\<rparr>) (\<lambda>w. (None, w))"

section \<open>Commands\<close>



text \<open>The token is given twice; the second counts.\<close>

definition demo_flags :: "(string \<times> string) list" where
  "demo_flags = [(''control-token'', ''t1''), (''control-tls-insecure'', ''yes''), (''control-token'', ''t2'')]"

theorem update_config_takes_effect_witness:
  "\<exists>cfg d w' out. main cli_sim (''update-config'' # flagArgs demo_flags) (setup_world ''old'' []) = (out, Returned, w')
     \<and> w_fs w' [''etc'', ''xray-agent'', ''config.yaml''] = Some (RegFile d (mode 6 4 4))
     \<and> Load (\<lambda>_. Inr d) (se_Unmarshal setup_sim) ''/etc/xray-agent/config.yaml'' = Inr cfg
     \<and> Token (Control cfg) = ''t2'' \<and> TLSInsecure (Control cfg)"
proof -
  let ?w = "setup_world ''old'' []" and ?p = "''/etc/xray-agent/config.yaml''"
  let ?m = "main cli_sim (''update-config'' # flagArgs demo_flags) ?w"
  have "case fst (snd ?m) of Returned \<Rightarrow> True | _ \<Rightarrow> False" by code_simp
  then obtain out w' where m: "?m = (out, Returned, w')" by (cases ?m) (auto split: exit_state.splits)
  have f: "fst ` set demo_flags \<subseteq> set controlFlags" by (simp add: demo_flags_def controlFlags_def)
  have p: "?p = orKeep (given demo_flags ''config'') Main_CLI.defaultConfigPath" by code_simp
  have key: "fileKey ?w ?p = [''etc'', ''xray-agent'', ''config.yaml'']" by code_simp
  have path: "filePath ?p" by code_simp
  have there: "w_fs ?w (fileKey ?w ?p) = Some (RegFile ''old'' (mode 6 4 4))" unfolding key by (rule setup_file)
  have g: "given demo_flags ''control-token'' = ''t2''" by code_simp
  have tls: "parseBool (cl_lower cli_sim) (given demo_flags ''control-tls-insecure'') ''control-tls-insecure'' = Inr (Some True)" by code_simp
  have sim: "\<forall>c text. se_Marshal (cl_setup cli_sim) c = Inr text \<longrightarrow> se_Unmarshal (cl_setup cli_sim) text = Inr c"
    "leaves (cl_setup cli_sim) k" for k using setup_sim_yaml setup_sim_leaves by simp_all
  from update_config_takes_effect [OF f p path there sim m] show ?thesis
    unfolding key tls g by (auto simp: orKeep_def m)
qed

text \<open>The agent is started and then told to stop.\<close>

theorem run_starts_configured_agent_witness:
  "\<exists>out a w'. main cli_sim [''run''] (setup_world ''old'' []) = (out, Running a, w') \<and> a_cfg a = old_config
     \<and> AgentVersion (a_ctrl a) = ''v1.0.0''"
proof -
  let ?w = "setup_world ''old'' []"
  let ?m = "main cli_sim [''run''] ?w"
  have "case fst (snd ?m) of Running _ \<Rightarrow> True | _ \<Rightarrow> False" by code_simp
  then obtain out a w' where m: "?m = (out, Running a, w')" by (cases ?m) (auto split: exit_state.splits)
  define p where "p = startLoops (Start offline_env offline_hooks) (a, New_CoreLoop, w')"
  have r: "agent_process offline_env offline_hooks (startLoops (Start offline_env offline_hooks) (a, New_CoreLoop, w')) (p\<lparr>ps_done := True\<rparr>)"
    unfolding p_def by (rule more [OF here signal])
  have s: "ps_state (p\<lparr>ps_done := True\<rparr>) = (a, New_CoreLoop, w')" by (simp add: p_def startLoops_def)
  have fs: "parseFlags runFlags [] = Inr runFlags" by simp
  have c: "strFlag ''config'' runFlags = ''/etc/xray-agent/config.yaml''" by code_simp
  have key: "fileKey ?w ''/etc/xray-agent/config.yaml'' = [''etc'', ''xray-agent'', ''config.yaml'']" by code_simp
  have l: "Load (\<lambda>_. Inr ''old'') (se_Unmarshal setup_sim) ''/etc/xray-agent/config.yaml'' = Inr old_config" by code_simp
  have v: "TrimSpace ''v1.0.0'' = ''v1.0.0''" by code_simp
  from run_starts_configured_agent [OF m r s] have "a_cfg a = old_config \<and> AgentVersion (a_ctrl a) = ''v1.0.0''"
    using setup_file [of "''old''" "[]"] by (auto simp: fs c key l v)
  then show ?thesis using m by blast
qed

section \<open>An update that the panel asked for\<close>

theorem acknowledged_update_installed_witness:
  "\<exists>ack w'. updateAgentAndAck offline_env offline_hooks ''c1'' 0 [(''target_version'', JStr ''1.1.0'')]
       (New_Agent old_config (NewClient old_config ''v1.0.0'' []) True None) (demo_world demo_faults)
       = postCommandAck offline_env (New_Agent old_config (NewClient old_config ''v1.0.0'' []) True None) ''c1'' ack w'
     \<and> (if go_get (ak_Result ack) ''updated'' = Some (JBool True)
        then \<exists>data. w_fs w' [''usr'', ''local'', ''bin'', ''xray-agent''] = Some (RegFile data (mode 7 5 5))
        else w_fs w' [''usr'', ''local'', ''bin'', ''xray-agent''] = Some (RegFile ''old'' (mode 7 5 5)))"
proof -
  let ?w = "demo_world demo_faults" and ?exe = "''/usr/local/bin/xray-agent''"
  let ?c = "(core_sim good_files)\<lparr>ce_http := demo_env\<rparr>"
  have exe: "w_exe ?w = Inr ?exe" by (simp add: demo_world_def)
  have b: "su_BinaryPath demo_opts = ?exe" by (simp add: demo_opts_def)
  have quiet: "spares ?c (fileKey ?w ?exe)" "\<forall>v. keeps_file (fileKey ?w ?exe) v (snd (p_Now (e_host offline_env) v))"
    by (simp_all add: spares_def core_sim_def offline_env_def)
  have old: "w_fs ?w [''usr'', ''local'', ''bin'', ''xray-agent''] = Some (RegFile ''old'' (mode 7 5 5))"
    by (simp add: demo_world_def demo_nodes_def)
  have "\<exists>ack w'. updateAgentAndAck offline_env offline_hooks i t payload a ?w = postCommandAck offline_env a i ack w'
     \<and> (if go_get (ak_Result ack) ''updated'' = Some (JBool True)
        then \<exists>data. w_fs w' [''usr'', ''local'', ''bin'', ''xray-agent''] = Some (RegFile data (mode 7 5 5))
        else w_fs w' [''usr'', ''local'', ''bin'', ''xray-agent''] = Some (RegFile ''old'' (mode 7 5 5)))" for i t payload a
    using acknowledged_update_installed [OF exe demo_path(1,2) [unfolded b] quiet refl,
        where payload = payload and a = a and wait = "\<lambda>w. (None, w)" and i = i and t = t]
    unfolding offline_hooks_def [symmetric] demo_path(3) [unfolded b] old by (auto split: if_splits)
  then show ?thesis .
qed

end
