(* ===== verification/Spec2Isabelle.thy ===== *)
theory Spec2Isabelle
  imports CLI_Sim Xray_Sim Agent_Machine
begin

text \<open>
  A verification of \<^verbatim>\<open>xray-agent\<close>, the Go daemon that keeps an Xray proxy in line with a control panel.

  \<^bold>\<open>The program.\<close> \<^verbatim>\<open>main.go\<close> offers \<^verbatim>\<open>run\<close>, \<^verbatim>\<open>setup\<close>, \<^verbatim>\<open>update-config\<close>, \<^verbatim>\<open>core\<close> and \<^verbatim>\<open>version\<close>. \<^verbatim>\<open>run\<close> loads the YAML
  configuration (\<^verbatim>\<open>internal/config\<close>), makes sure that a core is installed (\<^verbatim>\<open>internal/xraycore\<close>), builds the
  client of the panel (\<^verbatim>\<open>internal/control\<close>) and starts the agent (\<^verbatim>\<open>internal/agent\<close>), whose seven loops share
  one \<^verbatim>\<open>Agent\<close>: the state loop fetches the desired clients and routes, compares them with the store
  (\<^verbatim>\<open>internal/state\<close>) and applies the differences through the manager (\<^verbatim>\<open>internal/xray\<close>); the statistics, online
  and metrics loops read counters (\<^verbatim>\<open>internal/stats\<close>, \<^verbatim>\<open>internal/metrics\<close>) and report them; the heartbeat loop
  reports versions; the command loop carries out restarts and updates (\<^verbatim>\<open>internal/selfupdate\<close>,
  \<^verbatim>\<open>internal/xraycore\<close>) and acknowledges them; the core-update loop looks for releases. \<^verbatim>\<open>setup\<close> and
  \<^verbatim>\<open>update-config\<close> are \<^verbatim>\<open>internal/agentsetup\<close>.

  \<^bold>\<open>The theories\<close>, in the order of their imports.

  \<^item> \<^bold>\<open>The language and its library.\<close> \<open>Go_Prelude\<close> (errors, results, loops that stop at an error, strings,
    \<^verbatim>\<open>int64\<close>), \<open>Go_Map\<close> (maps, whose iteration order is a parameter), \<open>Go_Path\<close> (\<^verbatim>\<open>path/filepath\<close>), \<open>Go_FS\<close>
    (files, modes, the working directory, temporary names, and a list of faults that makes any call
    fail), \<open>Go_Flag\<close> (\<^verbatim>\<open>flag\<close>), \<open>Sha256\<close> with the vector of the standard in \<open>Sha256_Vector\<close>, \<open>Json_Codec\<close>
    (decoding JSON trees into structs), \<open>Logger\<close> (\<^verbatim>\<open>internal/logger\<close>).
  \<^item> \<^bold>\<open>Data.\<close> \<open>Xray_Model\<close> (\<^verbatim>\<open>internal/model\<close>), \<open>Agent_Config\<close> (\<^verbatim>\<open>internal/config\<close>, the intervals of the loops),
    \<open>State_Store\<close> (\<^verbatim>\<open>internal/state\<close>), \<open>Version_Tags\<close> (the interface of the four functions that normalise a version).
  \<^item> \<^bold>\<open>Services.\<close> \<open>Control_Client\<close> (\<^verbatim>\<open>internal/control\<close>), \<open>Xray_Manager\<close> and \<open>Xray_Reconcile\<close> (\<^verbatim>\<open>internal/xray\<close>),
    \<open>Stats_Collector\<close>, \<open>Usage_Accounting\<close>, \<open>Metrics_Collector\<close>.
  \<^item> \<^bold>\<open>The agent.\<close> \<open>Agent_Core\<close> and \<open>Agent_Commands\<close> have one round of every loop; \<open>Agent_Sync\<close>, \<open>Agent_Reports\<close> and
    \<open>Command_Properties\<close> their theorems. \<open>Agent_Machine\<close> is the machine of rounds, \<open>Poll_Loops\<close> a process of
    loops with tickers and a context, \<open>Agent_Loops\<close> the seven loops of \<^verbatim>\<open>Start\<close> as such a process.
  \<^item> \<^bold>\<open>Installing and updating.\<close> \<open>File_Install\<close> and \<open>Healthy_Run\<close> (replacing a file, with and without faults),
    \<open>Github_Release\<close>, \<open>Self_Update\<close>, \<open>Checksum_Lines\<close>; \<open>Xray_Core\<close>, \<open>Core_Install\<close>, \<open>Core_Update\<close>, \<open>Digest_File\<close>;
    \<open>Agent_Setup\<close>, \<open>Setup_Properties\<close>. \<open>Agent_Hooks\<close> connects the command loop with the two updaters.
  \<^item> \<^bold>\<open>The command line.\<close> \<open>Main_CLI\<close> (\<^verbatim>\<open>main.go\<close>), \<open>CLI_Properties\<close>, \<open>File_Tree\<close>.
  \<^item> \<^bold>\<open>Examples\<close> on which every theorem with hypotheses is applied: \<open>Xray_Sim\<close>, \<open>Update_Sim\<close>, \<open>Core_Sim\<close>,
    \<open>Setup_Sim\<close>, \<open>CLI_Sim\<close>.

  \<^bold>\<open>How the code is modelled.\<close> A struct is a record, a fallible function gives \<^typ>\<open>'a + 'b\<close> with the error on
  the left, and a function with effects takes the world and gives the new one. The counters are 64-bit
  words. Everything outside the repository is a field of an environment: the network, the gRPC services
  of Xray, running a program, the readings of the host, the clock, the YAML package, the directory of a
  zip archive, the embedded files. The contracts that the theorems need of these are named
  (\<open>handler_contract\<close>, \<open>routing_contract\<close>, \<open>counters_contract\<close>, \<open>spares\<close>, \<open>leaves\<close>, \<open>core_setting\<close>) and hold for the
  examples. The file system is concrete, since the installers depend on its details. The operations of
  one mutex are one step; a round of a loop is one step, in any order with the others and with steps of
  the outside world.

  \<^bold>\<open>Interfaces\<close> are locales, each interpreted on the model: Go maps (\<open>keyed_map\<close>), the store as a cache of the
  desired state (\<open>desired_cache\<close>), the two functions that compare what is with what should be
  (\<open>keyed_diff\<close>), the methods of the client (\<open>endpoint\<close>), version tags (\<open>version_tagger\<close>), replacing a file
  (\<open>file_writer\<close> and \<open>atomic_writer\<close>: in-place writes meet only the first, the installers both), editing a
  configuration (\<open>config_editor\<close>, for \<^verbatim>\<open>setup\<close> and for \<^verbatim>\<open>update-config\<close>), and the polling loops (\<open>poll_loops\<close>).

  \<^bold>\<open>What is shown.\<close> Both updaters leave the old binary or the complete, verified new one, whatever call
  fails, and what the panel is told about an update is what is on the disk (C1 to C3, C16, C17); a
  successful synchronisation makes the store and Xray equal to what the panel sent (C4, C9, C10, C18);
  every command is acknowledged once (C5, C19, C24, C25); the running agent is consistent in every
  reachable state, the loops refine the rounds, never panic and can always be stopped (C6, C7, C12 to
  C14); the command line does what its flags say, its exit status tells what happened, and the file
  system stays a tree (C8, C15, C20 to C23); reported traffic adds up and requests are authenticated
  (C11, C26 to C31); normalising, decoding, parsing and storing round-trip (C27, C32 to C35). The last
  ones, C36 to C40, state where the code does less than one would expect.

  \<^bold>\<open>Bounds.\<close> \<open>syncRetry\<close> runs on the number of retries, \<^verbatim>\<open>coreRestartSyncRetries\<close> = 6; temporary names are
  tried 10000 times as in package \<^verbatim>\<open>os\<close>. No other function has a bound; all are total.

  \<^bold>\<open>Not modelled.\<close> The shell scripts and unit files under \<^verbatim>\<open>extra\<close>, \<^verbatim>\<open>scripts\<close> and \<^verbatim>\<open>assets\<close>, which are not Go; the text
  form of log lines, which belongs to \<^verbatim>\<open>log/slog\<close> (levels and attributes are modelled); symbolic and hard
  links and file owners; the time a call takes (a deadline is an error that a call may give); switches
  between goroutines inside a round, which share only values under a lock or owned by one loop; floating
  point, for which the metrics use real numbers.
\<close>

end
